(* ===== verification/Prelude.thy ===== *)
theory Prelude
  imports Main "HOL-Library.Word" "HOL-Library.Sublist"
begin

text \<open>
  Vocabulary shared by every component: octets and octet strings, the integer
  error codes of \<^verbatim>\<open>include/zpicotls.h\<close> with the result type of fallible code,
  big-endian conversions, and the generic lemmas on lists and words that the
  component proofs use.
\<close>

named_theorems push_intros \<open>rules that say which octets an encoder appends\<close>
named_theorems consumes_intros \<open>rules that say a decoder only removes a prefix of its input\<close>
named_theorems codec \<open>decoding what an encoder wrote\<close>

section \<open>Octets and results\<close>

type_synonym byte = "8 word"
type_synonym bytes = "byte list"
type_synonym 'a res = "int + 'a"

abbreviation SIZE_MAX :: nat where
  "SIZE_MAX \<equiv> 18446744073709551615"

abbreviation PTLS_ALERT_UNEXPECTED_MESSAGE :: int where "PTLS_ALERT_UNEXPECTED_MESSAGE \<equiv> 10"
abbreviation PTLS_ALERT_BAD_RECORD_MAC :: int where "PTLS_ALERT_BAD_RECORD_MAC \<equiv> 20"
abbreviation PTLS_ALERT_HANDSHAKE_FAILURE :: int where "PTLS_ALERT_HANDSHAKE_FAILURE \<equiv> 40"
abbreviation PTLS_ALERT_BAD_CERTIFICATE :: int where "PTLS_ALERT_BAD_CERTIFICATE \<equiv> 42"
abbreviation PTLS_ALERT_UNSUPPORTED_CERTIFICATE :: int where "PTLS_ALERT_UNSUPPORTED_CERTIFICATE \<equiv> 43"
abbreviation PTLS_ALERT_ILLEGAL_PARAMETER :: int where "PTLS_ALERT_ILLEGAL_PARAMETER \<equiv> 47"
abbreviation PTLS_ALERT_DECODE_ERROR :: int where "PTLS_ALERT_DECODE_ERROR \<equiv> 50"
abbreviation PTLS_ALERT_DECRYPT_ERROR :: int where "PTLS_ALERT_DECRYPT_ERROR \<equiv> 51"
abbreviation PTLS_ALERT_PROTOCOL_VERSION :: int where "PTLS_ALERT_PROTOCOL_VERSION \<equiv> 70"
abbreviation PTLS_ALERT_INTERNAL_ERROR :: int where "PTLS_ALERT_INTERNAL_ERROR \<equiv> 80"
abbreviation PTLS_ALERT_MISSING_EXTENSION :: int where "PTLS_ALERT_MISSING_EXTENSION \<equiv> 109"
abbreviation PTLS_ALERT_UNSUPPORTED_EXTENSION :: int where "PTLS_ALERT_UNSUPPORTED_EXTENSION \<equiv> 110"
abbreviation PTLS_ALERT_UNKNOWN_PSK_IDENTITY :: int where "PTLS_ALERT_UNKNOWN_PSK_IDENTITY \<equiv> 115"
abbreviation PTLS_ALERT_CERTIFICATE_REQUIRED :: int where "PTLS_ALERT_CERTIFICATE_REQUIRED \<equiv> 116"
abbreviation PTLS_ALERT_ECH_REQUIRED :: int where "PTLS_ALERT_ECH_REQUIRED \<equiv> 121"
abbreviation PTLS_ERROR_NO_MEMORY :: int where "PTLS_ERROR_NO_MEMORY \<equiv> 0x201"
abbreviation PTLS_ERROR_IN_PROGRESS :: int where "PTLS_ERROR_IN_PROGRESS \<equiv> 0x202"
abbreviation PTLS_ERROR_LIBRARY :: int where "PTLS_ERROR_LIBRARY \<equiv> 0x203"
abbreviation PTLS_ERROR_INCOMPATIBLE_KEY :: int where "PTLS_ERROR_INCOMPATIBLE_KEY \<equiv> 0x204"
abbreviation PTLS_ERROR_SESSION_NOT_FOUND :: int where "PTLS_ERROR_SESSION_NOT_FOUND \<equiv> 0x205"
abbreviation PTLS_ERROR_STATELESS_RETRY :: int where "PTLS_ERROR_STATELESS_RETRY \<equiv> 0x206"
abbreviation PTLS_ERROR_NOT_AVAILABLE :: int where "PTLS_ERROR_NOT_AVAILABLE \<equiv> 0x207"
abbreviation PTLS_ERROR_COMPRESSION_FAILURE :: int where "PTLS_ERROR_COMPRESSION_FAILURE \<equiv> 0x208"
abbreviation PTLS_ERROR_REJECT_EARLY_DATA :: int where "PTLS_ERROR_REJECT_EARLY_DATA \<equiv> 0x209"
abbreviation PTLS_ERROR_DELEGATE :: int where "PTLS_ERROR_DELEGATE \<equiv> 0x20a"
abbreviation PTLS_ERROR_ASYNC_OPERATION :: int where "PTLS_ERROR_ASYNC_OPERATION \<equiv> 0x20b"
abbreviation PTLS_ERROR_BLOCK_OVERFLOW :: int where "PTLS_ERROR_BLOCK_OVERFLOW \<equiv> 0x20c"

text \<open>\<open>if ((ret = f(...)) != 0) goto Exit;\<close> followed by the rest of the function.\<close>

fun res_bind :: "'a res \<Rightarrow> ('a \<Rightarrow> 'b res) \<Rightarrow> 'b res" where
  "res_bind (Inl e) f = Inl e"
| "res_bind (Inr x) f = f x"

definition guard_res :: "bool \<Rightarrow> int \<Rightarrow> unit res" where
  "guard_res c e = (if c then Inr () else Inl e)"

lemma res_bind_eq_Inr [simp]:
  "res_bind m f = Inr y \<longleftrightarrow> (\<exists>x. m = Inr x \<and> f x = Inr y)"
  by (cases m) auto

lemma res_bind_eq_Inl:
  "res_bind m f = Inl e \<longleftrightarrow> m = Inl e \<or> (\<exists>x. m = Inr x \<and> f x = Inl e)"
  by (cases m) auto

lemma res_bind_cong [fundef_cong]:
  assumes "m = m'" and "\<And>x. m' = Inr x \<Longrightarrow> f x = g x"
  shows "res_bind m f = res_bind m' g"
  using assms by (cases m') auto

lemma guard_res_eq_Inr [simp]: "guard_res c e = Inr u \<longleftrightarrow> c"
  by (simp add: guard_res_def)

lemma guard_res_True [simp]: "guard_res True e = Inr ()"
  by (simp add: guard_res_def)

lemma guard_res_False [simp]: "guard_res False e = Inl e"
  by (simp add: guard_res_def)

section \<open>Big-endian numbers\<close>

text \<open>The value of an octet string read most significant octet first, and the
  \<open>k\<close> octets of a number in that order.\<close>

definition be_nat :: "bytes \<Rightarrow> nat" where
  "be_nat bs = foldl (\<lambda>v b. v * 256 + unat b) 0 bs"

primrec be_bytes :: "nat \<Rightarrow> nat \<Rightarrow> bytes" where
  "be_bytes 0 n = []"
| "be_bytes (Suc k) n = of_nat (n div 256 ^ k) # be_bytes k n"

lemma length_be_bytes [simp]: "length (be_bytes k n) = k"
  by (induction k) auto

lemma be_bytes_numeral:
  "be_bytes (numeral k) n = of_nat (n div 256 ^ pred_numeral k) # be_bytes (pred_numeral k) n"
  by (simp add: numeral_eq_Suc)

lemma unat_byte_lt [simp]: "unat (b :: byte) < 256"
  using unsigned_less [of b] by simp

lemma unat_lt:
  "unat (v16 :: 16 word) < 65536" "unat (v32 :: 32 word) < 4294967296"
  "unat (v64 :: 64 word) < 18446744073709551616"
  using unsigned_less [of v16, where 'a = nat] unsigned_less [of v32, where 'a = nat]
    unsigned_less [of v64, where 'a = nat]
  by simp_all

lemma unat_of_nat_byte [simp]: "unat (of_nat n :: byte) = n mod 256"
  by (simp add: unat_of_nat)

lemma of_nat_byte_cong: "m mod 256 = n mod 256 \<Longrightarrow> (of_nat m :: byte) = of_nat n"
  by (metis unat_of_nat_byte word_unat_eq_iff)

lemma be_nat_foldl:
  "foldl (\<lambda>v b. v * 256 + unat b) a bs = a * 256 ^ length bs + be_nat bs"
proof (induction bs arbitrary: a)
  case Nil
  then show ?case by (simp add: be_nat_def)
next
  case (Cons b bs)
  show ?case
    using Cons.IH [of "a * 256 + unat b"] Cons.IH [of "unat b"]
    by (simp add: be_nat_def algebra_simps)
qed

lemma be_nat_Nil [simp]: "be_nat [] = 0"
  by (simp add: be_nat_def)

lemma be_nat_Cons: "be_nat (b # bs) = unat b * 256 ^ length bs + be_nat bs"
  using be_nat_foldl [of "unat b" bs] by (simp add: be_nat_def)

lemma be_nat_append: "be_nat (xs @ ys) = be_nat xs * 256 ^ length ys + be_nat ys"
  using be_nat_foldl [of "be_nat xs" ys] by (simp add: be_nat_def)

lemma be_nat_bound: "be_nat bs < 256 ^ length bs"
proof (induction bs)
  case (Cons b bs)
  have "unat b * 256 ^ length bs \<le> 255 * 256 ^ length bs"
    using unat_byte_lt [of b] by (intro mult_right_mono) linarith+
  moreover have "be_nat (b # bs) = unat b * 256 ^ length bs + be_nat bs"
    by (rule be_nat_Cons)
  ultimately show ?case
    using Cons.IH unfolding length_Cons power_Suc by linarith
qed simp

lemma be_nat_be_bytes [simp]: "be_nat (be_bytes k n) = n mod 256 ^ k"
proof (induction k)
  case (Suc k)
  have "n mod 256 ^ Suc k = 256 ^ k * (n div 256 ^ k mod 256) + n mod 256 ^ k"
    using mod_mult2_eq [of n "256 ^ k" 256] by (simp add: mult.commute)
  then show ?case
    using Suc.IH by (simp add: be_nat_Cons)
qed simp

lemma be_bytes_be_nat: "be_bytes (length bs) (be_nat bs) = bs"
proof (induction bs)
  case (Cons b bs)
  let ?l = "length bs"
  have div: "be_nat (b # bs) div 256 ^ ?l = unat b"
    using be_nat_bound [of bs] by (simp add: be_nat_Cons)
  have low: "be_bytes k (a * 256 ^ l + m) = be_bytes k m" if "k \<le> l" for k l a m
    using that
  proof (induction k)
    case (Suc k)
    have "l = (l - Suc k) + Suc k"
      using Suc.prems by simp
    then have "(256 :: nat) ^ l = 256 ^ (l - Suc k) * (256 * 256 ^ k)"
      by (metis power_add power_Suc)
    then have "a * 256 ^ l = (a * 256 ^ (l - Suc k) * 256) * 256 ^ k"
      by simp
    then have "(a * 256 ^ l + m) div 256 ^ k = a * 256 ^ (l - Suc k) * 256 + m div 256 ^ k"
      by (simp only: div_mult_self3 power_not_zero zero_neq_numeral not_False_eq_True)
    then have "(of_nat ((a * 256 ^ l + m) div 256 ^ k) :: byte) = of_nat (m div 256 ^ k)"
      by (intro of_nat_byte_cong) simp
    then show ?case using Suc by simp
  qed simp
  show ?case
    using Cons.IH low [of ?l ?l "unat b" "be_nat bs"] div
    by (simp add: be_nat_Cons)
qed simp

lemma be_bytes_be_nat_length: "length bs = k \<Longrightarrow> be_bytes k (be_nat bs) = bs"
  using be_bytes_be_nat by blast

lemma be_bytes_inj_on:
  "m < 256 ^ k \<Longrightarrow> n < 256 ^ k \<Longrightarrow> be_bytes k m = be_bytes k n \<Longrightarrow> m = n"
  by (metis be_nat_be_bytes mod_less)

section \<open>Lists\<close>

lemma take_length_append [simp]: "take (length xs) (xs @ ys) = xs"
  by simp

lemma prefix_take_iff: "prefix xs ys \<longleftrightarrow> take (length xs) ys = xs"
  by (metis append_eq_conv_conj prefix_def take_is_prefix)

end
