(* ===== verification/Buffer.thy ===== *)
theory Buffer
  imports Prelude
begin

text \<open>
  The growable output buffer of \<^verbatim>\<open>lib/picotls.c\<close> (\<open>ptls_buffer_t\<close>, reserve, push) and
  the push macros of \<^verbatim>\<open>include/zpicotls.h\<close>.  An encoder is a function from a buffer to
  a return code and the buffer it leaves behind; \<open>pushes\<close> is the contract the
  callers rely on: the octets of the buffer are extended by a given octet
  string, or the call reports that memory ran out and the old contents are
  still a prefix.
\<close>

unbundle bit_operations_syntax

section \<open>The buffer\<close>

text \<open>\<open>buf_base\<close> is the address of the storage (\<open>None\<close> for \<open>NULL\<close>) and \<open>buf_data\<close> the
  octets from \<open>base\<close> to \<open>base + off\<close>, so \<open>off\<close> is the length of \<open>buf_data\<close>.\<close>

record ptls_buffer =
  buf_base :: "nat option"
  buf_origin :: "nat option"
  buf_data :: bytes
  buf_capacity :: nat
  buf_is_allocated :: bool
  buf_align_bits :: nat
  buf_tx :: bool

abbreviation buf_off :: "ptls_buffer \<Rightarrow> nat" where
  "buf_off b \<equiv> length (buf_data b)"

text \<open>The C library's allocator: for a buffer, a capacity and an alignment, the
  address of the new block or \<open>None\<close>.\<close>

type_synonym allocator = "ptls_buffer \<Rightarrow> nat \<Rightarrow> nat \<Rightarrow> nat option"
type_synonym pusher = "ptls_buffer \<Rightarrow> int \<times> ptls_buffer"

definition ptls_buffer_init :: "nat \<Rightarrow> nat \<Rightarrow> bool \<Rightarrow> ptls_buffer" where
  "ptls_buffer_init smallbuf smallbuf_size tx =
     \<lparr>buf_base = Some smallbuf, buf_origin = None, buf_data = [], buf_capacity = smallbuf_size,
      buf_is_allocated = False, buf_align_bits = 0, buf_tx = tx\<rparr>"

definition ptls_buffer_dispose :: "ptls_buffer \<Rightarrow> ptls_buffer" where
  "ptls_buffer_dispose b =
     \<lparr>buf_base = None, buf_origin = None, buf_data = [], buf_capacity = 0,
      buf_is_allocated = False, buf_align_bits = 0, buf_tx = False\<rparr>"

definition buffer_require_direction :: "ptls_buffer \<Rightarrow> bool \<Rightarrow> int" where
  "buffer_require_direction b tx = (if buf_tx b = tx then 0 else PTLS_ERROR_LIBRARY)"

definition buffer_alloc ::
  "allocator \<Rightarrow> ptls_buffer \<Rightarrow> nat \<Rightarrow> nat \<Rightarrow> bool \<Rightarrow> ptls_buffer option" where
  "buffer_alloc M b new_capacity align_bits tx =
     (case M b new_capacity align_bits of
        None \<Rightarrow> None
      | Some newp \<Rightarrow> Some (b\<lparr>buf_base := Some newp, buf_capacity := new_capacity,
                            buf_is_allocated := True, buf_align_bits := align_bits,
                            buf_tx := tx\<rparr>))"

text \<open>The doubling loop of \<open>ptls_buffer_reserve_aligned\<close>; it is entered with a
  capacity of at least 1024, so the guard against zero is never taken there.\<close>

function grow_capacity :: "nat \<Rightarrow> nat \<Rightarrow> nat" where
  "grow_capacity new_capacity required =
     (if new_capacity < required \<and> new_capacity \<noteq> 0
      then if new_capacity > SIZE_MAX div 2 then required
           else grow_capacity (new_capacity * 2) required
      else new_capacity)"
  by pat_completeness auto
termination
  by (relation "measure (\<lambda>(c, r). r - c)") auto

declare grow_capacity.simps [simp del]

definition ptls_buffer_reserve_aligned ::
  "allocator \<Rightarrow> nat \<Rightarrow> nat \<Rightarrow> bool \<Rightarrow> pusher" where
  "ptls_buffer_reserve_aligned M delta align_bits tx b =
     (if buffer_require_direction b tx \<noteq> 0 then (buffer_require_direction b tx, b)
      else case buf_base b of
        None \<Rightarrow> (PTLS_ERROR_NO_MEMORY, b)
      | Some addr \<Rightarrow>
          if delta > SIZE_MAX - buf_off b then (PTLS_ERROR_NO_MEMORY, b)
          else let required = buf_off b + delta in
            if buf_capacity b < required
               \<or> buf_align_bits b < align_bits \<and> addr mod 2 ^ align_bits \<noteq> 0
            then case buffer_alloc M b (grow_capacity (max (buf_capacity b) 1024) required)
                        align_bits tx of
                None \<Rightarrow> (PTLS_ERROR_NO_MEMORY, b)
              | Some b' \<Rightarrow> (0, b')
            else (0, b))"

definition ptls_buffer_reserve :: "allocator \<Rightarrow> nat \<Rightarrow> bool \<Rightarrow> pusher" where
  "ptls_buffer_reserve M delta tx = ptls_buffer_reserve_aligned M delta 0 tx"

definition ptls_buffer__do_pushv :: "allocator \<Rightarrow> bytes \<Rightarrow> pusher" where
  "ptls_buffer__do_pushv M src b =
     (if src = [] then (0, b)
      else case ptls_buffer_reserve M (length src) (buf_tx b) b of
        (ret, b') \<Rightarrow> if ret \<noteq> 0 then (ret, b')
                     else (0, b'\<lparr>buf_data := buf_data b' @ src\<rparr>))"

text \<open>Statement sequencing with \<open>goto Exit\<close> on a non-zero return code.\<close>

definition push_then :: "pusher \<Rightarrow> pusher \<Rightarrow> pusher" where
  "push_then f g b = (case f b of (ret, b') \<Rightarrow> if ret \<noteq> 0 then (ret, b') else g b')"

definition push_nothing :: pusher where
  "push_nothing b = (0, b)"

primrec push_list :: "('a \<Rightarrow> pusher) \<Rightarrow> 'a list \<Rightarrow> pusher" where
  "push_list f [] = push_nothing"
| "push_list f (x # xs) = push_then (f x) (push_list f xs)"

text \<open>Reserve room for \<open>n\<close> octets in a transmit buffer, then let a cipher write \<open>data\<close> at the end
  of the buffer and advance \<open>off\<close>.\<close>

definition reserve_and_write :: "allocator \<Rightarrow> nat \<Rightarrow> nat \<Rightarrow> bytes \<Rightarrow> pusher" where
  "reserve_and_write M n align_bits data b =
     (case ptls_buffer_reserve_aligned M n align_bits True b of
        (ret, b') \<Rightarrow> if ret \<noteq> 0 then (ret, b')
                     else (0, b'\<lparr>buf_data := buf_data b' @ data\<rparr>))"

section \<open>Fixed-width integers\<close>

definition enc8 :: "8 word \<Rightarrow> bytes" where
  "enc8 v = [v]"

definition enc16 :: "16 word \<Rightarrow> bytes" where
  "enc16 v = [ucast (drop_bit 8 v), ucast v]"

definition enc24 :: "32 word \<Rightarrow> bytes" where
  "enc24 v = [ucast (drop_bit 16 v), ucast (drop_bit 8 v), ucast v]"

definition enc32 :: "32 word \<Rightarrow> bytes" where
  "enc32 v = [ucast (drop_bit 24 v), ucast (drop_bit 16 v), ucast (drop_bit 8 v), ucast v]"

definition enc64 :: "64 word \<Rightarrow> bytes" where
  "enc64 v = [ucast (drop_bit 56 v), ucast (drop_bit 48 v), ucast (drop_bit 40 v),
              ucast (drop_bit 32 v), ucast (drop_bit 24 v), ucast (drop_bit 16 v),
              ucast (drop_bit 8 v), ucast v]"

definition ptls_buffer_push :: "allocator \<Rightarrow> 8 word \<Rightarrow> pusher" where
  "ptls_buffer_push M v = ptls_buffer__do_pushv M (enc8 v)"

definition ptls_buffer_push16 :: "allocator \<Rightarrow> 16 word \<Rightarrow> pusher" where
  "ptls_buffer_push16 M v = ptls_buffer__do_pushv M (enc16 v)"

definition ptls_buffer_push24 :: "allocator \<Rightarrow> 32 word \<Rightarrow> pusher" where
  "ptls_buffer_push24 M v = ptls_buffer__do_pushv M (enc24 v)"

definition ptls_buffer_push32 :: "allocator \<Rightarrow> 32 word \<Rightarrow> pusher" where
  "ptls_buffer_push32 M v = ptls_buffer__do_pushv M (enc32 v)"

definition ptls_buffer_push64 :: "allocator \<Rightarrow> 64 word \<Rightarrow> pusher" where
  "ptls_buffer_push64 M v = ptls_buffer__do_pushv M (enc64 v)"

definition encode64 :: "64 word \<Rightarrow> bytes" where
  "encode64 v = map (\<lambda>i. ucast (drop_bit (56 - 8 * i) v)) [0..<8]"

section \<open>QUIC variable-length integers\<close>

definition ptls_encode_quicint :: "64 word \<Rightarrow> bytes" where
  "ptls_encode_quicint v =
     (if v > 63
      then if v > 16383
        then if v > 1073741823
          then (0xc0 OR ucast (drop_bit 56 v))
                 # map (\<lambda>sb. ucast (drop_bit sb v)) [48, 40, 32, 24, 16, 8]
          else (0x80 OR ucast (drop_bit 24 v)) # map (\<lambda>sb. ucast (drop_bit sb v)) [16, 8]
        else [0x40 OR ucast (drop_bit 8 (ucast v :: 16 word))]
      else []) @ [ucast v]"

definition ptls_buffer_push_quicint :: "allocator \<Rightarrow> 64 word \<Rightarrow> pusher" where
  "ptls_buffer_push_quicint M v b =
     (case ptls_buffer_reserve M 8 (buf_tx b) b of
        (ret, b') \<Rightarrow> if ret \<noteq> 0 then (ret, b')
                     else (0, b'\<lparr>buf_data := buf_data b' @ ptls_encode_quicint v\<rparr>))"

section \<open>Length-prefixed blocks\<close>

text \<open>Overwrites the octets of the buffer from \<open>pos\<close> on.\<close>

definition poke :: "nat \<Rightarrow> bytes \<Rightarrow> ptls_buffer \<Rightarrow> ptls_buffer" where
  "poke pos bs b =
     b\<lparr>buf_data := take pos (buf_data b) @ bs @ drop (pos + length bs) (buf_data b)\<rparr>"

definition ptls_buffer_push_block :: "allocator \<Rightarrow> nat \<Rightarrow> pusher \<Rightarrow> pusher" where
  "ptls_buffer_push_block M capacity block b =
     (case ptls_buffer__do_pushv M (replicate capacity 0) b of (ret, b1) \<Rightarrow>
        if ret \<noteq> 0 then (ret, b1)
        else let body_start = buf_off b1 in
          case block b1 of (ret, b2) \<Rightarrow>
            if ret \<noteq> 0 then (ret, b2)
            else let body_size = buf_off b2 - body_start in
              if capacity < 8 \<and> body_size \<ge> 2 ^ (capacity * 8)
              then (PTLS_ERROR_BLOCK_OVERFLOW, b2)
              else (0, poke (body_start - capacity) (be_bytes capacity body_size) b2))"

definition ptls_buffer__adjust_quic_blocksize :: "allocator \<Rightarrow> nat \<Rightarrow> pusher" where
  "ptls_buffer__adjust_quic_blocksize M body_size b =
     (let sizebuf = ptls_encode_quicint (of_nat body_size); sizelen = length sizebuf in
      if sizelen \<noteq> 1
      then case ptls_buffer_reserve M (sizelen - 1) (buf_tx b) b of
          (ret, b') \<Rightarrow>
            if ret \<noteq> 0 then (ret, b')
            else let d = buf_data b'; start = length d - body_size in
              (0, b'\<lparr>buf_data := take (start - 1) d @ sizebuf @ drop start d\<rparr>)
      else (0, poke (buf_off b - body_size - 1) sizebuf b))"

text \<open>\<open>ptls_buffer_push_block\<close> with capacity \<open>-1\<close>: the length is a QUIC integer.\<close>

definition ptls_buffer_push_quic_block :: "allocator \<Rightarrow> pusher \<Rightarrow> pusher" where
  "ptls_buffer_push_quic_block M block b =
     (case ptls_buffer__do_pushv M [0] b of (ret, b1) \<Rightarrow>
        if ret \<noteq> 0 then (ret, b1)
        else let body_start = buf_off b1 in
          case block b1 of (ret, b2) \<Rightarrow>
            if ret \<noteq> 0 then (ret, b2)
            else ptls_buffer__adjust_quic_blocksize M (buf_off b2 - body_start) b2)"

definition buffer_push_extension :: "allocator \<Rightarrow> 16 word \<Rightarrow> pusher \<Rightarrow> pusher" where
  "buffer_push_extension M type block =
     push_then (ptls_buffer_push16 M type) (ptls_buffer_push_block M 2 block)"

text \<open>The octets of a block: the length of the body in \<open>capacity\<close> octets, then the body.\<close>

definition enc_block :: "nat \<Rightarrow> bytes \<Rightarrow> bytes" where
  "enc_block capacity body = be_bytes capacity (length body) @ body"

section \<open>The contract\<close>

definition buf_ok :: "ptls_buffer \<Rightarrow> bool" where
  "buf_ok b \<longleftrightarrow> buf_off b \<le> buf_capacity b \<and> buf_capacity b \<le> SIZE_MAX"

definition alloc_ok :: "allocator \<Rightarrow> bool" where
  "alloc_ok M \<longleftrightarrow> (\<forall>b c a. M b c a \<noteq> None)"

text \<open>What a call that returned \<open>r\<close> and left \<open>b'\<close> behind did to the buffer \<open>b\<close>.\<close>

definition grew :: "ptls_buffer \<Rightarrow> ptls_buffer \<Rightarrow> bool" where
  "grew b b' \<longleftrightarrow> buf_ok b' \<and> buf_tx b' = buf_tx b \<and> buf_origin b' = buf_origin b
     \<and> prefix (buf_data b) (buf_data b') \<and> (buf_base b \<noteq> None \<longrightarrow> buf_base b' \<noteq> None)"

text \<open>The ways an encoder may fail: memory, or (for the encoders that insist on a
  transmit buffer) the wrong direction; and when it cannot fail.\<close>

definition push_failure :: "ptls_buffer \<Rightarrow> int \<Rightarrow> bool" where
  "push_failure b r \<longleftrightarrow> r = PTLS_ERROR_NO_MEMORY \<or> r = PTLS_ERROR_LIBRARY \<and> \<not> buf_tx b"

definition push_ready :: "ptls_buffer \<Rightarrow> nat \<Rightarrow> bool" where
  "push_ready b n \<longleftrightarrow> buf_tx b \<and> buf_base b \<noteq> None \<and> buf_off b + n + 8 \<le> SIZE_MAX"

definition pushes :: "allocator \<Rightarrow> pusher \<Rightarrow> bytes \<Rightarrow> bool" where
  "pushes M f bs \<longleftrightarrow>
     (\<forall>b r b'. buf_ok b \<longrightarrow> f b = (r, b') \<longrightarrow>
        grew b b'
        \<and> (r = 0 \<and> buf_data b' = buf_data b @ bs \<or> push_failure b r)
        \<and> (alloc_ok M \<longrightarrow> push_ready b (length bs) \<longrightarrow> r = 0))"

section \<open>Growing\<close>

lemma grow_capacity_bounds:
  assumes "c \<noteq> 0" "c \<le> SIZE_MAX" "r \<le> SIZE_MAX"
  shows "r \<le> grow_capacity c r \<and> c \<le> grow_capacity c r \<and> grow_capacity c r \<le> SIZE_MAX"
  using assms
proof (induction c r rule: grow_capacity.induct)
  case (1 c r)
  then show ?case
    by (subst (1 2 3) grow_capacity.simps) (auto simp: not_less)
qed

lemma grew_refl: "buf_ok b \<Longrightarrow> grew b b"
  by (simp add: grew_def)

lemma grew_trans: "grew a b \<Longrightarrow> grew b c \<Longrightarrow> grew a c"
  unfolding grew_def using prefix_order.trans by auto

lemma grew_ok: "grew b b' \<Longrightarrow> buf_ok b'"
  by (simp add: grew_def)

text \<open>A reservation never changes the contents; when it succeeds there is room for
  \<open>delta\<close> more octets, and it fails only for lack of memory.\<close>

lemma reserve_spec:
  assumes ok: "buf_ok b" and run: "ptls_buffer_reserve_aligned M delta al (buf_tx b) b = (r, b')"
  shows "grew b b' \<and> buf_data b' = buf_data b
    \<and> (r = 0 \<and> buf_off b + delta \<le> buf_capacity b' \<or> r = PTLS_ERROR_NO_MEMORY)
    \<and> (alloc_ok M \<longrightarrow> buf_base b \<noteq> None \<longrightarrow> buf_off b + delta \<le> SIZE_MAX \<longrightarrow> r = 0)"
proof (cases "buf_base b = None \<or> delta > SIZE_MAX - buf_off b")
  case True
  then show ?thesis
    using assms by (auto simp: ptls_buffer_reserve_aligned_def buffer_require_direction_def grew_refl
        split: option.splits if_splits)
next
  case False
  let ?req = "buf_off b + delta"
  let ?cap = "grow_capacity (max (buf_capacity b) 1024) ?req"
  have cap: "?req \<le> ?cap" "max (buf_capacity b) 1024 \<le> ?cap" "?cap \<le> SIZE_MAX"
    using grow_capacity_bounds [of "max (buf_capacity b) 1024" ?req] ok False
    by (auto simp: buf_ok_def)
  show ?thesis
    using run False ok cap
    by (auto simp: ptls_buffer_reserve_aligned_def buffer_require_direction_def Let_def
        buffer_alloc_def grew_def buf_ok_def alloc_ok_def split: option.splits if_splits)
qed

lemma do_pushv_spec:
  assumes ok: "buf_ok b" and run: "ptls_buffer__do_pushv M src b = (r, b')"
  shows "grew b b'
    \<and> (r = 0 \<and> buf_data b' = buf_data b @ src \<or> r = PTLS_ERROR_NO_MEMORY \<and> buf_data b' = buf_data b)
    \<and> (alloc_ok M \<longrightarrow> buf_base b \<noteq> None \<longrightarrow> buf_off b + length src \<le> SIZE_MAX \<longrightarrow> r = 0)"
proof (cases "src = []")
  case True
  then show ?thesis
    using assms by (auto simp: ptls_buffer__do_pushv_def grew_refl)
next
  case False
  obtain r1 b1 where res: "ptls_buffer_reserve_aligned M (length src) 0 (buf_tx b) b = (r1, b1)"
    by fastforce
  show ?thesis
    using reserve_spec [OF ok res] False run res
    by (auto simp: ptls_buffer__do_pushv_def ptls_buffer_reserve_def grew_def buf_ok_def
        split: if_splits)
qed

section \<open>Encoders that satisfy the contract\<close>

lemma push_failure_0 [simp]: "\<not> push_failure b 0"
  by (simp add: push_failure_def)

lemma pushesI:
  assumes "\<And>b r b'. buf_ok b \<Longrightarrow> f b = (r, b') \<Longrightarrow>
      grew b b' \<and> (r = 0 \<and> buf_data b' = buf_data b @ bs \<or> push_failure b r)
      \<and> (alloc_ok M \<longrightarrow> push_ready b (length bs) \<longrightarrow> r = 0)"
  shows "pushes M f bs"
  using assms unfolding pushes_def by blast

lemma pushesD:
  assumes "pushes M f bs" "buf_ok b" "f b = (r, b')"
  shows "grew b b'"
    and "r = 0 \<and> buf_data b' = buf_data b @ bs \<or> push_failure b r"
    and "alloc_ok M \<Longrightarrow> push_ready b (length bs) \<Longrightarrow> r = 0"
  using assms unfolding pushes_def by blast+

lemma pushes_pushv [push_intros]: "pushes M (ptls_buffer__do_pushv M bs) bs"
  using do_pushv_spec by (intro pushesI) (fastforce simp: push_failure_def push_ready_def)

lemma pushes_reserve_and_write [push_intros]:
  "length data = n \<Longrightarrow> pushes M (reserve_and_write M n al data) data"
proof (rule pushesI, goal_cases)
  case (1 b r b')
  show ?case
  proof (cases "buf_tx b")
    case True
    obtain r1 b1 where res: "ptls_buffer_reserve_aligned M n al (buf_tx b) b = (r1, b1)"
      by fastforce
    show ?thesis
      using reserve_spec [OF 1(2) res] 1(1,3) res True
      by (auto simp: reserve_and_write_def grew_def buf_ok_def push_failure_def push_ready_def
          split: if_splits)
  next
    case False
    then show ?thesis
      using 1 by (auto simp: reserve_and_write_def ptls_buffer_reserve_aligned_def
          buffer_require_direction_def push_failure_def push_ready_def grew_refl)
  qed
qed

lemma pushes_nothing [push_intros]: "pushes M push_nothing []"
  by (intro pushesI) (auto simp: push_nothing_def grew_refl)

lemma pushes_then [push_intros]:
  assumes f: "pushes M f xs" and g: "pushes M g ys"
  shows "pushes M (push_then f g) (xs @ ys)"
proof (rule pushesI, goal_cases)
  case (1 b r b')
  obtain r1 b1 where fb: "f b = (r1, b1)" by fastforce
  note F = pushesD [OF f 1(1) fb]
  show ?case
  proof (cases "r1 = 0")
    case False
    then have "r = r1" "b' = b1" using 1 fb by (auto simp: push_then_def)
    then show ?thesis using F False by (auto simp: push_ready_def)
  next
    case True
    then have gb: "g b1 = (r, b')" using 1 fb by (simp add: push_then_def)
    have "push_failure b1 r \<Longrightarrow> push_failure b r"
      "push_ready b (length (xs @ ys)) \<Longrightarrow> push_ready b1 (length ys)"
      using F(1,2) True by (auto simp: grew_def push_failure_def push_ready_def)
    then show ?thesis
      using F(1,2) pushesD [OF g grew_ok [OF F(1)] gb] True grew_trans [OF F(1)]
      by (auto simp: push_failure_def)
  qed
qed

lemma pushes_list [push_intros]:
  assumes "\<And>x. x \<in> set xs \<Longrightarrow> pushes M (f x) (g x)"
  shows "pushes M (push_list f xs) (concat (map g xs))"
  using assms by (induction xs) (auto intro: push_intros)

lemma pushes_ints [push_intros]:
  "pushes M (ptls_buffer_push M v8) (enc8 v8)"
  "pushes M (ptls_buffer_push16 M v16) (enc16 v16)"
  "pushes M (ptls_buffer_push24 M v24) (enc24 v24)"
  "pushes M (ptls_buffer_push32 M v32) (enc32 v32)"
  "pushes M (ptls_buffer_push64 M v64) (enc64 v64)"
  by (simp_all add: ptls_buffer_push_def ptls_buffer_push16_def ptls_buffer_push24_def
      ptls_buffer_push32_def ptls_buffer_push64_def pushes_pushv)

lemma length_encs [simp]:
  "length (enc8 v8) = 1" "length (enc16 v16) = 2" "length (enc24 v24) = 3"
  "length (enc32 v24) = 4" "length (enc64 v64) = 8"
  by (simp_all add: enc8_def enc16_def enc24_def enc32_def enc64_def)

lemma encode64_eq_enc64: "encode64 v = enc64 v"
  by (simp add: encode64_def enc64_def upt_rec)

lemma length_encode_quicint:
  "length (ptls_encode_quicint v) =
     (if v \<le> 63 then 1 else if v \<le> 16383 then 2 else if v \<le> 1073741823 then 4 else 8)"
  by (auto simp: ptls_encode_quicint_def not_less)

lemma length_encode_quicint_bounds:
  "1 \<le> length (ptls_encode_quicint v)" "length (ptls_encode_quicint v) \<le> 8"
  by (auto simp: length_encode_quicint)

lemma pushes_quicint [push_intros]:
  "pushes M (ptls_buffer_push_quicint M v) (ptls_encode_quicint v)"
proof (rule pushesI, goal_cases)
  case (1 b r b')
  obtain r1 b1 where res: "ptls_buffer_reserve_aligned M 8 0 (buf_tx b) b = (r1, b1)"
    by fastforce
  show ?case
    using reserve_spec [OF 1(1) res] 1(2) res length_encode_quicint_bounds [of v]
    by (auto simp: ptls_buffer_push_quicint_def ptls_buffer_reserve_def grew_def buf_ok_def
        push_failure_def push_ready_def split: if_splits)
qed

section \<open>Blocks\<close>

text \<open>Both kinds of block first push a placeholder, then run the body.\<close>

lemma placeholder_then_body:
  assumes body: "pushes M block bs" and ok: "buf_ok b"
    and pv: "ptls_buffer__do_pushv M ph b = (0, b1)" and blk: "block b1 = (r, b2)"
  shows "grew b b1 \<and> grew b b2 \<and> buf_data b1 = buf_data b @ ph
    \<and> (r = 0 \<and> buf_data b2 = buf_data b @ ph @ bs \<or> push_failure b r)
    \<and> (alloc_ok M \<longrightarrow> push_ready b (length ph + length bs) \<longrightarrow> r = 0)"
proof -
  have P: "grew b b1" "buf_data b1 = buf_data b @ ph"
    using do_pushv_spec [OF ok pv] by auto
  note B = pushesD [OF body grew_ok [OF P(1)] blk]
  have "push_failure b1 r \<Longrightarrow> push_failure b r"
    "push_ready b (length ph + length bs) \<Longrightarrow> push_ready b1 (length bs)"
    using P by (auto simp: grew_def push_failure_def push_ready_def)
  then show ?thesis
    using P B grew_trans [OF P(1) B(1)] by auto
qed

lemma grew_poke:
  assumes "grew b b2" "length (buf_data b) \<le> pos" "pos + length bs \<le> buf_off b2"
  shows "grew b (poke pos bs b2)"
proof -
  have "length (take pos (buf_data b2) @ bs @ drop (pos + length bs) (buf_data b2)) = buf_off b2"
    using assms(3) by simp
  moreover have "take (buf_off b) (buf_data b2) = buf_data b"
    using assms(1) by (simp add: grew_def prefix_take_iff)
  then have "prefix (buf_data b) (take pos (buf_data b2) @ bs @ drop (pos + length bs) (buf_data b2))"
    using assms(2,3) by (simp add: prefix_take_iff take_append min_absorb1)
  ultimately show ?thesis
    using assms(1) by (simp add: grew_def buf_ok_def poke_def)
qed

lemma pushes_block:
  assumes body: "pushes M block bs"
    and fits: "capacity < 8 \<longrightarrow> length bs < 2 ^ (capacity * 8)"
  shows "pushes M (ptls_buffer_push_block M capacity block) (enc_block capacity bs)"
  unfolding enc_block_def
proof (rule pushesI, goal_cases)
  case (1 b r b')
  let ?hd = "replicate capacity (0 :: byte)"
  obtain r1 b1 where pv: "ptls_buffer__do_pushv M ?hd b = (r1, b1)" by fastforce
  obtain r2 b2 where blk: "block b1 = (r2, b2)" by fastforce
  show ?case
  proof (cases "r1 = 0")
    case False
    then show ?thesis
      using do_pushv_spec [OF 1(1) pv] 1(2) pv
      by (auto simp: ptls_buffer_push_block_def push_failure_def push_ready_def)
  next
    case True
    note S = placeholder_then_body [OF body 1(1) pv [unfolded True] blk]
    have size: "r2 = 0 \<Longrightarrow> buf_off b2 - buf_off b1 = length bs"
      using S by auto
    have "r2 = 0 \<Longrightarrow> r = 0 \<and> b' = poke (buf_off b) (be_bytes capacity (length bs)) b2"
      using 1(2) pv blk True S size fits
      by (auto simp: ptls_buffer_push_block_def Let_def)
    moreover have "r2 \<noteq> 0 \<Longrightarrow> r = r2 \<and> b' = b2"
      using 1(2) pv blk True by (auto simp: ptls_buffer_push_block_def Let_def)
    moreover have "r2 = 0 \<Longrightarrow> grew b (poke (buf_off b) (be_bytes capacity (length bs)) b2)"
      using S by (intro grew_poke) auto
    ultimately show ?thesis
      using S by (cases "r2 = 0") (auto simp: poke_def push_failure_def push_ready_def)
  qed
qed

lemma pushes_block_enc [push_intros]:
  "pushes M block bs \<Longrightarrow> length bs < 256 \<Longrightarrow>
     pushes M (ptls_buffer_push_block M 1 block) (enc_block 1 bs)"
  "pushes M block bs \<Longrightarrow> length bs < 65536 \<Longrightarrow>
     pushes M (ptls_buffer_push_block M 2 block) (enc_block 2 bs)"
  "pushes M block bs \<Longrightarrow> length bs < 16777216 \<Longrightarrow>
     pushes M (ptls_buffer_push_block M 3 block) (enc_block 3 bs)"
  by (rule pushes_block; simp)+

lemma length_enc_block [simp]: "length (enc_block capacity bs) = capacity + length bs"
  by (simp add: enc_block_def)

lemma push_block_overflow_code:
  assumes body: "pushes M block bs"
    and big: "capacity < 8" "length bs \<ge> 2 ^ (capacity * 8)"
    and ok: "buf_ok b" and run: "ptls_buffer_push_block M capacity block b = (r, b')"
  shows "r = PTLS_ERROR_BLOCK_OVERFLOW \<or> push_failure b r"
proof -
  let ?hd = "replicate capacity (0 :: byte)"
  obtain r1 b1 where pv: "ptls_buffer__do_pushv M ?hd b = (r1, b1)" by fastforce
  obtain r2 b2 where blk: "block b1 = (r2, b2)" by fastforce
  show ?thesis
  proof (cases "r1 = 0")
    case False
    then show ?thesis
      using do_pushv_spec [OF ok pv] run pv
      by (auto simp: ptls_buffer_push_block_def push_failure_def)
  next
    case True
    note S = placeholder_then_body [OF body ok pv [unfolded True] blk]
    then show ?thesis
      using run pv blk True big by (auto simp: ptls_buffer_push_block_def Let_def split: if_splits)
  qed
qed

lemma pushes_extension [push_intros]:
  "pushes M block bs \<Longrightarrow> length bs < 65536 \<Longrightarrow>
     pushes M (buffer_push_extension M type block) (enc16 type @ enc_block 2 bs)"
  unfolding buffer_push_extension_def by (intro push_intros)

text \<open>With capacity \<open>-1\<close> the body is moved to make room for the longer length.\<close>

lemma adjust_quic_spec:
  assumes ok: "grew b b2" and data: "buf_data b2 = buf_data b @ x # bs"
    and run: "ptls_buffer__adjust_quic_blocksize M (length bs) b2 = (r, b')"
  defines "szb \<equiv> ptls_encode_quicint (of_nat (length bs))"
  shows "grew b b' \<and> (r = 0 \<and> buf_data b' = buf_data b @ szb @ bs \<or> r = PTLS_ERROR_NO_MEMORY)
    \<and> (alloc_ok M \<longrightarrow> buf_base b2 \<noteq> None \<longrightarrow>
         buf_off b + length szb + length bs + 8 \<le> SIZE_MAX \<longrightarrow> r = 0)"
proof (cases "length szb = 1")
  case True
  then have "r = 0" "b' = poke (buf_off b) szb b2"
    using run data by (auto simp: ptls_buffer__adjust_quic_blocksize_def Let_def szb_def)
  moreover have "grew b (poke (buf_off b) szb b2)"
    using True data ok by (intro grew_poke) auto
  ultimately show ?thesis
    using data True by (simp add: poke_def)
next
  case False
  obtain r1 b1 where
    res: "ptls_buffer_reserve_aligned M (length szb - Suc 0) 0 (buf_tx b2) b2 = (r1, b1)"
    by fastforce
  note R = reserve_spec [OF grew_ok [OF ok] res]
  have "r1 = 0 \<Longrightarrow> r = 0 \<and> b' = b1\<lparr>buf_data := buf_data b @ szb @ bs\<rparr>"
    using run res False data R
    by (auto simp: ptls_buffer__adjust_quic_blocksize_def ptls_buffer_reserve_def Let_def szb_def)
  moreover have "r1 \<noteq> 0 \<Longrightarrow> r = r1 \<and> b' = b1"
    using run res False
    by (auto simp: ptls_buffer__adjust_quic_blocksize_def ptls_buffer_reserve_def Let_def szb_def)
  moreover have "r1 = 0 \<Longrightarrow> grew b (b1\<lparr>buf_data := buf_data b @ szb @ bs\<rparr>)"
    using R ok data length_encode_quicint_bounds [of "of_nat (length bs)"]
    by (auto simp: grew_def buf_ok_def szb_def)
  ultimately show ?thesis
    using R grew_trans [OF ok] data False length_encode_quicint_bounds [of "of_nat (length bs)"]
    by (cases "r1 = 0") (auto simp: szb_def)
qed

lemma pushes_quic_block [push_intros]:
  assumes body: "pushes M block bs"
  shows "pushes M (ptls_buffer_push_quic_block M block)
    (ptls_encode_quicint (of_nat (length bs)) @ bs)"
proof (rule pushesI, goal_cases)
  case (1 b r b')
  obtain r1 b1 where pv: "ptls_buffer__do_pushv M [0] b = (r1, b1)" by fastforce
  obtain r2 b2 where blk: "block b1 = (r2, b2)" by fastforce
  show ?case
  proof (cases "r1 = 0")
    case False
    then show ?thesis
      using do_pushv_spec [OF 1(1) pv] 1(2) pv
      by (auto simp: ptls_buffer_push_quic_block_def push_failure_def push_ready_def)
  next
    case True
    note S = placeholder_then_body [OF body 1(1) pv [unfolded True] blk]
    show ?thesis
    proof (cases "r2 = 0")
      case False
      then have "r = r2" "b' = b2"
        using 1(2) pv blk True by (auto simp: ptls_buffer_push_quic_block_def Let_def)
      then show ?thesis
        using S False length_encode_quicint_bounds [of "of_nat (length bs)"]
        by (auto simp: push_ready_def)
    next
      case r2: True
      then have d: "buf_data b2 = buf_data b @ 0 # bs" "buf_off b2 - buf_off b1 = length bs"
        using S by auto
      then have run: "ptls_buffer__adjust_quic_blocksize M (length bs) b2 = (r, b')"
        using 1(2) pv blk True r2 by (auto simp: ptls_buffer_push_quic_block_def Let_def)
      have "buf_base b \<noteq> None \<Longrightarrow> buf_base b2 \<noteq> None"
        using S by (simp add: grew_def)
      then show ?thesis
        using adjust_quic_spec [OF _ d(1) run] S by (auto simp: push_failure_def push_ready_def)
    qed
  qed
qed

end
