(* ===== verification/Decode.thy ===== *)
theory Decode
  imports Buffer
begin

text \<open>
  The decoders of \<^verbatim>\<open>lib/picotls.c\<close> (\<open>ptls_decode8\<close> to \<open>ptls_decode_quicint\<close>), the block
  macros of \<^verbatim>\<open>include/zpicotls.h\<close> and the extension loop with its duplicate and placement
  check.  A decoder maps the octets between \<open>src\<close> and \<open>end\<close> to an error code, or to a value and
  the octets it left.  The interface locale \<open>codec\<close> ties an encoder of \<open>Buffer\<close> to its
  decoder; its list lemma is what the message formats use for vectors.
\<close>

unbundle bit_operations_syntax

section \<open>Integers\<close>

definition ntoh16 :: "bytes \<Rightarrow> 16 word" where
  "ntoh16 src = push_bit 8 (ucast (src ! 0)) OR ucast (src ! 1)"

definition ntoh24 :: "bytes \<Rightarrow> 32 word" where
  "ntoh24 src = push_bit 16 (ucast (src ! 0)) OR push_bit 8 (ucast (src ! 1)) OR ucast (src ! 2)"

definition ntoh32 :: "bytes \<Rightarrow> 32 word" where
  "ntoh32 src = push_bit 24 (ucast (src ! 0)) OR push_bit 16 (ucast (src ! 1))
     OR push_bit 8 (ucast (src ! 2)) OR ucast (src ! 3)"

definition ntoh64 :: "bytes \<Rightarrow> 64 word" where
  "ntoh64 src = push_bit 56 (ucast (src ! 0)) OR push_bit 48 (ucast (src ! 1))
     OR push_bit 40 (ucast (src ! 2)) OR push_bit 32 (ucast (src ! 3))
     OR push_bit 24 (ucast (src ! 4)) OR push_bit 16 (ucast (src ! 5))
     OR push_bit 8 (ucast (src ! 6)) OR ucast (src ! 7)"

definition ptls_decode8 :: "bytes \<Rightarrow> (8 word \<times> bytes) res" where
  "ptls_decode8 src =
     (case src of [] \<Rightarrow> Inl PTLS_ALERT_DECODE_ERROR | v # src' \<Rightarrow> Inr (v, src'))"

definition ptls_decode16 :: "bytes \<Rightarrow> (16 word \<times> bytes) res" where
  "ptls_decode16 src =
     (if length src < 2 then Inl PTLS_ALERT_DECODE_ERROR else Inr (ntoh16 src, drop 2 src))"

definition ptls_decode24 :: "bytes \<Rightarrow> (32 word \<times> bytes) res" where
  "ptls_decode24 src =
     (if length src < 3 then Inl PTLS_ALERT_DECODE_ERROR else Inr (ntoh24 src, drop 3 src))"

definition ptls_decode32 :: "bytes \<Rightarrow> (32 word \<times> bytes) res" where
  "ptls_decode32 src =
     (if length src < 4 then Inl PTLS_ALERT_DECODE_ERROR else Inr (ntoh32 src, drop 4 src))"

definition ptls_decode64 :: "bytes \<Rightarrow> (64 word \<times> bytes) res" where
  "ptls_decode64 src =
     (if length src < 8 then Inl PTLS_ALERT_DECODE_ERROR else Inr (ntoh64 src, drop 8 src))"

text \<open>\<open>ptls_decode_quicint\<close> returns \<open>UINT64_MAX\<close> on a truncated input; the accumulation loop
  is the fold over the octets that remain.\<close>

definition ptls_decode_quicint :: "bytes \<Rightarrow> 64 word \<times> bytes" where
  "ptls_decode_quicint src =
     (case src of
        [] \<Rightarrow> (- 1, src)
      | b # src' \<Rightarrow>
          if b \<le> 0x3f then (ucast b, src')
          else let bytes_left = 2 ^ unat (drop_bit 6 b) - 1 in
            if length src' < bytes_left then (- 1, src')
            else (foldl (\<lambda>v x. push_bit 8 v OR ucast x) (ucast (b AND 0x3f)) (take bytes_left src'),
                  drop bytes_left src'))"

section \<open>Blocks and loops\<close>

definition ptls_decode_open_block ::
  "nat \<Rightarrow> (bytes \<Rightarrow> ('a \<times> bytes) res) \<Rightarrow> bytes \<Rightarrow> ('a \<times> bytes) res" where
  "ptls_decode_open_block capacity block src =
     (if capacity > length src then Inl PTLS_ALERT_DECODE_ERROR
      else let block_size = be_nat (take capacity src); src' = drop capacity src in
        if block_size > length src' then Inl PTLS_ALERT_DECODE_ERROR
        else res_bind (block (take block_size src')) (\<lambda>(v, rest).
          if rest \<noteq> [] then Inl PTLS_ALERT_DECODE_ERROR else Inr (v, drop block_size src')))"

definition ptls_decode_open_quic_block ::
  "(bytes \<Rightarrow> ('a \<times> bytes) res) \<Rightarrow> bytes \<Rightarrow> ('a \<times> bytes) res" where
  "ptls_decode_open_quic_block block src =
     (case ptls_decode_quicint src of (v, src') \<Rightarrow>
        if v = - 1 then Inl PTLS_ALERT_DECODE_ERROR
        else let block_size = unat v in
          if block_size > length src' then Inl PTLS_ALERT_DECODE_ERROR
          else res_bind (block (take block_size src')) (\<lambda>(v, rest).
            if rest \<noteq> [] then Inl PTLS_ALERT_DECODE_ERROR else Inr (v, drop block_size src')))"

definition ptls_decode_assert_block_close :: "'a \<times> bytes \<Rightarrow> 'a res" where
  "ptls_decode_assert_block_close vr =
     (case vr of (v, rest) \<Rightarrow> if rest \<noteq> [] then Inl PTLS_ALERT_DECODE_ERROR else Inr v)"

definition ptls_decode_block ::
  "nat \<Rightarrow> (bytes \<Rightarrow> ('a \<times> bytes) res) \<Rightarrow> bytes \<Rightarrow> 'a res" where
  "ptls_decode_block capacity block src =
     res_bind (ptls_decode_open_block capacity block src) ptls_decode_assert_block_close"

text \<open>Octets up to \<open>end\<close>, the block body \<open>{ v = ptls_iovec_init(src, end - src); src = end; }\<close>.\<close>

definition take_rest :: "bytes \<Rightarrow> (bytes \<times> bytes) res" where
  "take_rest src = Inr (src, [])"

text \<open>\<open>while (src != end) { ... }\<close>.  The code's loops all consume input in each round;
  \<open>loop_stuck\<close> stands for a round that does not, which would never end.\<close>

abbreviation loop_stuck :: int where
  "loop_stuck \<equiv> - 1"

function decode_while ::
  "('s \<Rightarrow> bytes \<Rightarrow> ('s \<times> bytes) res) \<Rightarrow> 's \<Rightarrow> bytes \<Rightarrow> ('s \<times> bytes) res" where
  "decode_while step s src =
     (if src = [] then Inr (s, src)
      else res_bind (step s src) (\<lambda>(s', src').
        if length src' < length src then decode_while step s' src' else Inl loop_stuck))"
  by pat_completeness auto
termination
  by (relation "measure (\<lambda>(_, _, src). length src)") auto

declare decode_while.simps [simp del]

text \<open>\<open>do { ... } while (src != end)\<close>.\<close>

definition decode_do_while ::
  "('s \<Rightarrow> bytes \<Rightarrow> ('s \<times> bytes) res) \<Rightarrow> 's \<Rightarrow> bytes \<Rightarrow> ('s \<times> bytes) res" where
  "decode_do_while step s src = res_bind (step s src) (\<lambda>(s', src'). decode_while step s' src')"

section \<open>Extensions\<close>

abbreviation PTLS_HANDSHAKE_TYPE_PSEUDO_HRR :: int where "PTLS_HANDSHAKE_TYPE_PSEUDO_HRR \<equiv> - 1"
abbreviation PTLS_HANDSHAKE_TYPE_CLIENT_HELLO :: int where "PTLS_HANDSHAKE_TYPE_CLIENT_HELLO \<equiv> 1"
abbreviation PTLS_HANDSHAKE_TYPE_SERVER_HELLO :: int where "PTLS_HANDSHAKE_TYPE_SERVER_HELLO \<equiv> 2"
abbreviation PTLS_HANDSHAKE_TYPE_NEW_SESSION_TICKET :: int where
  "PTLS_HANDSHAKE_TYPE_NEW_SESSION_TICKET \<equiv> 4"
abbreviation PTLS_HANDSHAKE_TYPE_END_OF_EARLY_DATA :: int where
  "PTLS_HANDSHAKE_TYPE_END_OF_EARLY_DATA \<equiv> 5"
abbreviation PTLS_HANDSHAKE_TYPE_ENCRYPTED_EXTENSIONS :: int where
  "PTLS_HANDSHAKE_TYPE_ENCRYPTED_EXTENSIONS \<equiv> 8"
abbreviation PTLS_HANDSHAKE_TYPE_CERTIFICATE :: int where "PTLS_HANDSHAKE_TYPE_CERTIFICATE \<equiv> 11"
abbreviation PTLS_HANDSHAKE_TYPE_CERTIFICATE_REQUEST :: int where
  "PTLS_HANDSHAKE_TYPE_CERTIFICATE_REQUEST \<equiv> 13"
abbreviation PTLS_HANDSHAKE_TYPE_CERTIFICATE_VERIFY :: int where
  "PTLS_HANDSHAKE_TYPE_CERTIFICATE_VERIFY \<equiv> 15"
abbreviation PTLS_HANDSHAKE_TYPE_FINISHED :: int where "PTLS_HANDSHAKE_TYPE_FINISHED \<equiv> 20"
abbreviation PTLS_HANDSHAKE_TYPE_KEY_UPDATE :: int where "PTLS_HANDSHAKE_TYPE_KEY_UPDATE \<equiv> 24"
abbreviation PTLS_HANDSHAKE_TYPE_COMPRESSED_CERTIFICATE :: int where
  "PTLS_HANDSHAKE_TYPE_COMPRESSED_CERTIFICATE \<equiv> 25"
abbreviation PTLS_HANDSHAKE_TYPE_MESSAGE_HASH :: int where
  "PTLS_HANDSHAKE_TYPE_MESSAGE_HASH \<equiv> 254"

abbreviation PTLS_EXTENSION_TYPE_SERVER_NAME :: "16 word" where
  "PTLS_EXTENSION_TYPE_SERVER_NAME \<equiv> 0"
abbreviation PTLS_EXTENSION_TYPE_STATUS_REQUEST :: "16 word" where
  "PTLS_EXTENSION_TYPE_STATUS_REQUEST \<equiv> 5"
abbreviation PTLS_EXTENSION_TYPE_SUPPORTED_GROUPS :: "16 word" where
  "PTLS_EXTENSION_TYPE_SUPPORTED_GROUPS \<equiv> 10"
abbreviation PTLS_EXTENSION_TYPE_SIGNATURE_ALGORITHMS :: "16 word" where
  "PTLS_EXTENSION_TYPE_SIGNATURE_ALGORITHMS \<equiv> 13"
abbreviation PTLS_EXTENSION_TYPE_ALPN :: "16 word" where "PTLS_EXTENSION_TYPE_ALPN \<equiv> 16"
abbreviation PTLS_EXTENSION_TYPE_SERVER_CERTIFICATE_TYPE :: "16 word" where
  "PTLS_EXTENSION_TYPE_SERVER_CERTIFICATE_TYPE \<equiv> 20"
abbreviation PTLS_EXTENSION_TYPE_COMPRESS_CERTIFICATE :: "16 word" where
  "PTLS_EXTENSION_TYPE_COMPRESS_CERTIFICATE \<equiv> 27"
abbreviation PTLS_EXTENSION_TYPE_PRE_SHARED_KEY :: "16 word" where
  "PTLS_EXTENSION_TYPE_PRE_SHARED_KEY \<equiv> 41"
abbreviation PTLS_EXTENSION_TYPE_EARLY_DATA :: "16 word" where
  "PTLS_EXTENSION_TYPE_EARLY_DATA \<equiv> 42"
abbreviation PTLS_EXTENSION_TYPE_SUPPORTED_VERSIONS :: "16 word" where
  "PTLS_EXTENSION_TYPE_SUPPORTED_VERSIONS \<equiv> 43"
abbreviation PTLS_EXTENSION_TYPE_COOKIE :: "16 word" where "PTLS_EXTENSION_TYPE_COOKIE \<equiv> 44"
abbreviation PTLS_EXTENSION_TYPE_PSK_KEY_EXCHANGE_MODES :: "16 word" where
  "PTLS_EXTENSION_TYPE_PSK_KEY_EXCHANGE_MODES \<equiv> 45"
abbreviation PTLS_EXTENSION_TYPE_CERTIFICATE_AUTHORITIES :: "16 word" where
  "PTLS_EXTENSION_TYPE_CERTIFICATE_AUTHORITIES \<equiv> 47"
abbreviation PTLS_EXTENSION_TYPE_KEY_SHARE :: "16 word" where "PTLS_EXTENSION_TYPE_KEY_SHARE \<equiv> 51"
abbreviation PTLS_EXTENSION_TYPE_TICKET_REQUEST :: "16 word" where
  "PTLS_EXTENSION_TYPE_TICKET_REQUEST \<equiv> 58"
abbreviation PTLS_EXTENSION_TYPE_ECH_OUTER_EXTENSIONS :: "16 word" where
  "PTLS_EXTENSION_TYPE_ECH_OUTER_EXTENSIONS \<equiv> 0xfd00"
abbreviation PTLS_EXTENSION_TYPE_ENCRYPTED_CLIENT_HELLO :: "16 word" where
  "PTLS_EXTENSION_TYPE_ENCRYPTED_CLIENT_HELLO \<equiv> 0xfe0d"

definition HSTYPE_TO_BIT :: "int \<Rightarrow> 64 word" where
  "HSTYPE_TO_BIT hstype = push_bit (nat (hstype + 1)) 1"

text \<open>The \<open>EXT\<close> table, in the order of the source: the position of an entry is its bit.\<close>

definition extension_table :: "(16 word \<times> int list) list" where
  "extension_table =
     (let CH = PTLS_HANDSHAKE_TYPE_CLIENT_HELLO; SH = PTLS_HANDSHAKE_TYPE_SERVER_HELLO;
          HRR = PTLS_HANDSHAKE_TYPE_PSEUDO_HRR; EE = PTLS_HANDSHAKE_TYPE_ENCRYPTED_EXTENSIONS;
          CR = PTLS_HANDSHAKE_TYPE_CERTIFICATE_REQUEST; CT = PTLS_HANDSHAKE_TYPE_CERTIFICATE;
          NST = PTLS_HANDSHAKE_TYPE_NEW_SESSION_TICKET in
      [(PTLS_EXTENSION_TYPE_SERVER_NAME, [CH, EE]),
       (PTLS_EXTENSION_TYPE_STATUS_REQUEST, [CH, CR, CT]),
       (PTLS_EXTENSION_TYPE_SUPPORTED_GROUPS, [CH, EE]),
       (PTLS_EXTENSION_TYPE_SIGNATURE_ALGORITHMS, [CH, CR]),
       (PTLS_EXTENSION_TYPE_ALPN, [CH, EE]),
       (PTLS_EXTENSION_TYPE_SERVER_CERTIFICATE_TYPE, [CH, EE]),
       (PTLS_EXTENSION_TYPE_KEY_SHARE, [CH, SH, HRR]),
       (PTLS_EXTENSION_TYPE_PRE_SHARED_KEY, [CH, SH]),
       (PTLS_EXTENSION_TYPE_PSK_KEY_EXCHANGE_MODES, [CH]),
       (PTLS_EXTENSION_TYPE_EARLY_DATA, [CH, EE, NST]),
       (PTLS_EXTENSION_TYPE_COOKIE, [CH, HRR]),
       (PTLS_EXTENSION_TYPE_SUPPORTED_VERSIONS, [CH, SH, HRR]),
       (PTLS_EXTENSION_TYPE_COMPRESS_CERTIFICATE, [CH, CR]),
       (PTLS_EXTENSION_TYPE_ENCRYPTED_CLIENT_HELLO, [CH, HRR, EE]),
       (PTLS_EXTENSION_TYPE_ECH_OUTER_EXTENSIONS, [])])"

fun extension_lookup :: "(16 word \<times> int list) list \<Rightarrow> nat \<Rightarrow> 16 word \<Rightarrow> (64 word \<times> nat) option" where
  "extension_lookup [] pos extid = None"
| "extension_lookup ((candext, allowed) # tab) pos extid =
     (if extid = candext then Some (foldl (\<lambda>m h. m + HSTYPE_TO_BIT h) 0 allowed, pos)
      else extension_lookup tab (Suc pos) extid)"

text \<open>\<open>None\<close> is the return value 0; otherwise the bitmap after the call.\<close>

definition extension_bitmap_testandset :: "64 word \<Rightarrow> int \<Rightarrow> 16 word \<Rightarrow> 64 word option" where
  "extension_bitmap_testandset bits hstype extid =
     (case extension_lookup extension_table 0 extid of
        None \<Rightarrow> Some bits
      | Some (allowed_hs_bits, pos) \<Rightarrow>
          let ext_bitmap_mask = push_bit pos 1 in
          if allowed_hs_bits AND HSTYPE_TO_BIT hstype = 0 then None
          else if bits AND ext_bitmap_mask \<noteq> 0 then None
          else Some (bits OR ext_bitmap_mask))"

definition decode_one_extension ::
  "int \<Rightarrow> (16 word \<Rightarrow> 's \<Rightarrow> bytes \<Rightarrow> ('s \<times> bytes) res) \<Rightarrow> 64 word \<times> 's \<Rightarrow> bytes
     \<Rightarrow> ((64 word \<times> 's) \<times> bytes) res" where
  "decode_one_extension hstype block bs src =
     res_bind (ptls_decode16 src) (\<lambda>(exttype, src).
       case extension_bitmap_testandset (fst bs) hstype exttype of
         None \<Rightarrow> Inl PTLS_ALERT_ILLEGAL_PARAMETER
       | Some bits \<Rightarrow>
           res_bind (ptls_decode_open_block 2 (block exttype (snd bs)) src)
             (\<lambda>(s, src). Inr ((bits, s), src)))"

definition decode_open_extensions ::
  "int \<Rightarrow> (16 word \<Rightarrow> 's \<Rightarrow> bytes \<Rightarrow> ('s \<times> bytes) res) \<Rightarrow> 's \<Rightarrow> bytes \<Rightarrow> ('s \<times> bytes) res" where
  "decode_open_extensions hstype block s src =
     res_bind (ptls_decode_open_block 2 (decode_while (decode_one_extension hstype block) (0, s)) src)
       (\<lambda>((_, s'), rest). Inr (s', rest))"

definition decode_extensions ::
  "int \<Rightarrow> (16 word \<Rightarrow> 's \<Rightarrow> bytes \<Rightarrow> ('s \<times> bytes) res) \<Rightarrow> 's \<Rightarrow> bytes \<Rightarrow> 's res" where
  "decode_extensions hstype block s src =
     res_bind (decode_open_extensions hstype block s src) ptls_decode_assert_block_close"

section \<open>Decoders only consume\<close>

text \<open>What is left of the input is a suffix of it; strictly shorter for \<open>consumes1\<close>.\<close>

definition consumes :: "(bytes \<Rightarrow> ('a \<times> bytes) res) \<Rightarrow> bool" where
  "consumes d \<longleftrightarrow> (\<forall>src v rest. d src = Inr (v, rest) \<longrightarrow> suffix rest src)"

definition consumes1 :: "(bytes \<Rightarrow> ('a \<times> bytes) res) \<Rightarrow> bool" where
  "consumes1 d \<longleftrightarrow> (\<forall>src v rest. d src = Inr (v, rest) \<longrightarrow> strict_suffix rest src)"

lemma consumes1_consumes: "consumes1 d \<Longrightarrow> consumes d"
  by (auto simp: consumes_def consumes1_def strict_suffix_def)

lemma consumesI: "(\<And>src v rest. d src = Inr (v, rest) \<Longrightarrow> suffix rest src) \<Longrightarrow> consumes d"
  by (auto simp: consumes_def)

lemma consumesD: "consumes d \<Longrightarrow> d src = Inr (v, rest) \<Longrightarrow> suffix rest src"
  by (auto simp: consumes_def)

lemma consumes1D: "consumes1 d \<Longrightarrow> d src = Inr (v, rest) \<Longrightarrow> strict_suffix rest src"
  by (auto simp: consumes1_def)

lemma consumes1_length: "consumes1 d \<Longrightarrow> d src = Inr (v, rest) \<Longrightarrow> length rest < length src"
  by (auto simp: consumes1_def suffix_length_less)

lemma strict_suffix_drop: "0 < n \<Longrightarrow> n \<le> length xs \<Longrightarrow> strict_suffix (drop n xs) xs"
  by (auto simp: strict_suffix_def suffix_drop dest: arg_cong [where f = length])

lemma strict_suffix_tail [simp]: "strict_suffix xs (x # xs)"
  by (auto simp: strict_suffix_def suffix_Cons)

lemma consumes1_ints [consumes_intros]:
  "consumes1 ptls_decode8" "consumes1 ptls_decode16" "consumes1 ptls_decode24"
  "consumes1 ptls_decode32" "consumes1 ptls_decode64"
  by (auto simp: consumes1_def ptls_decode8_def ptls_decode16_def ptls_decode24_def
      ptls_decode32_def ptls_decode64_def strict_suffix_drop split: list.splits if_splits)

lemma consumes1_open_block [consumes_intros]:
  "0 < capacity \<Longrightarrow> consumes1 (ptls_decode_open_block capacity block)"
  by (auto simp: consumes1_def ptls_decode_open_block_def Let_def strict_suffix_drop
      add.commute split: if_splits)

lemma consumes_take_rest [consumes_intros]: "consumes take_rest"
  by (auto simp: consumes_def take_rest_def)

lemma consumes_Inr [consumes_intros]: "consumes (\<lambda>src. Inr (v, src))"
  by (auto simp: consumes_def)

lemma consumes_bind [consumes_intros]:
  "consumes d \<Longrightarrow> (\<And>v. consumes (f v)) \<Longrightarrow> consumes (\<lambda>src. res_bind (d src) (\<lambda>(v, r). f v r))"
  by (fastforce simp: consumes_def intro: suffix_order.trans)

lemma consumes1_bind [consumes_intros]:
  "consumes1 d \<Longrightarrow> (\<And>v. consumes (f v)) \<Longrightarrow> consumes1 (\<lambda>src. res_bind (d src) (\<lambda>(v, r). f v r))"
  by (fastforce simp: consumes_def consumes1_def intro: suffix_order.le_less_trans)

text \<open>When each round consumes, the model of a loop is the loop of the source and never stuck.\<close>

lemma decode_while_Nil [simp]: "decode_while step s [] = Inr (s, [])"
  by (simp add: decode_while.simps)

lemma decode_while_unfold:
  assumes "\<And>s. consumes1 (step s)"
  shows "decode_while step s src =
    (if src = [] then Inr (s, [])
     else res_bind (step s src) (\<lambda>(s', src'). decode_while step s' src'))"
  using consumes1_length [OF assms, of s src]
  by (subst decode_while.simps) (cases "step s src", auto)

lemma decode_while_not_stuck:
  assumes "\<And>s. consumes1 (step s)" "\<And>s src. step s src \<noteq> Inl loop_stuck"
  shows "decode_while step s src \<noteq> Inl loop_stuck"
proof (induction "length src" arbitrary: s src rule: less_induct)
  case less
  have "decode_while step s' src' \<noteq> Inl loop_stuck" if "step s src = Inr (s', src')" for s' src'
    using less consumes1_length [OF assms(1) that] by blast
  then show ?case
    using assms(2) [of s src] by (auto simp: decode_while_unfold [OF assms(1)] res_bind_eq_Inl)
qed

lemma decode_while_rest: "decode_while step s src = Inr (s', rest) \<Longrightarrow> rest = []"
proof (induction "length src" arbitrary: s src rule: less_induct)
  case less
  then show ?case
    by (subst (asm) decode_while.simps) (auto split: if_splits)
qed

lemma decode_while_invariant:
  assumes "decode_while step s src = Inr (s', rest)" "I s"
    and "\<And>s src s' src'. I s \<Longrightarrow> step s src = Inr (s', src') \<Longrightarrow> I s'"
  shows "I s'"
  using assms(1,2)
proof (induction "length src" arbitrary: s src rule: less_induct)
  case less
  from less.prems(1) show ?case
    by (subst (asm) decode_while.simps)
      (use less.prems(2) less.hyps assms(3) in \<open>auto split: if_splits\<close>)
qed

lemma consumes_decode_while [consumes_intros]: "consumes (decode_while step s)"
  by (auto simp: consumes_def dest: decode_while_rest)

text \<open>A loop over the encodings of a list folds the effect of one round.\<close>

lemma decode_while_vector:
  assumes "\<And>acc v rest. v \<in> set vs \<Longrightarrow> step acc (enc v @ rest) = Inr (upd acc v, rest)"
    and "\<And>v. v \<in> set vs \<Longrightarrow> enc v \<noteq> []"
  shows "decode_while step acc (concat (map enc vs)) = Inr (foldl upd acc vs, [])"
  using assms
proof (induction vs arbitrary: acc)
  case (Cons v vs)
  have "step acc (enc v @ concat (map enc vs)) = Inr (upd acc v, concat (map enc vs))" "enc v \<noteq> []"
    using Cons.prems by simp_all
  then show ?case
    using Cons by (subst decode_while.simps) simp
qed simp

section \<open>Decoding what was encoded\<close>

text \<open>Shifting in octets is reading a big-endian number, at any width.\<close>

lemma shift_in_octet:
  "push_bit 8 (of_nat a :: 'a :: len word) OR ucast (b :: byte) = of_nat (a * 256 + unat b)"
proof -
  have "push_bit 8 (of_nat a :: 'a word) OR ucast b = push_bit 8 (of_nat a) + ucast b"
    by (intro disjunctive_add [symmetric]) (auto simp: bit_simps dest: bit_imp_le_length)
  then show ?thesis
    by (simp add: push_bit_eq_mult unsigned_of_nat mult.commute of_nat_unat)
qed

lemma shift_in_octets:
  "foldl (\<lambda>v x. push_bit 8 v OR ucast x) (of_nat a :: 'a :: len word) bs
     = of_nat (a * 256 ^ length bs + be_nat bs)"
proof (induction bs arbitrary: a)
  case (Cons b bs)
  show ?case
    using Cons.IH [of "a * 256 + unat b"]
    by (simp add: shift_in_octet be_nat_Cons algebra_simps)
qed simp

lemmas ntoh_shift = push_bit_or push_bit_push_bit or.assoc

lemma ntoh16_be: "ntoh16 (a # b # r) = of_nat (be_nat [a, b])"
  using shift_in_octets [of 0 "[a, b]", where 'a = 16] by (simp add: ntoh16_def)

lemma ntoh24_be: "ntoh24 (a # b # c # r) = of_nat (be_nat [a, b, c])"
  using shift_in_octets [of 0 "[a, b, c]", where 'a = 32] by (simp add: ntoh24_def ntoh_shift)

lemma ntoh32_be: "ntoh32 (a # b # c # d # r) = of_nat (be_nat [a, b, c, d])"
  using shift_in_octets [of 0 "[a, b, c, d]", where 'a = 32] by (simp add: ntoh32_def ntoh_shift)

lemma ntoh64_be:
  "ntoh64 (a # b # c # d # e # f # g # h # r) = of_nat (be_nat [a, b, c, d, e, f, g, h])"
  using shift_in_octets [of 0 "[a, b, c, d, e, f, g, h]", where 'a = 64]
  by (simp add: ntoh64_def ntoh_shift)

lemmas ntoh_be = ntoh16_be ntoh24_be ntoh32_be ntoh64_be

lemma octet_of_word: "(ucast v :: byte) = of_nat (unat v)"
  by (simp add: word_unat_eq_iff unsigned_ucast_eq take_bit_eq_mod)

lemma octet_of_drop_bit:
  "(ucast (drop_bit n v) :: byte) = of_nat (unat v div 2 ^ n)"
  by (simp only: octet_of_word unat_drop_bit_eq drop_bit_eq_div [where ?'a = nat])

lemma enc_be_bytes:
  "enc16 v16 = be_bytes 2 (unat v16)" "enc24 v32 = be_bytes 3 (unat v32)"
  "enc32 v32 = be_bytes 4 (unat v32)" "enc64 v64 = be_bytes 8 (unat v64)"
  by (simp_all add: enc16_def enc24_def enc32_def enc64_def octet_of_drop_bit
      be_bytes_numeral)

lemma be_nat_encs [simp]:
  "be_nat (enc16 v16) = unat v16" "be_nat (enc32 v32) = unat v32" "be_nat (enc64 v64) = unat v64"
  "v32 < 2 ^ 24 \<Longrightarrow> be_nat (enc24 v32) = unat v32"
  by (simp_all only: enc_be_bytes be_nat_be_bytes) (simp_all add: word_less_nat_alt unat_lt)

lemma decode8_enc8 [simp, codec]: "ptls_decode8 (enc8 v @ rest) = Inr (v, rest)"
  by (simp add: ptls_decode8_def enc8_def)

lemma decode16_enc16 [simp, codec]: "ptls_decode16 (enc16 v @ rest) = Inr (v, rest)"
proof -
  have "ptls_decode16 (enc16 v @ rest) = Inr (of_nat (be_nat (enc16 v)), rest)"
    by (simp add: ptls_decode16_def enc16_def ntoh_be)
  then show ?thesis by simp
qed

lemma decode24_enc24 [codec]:
  assumes "v < 2 ^ 24"
  shows "ptls_decode24 (enc24 v @ rest) = Inr (v, rest)"
proof -
  have "ptls_decode24 (enc24 v @ rest) = Inr (of_nat (be_nat (enc24 v)), rest)"
    by (simp add: ptls_decode24_def enc24_def ntoh_be)
  then show ?thesis using assms by simp
qed

lemma decode32_enc32 [simp, codec]: "ptls_decode32 (enc32 v @ rest) = Inr (v, rest)"
proof -
  have "ptls_decode32 (enc32 v @ rest) = Inr (of_nat (be_nat (enc32 v)), rest)"
    by (simp add: ptls_decode32_def enc32_def ntoh_be)
  then show ?thesis by simp
qed

lemma decode64_enc64 [simp, codec]: "ptls_decode64 (enc64 v @ rest) = Inr (v, rest)"
proof -
  have "ptls_decode64 (enc64 v @ rest) = Inr (of_nat (be_nat (enc64 v)), rest)"
    by (simp add: ptls_decode64_def enc64_def ntoh_be)
  then show ?thesis by simp
qed

text \<open>The other direction: the octets a fixed-width decoder consumed are the encoding of
  the value it returned.\<close>

lemma list_split:
  "Suc (Suc 0) \<le> length xs \<Longrightarrow> \<exists>a b r. xs = a # b # r"
  "Suc (Suc (Suc (Suc 0))) \<le> length xs \<Longrightarrow> \<exists>a b c d r. xs = a # b # c # d # r"
  by (auto simp: Suc_le_length_iff)

lemma decode16_exact: "ptls_decode16 src = Inr (v, rest) \<Longrightarrow> src = enc16 v @ rest"
proof -
  assume "ptls_decode16 src = Inr (v, rest)"
  then obtain a b where src: "src = a # b # rest" and v: "v = of_nat (be_nat [a, b])"
    using list_split(1) [of src] by (auto simp: ptls_decode16_def ntoh_be split: if_splits)
  have "be_nat [a, b] < 65536"
    using be_nat_bound [of "[a, b]"] by simp
  then have "enc16 v = [a, b]"
    by (simp only: v enc_be_bytes unat_of_nat) (simp add: be_bytes_be_nat_length)
  then show ?thesis using src by simp
qed

lemma decode8_exact: "ptls_decode8 src = Inr (v, rest) \<Longrightarrow> src = enc8 v @ rest"
  by (auto simp: ptls_decode8_def enc8_def split: list.splits)

lemma decode32_exact: "ptls_decode32 src = Inr (v, rest) \<Longrightarrow> src = enc32 v @ rest"
proof -
  assume "ptls_decode32 src = Inr (v, rest)"
  then obtain a b c d where src: "src = a # b # c # d # rest" and v: "v = of_nat (be_nat [a, b, c, d])"
    using list_split(2) [of src] by (auto simp: ptls_decode32_def ntoh_be split: if_splits)
  have "be_nat [a, b, c, d] < 4294967296"
    using be_nat_bound [of "[a, b, c, d]"] by simp
  then have "enc32 v = [a, b, c, d]"
    by (simp only: v enc_be_bytes unat_of_nat) (simp add: be_bytes_be_nat_length)
  then show ?thesis using src by simp
qed

lemma open_block_enc [codec]:
  assumes "length bs < 256 ^ capacity" "block bs = Inr (v, [])"
  shows "ptls_decode_open_block capacity block (enc_block capacity bs @ rest) = Inr (v, rest)"
  using assms by (simp add: ptls_decode_open_block_def enc_block_def)

text \<open>A block that decodes is its length followed by its body.\<close>

lemma open_block_exact:
  assumes "ptls_decode_open_block capacity block src = Inr (v, rest)"
  obtains bs where "block bs = Inr (v, [])" "src = enc_block capacity bs @ rest"
    "length bs < 256 ^ capacity"
proof -
  let ?n = "be_nat (take capacity src)"
  let ?bs = "take ?n (drop capacity src)"
  from assms have run: "capacity \<le> length src" "?n \<le> length src - capacity"
    "block ?bs = Inr (v, [])" "rest = drop ?n (drop capacity src)"
    by (auto simp: ptls_decode_open_block_def Let_def split: if_splits)
  have len: "length ?bs = ?n"
    using run by simp
  moreover have "be_bytes capacity ?n = take capacity src"
    using be_bytes_be_nat [of "take capacity src"] run by simp
  ultimately have "src = enc_block capacity ?bs @ rest"
    using run(4) unfolding enc_block_def by (metis append.assoc append_take_drop_id)
  moreover have "?n < 256 ^ capacity"
    using be_nat_bound [of "take capacity src"] run(1) by simp
  ultimately show ?thesis
    using that [of ?bs] run(3) len by simp
qed

end
