(* ===== verification/Extensions.thy ===== *)
theory Extensions
  imports Decode
begin

text \<open>
  Laws of the decoders: QUIC integers, the interface locale \<open>codec\<close> between an encoder
  and its decoder with its interpretations for the integer widths, and the meaning of the
  extension loop: which octet strings it accepts, and that the extensions it recognises
  are pairwise distinct and permitted in the message at hand.
\<close>

unbundle bit_operations_syntax

section \<open>Codecs\<close>

locale codec =
  fixes push :: "allocator \<Rightarrow> 'a \<Rightarrow> pusher"
    and enc :: "'a \<Rightarrow> bytes"
    and dec :: "bytes \<Rightarrow> ('a \<times> bytes) res"
    and okay :: "'a \<Rightarrow> bool"
  assumes push_enc: "okay v \<Longrightarrow> pushes M (push M v) (enc v)"
    and dec_enc: "okay v \<Longrightarrow> dec (enc v @ rest) = Inr (v, rest)"
    and dec_consumes: "consumes1 dec"
begin

lemma push_vector:
  assumes "list_all okay vs"
  shows "pushes M (push_list (push M) vs) (concat (map enc vs))"
  using assms by (intro pushes_list push_enc) (auto simp: list_all_iff)

lemma enc_nonempty: "okay v \<Longrightarrow> enc v \<noteq> []"
  using dec_enc [of v "[]"] consumes1_length [OF dec_consumes] by fastforce

lemma dec_vector:
  assumes "list_all okay vs"
    and step: "\<And>acc v src rest. dec src = Inr (v, rest) \<Longrightarrow> step acc src = Inr (upd acc v, rest)"
  shows "decode_while step acc (concat (map enc vs)) = Inr (foldl upd acc vs, [])"
  using assms(1)
proof (induction vs arbitrary: acc)
  case (Cons v vs)
  have "step acc (enc v @ concat (map enc vs)) = Inr (upd acc v, concat (map enc vs))"
    using Cons.prems by (intro step dec_enc) simp
  moreover have "enc v \<noteq> []"
    using Cons.prems by (intro enc_nonempty) simp
  ultimately show ?case
    using Cons by (subst decode_while.simps) simp
qed simp

lemma block_vector:
  assumes "list_all okay vs" "length (concat (map enc vs)) < 256 ^ capacity" "capacity < 8"
    and step: "\<And>acc v src rest. dec src = Inr (v, rest) \<Longrightarrow> step acc src = Inr (upd acc v, rest)"
  shows "pushes M (ptls_buffer_push_block M capacity (push_list (push M) vs))
      (enc_block capacity (concat (map enc vs)))"
    and "ptls_decode_open_block capacity (decode_while step acc)
      (enc_block capacity (concat (map enc vs)) @ rest)
        = Inr (foldl upd acc vs, rest)"
proof -
  have "(256 :: nat) ^ capacity = 2 ^ (capacity * 8)"
    using power_mult [of "2 :: nat" 8 capacity] by (simp add: mult.commute)
  then show "pushes M (ptls_buffer_push_block M capacity (push_list (push M) vs))
      (enc_block capacity (concat (map enc vs)))"
    using assms(1,2) by (intro pushes_block push_vector) simp_all
  show "ptls_decode_open_block capacity (decode_while step acc)
      (enc_block capacity (concat (map enc vs)) @ rest)
        = Inr (foldl upd acc vs, rest)"
    using assms(1,2) by (intro open_block_enc dec_vector step) simp_all
qed

end

interpretation u8: codec ptls_buffer_push enc8 ptls_decode8 "\<lambda>_. True"
  by unfold_locales (simp_all add: pushes_ints consumes1_ints)

interpretation u16: codec ptls_buffer_push16 enc16 ptls_decode16 "\<lambda>_. True"
  by unfold_locales (simp_all add: pushes_ints consumes1_ints)

interpretation u24: codec ptls_buffer_push24 enc24 ptls_decode24 "\<lambda>v. v < 2 ^ 24"
  by unfold_locales (simp_all add: pushes_ints consumes1_ints decode24_enc24)

interpretation u32: codec ptls_buffer_push32 enc32 ptls_decode32 "\<lambda>_. True"
  by unfold_locales (simp_all add: pushes_ints consumes1_ints)

interpretation u64: codec ptls_buffer_push64 enc64 ptls_decode64 "\<lambda>_. True"
  by unfold_locales (simp_all add: pushes_ints consumes1_ints)

text \<open>Opaque vectors: \<open>push_block(buf, cap, { pushv(bytes) })\<close> read by a block that takes
  everything up to its end.\<close>

interpretation opaque8: codec
  "\<lambda>M v. ptls_buffer_push_block M 1 (ptls_buffer__do_pushv M v)"
  "enc_block 1" "ptls_decode_open_block 1 take_rest" "\<lambda>v. length v < 256"
  by unfold_locales
    (auto intro!: push_intros consumes_intros open_block_enc simp: take_rest_def simp del: One_nat_def)

interpretation opaque16: codec
  "\<lambda>M v. ptls_buffer_push_block M 2 (ptls_buffer__do_pushv M v)"
  "enc_block 2" "ptls_decode_open_block 2 take_rest" "\<lambda>v. length v < 65536"
  by unfold_locales
    (auto intro!: push_intros consumes_intros open_block_enc simp: take_rest_def simp del: One_nat_def)

interpretation opaque24: codec
  "\<lambda>M v. ptls_buffer_push_block M 3 (ptls_buffer__do_pushv M v)"
  "enc_block 3" "ptls_decode_open_block 3 take_rest" "\<lambda>v. length v < 16777216"
  by unfold_locales
    (auto intro!: push_intros consumes_intros open_block_enc simp: take_rest_def simp del: One_nat_def)

section \<open>QUIC integers\<close>

text \<open>The first octet carries the width in its top two bits: \<open>p\<close> stands for
  \<open>2 ^ p - 1\<close> further octets.\<close>

definition quicint_first :: "nat \<Rightarrow> nat \<Rightarrow> byte" where
  "quicint_first p x = (of_nat (p * 64) OR of_nat x)"

lemma quicint_first_table:
  "list_all (\<lambda>p. list_all (\<lambda>x. let b = quicint_first p x in
      unat b = p * 64 + x \<and> unat (drop_bit 6 b) = p \<and> b AND 0x3f = of_nat x)
      [0..<64]) [0..<4]"
  by code_simp

lemma quicint_first_parts:
  assumes "p < 4" "x < 64"
  shows "unat (quicint_first p x) = p * 64 + x"
    and "unat (drop_bit 6 (quicint_first p x)) = p"
    and "quicint_first p x AND 0x3f = of_nat x"
  using quicint_first_table assms by (auto simp: list_all_iff Let_def)

lemma encode_quicint_be:
  assumes "v \<le> 4611686018427387903"
  obtains p where "p < 4" "unat v div 256 ^ (2 ^ p - 1) < 64"
    "ptls_encode_quicint v =
       quicint_first p (unat v div 256 ^ (2 ^ p - 1)) # be_bytes (2 ^ p - 1) (unat v)"
proof -
  let ?n = "unat v"
  have b: "ucast (drop_bit 8 (ucast v :: 16 word)) = (of_nat (?n div 256) :: byte)" if "?n < 65536"
    using that by (simp add: octet_of_drop_bit unsigned_ucast_eq take_bit_eq_mod)
  consider "v \<le> 63" | "63 < v" "v \<le> 16383" | "16383 < v" "v \<le> 1073741823" | "1073741823 < v"
    by force
  then show ?thesis
  proof cases
    case 1
    then show ?thesis
      using that [of 0]
      by (simp add: ptls_encode_quicint_def quicint_first_def word_le_nat_alt not_less)
  next
    case 2
    then show ?thesis
      using that [of 1] b
      by (simp add: ptls_encode_quicint_def quicint_first_def word_le_nat_alt word_less_nat_alt
          not_less)
  next
    case 3
    then show ?thesis
      using that [of 2]
      by (simp add: ptls_encode_quicint_def quicint_first_def word_le_nat_alt word_less_nat_alt
          not_less octet_of_drop_bit be_bytes_numeral)
  next
    case 4
    then show ?thesis
      using that [of 3] assms
      by (simp add: ptls_encode_quicint_def quicint_first_def word_le_nat_alt word_less_nat_alt
          not_less octet_of_drop_bit be_bytes_numeral)
  qed
qed

lemma quicint_codec:
  assumes "v \<le> 4611686018427387903"
  shows "ptls_decode_quicint (ptls_encode_quicint v @ rest) = (v, rest)"
proof -
  from assms obtain p where p: "p < 4" and x: "unat v div 256 ^ (2 ^ p - 1) < 64" and
    e: "ptls_encode_quicint v =
       quicint_first p (unat v div 256 ^ (2 ^ p - 1)) # be_bytes (2 ^ p - 1) (unat v)"
    by (rule encode_quicint_be)
  let ?x = "unat v div 256 ^ (2 ^ p - 1)"
  note q = quicint_first_parts [OF p x]
  show ?thesis
  proof (cases "p = 0")
    case True
    then show ?thesis
      using q e x
      by (simp add: ptls_decode_quicint_def word_le_nat_alt word_unat_eq_iff [of _ v] unsigned_ucast_eq
          take_bit_eq_mod)
  next
    case False
    then have "\<not> quicint_first p ?x \<le> 0x3f"
      using q(1) by (simp add: word_le_nat_alt)
    moreover have "foldl (\<lambda>v x. push_bit 8 v OR ucast x) (of_nat ?x) (be_bytes (2 ^ p - 1) (unat v)) = v"
      by (simp only: shift_in_octets length_be_bytes be_nat_be_bytes div_mult_mod_eq word_of_nat_eq_iff
          unat_of_nat) simp
    ultimately show ?thesis
      using q e x diff_le_mono [OF le_add1 [of "2 ^ p" "length rest"], of "Suc 0"]
      by (simp add: ptls_decode_quicint_def Let_def unsigned_of_nat take_bit_eq_mod)
  qed
qed

section \<open>The extension table\<close>

definition ext_known :: "16 word \<Rightarrow> bool" where
  "ext_known t \<longleftrightarrow> t \<in> set (map fst extension_table)"

text \<open>Whether an extension may appear in a message; extensions that are not in the table
  may appear anywhere.\<close>

definition ext_allowed :: "int \<Rightarrow> 16 word \<Rightarrow> bool" where
  "ext_allowed hstype t \<longleftrightarrow>
     (case map_of extension_table t of None \<Rightarrow> True | Some allowed \<Rightarrow> hstype \<in> set allowed)"

text \<open>The handshake types whose extensions the code decodes.\<close>

definition ext_hstypes :: "int list" where
  "ext_hstypes = [PTLS_HANDSHAKE_TYPE_PSEUDO_HRR, PTLS_HANDSHAKE_TYPE_CLIENT_HELLO,
     PTLS_HANDSHAKE_TYPE_SERVER_HELLO, PTLS_HANDSHAKE_TYPE_NEW_SESSION_TICKET,
     PTLS_HANDSHAKE_TYPE_ENCRYPTED_EXTENSIONS, PTLS_HANDSHAKE_TYPE_CERTIFICATE,
     PTLS_HANDSHAKE_TYPE_CERTIFICATE_REQUEST]"

lemma hstypes_mem [simp]:
  "PTLS_HANDSHAKE_TYPE_PSEUDO_HRR \<in> set ext_hstypes" "PTLS_HANDSHAKE_TYPE_CLIENT_HELLO \<in> set ext_hstypes"
  "PTLS_HANDSHAKE_TYPE_SERVER_HELLO \<in> set ext_hstypes" "PTLS_HANDSHAKE_TYPE_NEW_SESSION_TICKET \<in> set ext_hstypes"
  "PTLS_HANDSHAKE_TYPE_ENCRYPTED_EXTENSIONS \<in> set ext_hstypes"
  "PTLS_HANDSHAKE_TYPE_CERTIFICATE \<in> set ext_hstypes"
  "PTLS_HANDSHAKE_TYPE_CERTIFICATE_REQUEST \<in> set ext_hstypes"
  by (simp_all add: ext_hstypes_def)

text \<open>The bits of a bitmap say which recognised extensions have been seen.\<close>

definition ext_seen :: "64 word \<Rightarrow> 16 word set \<Rightarrow> bool" where
  "ext_seen bits S \<longleftrightarrow>
     (\<forall>t m pos. extension_lookup extension_table 0 t = Some (m, pos) \<longrightarrow> (bit bits pos \<longleftrightarrow> t \<in> S))"

lemma extension_lookup_pos:
  "extension_lookup tab p t = Some (m, pos) \<Longrightarrow>
     p \<le> pos \<and> pos < p + length tab \<and> fst (tab ! (pos - p)) = t"
  by (induction tab p t rule: extension_lookup.induct)
    (auto split: if_splits simp: nth_Cons' Suc_diff_le)

lemma extension_lookup_map_of:
  "extension_lookup tab p t = None \<longleftrightarrow> map_of tab t = None"
  "extension_lookup tab p t = Some (m, pos) \<Longrightarrow>
     \<exists>a. map_of tab t = Some a \<and> m = foldl (\<lambda>m h. m + HSTYPE_TO_BIT h) 0 a"
  by (induction tab p t rule: extension_lookup.induct) (auto split: if_splits)

lemma ext_bits_table:
  "list_all (\<lambda>hs. list_all (\<lambda>(t, a).
      (foldl (\<lambda>m h. m + HSTYPE_TO_BIT h) 0 a AND HSTYPE_TO_BIT hs = 0) = (hs \<notin> set a))
      extension_table) ext_hstypes"
  by code_simp

lemma ext_pos_inj:
  assumes "extension_lookup extension_table 0 t = Some (m, pos)"
    "extension_lookup extension_table 0 t' = Some (m', pos)"
  shows "t = t'"
  using extension_lookup_pos [OF assms(1)] extension_lookup_pos [OF assms(2)] by auto

lemma length_extension_table: "length extension_table = 15"
  by code_simp

lemma ext_pos_bound: "extension_lookup extension_table 0 t = Some (m, pos) \<Longrightarrow> pos < 15"
  using extension_lookup_pos [of extension_table 0 t m pos] length_extension_table by simp

lemma ext_known_lookup: "ext_known t \<longleftrightarrow> extension_lookup extension_table 0 t \<noteq> None"
  by (auto simp: ext_known_def extension_lookup_map_of(1) map_of_eq_None_iff)

lemma bitmap_testandset_spec:
  assumes hs: "hs \<in> set ext_hstypes" and seen: "ext_seen bits S"
  shows "extension_bitmap_testandset bits hs t = None \<longleftrightarrow>
      ext_known t \<and> (\<not> ext_allowed hs t \<or> t \<in> S)"
    and "extension_bitmap_testandset bits hs t = Some bits' \<Longrightarrow> ext_seen bits' (insert t S)"
proof -
  show "extension_bitmap_testandset bits hs t = None \<longleftrightarrow>
      ext_known t \<and> (\<not> ext_allowed hs t \<or> t \<in> S)"
  proof (cases "extension_lookup extension_table 0 t")
    case None
    then show ?thesis by (simp add: extension_bitmap_testandset_def ext_known_lookup)
  next
    case (Some mp)
    then obtain m pos where L: "extension_lookup extension_table 0 t = Some (m, pos)" by fastforce
    then obtain a where a: "map_of extension_table t = Some a"
      "m = foldl (\<lambda>m h. m + HSTYPE_TO_BIT h) 0 a"
      using extension_lookup_map_of(2) by blast
    have "(m AND HSTYPE_TO_BIT hs = 0) = (hs \<notin> set a)"
      using ext_bits_table hs map_of_SomeD [OF a(1)] a(2) by (auto simp: list_all_iff)
    moreover have "(bits AND push_bit pos 1 \<noteq> 0) = (t \<in> S)"
      using seen L ext_pos_bound [OF L]
      by (auto simp: ext_seen_def bit_eq_iff [where 'a = "64 word"] bit_simps)
    ultimately show ?thesis
      using L a by (auto simp: extension_bitmap_testandset_def ext_known_lookup ext_allowed_def Let_def)
  qed
  assume set: "extension_bitmap_testandset bits hs t = Some bits'"
  show "ext_seen bits' (insert t S)"
  proof (cases "extension_lookup extension_table 0 t")
    case None
    then show ?thesis
      using set seen by (auto simp: extension_bitmap_testandset_def ext_seen_def)
  next
    case (Some mp)
    then obtain m pos where L: "extension_lookup extension_table 0 t = Some (m, pos)" by fastforce
    then have "bits' = bits OR push_bit pos 1"
      using set by (auto simp: extension_bitmap_testandset_def Let_def split: if_splits)
    then have bits': "bit bits' n \<longleftrightarrow> bit bits n \<or> n = pos" if "n < 15" for n
      using that by (auto simp: bit_simps)
    show ?thesis
      unfolding ext_seen_def
    proof (intro allI impI)
      fix t' m' pos' assume L': "extension_lookup extension_table 0 t' = Some (m', pos')"
      have "pos' = pos \<longleftrightarrow> t' = t"
        using L L' ext_pos_inj by fastforce
      then show "bit bits' pos' \<longleftrightarrow> t' \<in> insert t S"
        using seen L' bits' [OF ext_pos_bound [OF L']] by (auto simp: ext_seen_def)
    qed
  qed
qed

section \<open>What the extension loop accepts\<close>

definition enc_ext :: "16 word \<times> bytes \<Rightarrow> bytes" where
  "enc_ext e = enc16 (fst e) @ enc_block 2 (snd e)"

text \<open>Running the handlers over a list of extensions; each must use up its body.\<close>

fun run_exts ::
  "(16 word \<Rightarrow> 's \<Rightarrow> bytes \<Rightarrow> ('s \<times> bytes) res) \<Rightarrow> 's \<Rightarrow> (16 word \<times> bytes) list \<Rightarrow> 's res" where
  "run_exts block s [] = Inr s"
| "run_exts block s ((t, body) # es) =
     res_bind (block t s body) (\<lambda>(s', rest).
       if rest \<noteq> [] then Inl PTLS_ALERT_DECODE_ERROR else run_exts block s' es)"

fun exts_ok :: "int \<Rightarrow> 16 word set \<Rightarrow> (16 word \<times> bytes) list \<Rightarrow> bool" where
  "exts_ok hs S [] = True"
| "exts_ok hs S ((t, body) # es) \<longleftrightarrow>
     length body < 65536 \<and> (ext_known t \<longrightarrow> ext_allowed hs t \<and> t \<notin> S) \<and> exts_ok hs (insert t S) es"

lemma exts_ok_iff:
  "exts_ok hs S es \<longleftrightarrow>
     (\<forall>e \<in> set es. length (snd e) < 65536) \<and>
     (\<forall>t \<in> fst ` set es. ext_known t \<longrightarrow> ext_allowed hs t \<and> t \<notin> S) \<and>
     distinct (filter ext_known (map fst es))"
  by (induction hs S es rule: exts_ok.induct) auto

lemma enc_ext_nonempty [simp]: "enc_ext e \<noteq> []" "length (enc_ext e) = 4 + length (snd e)"
  by (auto simp: enc_ext_def enc16_def)

lemma decode_one_extension_enc:
  assumes "hs \<in> set ext_hstypes" "ext_seen bits S" "length body < 65536"
    "ext_known t \<longrightarrow> ext_allowed hs t \<and> t \<notin> S" "block t s body = Inr (s', [])"
  shows "\<exists>bits'. decode_one_extension hs block (bits, s) (enc_ext (t, body) @ rest) = Inr ((bits', s'), rest)
    \<and> ext_seen bits' (insert t S)"
proof -
  obtain bits' where "extension_bitmap_testandset bits hs t = Some bits'"
    using bitmap_testandset_spec(1) [OF assms(1,2), of t] assms(4) by auto
  then show ?thesis
    using bitmap_testandset_spec(2) [OF assms(1,2)] assms(3,5)
    by (auto simp: decode_one_extension_def enc_ext_def open_block_enc)
qed

lemma decode_one_extension_exact:
  assumes "hs \<in> set ext_hstypes" "ext_seen bits S"
    "decode_one_extension hs block (bits, s) src = Inr ((bits', s'), rest)"
  obtains t body where "src = enc_ext (t, body) @ rest" "length body < 65536"
    "ext_known t \<longrightarrow> ext_allowed hs t \<and> t \<notin> S" "block t s body = Inr (s', [])"
    "ext_seen bits' (insert t S)"
proof -
  from assms(3) obtain t src1 where t: "ptls_decode16 src = Inr (t, src1)"
    and b: "extension_bitmap_testandset bits hs t = Some bits'"
    and o: "ptls_decode_open_block 2 (block t s) src1 = Inr (s', rest)"
    by (auto simp: decode_one_extension_def split: option.splits)
  from o obtain body where "block t s body = Inr (s', [])" "src1 = enc_block 2 body @ rest"
    "length body < 256 ^ 2"
    by (rule open_block_exact)
  then show ?thesis
    using that [of t body] decode16_exact [OF t] b bitmap_testandset_spec [OF assms(1,2), of t]
    by (auto simp: enc_ext_def)
qed

lemma consumes1_one_extension: "consumes1 (decode_one_extension hs block bs)"
proof -
  have "consumes (\<lambda>src. case extension_bitmap_testandset (fst bs) hs t of
         None \<Rightarrow> Inl PTLS_ALERT_ILLEGAL_PARAMETER
       | Some bits \<Rightarrow>
           res_bind (ptls_decode_open_block 2 (block t (snd bs)) src)
             (\<lambda>(s, src). Inr ((bits, s), src)))" for t
    by (rule consumesI)
      (auto split: option.splits
        intro: consumesD [OF consumes1_consumes [OF consumes1_open_block [of 2]], rotated])
  then show ?thesis
    unfolding decode_one_extension_def by (intro consumes_intros)
qed

lemma extension_loop_enc:
  assumes "hs \<in> set ext_hstypes" "ext_seen bits S" "exts_ok hs S es" "run_exts block s es = Inr s'"
  shows "\<exists>bits'. decode_while (decode_one_extension hs block) (bits, s) (concat (map enc_ext es))
    = Inr ((bits', s'), [])"
  using assms(2-)
proof (induction es arbitrary: bits S s)
  case (Cons e es)
  obtain t body where e: "e = (t, body)" by fastforce
  from Cons.prems(3) e obtain s1 where s1: "block t s body = Inr (s1, [])" "run_exts block s1 es = Inr s'"
    by (auto split: if_splits)
  obtain bits1 where d: "decode_one_extension hs block (bits, s) (enc_ext e @ concat (map enc_ext es))
      = Inr ((bits1, s1), concat (map enc_ext es))" and "ext_seen bits1 (insert t S)"
    using decode_one_extension_enc [OF assms(1) Cons.prems(1), of body t block s s1] Cons.prems(2) e s1(1)
    by auto
  then show ?case
    using Cons.IH [of bits1 "insert t S" s1] Cons.prems(2) e s1(2)
    by (simp add: decode_while_unfold [OF consumes1_one_extension])
qed simp

lemma extension_loop_exact:
  assumes "hs \<in> set ext_hstypes" "ext_seen bits S"
    "decode_while (decode_one_extension hs block) (bits, s) src = Inr ((bits', s'), rest)"
  shows "\<exists>es. src = concat (map enc_ext es) \<and> exts_ok hs S es \<and> run_exts block s es = Inr s'"
  using assms(2,3)
proof (induction "length src" arbitrary: bits S s src rule: less_induct)
  case less
  show ?case
  proof (cases "src = []")
    case True
    then show ?thesis
      using less.prems by (intro exI [of _ "[]"]) simp
  next
    case False
    then obtain bits1 s1 src1 where d: "decode_one_extension hs block (bits, s) src = Inr ((bits1, s1), src1)"
      and r: "decode_while (decode_one_extension hs block) (bits1, s1) src1 = Inr ((bits', s'), rest)"
      using less.prems(2) by (auto simp: decode_while_unfold [OF consumes1_one_extension, of _ _ _ _ src])
    from assms(1) less.prems(1) d obtain t body where src: "src = enc_ext (t, body) @ src1"
      and ok: "length body < 65536" "ext_known t \<longrightarrow> ext_allowed hs t \<and> t \<notin> S"
      and run: "block t s body = Inr (s1, [])" and seen: "ext_seen bits1 (insert t S)"
      by (rule decode_one_extension_exact)
    obtain es where "src1 = concat (map enc_ext es)" "exts_ok hs (insert t S) es" "run_exts block s1 es = Inr s'"
      using less.hyps [OF consumes1_length [OF consumes1_one_extension d] seen r] by blast
    then show ?thesis
      using src ok run by (intro exI [of _ "(t, body) # es"]) simp
  qed
qed

lemma ext_seen_empty: "ext_seen 0 {}"
  by (simp add: ext_seen_def)

lemma decode_open_extensions_iff:
  assumes "hs \<in> set ext_hstypes"
  shows "decode_open_extensions hs block s src = Inr (s', rest) \<longleftrightarrow>
    (\<exists>es. src = enc_block 2 (concat (map enc_ext es)) @ rest
       \<and> length (concat (map enc_ext es)) < 65536 \<and> exts_ok hs {} es \<and> run_exts block s es = Inr s')"
proof
  assume "decode_open_extensions hs block s src = Inr (s', rest)"
  then obtain bits where
    "ptls_decode_open_block 2 (decode_while (decode_one_extension hs block) (0, s)) src = Inr ((bits, s'), rest)"
    by (auto simp: decode_open_extensions_def)
  then obtain bs where "decode_while (decode_one_extension hs block) (0, s) bs = Inr ((bits, s'), [])"
    "src = enc_block 2 bs @ rest" "length bs < 256 ^ 2"
    by (rule open_block_exact)
  then show "\<exists>es. src = enc_block 2 (concat (map enc_ext es)) @ rest
       \<and> length (concat (map enc_ext es)) < 65536 \<and> exts_ok hs {} es \<and> run_exts block s es = Inr s'"
    using extension_loop_exact [OF assms ext_seen_empty] by fastforce
next
  assume "\<exists>es. src = enc_block 2 (concat (map enc_ext es)) @ rest
       \<and> length (concat (map enc_ext es)) < 65536 \<and> exts_ok hs {} es \<and> run_exts block s es = Inr s'"
  then obtain es where es: "src = enc_block 2 (concat (map enc_ext es)) @ rest"
    "length (concat (map enc_ext es)) < 65536" "exts_ok hs {} es" "run_exts block s es = Inr s'"
    by blast
  obtain bits where
    "decode_while (decode_one_extension hs block) (0, s) (concat (map enc_ext es)) = Inr ((bits, s'), [])"
    using extension_loop_enc [OF assms ext_seen_empty es(3,4)] by blast
  then have "ptls_decode_open_block 2 (decode_while (decode_one_extension hs block) (0, s)) src
      = Inr ((bits, s'), rest)"
    unfolding es(1) using es(2) by (intro open_block_enc) simp_all
  then show "decode_open_extensions hs block s src = Inr (s', rest)"
    by (simp add: decode_open_extensions_def)
qed

lemma decode_extensions_iff:
  assumes "hs \<in> set ext_hstypes"
  shows "decode_extensions hs block s src = Inr s' \<longleftrightarrow>
    (\<exists>es. src = enc_block 2 (concat (map enc_ext es))
       \<and> length (concat (map enc_ext es)) < 65536 \<and> exts_ok hs {} es \<and> run_exts block s es = Inr s')"
  using decode_open_extensions_iff [OF assms, of block s src s' "[]"]
  by (auto simp: decode_extensions_def ptls_decode_assert_block_close_def split: if_splits)

end
