(* ===== verification/Hash.thy ===== *)
theory Hash
  imports Extensions
begin

text \<open>
  Hash contexts, HMAC, HKDF and the TLS 1.2 PRF of \<^verbatim>\<open>lib/picotls.c\<close>.  A hash algorithm is
  supplied by a cryptographic backend: its digest function is a parameter
  (\<open>hash_fn\<close>), and a hash context is the algorithm with the octets fed so far.  The HMAC
  context of the source implements the same interface as a hash context; the locale
  \<open>hash_context\<close> states that interface, and both are interpretations of it.  The streaming
  code is shown to compute the definitions of RFC 2104, RFC 5869 and RFC 5246.
\<close>

unbundle bit_operations_syntax

definition ascii :: "string \<Rightarrow> bytes" where
  "ascii s = map of_char s"

section \<open>Hash algorithms and contexts\<close>

text \<open>\<open>hash_addr\<close> is the address of the algorithm object, by which the source compares algorithms.\<close>

record ptls_hash_algorithm =
  hash_addr :: nat
  hash_name :: string
  hash_block_size :: nat
  hash_digest_size :: nat
  hash_empty_digest :: bytes
  hash_fn :: "bytes \<Rightarrow> bytes"
  hash_can_create :: bool

datatype ptls_hash_final_mode =
  PTLS_HASH_FINAL_MODE_FREE | PTLS_HASH_FINAL_MODE_RESET | PTLS_HASH_FINAL_MODE_SNAPSHOT

record ptls_hash_context =
  hctx_algo :: ptls_hash_algorithm
  hctx_fed :: bytes

definition hash_create :: "ptls_hash_algorithm \<Rightarrow> ptls_hash_context option" where
  "hash_create algo = (if hash_can_create algo then Some \<lparr>hctx_algo = algo, hctx_fed = []\<rparr> else None)"

definition hash_update :: "ptls_hash_context \<Rightarrow> bytes \<Rightarrow> ptls_hash_context" where
  "hash_update ctx src = ctx\<lparr>hctx_fed := hctx_fed ctx @ src\<rparr>"

text \<open>The digest, and the context that is left (\<open>None\<close> once freed).\<close>

definition hash_final ::
  "ptls_hash_context \<Rightarrow> ptls_hash_final_mode \<Rightarrow> bytes \<times> ptls_hash_context option" where
  "hash_final ctx mode =
     (hash_fn (hctx_algo ctx) (hctx_fed ctx),
      (case mode of
         PTLS_HASH_FINAL_MODE_FREE \<Rightarrow> None
       | PTLS_HASH_FINAL_MODE_RESET \<Rightarrow> Some (ctx\<lparr>hctx_fed := []\<rparr>)
       | PTLS_HASH_FINAL_MODE_SNAPSHOT \<Rightarrow> Some ctx))"

definition ptls_calc_hash :: "ptls_hash_algorithm \<Rightarrow> bytes \<Rightarrow> bytes res" where
  "ptls_calc_hash algo src =
     (case hash_create algo of
        None \<Rightarrow> Inl PTLS_ERROR_NO_MEMORY
      | Some ctx \<Rightarrow> Inr (fst (hash_final (hash_update ctx src) PTLS_HASH_FINAL_MODE_FREE)))"

section \<open>HMAC\<close>

record hmac_context =
  hmac_algo :: ptls_hash_algorithm
  hmac_hash :: ptls_hash_context
  hmac_key :: bytes

definition hmac_update :: "hmac_context \<Rightarrow> bytes \<Rightarrow> hmac_context" where
  "hmac_update ctx src = ctx\<lparr>hmac_hash := hash_update (hmac_hash ctx) src\<rparr>"

definition hmac_xor_key :: "byte \<Rightarrow> hmac_context \<Rightarrow> hmac_context" where
  "hmac_xor_key pad ctx = ctx\<lparr>hmac_key := map (\<lambda>k. k XOR pad) (hmac_key ctx)\<rparr>"

definition hmac_apply_key :: "hmac_context \<Rightarrow> byte \<Rightarrow> hmac_context" where
  "hmac_apply_key ctx pad =
     (let ctx1 = hmac_xor_key pad ctx;
          ctx2 = ctx1\<lparr>hmac_hash := hash_update (hmac_hash ctx1) (hmac_key ctx1)\<rparr>
      in hmac_xor_key pad ctx2)"

text \<open>The padded key occupies \<open>block_size\<close> octets; callers keep \<open>key_size <= block_size\<close>
  (an assertion of the source).\<close>

definition ptls_hmac_create :: "ptls_hash_algorithm \<Rightarrow> bytes \<Rightarrow> hmac_context option" where
  "ptls_hmac_create algo key =
     (case hash_create algo of
        None \<Rightarrow> None
      | Some hash \<Rightarrow>
          Some (hmac_apply_key
            \<lparr>hmac_algo = algo, hmac_hash = hash,
             hmac_key = key @ replicate (hash_block_size algo - length key) 0\<rparr> 0x36))"

text \<open>\<open>hmac_final\<close> with an output buffer: reset the inner hash, feed the outer key and the
  inner digest, finish; in \<open>RESET\<close> mode the context is keyed again.\<close>

definition hmac_final :: "hmac_context \<Rightarrow> ptls_hash_final_mode \<Rightarrow> bytes \<times> hmac_context option" where
  "hmac_final ctx mode =
     (case hash_final (hmac_hash ctx) PTLS_HASH_FINAL_MODE_RESET of
        (md, None) \<Rightarrow> (md, None)
      | (md, Some h1) \<Rightarrow>
          (let ctx1 = hmac_apply_key (ctx\<lparr>hmac_hash := h1\<rparr>) 0x5c;
               ctx2 = ctx1\<lparr>hmac_hash := hash_update (hmac_hash ctx1) md\<rparr>
           in case hash_final (hmac_hash ctx2) mode of
                (md', None) \<Rightarrow> (md', None)
              | (md', Some h2) \<Rightarrow> (md', Some (hmac_apply_key (ctx2\<lparr>hmac_hash := h2\<rparr>) 0x36))))"

section \<open>HKDF\<close>

definition zeroes_of_max_digest_size :: bytes where
  "zeroes_of_max_digest_size = replicate 64 0"

definition ptls_hkdf_extract :: "ptls_hash_algorithm \<Rightarrow> bytes \<Rightarrow> bytes \<Rightarrow> bytes res" where
  "ptls_hkdf_extract algo salt ikm =
     (let salt' = (if length salt = 0 then take (hash_digest_size algo) zeroes_of_max_digest_size
                   else salt) in
      case ptls_hmac_create algo salt' of
        None \<Rightarrow> Inl PTLS_ERROR_NO_MEMORY
      | Some hash \<Rightarrow> Inr (fst (hmac_final (hmac_update hash ikm) PTLS_HASH_FINAL_MODE_FREE)))"

text \<open>One round of the loop of \<open>ptls_hkdf_expand\<close>, and the loop.  \<open>i\<close> is the loop counter,
  \<open>hmac\<close> is \<open>None\<close> before the first round.  A digest size of 0 would make the loop of the
  source endless.\<close>

definition hkdf_expand_round ::
  "ptls_hash_algorithm \<Rightarrow> bytes \<Rightarrow> bytes \<Rightarrow> nat \<Rightarrow> hmac_context option \<Rightarrow> bytes
     \<Rightarrow> (bytes \<times> hmac_context option) res" where
  "hkdf_expand_round algo prk info i hmac digest =
     res_bind (case hmac of
         None \<Rightarrow> (case ptls_hmac_create algo prk of
             None \<Rightarrow> Inl PTLS_ERROR_NO_MEMORY
           | Some h \<Rightarrow> Inr h)
       | Some h \<Rightarrow> Inr (hmac_update h digest))
     (\<lambda>h. let h1 = hmac_update h info; gen = of_nat (i + 1) :: byte; h2 = hmac_update h1 [gen] in
        Inr (hmac_final h2 PTLS_HASH_FINAL_MODE_RESET))"

function hkdf_expand_loop ::
  "ptls_hash_algorithm \<Rightarrow> bytes \<Rightarrow> bytes \<Rightarrow> nat \<Rightarrow> nat \<Rightarrow> hmac_context option \<Rightarrow> bytes \<Rightarrow> bytes
     \<Rightarrow> bytes res" where
  "hkdf_expand_loop algo prk info outlen i hmac digest output =
     (if i * hash_digest_size algo < outlen \<and> hash_digest_size algo \<noteq> 0
      then res_bind (hkdf_expand_round algo prk info i hmac digest) (\<lambda>(digest', hmac').
        let off_start = i * hash_digest_size algo;
            off_end = min (off_start + hash_digest_size algo) outlen
        in hkdf_expand_loop algo prk info outlen (Suc i) hmac' digest'
             (output @ take (off_end - off_start) digest'))
      else Inr output)"
  by pat_completeness auto
termination
  by (relation "measure (\<lambda>(algo, prk, info, outlen, i, hmac, digest, output).
        outlen - i * hash_digest_size algo)") auto

declare hkdf_expand_loop.simps [simp del]

definition ptls_hkdf_expand :: "ptls_hash_algorithm \<Rightarrow> nat \<Rightarrow> bytes \<Rightarrow> bytes \<Rightarrow> bytes res" where
  "ptls_hkdf_expand algo outlen prk info = hkdf_expand_loop algo prk info outlen 0 None [] []"

text \<open>The octets an encoder leaves in a fresh buffer on the stack.\<close>

definition run_pusher :: "nat \<Rightarrow> pusher \<Rightarrow> bytes res" where
  "run_pusher smallbuf_size f =
     (case f (ptls_buffer_init 1 smallbuf_size True) of
        (ret, b) \<Rightarrow> if ret \<noteq> 0 then Inl ret else Inr (buf_data b))"

definition push_hkdf_label ::
  "allocator \<Rightarrow> nat \<Rightarrow> string \<Rightarrow> bytes \<Rightarrow> string option \<Rightarrow> pusher" where
  "push_hkdf_label M outlen label hash_value label_prefix =
     push_then (ptls_buffer_push16 M (of_nat outlen))
     (push_then
       (ptls_buffer_push_block M 1
         (let prefix = (case label_prefix of None \<Rightarrow> ''tls13 '' | Some p \<Rightarrow> p) in
          push_then (ptls_buffer__do_pushv M (ascii prefix)) (ptls_buffer__do_pushv M (ascii label))))
       (ptls_buffer_push_block M 1 (ptls_buffer__do_pushv M hash_value)))"

definition ptls_hkdf_expand_label ::
  "allocator \<Rightarrow> ptls_hash_algorithm \<Rightarrow> nat \<Rightarrow> bytes \<Rightarrow> string \<Rightarrow> bytes \<Rightarrow> string option \<Rightarrow> bytes res" where
  "ptls_hkdf_expand_label M algo outlen secret label hash_value label_prefix =
     res_bind (run_pusher 80 (push_hkdf_label M outlen label hash_value label_prefix))
       (ptls_hkdf_expand algo outlen secret)"

section \<open>The TLS 1.2 pseudorandom function\<close>

definition hmac_update_label :: "hmac_context \<Rightarrow> string option \<Rightarrow> hmac_context" where
  "hmac_update_label h label =
     (case label of None \<Rightarrow> h | Some l \<Rightarrow> hmac_update h (ascii l))"

text \<open>\<open>hmac_final(..., RESET)\<close> always leaves a context.  As above, a digest size of 0 would make
  the loop of the source endless.\<close>

definition hmac_final_reset :: "hmac_context \<Rightarrow> bytes \<times> hmac_context" where
  "hmac_final_reset h = (case hmac_final h PTLS_HASH_FINAL_MODE_RESET of
      (md, Some h') \<Rightarrow> (md, h') | (md, None) \<Rightarrow> (md, h))"

function tls12_phash_loop ::
  "ptls_hash_algorithm \<Rightarrow> nat \<Rightarrow> string option \<Rightarrow> bytes \<Rightarrow> hmac_context \<Rightarrow> bytes \<Rightarrow> nat \<Rightarrow> bytes \<Rightarrow> bytes" where
  "tls12_phash_loop algo outlen label seed hmac An output_off output =
     (let hmac1 = hmac_update (hmac_update_label (hmac_update hmac An) label) seed in
      if outlen - output_off \<le> hash_digest_size algo \<or> hash_digest_size algo = 0
      then output @ take (outlen - output_off)
                      (fst (hmac_final hmac1 PTLS_HASH_FINAL_MODE_FREE))
      else case hmac_final_reset hmac1 of (chunk, hmac2) \<Rightarrow>
        case hmac_final_reset (hmac_update hmac2 An) of (An', hmac3) \<Rightarrow>
          tls12_phash_loop algo outlen label seed hmac3 An'
            (output_off + hash_digest_size algo) (output @ chunk))"
  by pat_completeness auto
termination
  by (relation "measure (\<lambda>(algo, outlen, label, seed, hmac, An, output_off, output).
        outlen - output_off)") auto

declare tls12_phash_loop.simps [simp del]

definition ptls_tls12_phash ::
  "ptls_hash_algorithm \<Rightarrow> nat \<Rightarrow> bytes \<Rightarrow> string option \<Rightarrow> bytes \<Rightarrow> bytes res" where
  "ptls_tls12_phash algo outlen secret label seed =
     (case ptls_hmac_create algo secret of
        None \<Rightarrow> Inl PTLS_ERROR_NO_MEMORY
      | Some hmac \<Rightarrow>
          case hmac_final_reset (hmac_update (hmac_update_label hmac label) seed) of
            (An, hmac') \<Rightarrow> Inr (tls12_phash_loop algo outlen label seed hmac' An 0 []))"

section \<open>The interface of a hash context\<close>

text \<open>\<open>digest\<close> is what finishing a context returns, \<open>reset\<close> the context afterwards, and
  \<open>spec\<close> the function that the context computes of everything fed to it.\<close>

locale hash_context =
  fixes update :: "'c \<Rightarrow> bytes \<Rightarrow> 'c"
    and digest :: "'c \<Rightarrow> bytes"
    and reset :: "'c \<Rightarrow> 'c"
    and spec :: "'c \<Rightarrow> bytes \<Rightarrow> bytes"
    and fed :: "'c \<Rightarrow> bytes"
    and valid :: "'c \<Rightarrow> bool"
  assumes digest_spec: "valid c \<Longrightarrow> digest c = spec c (fed c)"
    and update_valid: "valid c \<Longrightarrow> valid (update c bs)"
    and update_fed: "valid c \<Longrightarrow> fed (update c bs) = fed c @ bs"
    and update_spec: "valid c \<Longrightarrow> spec (update c bs) = spec c"
    and reset_valid: "valid c \<Longrightarrow> valid (reset c)"
    and reset_fed: "valid c \<Longrightarrow> fed (reset c) = []"
    and reset_spec: "valid c \<Longrightarrow> spec (reset c) = spec c"
begin

lemma updates_valid: "valid c \<Longrightarrow> valid (foldl update c bss)"
  by (induction bss arbitrary: c) (auto simp: update_valid)

lemma chunks_irrelevant:
  "valid c \<Longrightarrow> digest (foldl update c bss) = spec c (fed c @ concat bss)"
proof (induction bss arbitrary: c)
  case (Cons bs bss)
  then show ?case
    by (simp add: update_valid update_fed update_spec)
qed (simp add: digest_spec)

lemma reset_then_updates:
  "valid c \<Longrightarrow> digest (foldl update (reset c) bss) = spec c (concat bss)"
  by (simp add: chunks_irrelevant reset_valid reset_fed reset_spec)

end

definition hash_ctx_digest :: "ptls_hash_context \<Rightarrow> bytes" where
  "hash_ctx_digest c = fst (hash_final c PTLS_HASH_FINAL_MODE_RESET)"

definition hash_ctx_reset :: "ptls_hash_context \<Rightarrow> ptls_hash_context" where
  "hash_ctx_reset c = (case snd (hash_final c PTLS_HASH_FINAL_MODE_RESET) of None \<Rightarrow> c | Some c' \<Rightarrow> c')"

interpretation plain: hash_context hash_update hash_ctx_digest hash_ctx_reset
  "\<lambda>c. hash_fn (hctx_algo c)" hctx_fed "\<lambda>_. True"
  by unfold_locales
    (simp_all add: hash_update_def hash_ctx_digest_def hash_ctx_reset_def hash_final_def)

section \<open>HMAC computes RFC 2104\<close>

definition pad_key :: "ptls_hash_algorithm \<Rightarrow> bytes \<Rightarrow> bytes" where
  "pad_key algo key = key @ replicate (hash_block_size algo - length key) 0"

definition hmac_spec :: "ptls_hash_algorithm \<Rightarrow> bytes \<Rightarrow> bytes \<Rightarrow> bytes" where
  "hmac_spec algo key text =
     hash_fn algo (map (\<lambda>k. k XOR 0x5c) (pad_key algo key) @
       hash_fn algo (map (\<lambda>k. k XOR 0x36) (pad_key algo key) @ text))"

text \<open>A context that was created with \<open>key\<close> and has been fed \<open>text\<close> since.\<close>

definition hmac_rel :: "ptls_hash_algorithm \<Rightarrow> bytes \<Rightarrow> bytes \<Rightarrow> hmac_context \<Rightarrow> bool" where
  "hmac_rel algo key text ctx \<longleftrightarrow>
     hmac_algo ctx = algo \<and> hmac_key ctx = pad_key algo key
     \<and> hmac_hash ctx = \<lparr>hctx_algo = algo, hctx_fed = map (\<lambda>k. k XOR 0x36) (pad_key algo key) @ text\<rparr>"

lemma xor_twice [simp]: "map (\<lambda>k. k XOR pad) (map (\<lambda>k. k XOR pad) ks) = (ks :: bytes)"
  by (simp add: xor.assoc o_def)

lemma hmac_apply_key_eq:
  "hmac_apply_key ctx pad =
     ctx\<lparr>hmac_hash := hash_update (hmac_hash ctx) (map (\<lambda>k. k XOR pad) (hmac_key ctx))\<rparr>"
  by (cases ctx) (simp add: hmac_apply_key_def hmac_xor_key_def Let_def xor.assoc o_def)

lemma hmac_create_rel:
  "ptls_hmac_create algo key = Some ctx \<Longrightarrow> hmac_rel algo key [] ctx"
  by (auto simp: ptls_hmac_create_def hmac_apply_key_eq hmac_rel_def pad_key_def hash_create_def
      hash_update_def split: option.splits if_splits)

lemma hmac_create_None: "ptls_hmac_create algo key = None \<longleftrightarrow> \<not> hash_can_create algo"
  by (simp add: ptls_hmac_create_def hash_create_def split: option.splits)

lemma hmac_update_rel:
  "hmac_rel algo key text ctx \<Longrightarrow> hmac_rel algo key (text @ bs) (hmac_update ctx bs)"
  by (simp add: hmac_rel_def hmac_update_def hash_update_def)

lemma hmac_final_rel:
  assumes "hmac_rel algo key text ctx"
  shows "fst (hmac_final ctx mode) = hmac_spec algo key text"
    and "\<exists>ctx'. snd (hmac_final ctx PTLS_HASH_FINAL_MODE_RESET) = Some ctx' \<and> hmac_rel algo key [] ctx'"
  using assms
  by (cases mode; simp add: hmac_rel_def hmac_final_def hash_final_def hmac_apply_key_eq hash_update_def
      hmac_spec_def Let_def)+

text \<open>The HMAC context is a hash context for the keyed function.\<close>

definition hmac_ctx_digest :: "hmac_context \<Rightarrow> bytes" where
  "hmac_ctx_digest c = fst (hmac_final_reset c)"

definition hmac_ctx_reset :: "hmac_context \<Rightarrow> hmac_context" where
  "hmac_ctx_reset c = snd (hmac_final_reset c)"

definition hmac_fed :: "hmac_context \<Rightarrow> bytes" where
  "hmac_fed c = drop (length (hmac_key c)) (hctx_fed (hmac_hash c))"

definition hmac_valid :: "hmac_context \<Rightarrow> bool" where
  "hmac_valid c \<longleftrightarrow> hmac_rel (hmac_algo c) (hmac_key c) (hmac_fed c) c"

lemma pad_key_pad_key [simp]: "pad_key algo (pad_key algo key) = pad_key algo key"
  by (simp add: pad_key_def)

lemma hmac_spec_pad_key [simp]: "hmac_spec algo (pad_key algo key) = hmac_spec algo key"
  by (simp add: hmac_spec_def fun_eq_iff)

lemma hmac_rel_pad_key [simp]: "hmac_rel algo (pad_key algo key) text = hmac_rel algo key text"
  by (simp add: hmac_rel_def fun_eq_iff)

lemma hmac_rel_valid:
  assumes "hmac_rel algo key text c"
  shows "hmac_valid c" and "hmac_fed c = text" and "hmac_algo c = algo"
    and "hmac_key c = pad_key algo key"
  using assms by (auto simp: hmac_valid_def hmac_rel_def hmac_fed_def)

lemma hmac_final_reset_rel:
  assumes "hmac_rel algo key text c"
  shows "fst (hmac_final_reset c) = hmac_spec algo key text"
    and "hmac_rel algo key [] (snd (hmac_final_reset c))"
  using hmac_final_rel(1) [OF assms, of PTLS_HASH_FINAL_MODE_RESET] hmac_final_rel(2) [OF assms]
  by (cases "hmac_final c PTLS_HASH_FINAL_MODE_RESET"; auto simp: hmac_final_reset_def)+

interpretation hmac: hash_context hmac_update hmac_ctx_digest hmac_ctx_reset
  "\<lambda>c. hmac_spec (hmac_algo c) (hmac_key c)" hmac_fed hmac_valid
proof
  fix c bs assume v: "hmac_valid c"
  then have rel: "hmac_rel (hmac_algo c) (hmac_key c) (hmac_fed c) c"
    by (simp add: hmac_valid_def)
  note U = hmac_rel_valid [OF hmac_update_rel [OF rel, of bs]]
  note R = hmac_rel_valid [OF hmac_final_reset_rel(2) [OF rel]]
  show "hmac_ctx_digest c = hmac_spec (hmac_algo c) (hmac_key c) (hmac_fed c)"
    by (simp add: hmac_ctx_digest_def hmac_final_reset_rel(1) [OF rel])
  show "hmac_valid (hmac_update c bs)" "hmac_fed (hmac_update c bs) = hmac_fed c @ bs"
    using U by auto
  show "hmac_spec (hmac_algo (hmac_update c bs)) (hmac_key (hmac_update c bs))
      = hmac_spec (hmac_algo c) (hmac_key c)"
    using U by simp
  show "hmac_valid (hmac_ctx_reset c)" "hmac_fed (hmac_ctx_reset c) = []"
    using R by (auto simp: hmac_ctx_reset_def)
  show "hmac_spec (hmac_algo (hmac_ctx_reset c)) (hmac_key (hmac_ctx_reset c))
      = hmac_spec (hmac_algo c) (hmac_key c)"
    using R by (simp add: hmac_ctx_reset_def)
qed

section \<open>HKDF computes RFC 5869\<close>

text \<open>What a hash algorithm promises: its sizes, and digests of the announced size.\<close>

definition hash_ok :: "ptls_hash_algorithm \<Rightarrow> bool" where
  "hash_ok algo \<longleftrightarrow> (\<forall>x. length (hash_fn algo x) = hash_digest_size algo)
     \<and> 0 < hash_digest_size algo \<and> hash_digest_size algo \<le> 64
     \<and> hash_digest_size algo \<le> hash_block_size algo
     \<and> hash_empty_digest algo = hash_fn algo []"

text \<open>\<open>T(0) = ""\<close>, \<open>T(n + 1) = HMAC(PRK, T(n) | info | n + 1)\<close>.\<close>

primrec hkdf_T :: "ptls_hash_algorithm \<Rightarrow> bytes \<Rightarrow> bytes \<Rightarrow> nat \<Rightarrow> bytes" where
  "hkdf_T algo prk info 0 = []"
| "hkdf_T algo prk info (Suc n) =
     hmac_spec algo prk (hkdf_T algo prk info n @ info @ [of_nat (Suc n)])"

definition hkdf_blocks :: "nat \<Rightarrow> nat \<Rightarrow> nat" where
  "hkdf_blocks ds outlen = (outlen + ds - 1) div ds"

definition hkdf_expand_spec :: "ptls_hash_algorithm \<Rightarrow> nat \<Rightarrow> bytes \<Rightarrow> bytes \<Rightarrow> bytes" where
  "hkdf_expand_spec algo outlen prk info =
     take outlen (concat (map (hkdf_T algo prk info) [1..<Suc (hkdf_blocks (hash_digest_size algo) outlen)]))"

lemma hmac_spec_length: "hash_ok algo \<Longrightarrow> length (hmac_spec algo key text) = hash_digest_size algo"
  by (simp add: hash_ok_def hmac_spec_def)

lemma hkdf_T_length: "hash_ok algo \<Longrightarrow> length (hkdf_T algo prk info (Suc n)) = hash_digest_size algo"
  by (simp add: hmac_spec_length)

lemma hkdf_extract_spec:
  "ptls_hkdf_extract algo salt ikm =
     (if hash_can_create algo
      then Inr (hmac_spec algo (if salt = [] then take (hash_digest_size algo) zeroes_of_max_digest_size
                                else salt) ikm)
      else Inl PTLS_ERROR_NO_MEMORY)"
proof (cases "ptls_hmac_create algo (if salt = [] then take (hash_digest_size algo) zeroes_of_max_digest_size
    else salt)")
  case None
  then have "\<not> hash_can_create algo"
    using hmac_create_None by blast
  then show ?thesis
    by (simp add: ptls_hkdf_extract_def Let_def ptls_hmac_create_def hash_create_def)
next
  case (Some h)
  then have "hash_can_create algo"
    using hmac_create_None [of algo] by (metis option.distinct(1))
  then show ?thesis
    using hmac_final_rel(1) [OF hmac_update_rel [OF hmac_create_rel [OF Some]]] Some
    by (simp add: ptls_hkdf_extract_def Let_def)
qed

text \<open>A round turns \<open>T(i)\<close> into \<open>T(i + 1)\<close> and leaves a freshly keyed context.\<close>

lemma hkdf_round_spec:
  assumes "hash_can_create algo"
    and "case hmac of None \<Rightarrow> i = 0 | Some h \<Rightarrow> hmac_rel algo prk [] h"
  shows "\<exists>h'. hkdf_expand_round algo prk info i hmac (hkdf_T algo prk info i)
      = Inr (hkdf_T algo prk info (Suc i), Some h') \<and> hmac_rel algo prk [] h'"
proof -
  obtain h where h: "hmac_rel algo prk (hkdf_T algo prk info i) h" and
    run: "hkdf_expand_round algo prk info i hmac (hkdf_T algo prk info i)
      = Inr (hmac_final (hmac_update (hmac_update h info) [of_nat (i + 1)]) PTLS_HASH_FINAL_MODE_RESET)"
  proof (cases hmac)
    case None
    then obtain h where "ptls_hmac_create algo prk = Some h"
      using assms(1) hmac_create_None by fastforce
    then show ?thesis
      using that [of h] hmac_create_rel assms(2) None
      by (fastforce simp: hkdf_expand_round_def Let_def)
  next
    case (Some h0)
    then show ?thesis
      using that [of "hmac_update h0 (hkdf_T algo prk info i)"] assms(2) hmac_update_rel
      by (fastforce simp: hkdf_expand_round_def Let_def)
  qed
  have "hmac_rel algo prk (hkdf_T algo prk info i @ info @ [of_nat (Suc i)])
      (hmac_update (hmac_update h info) [of_nat (i + 1)])"
    using hmac_update_rel [OF hmac_update_rel [OF h]] by simp
  from hmac_final_rel [OF this] run show ?thesis
    by (metis hkdf_T.simps(2) prod.collapse)
qed

lemma concat_T_Suc:
  "concat (map f [1..<Suc (Suc i)]) = concat (map f [1..<Suc i]) @ f (Suc i)"
  by simp

lemma length_concat_T:
  "hash_ok algo \<Longrightarrow> length (concat (map (hkdf_T algo prk info) [1..<Suc i])) = i * hash_digest_size algo"
proof (induction i)
  case (Suc i)
  then show ?case
    unfolding concat_T_Suc by (simp add: hkdf_T_length del: hkdf_T.simps(2))
qed simp

lemma hkdf_loop_spec:
  assumes ok: "hash_ok algo" "hash_can_create algo"
    and rel: "case hmac of None \<Rightarrow> i = 0 | Some h \<Rightarrow> hmac_rel algo prk [] h"
    and out: "outp = take outlen (concat (map (hkdf_T algo prk info) [1..<Suc i]))"
  shows "\<exists>n \<ge> i. outlen \<le> n * hash_digest_size algo \<and>
     hkdf_expand_loop algo prk info outlen i hmac (hkdf_T algo prk info i) outp =
     Inr (take outlen (concat (map (hkdf_T algo prk info) [1..<Suc n])))"
  using rel out
proof (induction "outlen - i * hash_digest_size algo" arbitrary: i hmac outp rule: less_induct)
  case less
  let ?T = "hkdf_T algo prk info" and ?ds = "hash_digest_size algo"
  show ?case
  proof (cases "i * ?ds < outlen")
    case False
    then show ?thesis
      using less.prems by (intro exI [of _ i]) (simp add: hkdf_expand_loop.simps)
  next
    case True
    obtain h' where r: "hkdf_expand_round algo prk info i hmac (?T i) = Inr (?T (Suc i), Some h')"
      and h': "hmac_rel algo prk [] h'"
      using hkdf_round_spec [OF ok(2) less.prems(1)] by blast
    have pos: "0 < ?ds" using ok(1) by (simp add: hash_ok_def)
    let ?out = "outp @ take (min (i * ?ds + ?ds) outlen - i * ?ds) (?T (Suc i))"
    have out: "?out = take outlen (concat (map ?T [1..<Suc (Suc i)]))"
      unfolding concat_T_Suc take_append length_concat_T [OF ok(1)]
      using True less.prems(2) hkdf_T_length [OF ok(1), of prk info i]
      by (simp add: min_def take_all del: hkdf_T.simps)
    have "\<exists>n \<ge> Suc i. outlen \<le> n * ?ds \<and>
      hkdf_expand_loop algo prk info outlen (Suc i) (Some h') (?T (Suc i)) ?out =
      Inr (take outlen (concat (map ?T [1..<Suc n])))"
      using less.hyps [of "Suc i" "Some h'" ?out] True pos h' out by fastforce
    moreover have "hkdf_expand_loop algo prk info outlen i hmac (?T i) outp =
      hkdf_expand_loop algo prk info outlen (Suc i) (Some h') (?T (Suc i)) ?out"
      using True pos r by (subst hkdf_expand_loop.simps) (simp add: Let_def del: hkdf_T.simps)
    ultimately show ?thesis
      using Suc_leD by metis
  qed
qed

lemma take_T_enough:
  assumes "hash_ok algo" "outlen \<le> m * hash_digest_size algo" "m \<le> n"
  shows "take outlen (concat (map (hkdf_T algo prk info) [1..<Suc n]))
    = take outlen (concat (map (hkdf_T algo prk info) [1..<Suc m]))"
proof -
  have "[1..<Suc n] = [1..<Suc m] @ [Suc m..<Suc n]"
    using assms(3) upt_add_eq_append [of 1 "Suc m" "n - m"] by simp
  then show ?thesis
    using assms(2) length_concat_T [OF assms(1), of prk info m] by (simp del: upt_Suc)
qed

lemma hkdf_blocks_enough: "0 < ds \<Longrightarrow> outlen \<le> hkdf_blocks ds outlen * ds"
proof -
  assume "0 < ds"
  moreover have "(outlen + ds - 1) mod ds < ds"
    using \<open>0 < ds\<close> by simp
  ultimately show ?thesis
    using div_mult_mod_eq [of "outlen + ds - 1" ds] unfolding hkdf_blocks_def by linarith
qed

lemma hkdf_expand_eq_spec:
  assumes "hash_ok algo" "hash_can_create algo"
  shows "ptls_hkdf_expand algo outlen prk info = Inr (hkdf_expand_spec algo outlen prk info)"
proof -
  let ?ds = "hash_digest_size algo" and ?T = "hkdf_T algo prk info"
  obtain n where n: "outlen \<le> n * ?ds" and
    run: "ptls_hkdf_expand algo outlen prk info = Inr (take outlen (concat (map ?T [1..<Suc n])))"
    using hkdf_loop_spec [OF assms, where hmac = None and i = 0 and outp = "[]" and outlen = outlen
      and prk = prk and info = info]
    by (auto simp: ptls_hkdf_expand_def simp del: upt_Suc)
  have b: "outlen \<le> hkdf_blocks ?ds outlen * ?ds"
    using assms(1) by (intro hkdf_blocks_enough) (simp add: hash_ok_def)
  show ?thesis
    using take_T_enough [OF assms(1) n, of "max n (hkdf_blocks ?ds outlen)" prk info]
      take_T_enough [OF assms(1) b, of "max n (hkdf_blocks ?ds outlen)" prk info]
    unfolding run hkdf_expand_spec_def by simp
qed

lemma hkdf_expand_spec_length:
  assumes "hash_ok algo"
  shows "length (hkdf_expand_spec algo outlen prk info) = outlen"
  using hkdf_blocks_enough [of "hash_digest_size algo" outlen] assms
  unfolding hkdf_expand_spec_def length_take length_concat_T [OF assms] by (simp add: hash_ok_def)

lemma hkdf_expand_no_memory:
  "\<not> hash_can_create algo \<Longrightarrow> 0 < outlen \<Longrightarrow> 0 < hash_digest_size algo \<Longrightarrow>
     ptls_hkdf_expand algo outlen prk info = Inl PTLS_ERROR_NO_MEMORY"
  by (simp add: ptls_hkdf_expand_def hkdf_expand_loop.simps hkdf_expand_round_def
      ptls_hmac_create_def hash_create_def)

text \<open>\<open>HKDF-Expand-Label\<close> of RFC 8446: the structure that is expanded.\<close>

definition hkdf_label_spec :: "nat \<Rightarrow> string \<Rightarrow> bytes \<Rightarrow> string option \<Rightarrow> bytes" where
  "hkdf_label_spec outlen label hash_value label_prefix =
     enc16 (of_nat outlen)
     @ enc_block 1 (ascii (case label_prefix of None \<Rightarrow> ''tls13 '' | Some p \<Rightarrow> p) @ ascii label)
     @ enc_block 1 hash_value"

lemma buf_ok_init: "n \<le> SIZE_MAX \<Longrightarrow> buf_ok (ptls_buffer_init a n tx)"
  by (simp add: buf_ok_def ptls_buffer_init_def)

lemma run_pusher_pushes:
  assumes "pushes M f bs" "n \<le> SIZE_MAX"
  shows "run_pusher n f = Inr bs \<or> run_pusher n f = Inl PTLS_ERROR_NO_MEMORY"
    and "alloc_ok M \<Longrightarrow> length bs + 8 \<le> SIZE_MAX \<Longrightarrow> run_pusher n f = Inr bs"
proof -
  obtain r b' where f: "f (ptls_buffer_init 1 n True) = (r, b')" by fastforce
  note D = pushesD [OF assms(1) buf_ok_init [OF assms(2)] f]
  show "run_pusher n f = Inr bs \<or> run_pusher n f = Inl PTLS_ERROR_NO_MEMORY"
    using D(2) f by (auto simp: run_pusher_def ptls_buffer_init_def push_failure_def)
  show "alloc_ok M \<Longrightarrow> length bs + 8 \<le> SIZE_MAX \<Longrightarrow> run_pusher n f = Inr bs"
    using D(2,3) f
    by (auto simp: run_pusher_def ptls_buffer_init_def push_failure_def push_ready_def)
qed

lemma pushes_hkdf_label:
  assumes "length (ascii (case label_prefix of None \<Rightarrow> ''tls13 '' | Some p \<Rightarrow> p) @ ascii label) < 256"
    "length hash_value < 256"
  shows "pushes M (push_hkdf_label M outlen label hash_value label_prefix)
    (hkdf_label_spec outlen label hash_value label_prefix)"
  unfolding push_hkdf_label_def hkdf_label_spec_def Let_def
  using assms by (intro push_intros)

lemma expand_label_spec:
  assumes "hash_ok algo" "hash_can_create algo" "alloc_ok M"
    and lens: "length (ascii (case label_prefix of None \<Rightarrow> ''tls13 '' | Some p \<Rightarrow> p) @ ascii label) < 256"
    "length hash_value < 256"
  shows "ptls_hkdf_expand_label M algo outlen secret label hash_value label_prefix
    = Inr (hkdf_expand_spec algo outlen secret (hkdf_label_spec outlen label hash_value label_prefix))"
proof -
  have "run_pusher 80 (push_hkdf_label M outlen label hash_value label_prefix)
      = Inr (hkdf_label_spec outlen label hash_value label_prefix)"
    using lens by (intro run_pusher_pushes(2) [OF pushes_hkdf_label] assms) (auto simp: hkdf_label_spec_def)
  then show ?thesis
    using assms by (simp add: ptls_hkdf_expand_label_def hkdf_expand_eq_spec)
qed

section \<open>The TLS 1.2 PRF computes P\_hash of RFC 5246\<close>

text \<open>\<open>A(0) = label + seed\<close>, \<open>A(i + 1) = HMAC(secret, A(i))\<close>.\<close>

primrec phash_A :: "ptls_hash_algorithm \<Rightarrow> bytes \<Rightarrow> bytes \<Rightarrow> nat \<Rightarrow> bytes" where
  "phash_A algo secret seed 0 = seed"
| "phash_A algo secret seed (Suc n) = hmac_spec algo secret (phash_A algo secret seed n)"

definition phash_chunk :: "ptls_hash_algorithm \<Rightarrow> bytes \<Rightarrow> bytes \<Rightarrow> nat \<Rightarrow> bytes" where
  "phash_chunk algo secret seed i = hmac_spec algo secret (phash_A algo secret seed i @ seed)"

definition label_seed :: "string option \<Rightarrow> bytes \<Rightarrow> bytes" where
  "label_seed label seed = (case label of None \<Rightarrow> [] | Some l \<Rightarrow> ascii l) @ seed"

definition phash_spec :: "ptls_hash_algorithm \<Rightarrow> nat \<Rightarrow> bytes \<Rightarrow> bytes \<Rightarrow> bytes" where
  "phash_spec algo outlen secret seed =
     take outlen (concat (map (phash_chunk algo secret seed) [1..<Suc (hkdf_blocks (hash_digest_size algo) outlen)]))"

lemma length_concat_chunks:
  "hash_ok algo \<Longrightarrow> length (concat (map (phash_chunk algo secret seed) [a..<b])) = (b - a) * hash_digest_size algo"
  by (induction b) (auto simp: phash_chunk_def hmac_spec_length Suc_diff_le add.commute)

lemma hmac_update_label_rel:
  "hmac_rel algo key text h \<Longrightarrow>
     hmac_rel algo key (text @ label_seed label seed) (hmac_update (hmac_update_label h label) seed)"
  by (cases label)
    (auto simp: hmac_update_label_def label_seed_def dest: hmac_update_rel [of _ _ _ _ seed]
      intro: hmac_update_rel [of _ _ "_ @ _" _ seed, simplified] hmac_update_rel)

lemma phash_loop_spec:
  assumes ok: "hash_ok algo" and rel: "hmac_rel algo secret [] h"
    and out: "outp = concat (map (phash_chunk algo secret (label_seed label seed)) [1..<Suc i])"
    and off: "i * hash_digest_size algo < outlen"
  shows "\<exists>n > i. outlen \<le> n * hash_digest_size algo \<and>
    tls12_phash_loop algo outlen label seed h (phash_A algo secret (label_seed label seed) (Suc i))
      (i * hash_digest_size algo) outp
    = take outlen (concat (map (phash_chunk algo secret (label_seed label seed)) [1..<Suc n]))"
  using rel out off
proof (induction "outlen - i * hash_digest_size algo" arbitrary: i h outp rule: less_induct)
  case less
  let ?ds = "hash_digest_size algo" and ?s = "label_seed label seed"
  let ?A = "phash_A algo secret ?s" and ?C = "phash_chunk algo secret ?s"
  let ?h1 = "hmac_update (hmac_update_label (hmac_update h (?A (Suc i))) label) seed"
  have pos: "0 < ?ds" using ok by (simp add: hash_ok_def)
  have len: "length outp = i * ?ds"
    using less.prems(2) length_concat_chunks [OF ok, of secret ?s 1 "Suc i"] by simp
  have h1: "hmac_rel algo secret (?A (Suc i) @ ?s) ?h1"
    using hmac_update_label_rel [OF hmac_update_rel [OF less.prems(1)]] by simp
  have step: "outp @ ?C (Suc i) = concat (map ?C [1..<Suc (Suc i)])"
    using less.prems(2) by simp
  show ?case
  proof (cases "outlen - i * ?ds \<le> ?ds")
    case True
    have "tls12_phash_loop algo outlen label seed h (?A (Suc i)) (i * ?ds) outp
        = outp @ take (outlen - i * ?ds) (?C (Suc i))"
      using True hmac_final_rel(1) [OF h1]
      by (subst tls12_phash_loop.simps) (simp add: phash_chunk_def Let_def del: phash_A.simps)
    also have "\<dots> = take outlen (outp @ ?C (Suc i))"
      using less.prems(3) len by simp
    finally show ?thesis
      using True less.prems(3) step by (intro exI [of _ "Suc i"]) (auto simp del: upt_Suc)
  next
    case False
    note R1 = hmac_final_reset_rel [OF h1]
    note R2 = hmac_final_reset_rel [OF hmac_update_rel [OF R1(2), of "?A (Suc i)"]]
    let ?h2 = "snd (hmac_final_reset ?h1)"
    let ?h3 = "snd (hmac_final_reset (hmac_update ?h2 (?A (Suc i))))"
    have run: "tls12_phash_loop algo outlen label seed h (?A (Suc i)) (i * ?ds) outp
      = tls12_phash_loop algo outlen label seed ?h3 (?A (Suc (Suc i))) (Suc i * ?ds) (outp @ ?C (Suc i))"
      using False pos R1(1) R2(1)
      by (subst tls12_phash_loop.simps)
        (simp add: phash_chunk_def Let_def case_prod_unfold add.commute)
    have "\<exists>n > Suc i. outlen \<le> n * ?ds \<and>
      tls12_phash_loop algo outlen label seed ?h3 (?A (Suc (Suc i))) (Suc i * ?ds) (outp @ ?C (Suc i))
      = take outlen (concat (map ?C [1..<Suc n]))"
      using False pos R2(2) by (intro less.hyps) (auto simp: step simp del: upt_Suc)
    then show ?thesis
      unfolding run using Suc_lessD by blast
  qed
qed

lemma take_chunks_enough:
  assumes "hash_ok algo" "outlen \<le> m * hash_digest_size algo" "m \<le> n"
  shows "take outlen (concat (map (phash_chunk algo secret s) [1..<Suc n]))
    = take outlen (concat (map (phash_chunk algo secret s) [1..<Suc m]))"
proof -
  have "[1..<Suc n] = [1..<Suc m] @ [Suc m..<Suc n]"
    using assms(3) upt_add_eq_append [of 1 "Suc m" "n - m"] by simp
  then show ?thesis
    using assms(2) length_concat_chunks [OF assms(1), of secret s 1 "Suc m"] by (simp del: upt_Suc)
qed

lemma tls12_phash_eq_spec:
  assumes "hash_ok algo" "hash_can_create algo" "0 < outlen"
  shows "ptls_tls12_phash algo outlen secret label seed = Inr (phash_spec algo outlen secret (label_seed label seed))"
proof -
  let ?ds = "hash_digest_size algo" and ?s = "label_seed label seed"
  let ?C = "phash_chunk algo secret ?s"
  obtain h where h: "ptls_hmac_create algo secret = Some h"
    using assms(2) hmac_create_None by fastforce
  note R = hmac_final_reset_rel [OF hmac_update_label_rel [OF hmac_create_rel [OF h], of label seed]]
  obtain n where n: "outlen \<le> n * ?ds" and
    run: "ptls_tls12_phash algo outlen secret label seed = Inr (take outlen (concat (map ?C [1..<Suc n])))"
    using phash_loop_spec [OF assms(1) R(2), of "[]" label seed 0 outlen] h R(1) assms(3)
    by (auto simp: ptls_tls12_phash_def case_prod_unfold)
  have b: "outlen \<le> hkdf_blocks ?ds outlen * ?ds"
    using assms(1) by (intro hkdf_blocks_enough) (simp add: hash_ok_def)
  show ?thesis
    using take_chunks_enough [OF assms(1) n, of "max n (hkdf_blocks ?ds outlen)" secret ?s]
      take_chunks_enough [OF assms(1) b, of "max n (hkdf_blocks ?ds outlen)" secret ?s]
    unfolding run phash_spec_def by simp
qed

end
