(* ===== verification/Aead.thy ===== *)
theory Aead
  imports Hash
begin

text \<open>
  AEAD contexts, traffic keys and the protection of records in \<^verbatim>\<open>lib/picotls.c\<close>: nonce
  construction, the TLS 1.3 and TLS 1.2 additional data, splitting data into encrypted
  records, in-place encryption of a handshake record, and the record message emitter.
  An AEAD algorithm comes from a backend; its two functions are parameters, and \<open>aead_ok\<close>
  says what a backend promises of them.
\<close>

unbundle bit_operations_syntax

section \<open>AEAD contexts\<close>

record ptls_aead_algorithm =
  aead_name :: string
  aead_key_size :: nat
  aead_iv_size :: nat
  aead_tag_size :: nat
  aead_tls12_fixed_iv_size :: nat
  aead_tls12_record_iv_size :: nat
  aead_align_bits :: nat
  aead_seal :: "bytes \<Rightarrow> bytes \<Rightarrow> bytes \<Rightarrow> bytes \<Rightarrow> bytes"
  aead_open :: "bytes \<Rightarrow> bytes \<Rightarrow> bytes \<Rightarrow> bytes \<Rightarrow> bytes option"
  aead_can_create :: bool

record ptls_aead_context =
  actx_algo :: ptls_aead_algorithm
  actx_is_enc :: bool
  actx_key :: bytes
  actx_iv :: bytes

text \<open>The first \<open>iv_size - 8\<close> octets are copied, the last eight combined with the sequence
  number, most significant octet first.\<close>

definition ptls_aead__build_iv :: "ptls_aead_algorithm \<Rightarrow> bytes \<Rightarrow> 64 word \<Rightarrow> bytes" where
  "ptls_aead__build_iv algo static_iv seq =
     (let n = aead_iv_size algo - 8 in
      take n static_iv
      @ map (\<lambda>(s, i). s XOR ucast (drop_bit i seq))
          (zip (take 8 (drop n static_iv)) [56, 48, 40, 32, 24, 16, 8, 0]))"

definition ptls_aead_new_direct ::
  "ptls_aead_algorithm \<Rightarrow> bool \<Rightarrow> bytes \<Rightarrow> bytes \<Rightarrow> ptls_aead_context option" where
  "ptls_aead_new_direct aead is_enc key iv =
     (if aead_can_create aead
      then Some \<lparr>actx_algo = aead, actx_is_enc = is_enc, actx_key = key, actx_iv = iv\<rparr>
      else None)"

definition ptls_aead_get_iv :: "ptls_aead_context \<Rightarrow> bytes" where
  "ptls_aead_get_iv ctx = actx_iv ctx"

definition ptls_aead_set_iv :: "ptls_aead_context \<Rightarrow> bytes \<Rightarrow> ptls_aead_context" where
  "ptls_aead_set_iv ctx iv = ctx\<lparr>actx_iv := iv\<rparr>"

definition ptls_aead_xor_iv :: "ptls_aead_context \<Rightarrow> bytes \<Rightarrow> ptls_aead_context" where
  "ptls_aead_xor_iv ctx bs =
     (let iv = ptls_aead_get_iv ctx in
      ptls_aead_set_iv ctx
        (map (\<lambda>(i, b). i XOR b) (zip (take (length bs) iv) bs) @ drop (length bs) iv))"

definition ptls_aead_encrypt :: "ptls_aead_context \<Rightarrow> bytes \<Rightarrow> 64 word \<Rightarrow> bytes \<Rightarrow> bytes" where
  "ptls_aead_encrypt ctx input seq aad =
     aead_seal (actx_algo ctx) (actx_key ctx)
       (ptls_aead__build_iv (actx_algo ctx) (actx_iv ctx) seq) aad input"

definition ptls_aead_encrypt_v :: "ptls_aead_context \<Rightarrow> bytes list \<Rightarrow> 64 word \<Rightarrow> bytes \<Rightarrow> bytes" where
  "ptls_aead_encrypt_v ctx input seq aad = ptls_aead_encrypt ctx (concat input) seq aad"

text \<open>\<open>None\<close> is the return value \<open>SIZE_MAX\<close>.\<close>

definition ptls_aead_decrypt :: "ptls_aead_context \<Rightarrow> bytes \<Rightarrow> 64 word \<Rightarrow> bytes \<Rightarrow> bytes option" where
  "ptls_aead_decrypt ctx input seq aad =
     aead_open (actx_algo ctx) (actx_key ctx)
       (ptls_aead__build_iv (actx_algo ctx) (actx_iv ctx) seq) aad input"

text \<open>The constant-time comparison.\<close>

definition mem_equal :: "bytes \<Rightarrow> bytes \<Rightarrow> nat \<Rightarrow> bool" where
  "mem_equal x y len = (foldl (\<lambda>t (a, b). t OR (a XOR b)) (0 :: byte) (zip (take len x) (take len y)) = 0)"

section \<open>Traffic keys\<close>

definition get_traffic_key ::
  "allocator \<Rightarrow> ptls_hash_algorithm \<Rightarrow> nat \<Rightarrow> bool \<Rightarrow> bytes \<Rightarrow> bytes \<Rightarrow> string option \<Rightarrow> bytes res" where
  "get_traffic_key M algo key_size is_iv secret hash_value label_prefix =
     ptls_hkdf_expand_label M algo key_size (take (hash_digest_size algo) secret)
       (if is_iv then ''iv'' else ''key'') hash_value label_prefix"

definition get_traffic_keys ::
  "allocator \<Rightarrow> ptls_aead_algorithm \<Rightarrow> ptls_hash_algorithm \<Rightarrow> bytes \<Rightarrow> bytes \<Rightarrow> string option
     \<Rightarrow> (bytes \<times> bytes) res" where
  "get_traffic_keys M aead hash secret hash_value label_prefix =
     res_bind (get_traffic_key M hash (aead_key_size aead) False secret hash_value label_prefix) (\<lambda>key.
     res_bind (get_traffic_key M hash (aead_iv_size aead) True secret hash_value label_prefix) (\<lambda>iv.
       Inr (key, iv)))"

definition new_aead ::
  "allocator \<Rightarrow> ptls_aead_algorithm \<Rightarrow> ptls_hash_algorithm \<Rightarrow> bool \<Rightarrow> bytes \<Rightarrow> bytes \<Rightarrow> string option
     \<Rightarrow> ptls_aead_context option" where
  "new_aead M aead hash is_enc secret hash_value label_prefix =
     (case get_traffic_keys M aead hash secret hash_value label_prefix of
        Inl _ \<Rightarrow> None
      | Inr (key, iv) \<Rightarrow> ptls_aead_new_direct aead is_enc key iv)"

definition ptls_aead_new ::
  "allocator \<Rightarrow> ptls_aead_algorithm \<Rightarrow> ptls_hash_algorithm \<Rightarrow> bool \<Rightarrow> bytes \<Rightarrow> string option
     \<Rightarrow> ptls_aead_context option" where
  "ptls_aead_new M aead hash is_enc secret label_prefix =
     new_aead M aead hash is_enc secret [] label_prefix"

section \<open>Protecting records\<close>

abbreviation PTLS_MAX_PLAINTEXT_RECORD_SIZE :: nat where "PTLS_MAX_PLAINTEXT_RECORD_SIZE \<equiv> 16384"
abbreviation PTLS_MAX_ENCRYPTED_RECORD_SIZE :: nat where "PTLS_MAX_ENCRYPTED_RECORD_SIZE \<equiv> 16640"
abbreviation PTLS_CONTENT_TYPE_CHANGE_CIPHER_SPEC :: byte where
  "PTLS_CONTENT_TYPE_CHANGE_CIPHER_SPEC \<equiv> 20"
abbreviation PTLS_CONTENT_TYPE_ALERT :: byte where "PTLS_CONTENT_TYPE_ALERT \<equiv> 21"
abbreviation PTLS_CONTENT_TYPE_HANDSHAKE :: byte where "PTLS_CONTENT_TYPE_HANDSHAKE \<equiv> 22"
abbreviation PTLS_CONTENT_TYPE_APPDATA :: byte where "PTLS_CONTENT_TYPE_APPDATA \<equiv> 23"
abbreviation PTLS_RECORD_VERSION_MAJOR :: byte where "PTLS_RECORD_VERSION_MAJOR \<equiv> 3"
abbreviation PTLS_RECORD_VERSION_MINOR :: byte where "PTLS_RECORD_VERSION_MINOR \<equiv> 3"

record st_ptls_traffic_protection =
  tp_secret :: bytes
  tp_epoch :: nat
  tp_aead :: "ptls_aead_context option"
  tp_seq :: "64 word"
  tp_tls12 :: bool
  tp_tls12_enc_record_iv :: "64 word"

definition build_aad :: "nat \<Rightarrow> bytes" where
  "build_aad reclen =
     [PTLS_CONTENT_TYPE_APPDATA, PTLS_RECORD_VERSION_MAJOR, PTLS_RECORD_VERSION_MINOR,
      of_nat (reclen div 256), of_nat reclen]"

definition build_tls12_aad :: "byte \<Rightarrow> 64 word \<Rightarrow> nat \<Rightarrow> bytes" where
  "build_tls12_aad type seq len =
     map (\<lambda>i. ucast (drop_bit (56 - i * 8) seq)) [0..<8]
     @ [type, PTLS_RECORD_VERSION_MAJOR, PTLS_RECORD_VERSION_MINOR,
        ucast (drop_bit 8 (of_nat len :: 16 word)), ucast (of_nat len :: 16 word)]"

text \<open>The two functions below take the AEAD context of \<open>tp_aead\<close>, which the source
  dereferences.\<close>

definition aead_encrypt ::
  "ptls_aead_context \<Rightarrow> st_ptls_traffic_protection \<Rightarrow> bytes \<Rightarrow> byte
     \<Rightarrow> bytes \<times> st_ptls_traffic_protection" where
  "aead_encrypt aead tp input content_type =
     (let aad = build_aad (length input + 1 + aead_tag_size (actx_algo aead)) in
      (ptls_aead_encrypt_v aead [input, [content_type]] (tp_seq tp) aad, tp\<lparr>tp_seq := tp_seq tp + 1\<rparr>))"

definition aead_decrypt ::
  "ptls_aead_context \<Rightarrow> st_ptls_traffic_protection \<Rightarrow> bytes \<Rightarrow> (bytes \<times> st_ptls_traffic_protection) res" where
  "aead_decrypt aead tp input =
     (case ptls_aead_decrypt aead input (tp_seq tp) (build_aad (length input)) of
        None \<Rightarrow> Inl PTLS_ALERT_BAD_RECORD_MAC
      | Some text \<Rightarrow> Inr (text, tp\<lparr>tp_seq := tp_seq tp + 1\<rparr>))"

text \<open>The TLS 1.2 body of a record: an explicit record IV for ciphers that have one, then
  the sealed fragment.\<close>

definition tls12_encrypt_fragment ::
  "ptls_aead_context \<Rightarrow> st_ptls_traffic_protection \<Rightarrow> bytes \<Rightarrow> byte
     \<Rightarrow> bytes \<times> st_ptls_traffic_protection" where
  "tls12_encrypt_fragment aead tp chunk type =
     (let explicit_iv = aead_tls12_record_iv_size (actx_algo aead) \<noteq> 0;
          nonce = (if explicit_iv then tp_tls12_enc_record_iv tp else tp_seq tp);
          tp1 = (if explicit_iv then tp\<lparr>tp_tls12_enc_record_iv := tp_tls12_enc_record_iv tp + 1\<rparr> else tp);
          aad = build_tls12_aad type (tp_seq tp1) (length chunk);
          ct = ptls_aead_encrypt aead chunk nonce aad
      in ((if explicit_iv then encode64 nonce else []) @ ct, tp1\<lparr>tp_seq := tp_seq tp1 + 1\<rparr>))"

definition buffer_push_record :: "allocator \<Rightarrow> byte \<Rightarrow> pusher \<Rightarrow> pusher" where
  "buffer_push_record M type block =
     push_then (ptls_buffer__do_pushv M [type, PTLS_RECORD_VERSION_MAJOR, PTLS_RECORD_VERSION_MINOR])
       (ptls_buffer_push_block M 2 block)"

text \<open>The data a record carries on the wire, its outer type, and how much the source
  reserves for it.\<close>

definition protect_chunk ::
  "ptls_aead_context \<Rightarrow> st_ptls_traffic_protection \<Rightarrow> byte \<Rightarrow> bytes
     \<Rightarrow> byte \<times> nat \<times> bytes \<times> st_ptls_traffic_protection" where
  "protect_chunk aead tp type chunk =
     (let algo = actx_algo aead in
      if tp_tls12 tp
      then case tls12_encrypt_fragment aead tp chunk type of (data, tp') \<Rightarrow>
        (type, aead_tls12_record_iv_size algo + length chunk + aead_tag_size algo, data, tp')
      else case aead_encrypt aead tp chunk type of (data, tp') \<Rightarrow>
        (PTLS_CONTENT_TYPE_APPDATA, length chunk + aead_tag_size algo + 1, data, tp'))"

text \<open>The encryption happens inside the block of the record, after the reservation: when
  the pushes before it fail the protection state is untouched.\<close>

function buffer_push_encrypted_records ::
  "allocator \<Rightarrow> byte \<Rightarrow> bytes \<Rightarrow> ptls_aead_context \<Rightarrow> st_ptls_traffic_protection \<Rightarrow> ptls_buffer
     \<Rightarrow> int \<times> st_ptls_traffic_protection \<times> ptls_buffer" where
  "buffer_push_encrypted_records M type src aead tp b =
     (if src = [] then (0, tp, b)
      else let chunk = take PTLS_MAX_PLAINTEXT_RECORD_SIZE src in
        case protect_chunk aead tp type chunk of (outer, room, data, tp') \<Rightarrow>
        case buffer_push_record M outer
               (reserve_and_write M room (aead_align_bits (actx_algo aead)) data) b of
          (ret, b') \<Rightarrow>
            if ret \<noteq> 0 then (ret, if ret = PTLS_ERROR_BLOCK_OVERFLOW then tp' else tp, b')
            else buffer_push_encrypted_records M type (drop PTLS_MAX_PLAINTEXT_RECORD_SIZE src) aead tp' b')"
  by pat_completeness auto
termination
  by (relation "measure (\<lambda>(M, type, src, aead, tp, b). length src)") auto

declare buffer_push_encrypted_records.simps [simp del]

text \<open>A plain \<open>malloc\<close> is a request of the same allocator.\<close>

definition c_malloc :: "allocator \<Rightarrow> nat \<Rightarrow> bool" where
  "c_malloc M n = (M (ptls_buffer_init 1 0 True) n 0 \<noteq> None)"

definition buffer_encrypt_record ::
  "allocator \<Rightarrow> nat \<Rightarrow> ptls_aead_context \<Rightarrow> st_ptls_traffic_protection \<Rightarrow> ptls_buffer
     \<Rightarrow> int \<times> st_ptls_traffic_protection \<times> ptls_buffer" where
  "buffer_encrypt_record M rec_start aead tp b =
     (let bodylen = buf_off b - rec_start - 5;
          type = buf_data b ! rec_start;
          body = drop (rec_start + 5) (buf_data b) in
      if \<not> tp_tls12 tp \<and> bodylen \<le> PTLS_MAX_PLAINTEXT_RECORD_SIZE
      then let overhead = 1 + aead_tag_size (actx_algo aead) in
        case ptls_buffer_reserve_aligned M overhead (aead_align_bits (actx_algo aead)) True b of
          (ret, b') \<Rightarrow>
            if ret \<noteq> 0 then (ret, tp, b')
            else case aead_encrypt aead tp body type of (ct, tp') \<Rightarrow>
              let encrypted_len = length ct in
              (0, tp', b'\<lparr>buf_data := take rec_start (buf_data b)
                  @ [PTLS_CONTENT_TYPE_APPDATA, buf_data b ! (rec_start + 1), buf_data b ! (rec_start + 2),
                     of_nat (encrypted_len div 256), of_nat encrypted_len]
                  @ ct\<rparr>)
      else if \<not> c_malloc M bodylen then (PTLS_ERROR_NO_MEMORY, tp, b)
      else buffer_push_encrypted_records M type body aead tp
             (b\<lparr>buf_data := take rec_start (buf_data b)\<rparr>))"

section \<open>The record message emitter\<close>

text \<open>\<open>begin_record_message\<close> returns the start of the record it opened.\<close>

definition begin_record_message :: "allocator \<Rightarrow> ptls_buffer \<Rightarrow> int \<times> nat \<times> ptls_buffer" where
  "begin_record_message M b =
     (case ptls_buffer__do_pushv M
        [PTLS_CONTENT_TYPE_HANDSHAKE, PTLS_RECORD_VERSION_MAJOR, PTLS_RECORD_VERSION_MINOR, 0, 0] b of
        (ret, b') \<Rightarrow> (ret, buf_off b, b'))"

definition commit_record_message ::
  "allocator \<Rightarrow> nat \<Rightarrow> st_ptls_traffic_protection \<Rightarrow> ptls_buffer
     \<Rightarrow> int \<times> st_ptls_traffic_protection \<times> ptls_buffer" where
  "commit_record_message M rec_start tp b =
     (case tp_aead tp of
        Some aead \<Rightarrow> buffer_encrypt_record M rec_start aead tp b
      | None \<Rightarrow>
          let sz = buf_off b - rec_start - 5 in
          (0, tp, poke (rec_start + 3) [of_nat (sz div 256), of_nat sz] b))"

section \<open>What a backend promises\<close>

definition aead_ok :: "ptls_aead_algorithm \<Rightarrow> bool" where
  "aead_ok algo \<longleftrightarrow>
     (\<forall>k n a p. length (aead_seal algo k n a p) = length p + aead_tag_size algo)
     \<and> (\<forall>k n a p. aead_open algo k n a (aead_seal algo k n a p) = Some p)
     \<and> (\<forall>k n a c p. aead_open algo k n a c = Some p \<longrightarrow> length c = length p + aead_tag_size algo)
     \<and> 8 \<le> aead_iv_size algo \<and> aead_tag_size algo \<le> 255
     \<and> aead_tls12_record_iv_size algo \<in> {0, 8}"

lemma ptls_aead_encrypt_length:
  "aead_ok (actx_algo c) \<Longrightarrow> length (ptls_aead_encrypt c p n a) = length p + aead_tag_size (actx_algo c)"
  by (simp add: aead_ok_def ptls_aead_encrypt_def)

text \<open>Two contexts with the same algorithm, key and IV undo each other.\<close>

definition same_key :: "ptls_aead_context \<Rightarrow> ptls_aead_context \<Rightarrow> bool" where
  "same_key e d \<longleftrightarrow> actx_algo d = actx_algo e \<and> actx_key d = actx_key e \<and> actx_iv d = actx_iv e"

lemma ptls_aead_decrypt_encrypt:
  "aead_ok (actx_algo e) \<Longrightarrow> same_key e d \<Longrightarrow>
     ptls_aead_decrypt d (ptls_aead_encrypt e p n a) n a = Some p"
  by (simp add: aead_ok_def ptls_aead_encrypt_def ptls_aead_decrypt_def same_key_def)

section \<open>Nonces\<close>

lemma build_iv_alt:
  assumes "length static_iv = aead_iv_size algo" "8 \<le> aead_iv_size algo"
  shows "ptls_aead__build_iv algo static_iv seq =
    take (aead_iv_size algo - 8) static_iv
    @ map2 (XOR) (drop (aead_iv_size algo - 8) static_iv) (enc64 seq)"
proof -
  have e: "enc64 seq = map (\<lambda>i. ucast (drop_bit i seq)) [56, 48, 40, 32, 24, 16, 8, 0]"
    by (simp add: enc64_def)
  have "map2 (XOR) (drop (aead_iv_size algo - 8) static_iv) (enc64 seq)
      = map (\<lambda>(s, i). s XOR ucast (drop_bit i seq))
          (zip (drop (aead_iv_size algo - 8) static_iv) [56, 48, 40, 32, 24, 16, 8, 0])"
    by (simp only: e zip_map2 map_map o_def case_prod_unfold fst_conv snd_conv)
  then show ?thesis
    using assms by (simp add: ptls_aead__build_iv_def Let_def)
qed

lemma xor_cancel_left: "x XOR y = x XOR z \<longleftrightarrow> y = (z :: 'a :: len word)"
  by (metis xor.assoc xor.left_neutral xor_self_eq)

lemma map2_xor_cancel:
  "length xs = length (ys :: bytes) \<Longrightarrow> length ys = length zs \<Longrightarrow>
     map2 (XOR) xs ys = map2 (XOR) xs zs \<Longrightarrow> ys = zs"
proof (induction xs ys arbitrary: zs rule: list_induct2)
  case (Cons x xs y ys)
  then show ?case
    by (cases zs) (auto simp: xor_cancel_left)
qed simp

lemma build_iv_inj_aux:
  assumes "length static_iv = aead_iv_size algo" "8 \<le> aead_iv_size algo"
    and "ptls_aead__build_iv algo static_iv s = ptls_aead__build_iv algo static_iv t"
  shows "s = t"
proof -
  let ?iv = "drop (aead_iv_size algo - 8) static_iv"
  have "map2 (XOR) ?iv (enc64 s) = map2 (XOR) ?iv (enc64 t)"
    using assms(3) unfolding build_iv_alt [OF assms(1,2)] by (rule same_append_eq [THEN iffD1])
  then have "enc64 s = enc64 t"
    by (rule map2_xor_cancel [rotated 2]) (use assms(1,2) in simp_all)
  then have "be_nat (enc64 s) = be_nat (enc64 t)"
    by simp
  then show ?thesis
    by (simp add: word_unat_eq_iff)
qed

lemma build_iv_length:
  "length static_iv = aead_iv_size algo \<Longrightarrow> 8 \<le> aead_iv_size algo \<Longrightarrow>
     length (ptls_aead__build_iv algo static_iv seq) = aead_iv_size algo"
  by (simp add: build_iv_alt)

section \<open>Comparison\<close>

lemma or_fold_zero:
  "foldl (\<lambda>t (a, b). t OR (a XOR b)) (t :: byte) ps = 0 \<longleftrightarrow> t = 0 \<and> (\<forall>(a, b) \<in> set ps. a = b)"
proof (induction ps arbitrary: t)
  case (Cons p ps)
  have "(t OR (fst p XOR snd p) = 0) = (t = 0 \<and> fst p = snd p)"
    using xor_cancel_left [of "fst p" "snd p" "fst p"] by (auto simp: or_eq_0_iff)
  then show ?case
    using Cons by (auto simp: case_prod_unfold)
qed simp

lemma zip_all_eq: "length xs = length ys \<Longrightarrow> (\<forall>(a, b) \<in> set (zip xs ys). a = b) \<longleftrightarrow> xs = ys"
  by (induction xs ys rule: list_induct2) auto

lemma mem_equal_iff:
  assumes "len \<le> length x" "len \<le> length y"
  shows "mem_equal x y len \<longleftrightarrow> take len x = take len y"
  using assms unfolding mem_equal_def or_fold_zero by (subst zip_all_eq) simp_all

end
