(* ===== verification/Records.thy ===== *)
theory Records
  imports Aead
begin

text \<open>
  The receiving side of the record layer in \<^verbatim>\<open>lib/picotls.c\<close>: incremental record parsing
  (\<open>parse_record_header\<close>, \<open>parse_record\<close>), removal of the record protection for TLS 1.3 and
  TLS 1.2, and the reassembly of handshake messages from records
  (\<open>handle_handshake_record\<close>).  The sending side is in \<open>Aead\<close>; the locale \<open>protection\<close>
  states what a pair of protect and unprotect functions owe each other, and both versions of the
  protocol are interpretations of it.
\<close>

section \<open>Parsing records\<close>

record st_ptls_record =
  rec_type :: byte
  rec_version :: "16 word"
  rec_length :: nat
  rec_fragment :: "bytes option"

definition empty_record :: st_ptls_record where
  "empty_record = \<lparr>rec_type = 0, rec_version = 0, rec_length = 0, rec_fragment = None\<rparr>"

definition parse_record_header :: "bytes \<Rightarrow> int \<times> st_ptls_record" where
  "parse_record_header src =
     (let rec = \<lparr>rec_type = src ! 0, rec_version = ntoh16 (drop 1 src),
                 rec_length = unat (ntoh16 (drop 3 src)), rec_fragment = None\<rparr> in
      if rec_length rec >
           (if rec_type rec = PTLS_CONTENT_TYPE_APPDATA then PTLS_MAX_ENCRYPTED_RECORD_SIZE
            else PTLS_MAX_PLAINTEXT_RECORD_SIZE)
      then (PTLS_ALERT_DECODE_ERROR, rec) else (0, rec))"

definition record_types :: "byte list" where
  "record_types = [PTLS_CONTENT_TYPE_CHANGE_CIPHER_SPEC, PTLS_CONTENT_TYPE_ALERT,
     PTLS_CONTENT_TYPE_HANDSHAKE, PTLS_CONTENT_TYPE_APPDATA]"

text \<open>The slow path: \<open>rb\<close> is the initialised receive buffer.  The last component of the result
  is the new value of \<open>*len\<close>, the number of octets taken from \<open>src\<close>.\<close>

definition parse_record_slow ::
  "allocator \<Rightarrow> ptls_buffer \<Rightarrow> bytes \<Rightarrow> int \<times> st_ptls_record \<times> ptls_buffer \<times> nat" where
  "parse_record_slow M rb src =
     (let missing = 5 - buf_off rb;
          rb1 = rb\<lparr>buf_data := buf_data rb @ take missing src\<rparr>;
          src1 = drop missing src in
      if buf_off rb1 < 5 then (PTLS_ERROR_IN_PROGRESS, empty_record, rb1, length src)
      else case parse_record_header (buf_data rb1) of (ret, rec) \<Rightarrow>
        if ret \<noteq> 0 then (ret, rec, rb1, length src)
        else let addlen = rec_length rec + 5 - buf_off rb1 in
          case (if addlen \<noteq> 0 then ptls_buffer_reserve M addlen False rb1 else (0, rb1)) of
            (ret, rb2) \<Rightarrow>
              if ret \<noteq> 0 then (ret, rec, rb2, length src)
              else let rb3 = rb2\<lparr>buf_data := buf_data rb2 @ take addlen src1\<rparr>;
                       src2 = drop addlen src1;
                       consumed = length src - length src2 in
                if buf_off rb3 = rec_length rec + 5
                then (0, rec\<lparr>rec_fragment := Some (drop 5 (buf_data rb3))\<rparr>, rb3, consumed)
                else (PTLS_ERROR_IN_PROGRESS, rec, rb3, consumed))"

text \<open>The slow path with an empty receive buffer, which is set up first.\<close>

definition parse_record_start ::
  "allocator \<Rightarrow> bytes \<Rightarrow> int \<times> st_ptls_record \<times> ptls_buffer \<times> nat" where
  "parse_record_start M src =
     (case ptls_buffer_reserve M 5 False (ptls_buffer_init 2 0 False) of (ret, rb) \<Rightarrow>
        if ret \<noteq> 0 then (ret, empty_record, rb, length src) else parse_record_slow M rb src)"

definition parse_record ::
  "allocator \<Rightarrow> ptls_buffer \<Rightarrow> bytes \<Rightarrow> int \<times> st_ptls_record \<times> ptls_buffer \<times> nat" where
  "parse_record M recbuf src =
     (if buf_base recbuf = None
      then if src ! 0 \<notin> set record_types
        then (PTLS_ALERT_DECODE_ERROR, empty_record, recbuf, length src)
        else if length src \<ge> 5
        then case parse_record_header src of (ret, rec) \<Rightarrow>
          if ret \<noteq> 0 then (ret, rec, recbuf, length src)
          else if 5 + rec_length rec \<le> length src
          then (0, rec\<lparr>rec_fragment := Some (take (rec_length rec) (drop 5 src))\<rparr>, recbuf,
                rec_length rec + 5)
          else parse_record_start M src
        else parse_record_start M src
      else parse_record_slow M recbuf src)"

section \<open>Removing the protection\<close>

text \<open>The TLS 1.3 inner plaintext: strip the zero padding, then take the content type.\<close>

definition strip_padding :: "bytes \<Rightarrow> bytes" where
  "strip_padding text = rev (dropWhile (\<lambda>b. b = 0) (rev text))"

definition split_inner_plaintext :: "bytes \<Rightarrow> (byte \<times> bytes) res" where
  "split_inner_plaintext text =
     (let stripped = strip_padding text in
      if stripped = [] then Inl PTLS_ALERT_UNEXPECTED_MESSAGE
      else Inr (last stripped, butlast stripped))"

definition tls13_open_record ::
  "ptls_aead_context \<Rightarrow> st_ptls_traffic_protection \<Rightarrow> bytes
     \<Rightarrow> (byte \<times> bytes \<times> st_ptls_traffic_protection) res" where
  "tls13_open_record aead tp fragment =
     res_bind (aead_decrypt aead tp fragment) (\<lambda>(text, tp').
     res_bind (split_inner_plaintext text) (\<lambda>(type, body). Inr (type, body, tp')))"

definition tls12_open_record ::
  "ptls_aead_context \<Rightarrow> st_ptls_traffic_protection \<Rightarrow> byte \<Rightarrow> bytes
     \<Rightarrow> (bytes \<times> st_ptls_traffic_protection) res" where
  "tls12_open_record aead tp type fragment =
     res_bind (if aead_tls12_record_iv_size (actx_algo aead) \<noteq> 0 then ptls_decode64 fragment
               else Inr (tp_seq tp, fragment)) (\<lambda>(nonce, src).
       if length src < aead_tag_size (actx_algo aead) then Inl PTLS_ALERT_BAD_RECORD_MAC
       else let textlen = length src - aead_tag_size (actx_algo aead) in
         case ptls_aead_decrypt aead src nonce (build_tls12_aad type (tp_seq tp) textlen) of
           None \<Rightarrow> Inl PTLS_ALERT_BAD_RECORD_MAC
         | Some text \<Rightarrow>
             if length text \<noteq> textlen then Inl PTLS_ALERT_BAD_RECORD_MAC
             else Inr (text, tp\<lparr>tp_seq := tp_seq tp + 1\<rparr>))"

section \<open>Handshake messages\<close>

definition message_buffer_is_overflow :: "nat \<Rightarrow> nat \<Rightarrow> bool" where
  "message_buffer_is_overflow max_buffer_size sz =
     (if max_buffer_size = 0 then False else if sz \<le> max_buffer_size then False else True)"

text \<open>The loop over complete messages.  \<open>cb\<close> receives the connection state, a message and
  whether it ends the record; the result is the return code, the state, and what is left of the
  input, or \<open>None\<close> for the latter when the callback failed.\<close>

function handle_messages ::
  "('t \<Rightarrow> bytes \<Rightarrow> bool \<Rightarrow> int \<times> 't) \<Rightarrow> int \<Rightarrow> 't \<Rightarrow> bytes \<Rightarrow> int \<times> 't \<times> bytes option" where
  "handle_messages cb ret tls src =
     (if length src \<ge> 4
      then let mess_len = 4 + unat (ntoh24 (drop 1 src)) in
        if length src < mess_len then (ret, tls, Some src)
        else case cb tls (take mess_len src) (length src = mess_len) of (ret', tls') \<Rightarrow>
          if ret' = 0 \<or> ret' = PTLS_ERROR_ASYNC_OPERATION \<or> ret' = PTLS_ERROR_IN_PROGRESS
          then handle_messages cb ret' tls' (drop mess_len src)
          else (ret', tls', None)
      else (ret, tls, Some src))"
  by pat_completeness auto
termination
  by (relation "measure (\<lambda>(cb, ret, tls, src). length src)") auto

declare handle_messages.simps [simp del]

text \<open>\<open>mess\<close> is \<open>tls->recvbuf.mess\<close>; the connection state is threaded through \<open>cb\<close>.\<close>

definition handle_handshake_record ::
  "allocator \<Rightarrow> nat \<Rightarrow> ('t \<Rightarrow> bytes \<Rightarrow> bool \<Rightarrow> int \<times> 't) \<Rightarrow> 't \<Rightarrow> ptls_buffer \<Rightarrow> byte \<Rightarrow> bytes
     \<Rightarrow> int \<times> 't \<times> ptls_buffer" where
  "handle_handshake_record M max_buffer_size cb tls mess type fragment =
     (if type \<noteq> PTLS_CONTENT_TYPE_HANDSHAKE then (PTLS_ALERT_DECODE_ERROR, tls, mess)
      else if buf_base mess \<noteq> None \<and> message_buffer_is_overflow max_buffer_size (buf_off mess + length fragment)
      then (PTLS_ALERT_HANDSHAKE_FAILURE, tls, mess)
      else case (if buf_base mess = None then (0, mess)
                 else ptls_buffer_reserve M (length fragment) False mess) of (ret, mess1) \<Rightarrow>
        if ret \<noteq> 0 then (ret, tls, mess1)
        else let mess2 = (if buf_base mess = None then mess1
                          else mess1\<lparr>buf_data := buf_data mess1 @ fragment\<rparr>);
                 src = (if buf_base mess = None then fragment else buf_data mess2) in
          case handle_messages cb PTLS_ERROR_IN_PROGRESS tls src of
            (ret, tls', None) \<Rightarrow> (ret, tls', ptls_buffer_dispose mess2)
          | (ret, tls', Some rest) \<Rightarrow>
              if rest \<noteq> []
              then if message_buffer_is_overflow max_buffer_size (length rest)
                then (PTLS_ALERT_HANDSHAKE_FAILURE, tls', mess2)
                else case (if buf_base mess2 = None
                           then ptls_buffer_reserve M (length rest) False (ptls_buffer_init 2 0 False)
                           else (0, mess2)) of (ret, mess3) \<Rightarrow>
                  if ret \<noteq> 0 then (ret, tls', mess3)
                  else (PTLS_ERROR_IN_PROGRESS, tls', mess3\<lparr>buf_data := rest\<rparr>)
              else (ret, tls', ptls_buffer_dispose mess2))"

section \<open>Incremental parsing\<close>

text \<open>A record that the parser accepts: a known type, and a length within the limit for it.\<close>

definition enc_record :: "byte \<Rightarrow> 16 word \<Rightarrow> bytes \<Rightarrow> bytes" where
  "enc_record type version fragment = [type] @ enc16 version @ enc_block 2 fragment"

definition record_limit :: "byte \<Rightarrow> nat" where
  "record_limit type = (if type = PTLS_CONTENT_TYPE_APPDATA then PTLS_MAX_ENCRYPTED_RECORD_SIZE
     else PTLS_MAX_PLAINTEXT_RECORD_SIZE)"

definition record_ok :: "byte \<Rightarrow> bytes \<Rightarrow> bool" where
  "record_ok type fragment \<longleftrightarrow> type \<in> set record_types \<and> length fragment \<le> record_limit type"

text \<open>The receive buffer holds the first octets \<open>p\<close> of a record; it is released when \<open>p\<close> is empty.\<close>

definition holds :: "ptls_buffer \<Rightarrow> bytes \<Rightarrow> bool" where
  "holds rb p \<longleftrightarrow> (if p = [] then buf_base rb = None
     else buf_base rb \<noteq> None \<and> buf_data rb = p \<and> buf_ok rb \<and> 5 \<le> buf_capacity rb \<and> \<not> buf_tx rb)"

lemma record_limit_bound: "record_limit type \<le> 16640"
  by (simp add: record_limit_def)

lemma record_ok_length: "record_ok type fragment \<Longrightarrow> length fragment \<le> 16640"
  using record_limit_bound [of type] by (simp add: record_ok_def)

lemma length_enc_record [simp]: "length (enc_record t v f) = 5 + length f"
  by (simp add: enc_record_def)

lemma drop5_enc_record [simp]: "drop 5 (enc_record t v f) = f"
  by (simp add: enc_record_def enc16_def enc_block_def be_bytes_numeral)

lemma prefix_full: "prefix xs ys \<Longrightarrow> length xs = length ys \<Longrightarrow> xs = ys"
  by (auto simp: prefix_def)

lemma ntoh16_be_bytes:
  assumes "n < 65536"
  shows "unat (ntoh16 (be_bytes 2 n @ rest)) = n"
proof -
  obtain a b where ab: "be_bytes 2 n = [a, b]"
    by (simp add: be_bytes_numeral)
  then have "ntoh16 (be_bytes 2 n @ rest) = of_nat (be_nat (be_bytes 2 n))"
    by (simp add: ntoh_be)
  then show ?thesis
    using assms by (simp add: unat_of_nat)
qed

lemma ntoh16_enc16 [simp]: "ntoh16 (enc16 v @ rest) = v"
  using decode16_enc16 [of v rest] by (simp add: ptls_decode16_def split: if_splits)

lemma header_of_record:
  assumes "record_ok t f"
  shows "parse_record_header (enc_record t v f @ rest)
    = (0, \<lparr>rec_type = t, rec_version = v, rec_length = length f, rec_fragment = None\<rparr>)"
proof -
  have "drop 3 (enc_record t v f @ rest) = be_bytes 2 (length f) @ f @ rest"
    by (simp add: enc_record_def enc16_def enc_block_def)
  moreover have "drop 1 (enc_record t v f @ rest) = enc16 v @ enc_block 2 f @ rest"
    by (simp add: enc_record_def)
  ultimately show ?thesis
    using assms record_ok_length [OF assms] ntoh16_be_bytes [of "length f" "f @ rest"]
    by (simp add: parse_record_header_def record_ok_def record_limit_def enc_record_def)
qed

lemma header_take5:
  assumes "5 \<le> length p"
  shows "parse_record_header (take 5 p) = parse_record_header p"
proof -
  have "ntoh16 (drop k (take 5 p)) = ntoh16 (drop k p)" if "k \<le> 3" for k
    using that assms by (simp add: ntoh16_def drop_take)
  note this [of 1] this [of 3]
  then show ?thesis
    unfolding parse_record_header_def using assms by simp
qed

lemma header_of_prefix:
  assumes "5 \<le> length p" "prefix (take 5 p) (enc_record t v f)"
  shows "parse_record_header p = parse_record_header (enc_record t v f)"
proof -
  have "take 5 (enc_record t v f) = take 5 p"
    using assms by (auto simp: prefix_take_iff)
  then show ?thesis
    using header_take5 [OF assms(1)] header_take5 [of "enc_record t v f"] by simp
qed

text \<open>A receive buffer in use, holding \<open>p\<close>.\<close>

definition rx_buf :: "ptls_buffer \<Rightarrow> bytes \<Rightarrow> bool" where
  "rx_buf rb p \<longleftrightarrow> buf_base rb \<noteq> None \<and> buf_data rb = p \<and> buf_ok rb \<and> 5 \<le> buf_capacity rb \<and> \<not> buf_tx rb"

lemma rx_reserve:
  assumes "rx_buf rb p" "ptls_buffer_reserve M n False rb = (r, rb')"
  shows "rx_buf rb' p \<and> (r = 0 \<and> length p + n \<le> buf_capacity rb' \<or> r = PTLS_ERROR_NO_MEMORY)
    \<and> (alloc_ok M \<longrightarrow> length p + n \<le> SIZE_MAX \<longrightarrow> r = 0)"
proof -
  have run: "ptls_buffer_reserve_aligned M n 0 (buf_tx rb) rb = (r, rb')"
    using assms by (simp add: ptls_buffer_reserve_def rx_buf_def)
  have ok: "buf_ok rb" using assms by (simp add: rx_buf_def)
  have "5 \<le> buf_capacity rb'"
  proof (cases "rb' = rb")
    case False
    then have "1024 \<le> buf_capacity rb'"
      using run grow_capacity_bounds [of "max (buf_capacity rb) 1024" "buf_off rb + n"] ok
      by (auto simp: ptls_buffer_reserve_aligned_def Let_def buffer_alloc_def buf_ok_def
          split: if_splits option.splits)
    then show ?thesis by simp
  qed (use assms in \<open>simp add: rx_buf_def\<close>)
  then show ?thesis
    using reserve_spec [OF ok run] assms(1) by (auto simp: rx_buf_def grew_def)
qed

lemma rx_write:
  "rx_buf rb p \<Longrightarrow> length p + length q \<le> buf_capacity rb \<Longrightarrow> rx_buf (rb\<lparr>buf_data := p @ q\<rparr>) (p @ q)"
  by (simp add: rx_buf_def buf_ok_def)

lemma fill_header_then_fragment:
  assumes "length p < 5 + n" "5 \<le> length (p @ take (5 - length p) src)"
  shows "(p @ take (5 - length p) src)
      @ take (n + 5 - length (p @ take (5 - length p) src)) (drop (5 - length p) src)
    = take (5 + n) (p @ src)" (is ?eq)
    and "length src - length (drop (n + 5 - length (p @ take (5 - length p) src)) (drop (5 - length p) src))
    = min (5 + n - length p) (length src)" (is ?len)
proof -
  let ?k = "5 - length p"
  have add: "n + 5 - length (p @ take ?k src) = 5 + n - length p - ?k"
    using assms by (cases "length p < 5") auto
  have "take ?k src @ take (5 + n - length p - ?k) (drop ?k src) = take (5 + n - length p) src"
    using assms(1) by (subst take_add [symmetric]) simp
  then show ?eq
    unfolding add using assms(1) by simp
  show ?len
    unfolding add using assms(1) by simp
qed

text \<open>One call of the slow path takes octets up to the end of the record.\<close>

lemma slow_path:
  assumes rb: "rx_buf rb p" and ok: "record_ok t f" and short: "length p < 5 + length f"
    and pre: "prefix (take (5 + length f) (p @ src)) (enc_record t v f)"
    and run: "parse_record_slow M rb src = (r, rec, rb', n)"
  shows "r = PTLS_ERROR_NO_MEMORY \<and> \<not> alloc_ok M \<or>
    n = min (5 + length f - length p) (length src) \<and> rx_buf rb' (take (5 + length f) (p @ src)) \<and>
    (if length p + length src < 5 + length f then r = PTLS_ERROR_IN_PROGRESS
     else r = 0 \<and> rec = \<lparr>rec_type = t, rec_version = v, rec_length = length f, rec_fragment = Some f\<rparr>)"
proof -
  define hd src1 where "hd = p @ take (5 - length p) src" and "src1 = drop (5 - length p) src"
  define all where "all = take (5 + length f) (p @ src)"
  define add where "add = length f + 5 - length hd"
  let ?rb1 = "rb\<lparr>buf_data := hd\<rparr>"
  let ?rec = "\<lparr>rec_type = t, rec_version = v, rec_length = length f, rec_fragment = None\<rparr>"
  have data: "buf_data rb = p" using rb by (simp add: rx_buf_def)
  have unfold: "buf_data rb @ take (5 - buf_off rb) src = hd" "drop (5 - buf_off rb) src = src1"
    by (simp_all add: data hd_def src1_def)
  have rb1: "rx_buf ?rb1 hd"
    unfolding hd_def using rb by (intro rx_write) (auto simp: rx_buf_def buf_ok_def)
  show ?thesis
  proof (cases "length hd < 5")
    case True
    then have "all = p @ src" "hd = p @ src" "length p + length src < 5"
      by (auto simp: hd_def all_def)
    moreover have "parse_record_slow M rb src = (PTLS_ERROR_IN_PROGRESS, empty_record, ?rb1, length src)"
      using True unfolding parse_record_slow_def Let_def unfold by simp
    ultimately show ?thesis
      using run rb1 short unfolding all_def [symmetric] by auto
  next
    case False
    note fill = fill_header_then_fragment [OF short, of src, folded hd_def src1_def add_def all_def]
    have all: "hd @ take add src1 = all"
      and len: "length src - (length src1 - add) = min (5 + length f - length p) (length src)"
      using fill False by auto
    have "prefix (take 5 hd) (enc_record t v f)"
      using pre unfolding all_def [symmetric] all [symmetric]
      by (meson append_prefixD prefix_order.trans take_is_prefix)
    then have hdr: "parse_record_header hd = (0, ?rec)"
      using False header_of_prefix [of hd] header_of_record [OF ok, of v "[]"] by simp
    obtain r2 rb2 where res: "(if add \<noteq> 0 then ptls_buffer_reserve M add False ?rb1 else (0, ?rb1)) = (r2, rb2)"
      by fastforce
    have R: "rx_buf rb2 hd" "r2 = 0 \<and> length hd + add \<le> buf_capacity rb2 \<or> r2 = PTLS_ERROR_NO_MEMORY"
      "alloc_ok M \<longrightarrow> r2 = 0"
      using rx_reserve [OF rb1, of M add r2 rb2] rb1 res record_ok_length [OF ok] short
      by (auto simp: rx_buf_def buf_ok_def add_def hd_def split: if_splits)
    have rb2: "buf_data rb2 = hd" using R(1) by (simp add: rx_buf_def)
    have step: "parse_record_slow M rb src =
      (if r2 \<noteq> 0 then (r2, ?rec, rb2, length src)
       else if length all = length f + 5
       then (0, ?rec\<lparr>rec_fragment := Some (drop 5 all)\<rparr>, rb2\<lparr>buf_data := all\<rparr>,
             min (5 + length f - length p) (length src))
       else (PTLS_ERROR_IN_PROGRESS, ?rec, rb2\<lparr>buf_data := all\<rparr>,
             min (5 + length f - length p) (length src)))"
    proof -
      have "parse_record_slow M rb src =
        (case (if add \<noteq> 0 then ptls_buffer_reserve M add False ?rb1 else (0, ?rb1)) of (ret, rb2) \<Rightarrow>
          if ret \<noteq> 0 then (ret, ?rec, rb2, length src)
          else let rb3 = rb2\<lparr>buf_data := buf_data rb2 @ take add src1\<rparr>;
                   consumed = length src - length (drop add src1) in
            if buf_off rb3 = length f + 5
            then (0, ?rec\<lparr>rec_fragment := Some (drop 5 (buf_data rb3))\<rparr>, rb3, consumed)
            else (PTLS_ERROR_IN_PROGRESS, ?rec, rb3, consumed))"
        using False unfolding parse_record_slow_def Let_def unfold
        by (simp add: hdr add_def case_prod_unfold)
      then show ?thesis
        unfolding res by (simp add: rb2 all len)
    qed
    have rb3: "rx_buf (rb2\<lparr>buf_data := all\<rparr>) all" if "r2 = 0"
      unfolding all [symmetric] using R that by (intro rx_write) auto
    have "drop 5 all = f" if "length all = length f + 5"
      using pre that prefix_full [of all "enc_record t v f"] unfolding all_def [symmetric] by simp
    moreover have "length all = length f + 5 \<longleftrightarrow> \<not> length p + length src < 5 + length f"
      by (auto simp: all_def)
    ultimately show ?thesis
      using run R rb3 unfolding step all_def [symmetric] by (auto split: if_splits)
  qed
qed

lemma holds_iff: "holds rb p \<longleftrightarrow> (if p = [] then buf_base rb = None else rx_buf rb p)"
  by (simp add: holds_def rx_buf_def)

lemma parse_record_start_rx:
  assumes "parse_record_start M src = (r, rec, rb', n)"
  shows "r = PTLS_ERROR_NO_MEMORY \<and> \<not> alloc_ok M \<or>
    (\<exists>rb. rx_buf rb [] \<and> parse_record_slow M rb src = (r, rec, rb', n))"
proof -
  let ?b0 = "ptls_buffer_init 2 0 False"
  have b0: "buf_ok ?b0" "buf_tx ?b0 = False" "buf_base ?b0 \<noteq> None" "buf_data ?b0 = []" "buf_capacity ?b0 = 0"
    by (simp_all add: buf_ok_def ptls_buffer_init_def)
  obtain r1 rb where res: "ptls_buffer_reserve_aligned M 5 0 (buf_tx ?b0) ?b0 = (r1, rb)"
    by fastforce
  note R = reserve_spec [OF b0(1) res]
  show ?thesis
    using R res assms b0
    by (cases "r1 = 0")
      (auto simp: parse_record_start_def ptls_buffer_reserve_def rx_buf_def grew_def)
qed

lemma parse_record_step:
  assumes h: "holds rb p" and ok: "record_ok t f" and short: "length p < 5 + length f" and ne: "src \<noteq> []"
    and pre: "prefix (take (5 + length f) (p @ src)) (enc_record t v f)"
    and run: "parse_record M rb src = (r, rec, rb', n)"
  shows "r = PTLS_ERROR_NO_MEMORY \<and> \<not> alloc_ok M \<or>
    n = min (5 + length f - length p) (length src) \<and>
    (if length p + length src < 5 + length f
     then r = PTLS_ERROR_IN_PROGRESS \<and> holds rb' (p @ src)
     else r = 0 \<and> rec = \<lparr>rec_type = t, rec_version = v, rec_length = length f, rec_fragment = Some f\<rparr>)"
proof (cases "p = []")
  case False
  then have "parse_record_slow M rb src = (r, rec, rb', n)" "rx_buf rb p"
    using h run by (auto simp: parse_record_def holds_iff rx_buf_def)
  from slow_path [OF this(2) ok short pre this(1)] show ?thesis
    using False by (auto simp: holds_iff)
next
  case True
  have start: "?thesis" if "parse_record_start M src = (r, rec, rb', n)"
    using parse_record_start_rx [OF that]
  proof (elim disjE exE conjE)
    fix rb0 assume "rx_buf rb0 []" "parse_record_slow M rb0 src = (r, rec, rb', n)"
    from slow_path [OF this(1) ok _ _ this(2)] show ?thesis
      using True short pre ne by (auto simp: holds_iff)
  qed simp
  have "src ! 0 = t"
    using pre ne True by (cases src; cases "5 + length f") (auto simp: enc_record_def)
  then have type: "src ! 0 \<in> set record_types"
    using ok by (simp add: record_ok_def)
  have base: "buf_base rb = None" using h True by (simp add: holds_def)
  show ?thesis
  proof (cases "5 \<le> length src")
    case False
    then have "parse_record_start M src = (r, rec, rb', n)"
      using run base type by (simp add: parse_record_def)
    then show ?thesis by (rule start)
  next
    case long: True
    let ?rec = "\<lparr>rec_type = t, rec_version = v, rec_length = length f, rec_fragment = None\<rparr>"
    have "take 5 src = take 5 (take (5 + length f) src)"
      by simp
    then have "prefix (take 5 src) (enc_record t v f)"
      using pre True by (metis append_Nil prefix_order.trans take_is_prefix)
    then have hdr: "parse_record_header src = (0, ?rec)"
      using header_of_prefix [OF long] header_of_record [OF ok, of v "[]"] by simp
    have "take (length f) (drop 5 src) = f" if "5 + length f \<le> length src"
    proof -
      have "take (5 + length f) src = enc_record t v f"
        using pre True that by (intro prefix_full) simp_all
      then have "drop 5 (take (5 + length f) src) = f"
        by simp
      then show ?thesis
        by (simp add: drop_take)
    qed
    then show ?thesis
      using run base type long hdr start True by (auto simp: parse_record_def split: if_splits)
  qed
qed

text \<open>Feeding a record to the parser piece by piece.\<close>

fun feed_pieces :: "allocator \<Rightarrow> ptls_buffer \<Rightarrow> bytes list \<Rightarrow> int \<times> st_ptls_record" where
  "feed_pieces M rb [] = (PTLS_ERROR_IN_PROGRESS, empty_record)"
| "feed_pieces M rb (c # cs) =
     (case parse_record M rb c of (r, rec, rb', n) \<Rightarrow>
        if r = PTLS_ERROR_IN_PROGRESS then feed_pieces M rb' cs else (r, rec))"

lemma feed_pieces_record:
  assumes "alloc_ok M" "record_ok t f" "[] \<notin> set cs"
    and "holds rb p" "p @ concat cs = enc_record t v f @ rest" "length p < 5 + length f"
  shows "feed_pieces M rb cs
    = (0, \<lparr>rec_type = t, rec_version = v, rec_length = length f, rec_fragment = Some f\<rparr>)"
  using assms(3-)
proof (induction cs arbitrary: rb p)
  case Nil
  then have "length p = 5 + length f + length rest"
    by (auto dest: arg_cong [where f = length])
  then show ?case using Nil by simp
next
  case (Cons c cs)
  obtain r rec rb' n where run: "parse_record M rb c = (r, rec, rb', n)"
    by (metis prod_cases4)
  have all: "p @ c @ concat cs = enc_record t v f @ rest"
    using Cons.prems(3) by simp
  have "take (5 + length f) (p @ c @ concat cs) = enc_record t v f"
    unfolding all by simp
  then have "prefix (take (5 + length f) (p @ c)) (enc_record t v f)"
    by (metis append.assoc prefix_def take_append)
  note S = parse_record_step [OF Cons.prems(2) assms(2) Cons.prems(4) _ this run]
  show ?case
  proof (cases "length p + length c < 5 + length f")
    case True
    then have "r = PTLS_ERROR_IN_PROGRESS" "holds rb' (p @ c)"
      using S Cons.prems(1) assms(1) by auto
    then show ?thesis
      using Cons.IH [of rb' "p @ c"] Cons.prems(1) all True run by simp
  next
    case False
    then show ?thesis
      using S Cons.prems(1) assms(1) run by auto
  qed
qed

section \<open>Protection undone by the peer\<close>

text \<open>\<open>protect\<close> gives the outer type, the body and the next state of the sender; \<open>unprotect\<close>
  is the receiver's side.  \<open>sync\<close> relates the states of the two.\<close>

locale protection =
  fixes protect :: "'tp \<Rightarrow> byte \<Rightarrow> bytes \<Rightarrow> (byte \<times> bytes) \<times> 'tp"
    and unprotect :: "'tp \<Rightarrow> byte \<times> bytes \<Rightarrow> (byte \<times> bytes \<times> 'tp) res"
    and sync :: "'tp \<Rightarrow> 'tp \<Rightarrow> bool"
    and typ_ok :: "byte \<Rightarrow> bool"
  assumes unprotect_protect:
    "sync e d \<Longrightarrow> typ_ok t \<Longrightarrow>
       \<exists>d'. unprotect d (fst (protect e t p)) = Inr (t, p, d') \<and> sync (snd (protect e t p)) d'"

text \<open>A sequence of records from each side.\<close>

fun protect_list ::
  "('tp \<Rightarrow> byte \<Rightarrow> bytes \<Rightarrow> (byte \<times> bytes) \<times> 'tp) \<Rightarrow> 'tp \<Rightarrow> byte \<Rightarrow> bytes list
     \<Rightarrow> (byte \<times> bytes) list \<times> 'tp" where
  "protect_list f tp t [] = ([], tp)"
| "protect_list f tp t (p # ps) =
     (case f tp t p of (r, tp') \<Rightarrow> case protect_list f tp' t ps of (rs, tp'') \<Rightarrow> (r # rs, tp''))"

fun unprotect_list ::
  "('tp \<Rightarrow> byte \<times> bytes \<Rightarrow> (byte \<times> bytes \<times> 'tp) res) \<Rightarrow> 'tp \<Rightarrow> (byte \<times> bytes) list
     \<Rightarrow> ((byte \<times> bytes) list \<times> 'tp) res" where
  "unprotect_list g tp [] = Inr ([], tp)"
| "unprotect_list g tp (r # rs) =
     res_bind (g tp r) (\<lambda>(t, p, tp'). res_bind (unprotect_list g tp' rs) (\<lambda>(ps, tp''). Inr ((t, p) # ps, tp'')))"

context protection
begin

lemma unprotect_list_protect_list:
  assumes "sync e d" "typ_ok t"
  shows "\<exists>d'. unprotect_list unprotect d (fst (protect_list protect e t ps)) = Inr (map (Pair t) ps, d')
    \<and> sync (snd (protect_list protect e t ps)) d'"
  using assms(1)
proof (induction ps arbitrary: e d)
  case (Cons p ps)
  obtain r e' where pr: "protect e t p = (r, e')" by fastforce
  obtain d' where d': "unprotect d r = Inr (t, p, d')" "sync e' d'"
    using unprotect_protect [OF Cons.prems assms(2), of p] pr by auto
  obtain d'' where "unprotect_list unprotect d' (fst (protect_list protect e' t ps)) = Inr (map (Pair t) ps, d'')"
    "sync (snd (protect_list protect e' t ps)) d''"
    using Cons.IH [OF d'(2)] by blast
  then show ?case
    using pr d' by (auto simp: case_prod_unfold)
qed simp

end

type_synonym prot_state = "ptls_aead_context \<times> st_ptls_traffic_protection"

definition chunk_protect :: "prot_state \<Rightarrow> byte \<Rightarrow> bytes \<Rightarrow> (byte \<times> bytes) \<times> prot_state" where
  "chunk_protect s type chunk =
     (case protect_chunk (fst s) (snd s) type chunk of
        (outer, room, data, tp') \<Rightarrow> ((outer, data), (fst s, tp')))"

definition tls13_unprotect :: "prot_state \<Rightarrow> byte \<times> bytes \<Rightarrow> (byte \<times> bytes \<times> prot_state) res" where
  "tls13_unprotect s r =
     (if fst r \<noteq> PTLS_CONTENT_TYPE_APPDATA then Inl PTLS_ALERT_HANDSHAKE_FAILURE
      else res_bind (tls13_open_record (fst s) (snd s) (snd r)) (\<lambda>(t, body, tp). Inr (t, body, (fst s, tp))))"

definition tls12_unprotect :: "prot_state \<Rightarrow> byte \<times> bytes \<Rightarrow> (byte \<times> bytes \<times> prot_state) res" where
  "tls12_unprotect s r =
     res_bind (tls12_open_record (fst s) (snd s) (fst r) (snd r)) (\<lambda>(body, tp). Inr (fst r, body, (fst s, tp)))"

definition prot_sync :: "bool \<Rightarrow> prot_state \<Rightarrow> prot_state \<Rightarrow> bool" where
  "prot_sync v12 e d \<longleftrightarrow> aead_ok (actx_algo (fst e)) \<and> same_key (fst e) (fst d)
     \<and> tp_tls12 (snd e) = v12 \<and> tp_seq (snd d) = tp_seq (snd e)"

lemma split_inner_plaintext_append:
  "t \<noteq> 0 \<Longrightarrow> split_inner_plaintext (p @ [t]) = Inr (t, p)"
  by (simp add: split_inner_plaintext_def strip_padding_def)

lemma aead_decrypt_encrypt:
  assumes "aead_ok (actx_algo e)" "same_key e d" "tp_seq td = tp_seq te"
  shows "aead_decrypt d td (fst (aead_encrypt e te p t)) = Inr (p @ [t], td\<lparr>tp_seq := tp_seq td + 1\<rparr>)"
proof -
  have "length (fst (aead_encrypt e te p t)) = length p + 1 + aead_tag_size (actx_algo e)"
    using assms(1) by (simp add: aead_encrypt_def ptls_aead_encrypt_v_def ptls_aead_encrypt_length)
  then show ?thesis
    using assms ptls_aead_decrypt_encrypt [OF assms(1,2)]
    by (simp add: aead_decrypt_def aead_encrypt_def ptls_aead_encrypt_v_def Let_def)
qed

interpretation tls13: protection chunk_protect tls13_unprotect "prot_sync False" "\<lambda>t. t \<noteq> 0"
proof
  fix e d :: prot_state and t :: byte and p :: bytes
  assume "prot_sync False e d" "t \<noteq> 0"
  then show "\<exists>d'. tls13_unprotect d (fst (chunk_protect e t p)) = Inr (t, p, d')
      \<and> prot_sync False (snd (chunk_protect e t p)) d'"
    using aead_decrypt_encrypt [of "fst e" "fst d" "snd d" "snd e" p t]
    by (auto simp: prot_sync_def chunk_protect_def protect_chunk_def tls13_unprotect_def tls13_open_record_def
        split_inner_plaintext_append case_prod_unfold Let_def same_key_def aead_encrypt_def)
qed

interpretation tls12: protection chunk_protect tls12_unprotect "prot_sync True" "\<lambda>t. True"
proof
  fix e d :: prot_state and t :: byte and p :: bytes
  assume s: "prot_sync True e d"
  then show "\<exists>d'. tls12_unprotect d (fst (chunk_protect e t p)) = Inr (t, p, d')
      \<and> prot_sync True (snd (chunk_protect e t p)) d'"
    using ptls_aead_decrypt_encrypt [of "fst e" "fst d" p]
      ptls_aead_encrypt_length [of "fst e" p]
    by (auto simp: prot_sync_def chunk_protect_def protect_chunk_def tls12_unprotect_def tls12_open_record_def
        tls12_encrypt_fragment_def Let_def same_key_def encode64_eq_enc64)
qed

section \<open>From the sender's data to the receiver's\<close>

text \<open>The chunks of at most \<open>PTLS_MAX_PLAINTEXT_RECORD_SIZE\<close> octets that data is cut into.\<close>

function data_chunks :: "bytes \<Rightarrow> bytes list" where
  "data_chunks src =
     (if src = [] then []
      else take PTLS_MAX_PLAINTEXT_RECORD_SIZE src # data_chunks (drop PTLS_MAX_PLAINTEXT_RECORD_SIZE src))"
  by pat_completeness auto
termination
  by (relation "measure length") auto

declare data_chunks.simps [simp del]

definition enc_records :: "(byte \<times> bytes) list \<Rightarrow> bytes" where
  "enc_records rs = concat (map (\<lambda>(t, d). enc_record t 0x0303 d) rs)"

lemma concat_data_chunks: "concat (data_chunks src) = src"
  by (induction src rule: data_chunks.induct) (subst data_chunks.simps, simp)

lemma data_chunks_length: "c \<in> set (data_chunks src) \<Longrightarrow> length c \<le> 16384"
  by (induction src rule: data_chunks.induct) (subst (asm) data_chunks.simps, auto split: if_splits)

lemma enc_record_0303: "enc_record t 0x0303 d = [t, 3, 3] @ enc_block 2 d"
  by (simp add: enc_record_def enc16_def)

lemma protect_chunk_room:
  assumes "aead_ok (actx_algo aead)" "protect_chunk aead tp type chunk = (outer, room, data, tp')"
  shows "length data = room" and "length data \<le> length chunk + 263"
    and "\<not> tp_tls12 tp \<Longrightarrow> length data \<le> length chunk + 256 \<and> outer = PTLS_CONTENT_TYPE_APPDATA"
    and "tp_tls12 tp' = tp_tls12 tp"
  using assms ptls_aead_encrypt_length [OF assms(1)]
  by (auto simp: protect_chunk_def Let_def aead_ok_def tls12_encrypt_fragment_def aead_encrypt_def
      ptls_aead_encrypt_v_def encode64_eq_enc64 split: if_splits)

lemma pushes_record [push_intros]:
  assumes "pushes M block bs" "length bs < 65536"
  shows "pushes M (buffer_push_record M t block) (enc_record t 0x0303 bs)"
  unfolding buffer_push_record_def enc_record_0303 using assms by (intro push_intros)

lemma push_encrypted_records_spec:
  assumes "aead_ok (actx_algo aead)" "buf_ok b"
    and "buffer_push_encrypted_records M type src aead tp b = (r, tp', b')"
  defines "out \<equiv> protect_list chunk_protect (aead, tp) type (data_chunks src)"
  shows "r = 0 \<and> buf_data b' = buf_data b @ enc_records (fst out) \<and> snd out = (aead, tp')
     \<or> push_failure b r"
  using assms(2,3) unfolding out_def
proof (induction src arbitrary: tp b rule: data_chunks.induct)
  case (1 src)
  show ?case
  proof (cases "src = []")
    case True
    then show ?thesis
      using "1.prems" by (simp add: buffer_push_encrypted_records.simps data_chunks.simps enc_records_def)
  next
    case False
    let ?c = "take 16384 src"
    obtain outer room data tp1 where pc: "protect_chunk aead tp type ?c = (outer, room, data, tp1)"
      by (metis prod_cases4)
    note L = protect_chunk_room [OF assms(1) pc]
    have p: "pushes M (buffer_push_record M outer (reserve_and_write M room (aead_align_bits (actx_algo aead)) data))
        (enc_record outer 0x0303 data)"
      using L(1,2) by (intro push_intros) simp_all
    obtain r1 b1 where run: "buffer_push_record M outer
        (reserve_and_write M room (aead_align_bits (actx_algo aead)) data) b = (r1, b1)"
      by fastforce
    note D = pushesD [OF p "1.prems"(1) run]
    show ?thesis
    proof (cases "r1 = 0")
      case fail: False
      then show ?thesis
        using "1.prems"(2) False pc run D(2) by (subst (asm) buffer_push_encrypted_records.simps) simp
    next
      case True
      have rec: "buffer_push_encrypted_records M type (drop 16384 src) aead tp1 b1 = (r, tp', b')"
        using "1.prems"(2) False pc run True by (subst (asm) buffer_push_encrypted_records.simps) simp
      have "push_failure b1 r \<Longrightarrow> push_failure b r"
        using D(1) by (simp add: push_failure_def grew_def)
      moreover have "chunk_protect (aead, tp) type ?c = ((outer, data), (aead, tp1))"
        by (simp add: chunk_protect_def pc)
      ultimately show ?thesis
        using "1.IH" [OF False grew_ok [OF D(1)] rec] D(2) True False
        by (subst (1 2) data_chunks.simps) (auto simp: enc_records_def case_prod_unfold)
    qed
  qed
qed

text \<open>The receiver's loop over complete records.\<close>

function parse_all :: "allocator \<Rightarrow> bytes \<Rightarrow> (byte \<times> bytes) list res" where
  "parse_all M src =
     (if src = [] then Inr []
      else case parse_record M (ptls_buffer_dispose (ptls_buffer_init 2 0 False)) src of (r, rec, rb, n) \<Rightarrow>
        if r \<noteq> 0 \<or> n = 0 then Inl r
        else res_bind (parse_all M (drop n src)) (\<lambda>rs.
          case rec_fragment rec of None \<Rightarrow> Inl r | Some f \<Rightarrow> Inr ((rec_type rec, f) # rs)))"
  by pat_completeness auto
termination
  by (relation "measure (\<lambda>(M, src). length src)") auto

declare parse_all.simps [simp del]

lemma parse_record_front:
  assumes "record_ok t f" "buf_base rb = None"
  shows "parse_record M rb (enc_record t v f @ rest)
    = (0, \<lparr>rec_type = t, rec_version = v, rec_length = length f, rec_fragment = Some f\<rparr>, rb, 5 + length f)"
proof -
  have "take (length f) (drop 5 (enc_record t v f @ rest)) = f"
    by simp
  moreover have "(enc_record t v f @ rest) ! 0 = t"
    by (simp add: enc_record_def)
  ultimately show ?thesis
    using assms header_of_record [OF assms(1), of v rest]
    by (simp add: parse_record_def record_ok_def)
qed

lemma parse_all_records:
  assumes "\<forall>(t, f) \<in> set rs. record_ok t f"
  shows "parse_all M (enc_records rs) = Inr rs"
  using assms
proof (induction rs)
  case Nil
  then show ?case by (simp add: parse_all.simps enc_records_def)
next
  case (Cons r rs)
  obtain t f where r: "r = (t, f)" by fastforce
  have e: "enc_records (r # rs) = enc_record t 0x0303 f @ enc_records rs"
    by (simp add: enc_records_def r)
  have "parse_record M (ptls_buffer_dispose (ptls_buffer_init 2 0 False)) (enc_records (r # rs))
     = (0, \<lparr>rec_type = t, rec_version = 0x0303, rec_length = length f, rec_fragment = Some f\<rparr>,
        ptls_buffer_dispose (ptls_buffer_init 2 0 False), 5 + length f)"
    unfolding e using Cons.prems by (intro parse_record_front) (simp_all add: r ptls_buffer_dispose_def)
  moreover have "enc_records (r # rs) \<noteq> []"
    unfolding e by (simp add: enc_record_def)
  moreover have "drop (5 + length f) (enc_records (r # rs)) = enc_records rs"
    unfolding e by simp
  ultimately show ?case
    using Cons by (subst parse_all.simps) (simp add: r)
qed

lemma protect_list_ok:
  assumes "aead_ok (actx_algo aead)" "\<not> tp_tls12 tp" "\<forall>c \<in> set cs. length c \<le> 16384"
  shows "\<forall>(t, f) \<in> set (fst (protect_list chunk_protect (aead, tp) type cs)). record_ok t f"
  using assms(2,3)
proof (induction cs arbitrary: tp)
  case (Cons c cs)
  obtain outer room data tp1 where pc: "protect_chunk aead tp type c = (outer, room, data, tp1)"
    by (metis prod_cases4)
  note L = protect_chunk_room [OF assms(1) pc]
  have "record_ok outer data" "\<not> tp_tls12 tp1"
    using L(3,4) Cons.prems by (auto simp: record_ok_def record_types_def record_limit_def)
  then show ?case
    using Cons.IH [of tp1] Cons.prems pc by (auto simp: chunk_protect_def case_prod_unfold)
qed simp

lemma tls13_records_round_trip:
  assumes "prot_sync False (aead, tp) dec" "type \<noteq> 0" "buf_ok b"
    and "buffer_push_encrypted_records M type src aead tp b = (0, tp', b')"
  shows "\<exists>out rs dec' ps. buf_data b' = buf_data b @ out \<and> parse_all M' out = Inr rs
    \<and> unprotect_list tls13_unprotect dec rs = Inr (map (Pair type) ps, dec')
    \<and> concat ps = src \<and> prot_sync False (aead, tp') dec'"
proof -
  have ok: "aead_ok (actx_algo aead)" "\<not> tp_tls12 tp"
    using assms(1) by (auto simp: prot_sync_def)
  let ?out = "protect_list chunk_protect (aead, tp) type (data_chunks src)"
  have push: "buf_data b' = buf_data b @ enc_records (fst ?out)" "snd ?out = (aead, tp')"
    using push_encrypted_records_spec [OF ok(1) assms(3,4)] by auto
  have "parse_all M' (enc_records (fst ?out)) = Inr (fst ?out)"
    using data_chunks_length by (intro parse_all_records protect_list_ok ok) auto
  then show ?thesis
    using push tls13.unprotect_list_protect_list [OF assms(1,2), of "data_chunks src"] concat_data_chunks
    by fastforce
qed

section \<open>Reassembly of handshake messages\<close>

text \<open>The complete messages at the front of an octet string, and what is left.\<close>

function split_messages :: "bytes \<Rightarrow> bytes list \<times> bytes" where
  "split_messages src =
     (if length src \<ge> 4 \<and> length src \<ge> 4 + unat (ntoh24 (drop 1 src))
      then let mess_len = 4 + unat (ntoh24 (drop 1 src)) in
        case split_messages (drop mess_len src) of (ms, rest) \<Rightarrow> (take mess_len src # ms, rest)
      else ([], src))"
  by pat_completeness auto
termination
  by (relation "measure length") auto

declare split_messages.simps [simp del]

lemma ntoh24_append: "3 \<le> length xs \<Longrightarrow> ntoh24 (xs @ ys) = ntoh24 xs"
  by (cases xs) (auto simp: ntoh24_def nth_append)

definition message_at_front :: "bytes \<Rightarrow> bool" where
  "message_at_front src \<longleftrightarrow> length src \<ge> 4 \<and> length src \<ge> 4 + unat (ntoh24 (drop 1 src))"

lemma split_messages_step:
  assumes "message_at_front src"
  defines "n \<equiv> 4 + unat (ntoh24 (drop 1 src))"
  shows "split_messages src =
    (take n src # fst (split_messages (drop n src)), snd (split_messages (drop n src)))"
  using assms by (subst split_messages.simps) (simp add: Let_def case_prod_unfold message_at_front_def)

lemma split_messages_stop: "\<not> message_at_front src \<Longrightarrow> split_messages src = ([], src)"
  by (subst split_messages.simps) (auto simp: message_at_front_def)

lemma split_messages_append:
  "split_messages (a @ b) =
     (fst (split_messages a) @ fst (split_messages (snd (split_messages a) @ b)),
      snd (split_messages (snd (split_messages a) @ b)))"
proof (induction a rule: split_messages.induct)
  case (1 a)
  let ?n = "4 + unat (ntoh24 (drop 1 a))"
  show ?case
  proof (cases "message_at_front a")
    case True
    then have len: "3 \<le> length (drop 1 a)" "?n \<le> length a" "4 \<le> length a"
      by (auto simp: message_at_front_def)
    have "ntoh24 (drop 1 (a @ b)) = ntoh24 (drop 1 a)"
      using len(1) ntoh24_append by (cases a) auto
    moreover from this have "message_at_front (a @ b)"
      using len by (simp add: message_at_front_def)
    ultimately have "split_messages (a @ b) =
        (take ?n a # fst (split_messages (drop ?n a @ b)), snd (split_messages (drop ?n a @ b)))"
      using len(2) by (simp only: split_messages_step) simp
    then show ?thesis
      using "1.IH" [OF _ refl] True split_messages_step [OF True] by (simp add: message_at_front_def)
  qed (simp add: split_messages_stop)
qed

lemma split_messages_concat: "concat (fst (split_messages src)) @ snd (split_messages src) = src"
proof (induction src rule: split_messages.induct)
  case (1 src)
  show ?case
  proof (cases "message_at_front src")
    case True
    then show ?thesis
      using "1.IH" [OF _ refl] split_messages_step [OF True] by (simp add: message_at_front_def)
  qed (simp add: split_messages_stop)
qed

lemma snd_split_messages: "\<not> message_at_front (snd (split_messages src))"
proof (induction src rule: split_messages.induct)
  case (1 src)
  show ?case
  proof (cases "message_at_front src")
    case True
    then show ?thesis
      using "1.IH" [OF _ refl] split_messages_step [OF True] by (simp add: message_at_front_def)
  qed (simp add: split_messages_stop)
qed

text \<open>A callback that accepts every message and does not look at the end-of-record flag.\<close>

definition accepting :: "('t \<Rightarrow> bytes \<Rightarrow> bool \<Rightarrow> int \<times> 't) \<Rightarrow> ('t \<Rightarrow> bytes \<Rightarrow> 't) \<Rightarrow> bool" where
  "accepting cb f \<longleftrightarrow> (\<forall>t m e. snd (cb t m e) = f t m
     \<and> fst (cb t m e) \<in> {0, PTLS_ERROR_ASYNC_OPERATION, PTLS_ERROR_IN_PROGRESS})"

lemma handle_messages_step:
  assumes "message_at_front src"
  defines "n \<equiv> 4 + unat (ntoh24 (drop 1 src))"
  assumes "cb tls (take n src) (length src = n) = (r', tls')"
    and "r' = 0 \<or> r' = PTLS_ERROR_ASYNC_OPERATION \<or> r' = PTLS_ERROR_IN_PROGRESS"
  shows "handle_messages cb ret tls src = handle_messages cb r' tls' (drop n src)"
  unfolding handle_messages.simps [of cb ret tls src] Let_def n_def [symmetric] assms(3)
  using assms by (simp add: message_at_front_def)

lemma handle_messages_stop:
  "\<not> message_at_front src \<Longrightarrow> handle_messages cb ret tls src = (ret, tls, Some src)"
  unfolding handle_messages.simps [of cb ret tls src] by (auto simp: message_at_front_def Let_def)

lemma handle_messages_split:
  assumes "accepting cb f"
  shows "\<exists>ret'. handle_messages cb ret tls src
      = (ret', foldl f tls (fst (split_messages src)), Some (snd (split_messages src)))
    \<and> ret' \<in> {ret, 0, PTLS_ERROR_ASYNC_OPERATION, PTLS_ERROR_IN_PROGRESS}"
proof (induction src arbitrary: ret tls rule: split_messages.induct)
  case (1 src)
  let ?n = "4 + unat (ntoh24 (drop 1 src))"
  show ?case
  proof (cases "message_at_front src")
    case True
    define r' where "r' = fst (cb tls (take ?n src) (length src = ?n))"
    have r': "cb tls (take ?n src) (length src = ?n) = (r', f tls (take ?n src))"
      "r' = 0 \<or> r' = PTLS_ERROR_ASYNC_OPERATION \<or> r' = PTLS_ERROR_IN_PROGRESS"
      using assms unfolding accepting_def r'_def by (simp_all add: prod_eq_iff)
    have IH: "\<exists>ret'. handle_messages cb r' (f tls (take ?n src)) (drop ?n src)
        = (ret', foldl f (f tls (take ?n src)) (fst (split_messages (drop ?n src))),
           Some (snd (split_messages (drop ?n src))))
      \<and> ret' \<in> {r', 0, PTLS_ERROR_ASYNC_OPERATION, PTLS_ERROR_IN_PROGRESS}"
      using True by (intro "1.IH") (simp_all add: message_at_front_def)
    show ?thesis
      unfolding handle_messages_step [of src cb tls, OF True r'] split_messages_step [OF True]
      using IH r'(2) by fastforce
  next
    case False
    then show ?thesis
      using split_messages_stop handle_messages_stop by fastforce
  qed
qed

text \<open>The message buffer between records: the incomplete message \<open>p\<close>.\<close>

definition mess_holds :: "ptls_buffer \<Rightarrow> bytes \<Rightarrow> bool" where
  "mess_holds mess p \<longleftrightarrow> (if p = [] then buf_base mess = None
     else buf_base mess \<noteq> None \<and> buf_data mess = p \<and> buf_ok mess \<and> \<not> buf_tx mess)"

lemma rx_reserve_ok:
  assumes "alloc_ok M" "buf_ok b" "\<not> buf_tx b" "buf_base b \<noteq> None" "buf_off b + n \<le> SIZE_MAX"
  shows "\<exists>b'. ptls_buffer_reserve M n False b = (0, b') \<and> buf_base b' \<noteq> None \<and> buf_data b' = buf_data b
    \<and> \<not> buf_tx b' \<and> buf_capacity b' \<le> SIZE_MAX \<and> buf_off b + n \<le> buf_capacity b'"
proof -
  obtain r b' where run: "ptls_buffer_reserve_aligned M n 0 (buf_tx b) b = (r, b')"
    by fastforce
  show ?thesis
    using reserve_spec [OF assms(2) run] run assms
    by (auto simp: ptls_buffer_reserve_def grew_def buf_ok_def)
qed

lemma handle_handshake_record_step:
  assumes cb: "accepting cb f" and alloc: "alloc_ok M" and h: "mess_holds mess p"
    and p: "\<not> message_at_front p" and len: "length p + length frag \<le> SIZE_MAX"
  defines "sp \<equiv> split_messages (p @ frag)"
  shows "\<exists>ret mess'. handle_handshake_record M 0 cb tls mess PTLS_CONTENT_TYPE_HANDSHAKE frag
      = (ret, foldl f tls (fst sp), mess') \<and> mess_holds mess' (snd sp)
    \<and> ret \<in> {0, PTLS_ERROR_ASYNC_OPERATION, PTLS_ERROR_IN_PROGRESS}"
proof -
  obtain ret where hm: "handle_messages cb PTLS_ERROR_IN_PROGRESS tls (p @ frag)
      = (ret, foldl f tls (fst sp), Some (snd sp))"
    and ret: "ret \<in> {0, PTLS_ERROR_ASYNC_OPERATION, PTLS_ERROR_IN_PROGRESS}"
    using handle_messages_split [OF cb, of PTLS_ERROR_IN_PROGRESS tls "p @ frag"] by (auto simp: sp_def)
  have rest: "length (snd sp) \<le> length (p @ frag)"
    using split_messages_concat [of "p @ frag"] unfolding sp_def by (metis le_add2 length_append)
  have disp: "mess_holds (ptls_buffer_dispose x) []" for x
    by (simp add: mess_holds_def ptls_buffer_dispose_def)
  show ?thesis
  proof (cases "p = []")
    case True
    then have base: "buf_base mess = None" using h by (simp add: mess_holds_def)
    have init: "buf_ok (ptls_buffer_init 2 0 False)" "\<not> buf_tx (ptls_buffer_init 2 0 False)"
      "buf_base (ptls_buffer_init 2 0 False) \<noteq> None" "buf_data (ptls_buffer_init 2 0 False) = []"
      by (simp_all add: buf_ok_def ptls_buffer_init_def)
    then obtain b' where res: "ptls_buffer_reserve M (length (snd sp)) False (ptls_buffer_init 2 0 False) = (0, b')"
      and b': "buf_base b' \<noteq> None" "\<not> buf_tx b'" "buf_capacity b' \<le> SIZE_MAX" "length (snd sp) \<le> buf_capacity b'"
      using rx_reserve_ok [OF alloc init(1-3), of "length (snd sp)"] len rest by auto
    then show ?thesis
      using base hm ret True disp
      by (auto simp: handle_handshake_record_def Let_def message_buffer_is_overflow_def mess_holds_def buf_ok_def)
  next
    case False
    then have mb: "buf_base mess \<noteq> None" "buf_data mess = p" "buf_ok mess" "\<not> buf_tx mess"
      using h by (simp_all add: mess_holds_def)
    then obtain b' where res: "ptls_buffer_reserve M (length frag) False mess = (0, b')"
      and b': "buf_base b' \<noteq> None" "buf_data b' = p" "\<not> buf_tx b'" "buf_capacity b' \<le> SIZE_MAX"
        "length p + length frag \<le> buf_capacity b'"
      using rx_reserve_ok [OF alloc mb(3,4,1), of "length frag"] len by auto
    then show ?thesis
      using mb hm ret disp rest
      by (auto simp: handle_handshake_record_def Let_def message_buffer_is_overflow_def mess_holds_def buf_ok_def)
  qed
qed

text \<open>Handling a sequence of handshake records, stopping at the first failure.\<close>

fun handle_fragments ::
  "allocator \<Rightarrow> ('t \<Rightarrow> bytes \<Rightarrow> bool \<Rightarrow> int \<times> 't) \<Rightarrow> 't \<Rightarrow> ptls_buffer \<Rightarrow> bytes list \<Rightarrow> ('t \<times> ptls_buffer) res" where
  "handle_fragments M cb tls mess [] = Inr (tls, mess)"
| "handle_fragments M cb tls mess (frag # frags) =
     (case handle_handshake_record M 0 cb tls mess PTLS_CONTENT_TYPE_HANDSHAKE frag of (ret, tls', mess') \<Rightarrow>
        if ret = 0 \<or> ret = PTLS_ERROR_ASYNC_OPERATION \<or> ret = PTLS_ERROR_IN_PROGRESS
        then handle_fragments M cb tls' mess' frags else Inl ret)"

lemma handle_fragments_split:
  assumes cb: "accepting cb f" and alloc: "alloc_ok M" and "mess_holds mess p" "\<not> message_at_front p"
    and "length p + length (concat frags) \<le> SIZE_MAX"
  shows "\<exists>mess'. handle_fragments M cb tls mess frags
      = Inr (foldl f tls (fst (split_messages (p @ concat frags))), mess')
    \<and> mess_holds mess' (snd (split_messages (p @ concat frags)))"
  using assms(3-)
proof (induction frags arbitrary: tls mess p)
  case Nil
  then show ?case by (simp add: split_messages_stop)
next
  case (Cons frag frags)
  let ?sp = "split_messages (p @ frag)"
  obtain ret mess' where hr: "handle_handshake_record M 0 cb tls mess PTLS_CONTENT_TYPE_HANDSHAKE frag
      = (ret, foldl f tls (fst ?sp), mess')" "mess_holds mess' (snd ?sp)"
    "ret \<in> {0, PTLS_ERROR_ASYNC_OPERATION, PTLS_ERROR_IN_PROGRESS}"
    using handle_handshake_record_step [OF cb alloc Cons.prems(1,2), of frag tls] Cons.prems(3) by auto
  have "length (concat (fst ?sp)) + length (snd ?sp) = length p + length frag"
    using split_messages_concat [of "p @ frag"] by (metis length_append)
  then obtain mess'' where "handle_fragments M cb (foldl f tls (fst ?sp)) mess' frags
      = Inr (foldl f (foldl f tls (fst ?sp)) (fst (split_messages (snd ?sp @ concat frags))), mess'')"
    "mess_holds mess'' (snd (split_messages (snd ?sp @ concat frags)))"
    using Cons.IH [OF hr(2) snd_split_messages] Cons.prems(3) by fastforce
  then show ?case
    using hr split_messages_append [of "p @ frag" "concat frags"] by auto
qed

end
