(* ===== verification/KeySchedule.thy ===== *)
theory KeySchedule
  imports Aead
begin

text \<open>
  The key schedule of \<^verbatim>\<open>lib/picotls.c\<close> (\<open>key_schedule_new\<close> to \<open>derive_resumption_secret\<close>): one
  transcript hash per hash algorithm of the offered cipher suites, the chain of extracted
  secrets, the choice of one cipher suite, and the secrets derived from a transcript.  Shown: the
  extracted secrets are those of RFC 8446, section 7.1; after a cipher suite is selected the
  schedule is the one a client would have that offered only that suite; and the transcript after a
  HelloRetryRequest starts with the hash of the first ClientHello.
\<close>

section \<open>State\<close>

record ptls_cipher_suite =
  cs_id :: "16 word"
  cs_aead :: ptls_aead_algorithm
  cs_hash :: ptls_hash_algorithm
  cs_name :: string

record ks_hash =
  ksh_algo :: ptls_hash_algorithm
  ksh_ctx :: ptls_hash_context
  ksh_ctx_outer :: "ptls_hash_context option"

record ptls_key_schedule =
  ks_generation :: nat
  ks_secret :: bytes
  ks_hashes :: "ks_hash list"

abbreviation ks_algo :: "ptls_key_schedule \<Rightarrow> ptls_hash_algorithm" where
  "ks_algo sched \<equiv> ksh_algo (hd (ks_hashes sched))"

abbreviation ks_digest_size :: "ptls_key_schedule \<Rightarrow> nat" where
  "ks_digest_size sched \<equiv> hash_digest_size (ks_algo sched)"

definition same_hash :: "ptls_hash_algorithm \<Rightarrow> ptls_hash_algorithm \<Rightarrow> bool" where
  "same_hash h1 h2 \<longleftrightarrow> hash_addr h1 = hash_addr h2"

section \<open>Creation\<close>

text \<open>The algorithms \<open>FOREACH_HASH\<close> visits: that of the preferred suite, then each one that an
  offered suite is the first to use.\<close>

fun foreach_offered ::
  "ptls_cipher_suite option \<Rightarrow> ptls_cipher_suite list \<Rightarrow> ptls_cipher_suite list \<Rightarrow> ptls_hash_algorithm list" where
  "foreach_offered preferred earlier [] = []"
| "foreach_offered preferred earlier (cs # rest) =
     (if (case preferred of None \<Rightarrow> True | Some p \<Rightarrow> \<not> same_hash (cs_hash cs) (cs_hash p))
         \<and> (\<forall>e \<in> set earlier. \<not> same_hash (cs_hash cs) (cs_hash e))
      then [cs_hash cs] else [])
     @ foreach_offered preferred (earlier @ [cs]) rest"

definition foreach_hash ::
  "ptls_cipher_suite option \<Rightarrow> ptls_cipher_suite list option \<Rightarrow> ptls_hash_algorithm list" where
  "foreach_hash preferred offered =
     (case preferred of None \<Rightarrow> [] | Some cs \<Rightarrow> [cs_hash cs])
     @ (case offered of None \<Rightarrow> [] | Some css \<Rightarrow> foreach_offered preferred [] css)"

fun key_schedule_hashes :: "bool \<Rightarrow> ptls_hash_algorithm list \<Rightarrow> ks_hash list option" where
  "key_schedule_hashes use_outer [] = Some []"
| "key_schedule_hashes use_outer (algo # algos) =
     (case hash_create algo of
        None \<Rightarrow> None
      | Some ctx \<Rightarrow>
          case (if use_outer then map_option Some (hash_create algo) else Some None) of
            None \<Rightarrow> None
          | Some outer \<Rightarrow>
              map_option (Cons \<lparr>ksh_algo = algo, ksh_ctx = ctx, ksh_ctx_outer = outer\<rparr>)
                (key_schedule_hashes use_outer algos))"

definition key_schedule_new ::
  "allocator \<Rightarrow> ptls_cipher_suite option \<Rightarrow> ptls_cipher_suite list option \<Rightarrow> bool
     \<Rightarrow> ptls_key_schedule option" where
  "key_schedule_new M preferred offered use_outer =
     (let algos = foreach_hash preferred offered in
      if \<not> c_malloc M (80 + 24 * length algos) then None
      else map_option (\<lambda>hs. \<lparr>ks_generation = 0, ks_secret = replicate 64 0, ks_hashes = hs\<rparr>)
             (key_schedule_hashes use_outer algos))"

section \<open>Extraction\<close>

definition key_schedule_extract ::
  "allocator \<Rightarrow> ptls_key_schedule \<Rightarrow> bytes option \<Rightarrow> ptls_key_schedule res" where
  "key_schedule_extract M sched ikm =
     (let algo = ks_algo sched;
          ikm' = (case ikm of None \<Rightarrow> take (hash_digest_size algo) zeroes_of_max_digest_size | Some i \<Rightarrow> i) in
      res_bind
        (if ks_generation sched \<noteq> 0
         then res_bind
           (ptls_hkdf_expand_label M algo (hash_digest_size algo)
              (take (hash_digest_size algo) (ks_secret sched)) ''derived''
              (take (hash_digest_size algo) (hash_empty_digest algo)) None)
           (\<lambda>s. Inr (sched\<lparr>ks_secret := s @ drop (hash_digest_size algo) (ks_secret sched)\<rparr>))
         else Inr sched)
      (\<lambda>sched1. let sched2 = sched1\<lparr>ks_generation := ks_generation sched1 + 1\<rparr> in
        res_bind (ptls_hkdf_extract algo (take (hash_digest_size algo) (ks_secret sched2)) ikm')
          (\<lambda>s. Inr (sched2\<lparr>ks_secret := s @ drop (hash_digest_size algo) (ks_secret sched2)\<rparr>))))"

text \<open>\<open>found_slot\<close> stays \<open>SIZE_MAX\<close> when no slot has the algorithm of the suite, and the source then
  reads \<open>hashes[SIZE_MAX]\<close>: the outer \<open>None\<close>.\<close>

fun find_slot :: "ptls_hash_algorithm \<Rightarrow> nat \<Rightarrow> ks_hash list \<Rightarrow> nat option" where
  "find_slot algo i [] = None"
| "find_slot algo i (h # hs) =
     (if same_hash (ksh_algo h) algo then Some i else find_slot algo (Suc i) hs)"

definition key_schedule_select_cipher ::
  "allocator \<Rightarrow> ptls_key_schedule \<Rightarrow> ptls_cipher_suite \<Rightarrow> bool \<Rightarrow> bytes option
     \<Rightarrow> ptls_key_schedule res option" where
  "key_schedule_select_cipher M sched cs reset reset_ikm =
     (case find_slot (cs_hash cs) 0 (ks_hashes sched) of
        None \<Rightarrow> None
      | Some found_slot \<Rightarrow>
          let sched1 = sched\<lparr>ks_hashes := [ks_hashes sched ! found_slot]\<rparr>;
              reset' = (reset \<or> found_slot \<noteq> 0) in
          Some (if reset'
            then key_schedule_extract M
                   (sched1\<lparr>ks_generation := ks_generation sched1 - 1, ks_secret := replicate 64 0\<rparr>) reset_ikm
            else Inr sched1))"

section \<open>Transcripts\<close>

definition ks_hash_map :: "(ks_hash \<Rightarrow> ks_hash) \<Rightarrow> ptls_key_schedule \<Rightarrow> ptls_key_schedule" where
  "ks_hash_map f sched = sched\<lparr>ks_hashes := map f (ks_hashes sched)\<rparr>"

definition ptls__key_schedule_update_hash ::
  "ptls_key_schedule \<Rightarrow> bytes \<Rightarrow> bool \<Rightarrow> ptls_key_schedule" where
  "ptls__key_schedule_update_hash sched msg use_outer =
     ks_hash_map (\<lambda>h. if use_outer
         then h\<lparr>ksh_ctx_outer := map_option (\<lambda>c. hash_update c msg) (ksh_ctx_outer h)\<rparr>
         else h\<lparr>ksh_ctx := hash_update (ksh_ctx h) msg\<rparr>) sched"

definition on_first_hash :: "(ks_hash \<Rightarrow> ks_hash) \<Rightarrow> ptls_key_schedule \<Rightarrow> ptls_key_schedule" where
  "on_first_hash f sched =
     sched\<lparr>ks_hashes := (case ks_hashes sched of [] \<Rightarrow> [] | h # hs \<Rightarrow> f h # hs)\<rparr>"

definition key_schedule_select_outer :: "ptls_key_schedule \<Rightarrow> ptls_key_schedule" where
  "key_schedule_select_outer sched =
     on_first_hash (\<lambda>h. case ksh_ctx_outer h of
         None \<Rightarrow> h
       | Some outer \<Rightarrow> h\<lparr>ksh_ctx := outer, ksh_ctx_outer := None\<rparr>) sched"

definition ch1hash_prefix :: "ptls_key_schedule \<Rightarrow> bytes" where
  "ch1hash_prefix sched = [254, 0, 0, of_nat (ks_digest_size sched)]"

definition key_schedule_update_ch1hash_prefix :: "ptls_key_schedule \<Rightarrow> ptls_key_schedule" where
  "key_schedule_update_ch1hash_prefix sched =
     ptls__key_schedule_update_hash sched (ch1hash_prefix sched) False"

definition key_schedule_extract_ch1hash :: "ptls_key_schedule \<Rightarrow> bytes \<times> ptls_key_schedule" where
  "key_schedule_extract_ch1hash sched =
     (hash_ctx_digest (ksh_ctx (hd (ks_hashes sched))),
      on_first_hash (\<lambda>h. h\<lparr>ksh_ctx := hash_ctx_reset (ksh_ctx h)\<rparr>) sched)"

definition post_ch1hash :: "bytes \<Rightarrow> ptls_hash_context \<Rightarrow> ptls_hash_context" where
  "post_ch1hash pre ctx =
     (let ch1hash = hash_ctx_digest ctx in
      hash_update (hash_update (hash_ctx_reset ctx) pre) ch1hash)"

definition key_schedule_transform_post_ch1hash :: "ptls_key_schedule \<Rightarrow> ptls_key_schedule" where
  "key_schedule_transform_post_ch1hash sched =
     (let pre = ch1hash_prefix sched in
      on_first_hash (\<lambda>h. h\<lparr>ksh_ctx := post_ch1hash pre (ksh_ctx h),
                           ksh_ctx_outer := map_option (post_ch1hash pre) (ksh_ctx_outer h)\<rparr>) sched)"

section \<open>Derived secrets\<close>

definition derive_secret_with_hash ::
  "allocator \<Rightarrow> ptls_key_schedule \<Rightarrow> string \<Rightarrow> bytes \<Rightarrow> bytes res" where
  "derive_secret_with_hash M sched label hash =
     ptls_hkdf_expand_label M (ks_algo sched) (ks_digest_size sched)
       (take (ks_digest_size sched) (ks_secret sched)) label (take (ks_digest_size sched) hash) None"

definition derive_secret :: "allocator \<Rightarrow> ptls_key_schedule \<Rightarrow> string \<Rightarrow> bytes res" where
  "derive_secret M sched label =
     derive_secret_with_hash M sched label
       (fst (hash_final (ksh_ctx (hd (ks_hashes sched))) PTLS_HASH_FINAL_MODE_SNAPSHOT))"

definition derive_secret_with_empty_digest :: "allocator \<Rightarrow> ptls_key_schedule \<Rightarrow> string \<Rightarrow> bytes res" where
  "derive_secret_with_empty_digest M sched label =
     derive_secret_with_hash M sched label (hash_empty_digest (ks_algo sched))"

definition derive_resumption_secret :: "allocator \<Rightarrow> ptls_key_schedule \<Rightarrow> bytes \<Rightarrow> bytes res" where
  "derive_resumption_secret M sched nonce =
     res_bind (derive_secret M sched ''res master'') (\<lambda>secret.
       ptls_hkdf_expand_label M (ks_algo sched) (ks_digest_size sched)
         (take (ks_digest_size sched) secret) ''resumption'' nonce None)"

definition ech_calc_confirmation ::
  "allocator \<Rightarrow> ptls_key_schedule \<Rightarrow> bytes \<Rightarrow> string \<Rightarrow> bytes \<Rightarrow> bytes res" where
  "ech_calc_confirmation M sched inner_random label message =
     (if \<not> hash_can_create (ks_algo sched) then Inl PTLS_ERROR_NO_MEMORY
      else let transcript_hash =
             fst (hash_final (hash_update (ksh_ctx (hd (ks_hashes sched))) message) PTLS_HASH_FINAL_MODE_FREE) in
        res_bind (ptls_hkdf_extract (ks_algo sched) [] (take 32 inner_random)) (\<lambda>secret.
          ptls_hkdf_expand_label M (ks_algo sched) 8 (take (ks_digest_size sched) secret) label
            (take (ks_digest_size sched) transcript_hash) None))"

section \<open>The secrets of RFC 8446\<close>

text \<open>\<open>Derive-Secret(Secret, "derived", "")\<close> and the three extractions of section 7.1.\<close>

definition rfc_derived :: "ptls_hash_algorithm \<Rightarrow> bytes \<Rightarrow> bytes" where
  "rfc_derived algo secret =
     hkdf_expand_spec algo (hash_digest_size algo) secret
       (hkdf_label_spec (hash_digest_size algo) ''derived'' (hash_fn algo []) None)"

definition rfc_early_secret :: "ptls_hash_algorithm \<Rightarrow> bytes \<Rightarrow> bytes" where
  "rfc_early_secret algo psk = hmac_spec algo (replicate (hash_digest_size algo) 0) psk"

definition rfc_handshake_secret :: "ptls_hash_algorithm \<Rightarrow> bytes \<Rightarrow> bytes \<Rightarrow> bytes" where
  "rfc_handshake_secret algo psk dhe =
     hmac_spec algo (rfc_derived algo (rfc_early_secret algo psk)) dhe"

definition rfc_master_secret :: "ptls_hash_algorithm \<Rightarrow> bytes \<Rightarrow> bytes \<Rightarrow> bytes" where
  "rfc_master_secret algo psk dhe =
     hmac_spec algo (rfc_derived algo (rfc_handshake_secret algo psk dhe))
       (replicate (hash_digest_size algo) 0)"

text \<open>The input keying material of an extraction: zeroes when there is none.\<close>

definition ikm_octets :: "ptls_hash_algorithm \<Rightarrow> bytes option \<Rightarrow> bytes" where
  "ikm_octets algo ikm = (case ikm of None \<Rightarrow> replicate (hash_digest_size algo) 0 | Some i \<Rightarrow> i)"

definition hash_usable :: "ptls_hash_algorithm \<Rightarrow> bool" where
  "hash_usable algo \<longleftrightarrow> hash_ok algo \<and> hash_can_create algo"

lemma hash_usable_ds:
  "hash_usable algo \<Longrightarrow> 0 < hash_digest_size algo" "hash_usable algo \<Longrightarrow> hash_digest_size algo \<le> 64"
  by (simp_all add: hash_usable_def hash_ok_def)

lemma take_zeroes: "n \<le> 64 \<Longrightarrow> take n zeroes_of_max_digest_size = replicate n 0"
  by (simp add: zeroes_of_max_digest_size_def min_def)

lemma expand_label_usable:
  assumes "hash_usable algo" "alloc_ok M" "length label < 200" "length hv < 256"
  shows "ptls_hkdf_expand_label M algo outlen secret label hv None
    = Inr (hkdf_expand_spec algo outlen secret (hkdf_label_spec outlen label hv None))"
  using assms by (intro expand_label_spec) (auto simp: hash_usable_def ascii_def)

lemma extract_first:
  assumes u: "hash_usable (ks_algo sched)" and g: "ks_generation sched = 0" and "ks_secret sched = replicate 64 0"
  shows "key_schedule_extract M sched ikm = Inr (sched\<lparr>ks_generation := 1,
    ks_secret := rfc_early_secret (ks_algo sched) (ikm_octets (ks_algo sched) ikm)
      @ replicate (64 - ks_digest_size sched) 0\<rparr>)"
  using assms hash_usable_ds [OF u]
  by (auto simp: key_schedule_extract_def Let_def hkdf_extract_spec hash_usable_def take_zeroes
      rfc_early_secret_def ikm_octets_def min_def split: option.splits)

lemma extract_next:
  assumes u: "hash_usable (ks_algo sched)" and a: "alloc_ok M" and g: "ks_generation sched \<noteq> 0"
    and s: "ks_secret sched = s @ replicate (64 - ks_digest_size sched) 0" "length s = ks_digest_size sched"
  shows "key_schedule_extract M sched ikm = Inr (sched\<lparr>ks_generation := ks_generation sched + 1,
    ks_secret := hmac_spec (ks_algo sched) (rfc_derived (ks_algo sched) s) (ikm_octets (ks_algo sched) ikm)
      @ replicate (64 - ks_digest_size sched) 0\<rparr>)"
proof -
  let ?h = "ks_algo sched" and ?ds = "ks_digest_size sched"
  have ds: "0 < ?ds" "?ds \<le> 64" using hash_usable_ds [OF u] by auto
  have ok: "hash_ok ?h" "hash_can_create ?h" using u by (auto simp: hash_usable_def)
  then have e: "take ?ds (hash_empty_digest ?h) = hash_fn ?h []" "length (hash_fn ?h []) = ?ds"
    by (auto simp: hash_ok_def)
  have "ptls_hkdf_expand_label M ?h ?ds s ''derived'' (hash_fn ?h []) None = Inr (rfc_derived ?h s)"
    unfolding rfc_derived_def using u a ds e(2) by (intro expand_label_usable) auto
  moreover have "length (rfc_derived ?h s) = ?ds"
    unfolding rfc_derived_def by (rule hkdf_expand_spec_length [OF ok(1)])
  moreover from this have "rfc_derived ?h s \<noteq> []"
    using ds by auto
  ultimately show ?thesis
    using g s e ds ok
    by (auto simp: key_schedule_extract_def Let_def hkdf_extract_spec take_zeroes ikm_octets_def
        split: option.splits)
qed

lemma three_extractions:
  assumes u: "hash_usable (ks_algo sched)" and a: "alloc_ok M"
    and "ks_generation sched = 0" "ks_secret sched = replicate 64 0"
  shows "\<exists>s1 s2 s3. key_schedule_extract M sched (Some psk) = Inr s1
    \<and> key_schedule_extract M s1 (Some dhe) = Inr s2 \<and> key_schedule_extract M s2 None = Inr s3
    \<and> take (ks_digest_size sched) (ks_secret s1) = rfc_early_secret (ks_algo sched) psk
    \<and> take (ks_digest_size sched) (ks_secret s2) = rfc_handshake_secret (ks_algo sched) psk dhe
    \<and> take (ks_digest_size sched) (ks_secret s3) = rfc_master_secret (ks_algo sched) psk dhe
    \<and> ks_generation s3 = 3 \<and> ks_hashes s3 = ks_hashes sched"
proof -
  let ?h = "ks_algo sched" and ?z = "replicate (64 - ks_digest_size sched) (0 :: byte)"
  have ok: "hash_ok ?h" using u by (simp add: hash_usable_def)
  let ?s1 = "sched\<lparr>ks_generation := 1, ks_secret := rfc_early_secret ?h psk @ ?z\<rparr>"
  let ?s2 = "?s1\<lparr>ks_generation := 2, ks_secret := rfc_handshake_secret ?h psk dhe @ ?z\<rparr>"
  let ?s3 = "?s2\<lparr>ks_generation := 3, ks_secret := rfc_master_secret ?h psk dhe @ ?z\<rparr>"
  have len: "length (rfc_early_secret ?h psk) = ks_digest_size sched"
    "length (rfc_handshake_secret ?h psk dhe) = ks_digest_size sched"
    "length (rfc_master_secret ?h psk dhe) = ks_digest_size sched"
    using hmac_spec_length [OF ok]
    by (simp_all add: rfc_early_secret_def rfc_handshake_secret_def rfc_master_secret_def)
  have "key_schedule_extract M sched (Some psk) = Inr ?s1"
    using extract_first [OF u assms(3,4), of M "Some psk"] by (simp add: ikm_octets_def)
  moreover have "key_schedule_extract M ?s1 (Some dhe) = Inr ?s2"
    using extract_next [of ?s1 M "rfc_early_secret ?h psk" "Some dhe"] u a len
    by (simp add: ikm_octets_def rfc_handshake_secret_def)
  moreover have "key_schedule_extract M ?s2 None = Inr ?s3"
    using extract_next [of ?s2 M "rfc_handshake_secret ?h psk dhe" None] u a len
    by (simp add: ikm_octets_def rfc_master_secret_def)
  ultimately show ?thesis
    using len by auto
qed

section \<open>Transcripts\<close>

text \<open>Every slot has been fed \<open>msgs\<close> (and its outer context \<open>outer\<close>, if there is one).\<close>

definition slot_of :: "bytes \<Rightarrow> bytes option \<Rightarrow> ptls_hash_algorithm \<Rightarrow> ks_hash" where
  "slot_of msgs outer algo =
     \<lparr>ksh_algo = algo, ksh_ctx = \<lparr>hctx_algo = algo, hctx_fed = msgs\<rparr>,
      ksh_ctx_outer = map_option (\<lambda>m. \<lparr>hctx_algo = algo, hctx_fed = m\<rparr>) outer\<rparr>"

lemma slot_of_simps [simp]:
  "ksh_algo (slot_of msgs outer algo) = algo"
  "ksh_ctx (slot_of msgs outer algo) = \<lparr>hctx_algo = algo, hctx_fed = msgs\<rparr>"
  by (simp_all add: slot_of_def)

lemma key_schedule_hashes_eq:
  assumes "\<forall>algo \<in> set algos. hash_can_create algo"
  shows "key_schedule_hashes use_outer algos
    = Some (map (slot_of [] (if use_outer then Some [] else None)) algos)"
  using assms by (induction algos) (auto simp: hash_create_def slot_of_def)

lemma update_slot:
  "ptls__key_schedule_update_hash (sched\<lparr>ks_hashes := map (slot_of msgs outer) algos\<rparr>) m False
     = sched\<lparr>ks_hashes := map (slot_of (msgs @ m) outer) algos\<rparr>"
  by (simp add: ptls__key_schedule_update_hash_def ks_hash_map_def slot_of_def hash_update_def o_def)

lemma update_slots:
  "foldl (\<lambda>s m. ptls__key_schedule_update_hash s m False) (sched\<lparr>ks_hashes := map (slot_of msgs outer) algos\<rparr>) ms
     = sched\<lparr>ks_hashes := map (slot_of (msgs @ concat ms) outer) algos\<rparr>"
  by (induction ms arbitrary: msgs) (simp_all add: update_slot)

text \<open>The schedule of a client that has extracted the early secret and hashed some messages.\<close>

definition client_schedule ::
  "allocator \<Rightarrow> ptls_cipher_suite option \<Rightarrow> ptls_cipher_suite list option \<Rightarrow> bool \<Rightarrow> bytes option
     \<Rightarrow> bytes list \<Rightarrow> ptls_key_schedule res" where
  "client_schedule M preferred offered use_outer ikm msgs =
     (case key_schedule_new M preferred offered use_outer of
        None \<Rightarrow> Inl PTLS_ERROR_NO_MEMORY
      | Some sched \<Rightarrow>
          res_bind (key_schedule_extract M sched ikm) (\<lambda>sched.
            Inr (foldl (\<lambda>s m. ptls__key_schedule_update_hash s m False) sched msgs)))"

lemma c_malloc_ok: "alloc_ok M \<Longrightarrow> c_malloc M n"
  by (simp add: alloc_ok_def c_malloc_def)

lemma client_schedule_eq:
  assumes "alloc_ok M" "foreach_hash preferred offered = algo # algos"
    "\<forall>a \<in> set (algo # algos). hash_usable a"
  shows "client_schedule M preferred offered use_outer ikm msgs
    = Inr \<lparr>ks_generation = 1, ks_secret = rfc_early_secret algo (ikm_octets algo ikm)
        @ replicate (64 - hash_digest_size algo) 0,
        ks_hashes = map (slot_of (concat msgs) (if use_outer then Some [] else None)) (algo # algos)\<rparr>"
proof -
  let ?o = "if use_outer then Some [] else None :: bytes option"
  let ?s0 = "\<lparr>ks_generation = 0, ks_secret = replicate 64 0, ks_hashes = map (slot_of [] ?o) (algo # algos)\<rparr>"
  let ?s1 = "\<lparr>ks_generation = 1, ks_secret = rfc_early_secret algo (ikm_octets algo ikm)
        @ replicate (64 - hash_digest_size algo) 0, ks_hashes = []\<rparr>"
  have new: "key_schedule_new M preferred offered use_outer = Some ?s0"
    using assms key_schedule_hashes_eq [of "algo # algos" use_outer]
    by (simp add: key_schedule_new_def c_malloc_ok hash_usable_def del: key_schedule_hashes.simps)
  have "key_schedule_extract M ?s0 ikm = Inr (?s1\<lparr>ks_hashes := map (slot_of [] ?o) (algo # algos)\<rparr>)"
    using extract_first [of ?s0 M ikm] assms(3) by simp
  then show ?thesis
    using new update_slots [where sched = ?s1 and msgs = "[]" and outer = ?o and algos = "algo # algos"
        and ms = msgs] by (simp add: client_schedule_def)
qed

lemma find_slot_Some:
  "find_slot algo i hs = Some n \<Longrightarrow>
     i \<le> n \<and> n - i < length hs \<and> same_hash (ksh_algo (hs ! (n - i))) algo"
  by (induction algo i hs rule: find_slot.induct)
    (auto split: if_splits simp: nth_Cons' Suc_diff_le)

lemma find_slot_None: "find_slot algo i hs = None \<longleftrightarrow> (\<forall>h \<in> set hs. \<not> same_hash (ksh_algo h) algo)"
  by (induction algo i hs rule: find_slot.induct) auto

text \<open>Selecting a suite leaves the schedule of a client that offered nothing else.\<close>

lemma select_cipher_eq:
  assumes "alloc_ok M" "foreach_hash preferred offered = algo # algos"
    and usable: "\<forall>a \<in> set (algo # algos). hash_usable a"
    and run: "client_schedule M preferred offered use_outer ikm msgs = Inr sched"
    and addr: "\<forall>a \<in> set (algo # algos). same_hash a (cs_hash cs) \<longrightarrow> a = cs_hash cs"
    and slot: "cs_hash cs \<in> set (algo # algos)"
  shows "\<exists>sched'. key_schedule_select_cipher M sched cs False ikm = Some (Inr sched')
    \<and> client_schedule M (Some cs) None use_outer ikm msgs = Inr sched'"
proof -
  let ?o = "if use_outer then Some [] else None :: bytes option" and ?h = "cs_hash cs"
  have sched: "sched = \<lparr>ks_generation = 1, ks_secret = rfc_early_secret algo (ikm_octets algo ikm)
        @ replicate (64 - hash_digest_size algo) 0,
        ks_hashes = map (slot_of (concat msgs) ?o) (algo # algos)\<rparr>"
    using client_schedule_eq [OF assms(1-3)] run by simp
  have h: "hash_usable ?h" using usable slot by auto
  have one: "client_schedule M (Some cs) None use_outer ikm msgs = Inr
     \<lparr>ks_generation = 1, ks_secret = rfc_early_secret ?h (ikm_octets ?h ikm)
        @ replicate (64 - hash_digest_size ?h) 0, ks_hashes = [slot_of (concat msgs) ?o ?h]\<rparr>"
    using client_schedule_eq [OF assms(1), of "Some cs" None ?h "[]" use_outer ikm msgs] h
    by (simp add: foreach_hash_def)
  have "find_slot ?h 0 (ks_hashes sched) \<noteq> None"
    unfolding find_slot_None using slot by (auto simp: sched same_hash_def)
  then obtain n where n: "find_slot ?h 0 (ks_hashes sched) = Some n"
    by blast
  then have "n < length (algo # algos)" "same_hash ((algo # algos) ! n) ?h"
    using find_slot_Some [OF n] by (auto simp: sched simp del: list.map)
  then have nth: "(algo # algos) ! n = ?h" "ks_hashes sched ! n = slot_of (concat msgs) ?o ?h"
    using addr nth_mem [of n "algo # algos"] unfolding sched by (fastforce simp del: list.map)+
  show ?thesis
  proof (cases n)
    case 0
    then show ?thesis
      using n nth one by (simp add: key_schedule_select_cipher_def sched Let_def)
  next
    case (Suc m)
    let ?s = "\<lparr>ks_generation = 0, ks_secret = replicate 64 0, ks_hashes = [slot_of (concat msgs) ?o ?h]\<rparr>"
    have "key_schedule_select_cipher M sched cs False ikm = Some (key_schedule_extract M ?s ikm)"
      using n nth Suc by (simp add: key_schedule_select_cipher_def Let_def) (simp add: sched)
    then show ?thesis
      using extract_first [of ?s M ikm] usable slot one by auto
  qed
qed

text \<open>RFC 8446, section 4.4.1: after a HelloRetryRequest the first ClientHello is replaced by a
  synthetic message that holds its hash.\<close>

lemma post_ch1hash_eq:
  "post_ch1hash pre \<lparr>hctx_algo = algo, hctx_fed = ch1\<rparr>
     = \<lparr>hctx_algo = algo, hctx_fed = pre @ hash_fn algo ch1\<rparr>"
  by (simp add: post_ch1hash_def Let_def hash_ctx_digest_def hash_ctx_reset_def hash_final_def hash_update_def)

lemma transform_post_ch1hash_eq:
  assumes "ks_hashes sched = [slot_of ch1 outer algo]"
  defines "msg_hash \<equiv> \<lambda>m. [254, 0, 0, of_nat (hash_digest_size algo)] @ hash_fn algo m"
  shows "ks_hashes (key_schedule_transform_post_ch1hash sched)
    = [slot_of (msg_hash ch1) (map_option msg_hash outer) algo]"
  using assms
  by (simp add: key_schedule_transform_post_ch1hash_def Let_def on_first_hash_def ch1hash_prefix_def
      slot_of_def post_ch1hash_eq option.map_comp o_def)

text \<open>The server that kept only the hash of the first ClientHello (in a cookie) rebuilds the same
  transcript.\<close>

lemma ch1hash_from_cookie:
  assumes "ks_hashes sched = [slot_of [] outer algo]"
  shows "ks_hashes (ptls__key_schedule_update_hash (key_schedule_update_ch1hash_prefix sched) h False)
    = [slot_of ([254, 0, 0, of_nat (hash_digest_size algo)] @ h) outer algo]"
  using assms
  by (simp add: key_schedule_update_ch1hash_prefix_def ptls__key_schedule_update_hash_def ks_hash_map_def
      ch1hash_prefix_def slot_of_def hash_update_def)

lemma derive_secret_slot:
  assumes "ks_hashes sched = slot_of msgs outer algo # hs" "hash_usable algo" "alloc_ok M" "length label < 200"
  shows "derive_secret M sched label = Inr (hkdf_expand_spec algo (hash_digest_size algo)
    (take (hash_digest_size algo) (ks_secret sched))
    (hkdf_label_spec (hash_digest_size algo) label (hash_fn algo msgs) None))"
proof -
  have "length (hash_fn algo msgs) = hash_digest_size algo" "hash_digest_size algo \<le> 64"
    using assms(2) by (auto simp: hash_usable_def hash_ok_def)
  then show ?thesis
    using assms by (simp add: derive_secret_def derive_secret_with_hash_def hash_final_def expand_label_usable)
qed

end
