(* ===== verification/Tickets.thy ===== *)
theory Tickets
  imports KeySchedule Extensions
begin

text \<open>
  Resumption in \<^verbatim>\<open>lib/picotls.c\<close>: the session identifier a server seals in a ticket, the
  NewSessionTicket message, what a client stores of it and reads back later, and the values
  computed from the transcript by Finished and CertificateVerify.  A key exchange comes from a
  backend; the octets its functions return are parameters of the algorithm record.
\<close>

unbundle bit_operations_syntax

section \<open>Key exchanges and callbacks\<close>

text \<open>The functions of a backend take the random octets they use as their first argument.
  \<open>create\<close> gives the public key and the private state, \<open>on_exchange\<close> uses that state.\<close>

record ptls_key_exchange_algorithm =
  kx_id :: "16 word"
  kx_name :: string
  kx_create :: "bytes \<Rightarrow> (bytes \<times> bytes) res"
  kx_on_exchange :: "bytes \<Rightarrow> bytes \<Rightarrow> bytes res"
  kx_exchange :: "bytes \<Rightarrow> bytes \<Rightarrow> (bytes \<times> bytes) res"

text \<open>The callback \<open>on_extension\<close>.  Its calls are written
  \<open>(ret = cb(...) != 0)\<close>, which assigns the comparison: every failure is reported as 1.\<close>

type_synonym on_extension_cb = "(int \<Rightarrow> 16 word \<Rightarrow> bytes \<Rightarrow> int) option"

definition call_on_extension :: "on_extension_cb \<Rightarrow> int \<Rightarrow> 16 word \<Rightarrow> bytes \<Rightarrow> unit res" where
  "call_on_extension cb hstype exttype body =
     (case cb of
        None \<Rightarrow> Inr ()
      | Some f \<Rightarrow> if f hstype exttype body \<noteq> 0 then Inl 1 else Inr ())"

section \<open>NewSessionTicket\<close>

record new_session_ticket =
  nst_lifetime :: "32 word"
  nst_age_add :: "32 word"
  nst_nonce :: bytes
  nst_ticket :: bytes
  nst_max_early_data_size :: "32 word"

definition nst_extension ::
  "on_extension_cb \<Rightarrow> 16 word \<Rightarrow> 32 word \<Rightarrow> bytes \<Rightarrow> (32 word \<times> bytes) res" where
  "nst_extension cb exttype max_early_data_size src =
     res_bind (call_on_extension cb PTLS_HANDSHAKE_TYPE_NEW_SESSION_TICKET exttype src) (\<lambda>_.
       if exttype = PTLS_EXTENSION_TYPE_EARLY_DATA then ptls_decode32 src
       else Inr (max_early_data_size, []))"

definition decode_new_session_ticket :: "on_extension_cb \<Rightarrow> bytes \<Rightarrow> new_session_ticket res" where
  "decode_new_session_ticket cb src =
     res_bind (ptls_decode32 src) (\<lambda>(lifetime, src).
     res_bind (ptls_decode32 src) (\<lambda>(age_add, src).
     res_bind (ptls_decode_open_block 1 take_rest src) (\<lambda>(nonce, src).
     res_bind (ptls_decode_open_block 2
         (\<lambda>src. if src = [] then Inl PTLS_ALERT_DECODE_ERROR else take_rest src) src) (\<lambda>(ticket, src).
     res_bind (decode_extensions PTLS_HANDSHAKE_TYPE_NEW_SESSION_TICKET (nst_extension cb) 0 src)
       (\<lambda>max_early_data_size.
         Inr \<lparr>nst_lifetime = lifetime, nst_age_add = age_add, nst_nonce = nonce, nst_ticket = ticket,
              nst_max_early_data_size = max_early_data_size\<rparr>)))))"

text \<open>The body of the message \<open>send_session_ticket\<close> emits; \<open>encrypt_ticket\<close> is the
  application's callback that seals the session identifier.\<close>

definition push_new_session_ticket ::
  "allocator \<Rightarrow> 32 word \<Rightarrow> 32 word \<Rightarrow> pusher \<Rightarrow> 32 word \<Rightarrow> pusher" where
  "push_new_session_ticket M ticket_lifetime ticket_age_add encrypt_ticket max_early_data_size =
     push_then (ptls_buffer_push32 M ticket_lifetime)
    (push_then (ptls_buffer_push32 M ticket_age_add)
    (push_then (ptls_buffer_push_block M 1 push_nothing)
    (push_then (ptls_buffer_push_block M 2 encrypt_ticket)
       (ptls_buffer_push_block M 2
          (if max_early_data_size \<noteq> 0
           then buffer_push_extension M PTLS_EXTENSION_TYPE_EARLY_DATA
                  (ptls_buffer_push32 M max_early_data_size)
           else push_nothing)))))"

section \<open>What the client stores\<close>

text \<open>Reserve room for \<open>n\<close> octets, compute a secret of that length into it and advance.\<close>

definition push_derived :: "allocator \<Rightarrow> nat \<Rightarrow> bool \<Rightarrow> bytes res \<Rightarrow> pusher" where
  "push_derived M n tx derived b =
     (case ptls_buffer_reserve M n tx b of (ret, b') \<Rightarrow>
        if ret \<noteq> 0 then (ret, b')
        else case derived of
            Inl e \<Rightarrow> (e, b')
          | Inr secret \<Rightarrow> (0, b'\<lparr>buf_data := buf_data b' @ secret\<rparr>))"

definition push_resumption_secret ::
  "allocator \<Rightarrow> bool \<Rightarrow> ptls_key_schedule \<Rightarrow> bytes \<Rightarrow> pusher" where
  "push_resumption_secret M tx sched nonce =
     push_derived M (ks_digest_size sched) tx (derive_resumption_secret M sched nonce)"

definition push_stored_ticket ::
  "allocator \<Rightarrow> 64 word \<Rightarrow> 16 word \<Rightarrow> 16 word \<Rightarrow> bytes \<Rightarrow> ptls_key_schedule \<Rightarrow> bytes \<Rightarrow> pusher" where
  "push_stored_ticket M now kxid csid nst sched nonce =
     push_then (ptls_buffer_push64 M now)
    (push_then (ptls_buffer_push16 M kxid)
    (push_then (ptls_buffer_push16 M csid)
    (push_then (ptls_buffer_push_block M 3 (ptls_buffer__do_pushv M nst))
       (ptls_buffer_push_block M 2 (push_resumption_secret M False sched nonce)))))"

text \<open>The result is the return code and the octets handed to the callback \<open>save_ticket\<close>, if it was
  called.  \<open>message\<close> is the whole handshake message, its header of four octets included.\<close>

definition client_handle_new_session_ticket ::
  "allocator \<Rightarrow> on_extension_cb \<Rightarrow> (bytes \<Rightarrow> int) option \<Rightarrow> 64 word \<Rightarrow> ptls_key_exchange_algorithm
     \<Rightarrow> ptls_cipher_suite \<Rightarrow> ptls_key_schedule \<Rightarrow> bytes \<Rightarrow> int \<times> bytes option" where
  "client_handle_new_session_ticket M cb save_ticket now key_share cipher_suite sched message =
     (let src = drop 4 message in
      case decode_new_session_ticket cb src of
        Inl ret \<Rightarrow> (ret, None)
      | Inr nst \<Rightarrow>
          case save_ticket of
            None \<Rightarrow> (0, None)
          | Some save \<Rightarrow>
              case push_stored_ticket M now (kx_id key_share) (cs_id cipher_suite) src sched (nst_nonce nst)
                     (ptls_buffer_init 1 0 False) of
                (ret, ticket_buf) \<Rightarrow>
                  if ret \<noteq> 0 then (ret, None)
                  else (save (buf_data ticket_buf), Some (buf_data ticket_buf)))"

record stored_session_ticket =
  sst_key_share :: ptls_key_exchange_algorithm
  sst_cs :: ptls_cipher_suite
  sst_secret :: bytes
  sst_obfuscated_ticket_age :: "32 word"
  sst_ticket :: bytes
  sst_max_early_data_size :: "32 word"

definition decode_stored_session_ticket ::
  "on_extension_cb \<Rightarrow> ptls_key_exchange_algorithm list \<Rightarrow> ptls_cipher_suite list \<Rightarrow> 64 word \<Rightarrow> bytes
     \<Rightarrow> stored_session_ticket res" where
  "decode_stored_session_ticket cb key_exchanges cipher_suites now src =
     res_bind (ptls_decode64 src) (\<lambda>(obtained_at, src).
     res_bind (ptls_decode16 src) (\<lambda>(kxid, src).
     res_bind (ptls_decode16 src) (\<lambda>(csid, src).
     res_bind (ptls_decode_open_block 3
         (\<lambda>src. res_bind (decode_new_session_ticket cb src) (\<lambda>nst. Inr (nst, []))) src) (\<lambda>(nst, src).
     res_bind (ptls_decode_block 2 take_rest src) (\<lambda>secret.
       case find (\<lambda>c. kx_id c = kxid) key_exchanges of
         None \<Rightarrow> Inl PTLS_ERROR_LIBRARY
       | Some key_share \<Rightarrow>
           case find (\<lambda>c. cs_id c = csid) cipher_suites of
             None \<Rightarrow> Inl PTLS_ERROR_LIBRARY
           | Some cs \<Rightarrow>
               if \<not> (obtained_at \<le> now \<and> now - obtained_at < 604800000) then Inl PTLS_ERROR_LIBRARY
               else Inr \<lparr>sst_key_share = key_share, sst_cs = cs, sst_secret = secret,
                 sst_obfuscated_ticket_age = ucast (now - obtained_at) + nst_age_add nst,
                 sst_ticket = nst_ticket nst,
                 sst_max_early_data_size = nst_max_early_data_size nst\<rparr>)))))"

section \<open>What the server seals\<close>

definition SESSION_IDENTIFIER_MAGIC :: bytes where
  "SESSION_IDENTIFIER_MAGIC = ascii ''ptls0001''"

text \<open>\<open>ticket_context\<close> is \<open>Some\<close> of its octets when \<open>is_set\<close>.\<close>

definition encode_session_identifier ::
  "allocator \<Rightarrow> 64 word \<Rightarrow> bytes option \<Rightarrow> 32 word \<Rightarrow> bytes \<Rightarrow> ptls_key_schedule \<Rightarrow> string option
     \<Rightarrow> 16 word \<Rightarrow> 16 word \<Rightarrow> string option \<Rightarrow> pusher" where
  "encode_session_identifier M now ticket_context ticket_age_add ticket_nonce sched server_name
     key_exchange_id csid negotiated_protocol =
     ptls_buffer_push_block M 2
      (push_then (ptls_buffer__do_pushv M SESSION_IDENTIFIER_MAGIC)
      (push_then (ptls_buffer_push64 M now)
      (push_then (ptls_buffer_push_block M 2 (push_resumption_secret M True sched ticket_nonce))
      (push_then (ptls_buffer_push16 M key_exchange_id)
      (push_then (ptls_buffer_push16 M csid)
      (push_then (ptls_buffer_push32 M ticket_age_add)
      (push_then (ptls_buffer_push_block M 2
         (case ticket_context of
            Some bs \<Rightarrow> ptls_buffer__do_pushv M bs
          | None \<Rightarrow> (case server_name of
              Some name \<Rightarrow> ptls_buffer__do_pushv M (ascii name)
            | None \<Rightarrow> push_nothing)))
         (ptls_buffer_push_block M 1
            (case negotiated_protocol of
               Some p \<Rightarrow> ptls_buffer__do_pushv M (ascii p)
             | None \<Rightarrow> push_nothing)))))))))"

record session_identifier =
  si_issued_at :: "64 word"
  si_psk :: bytes
  si_key_exchange_id :: "16 word"
  si_csid :: "16 word"
  si_ticket_age_add :: "32 word"
  si_ticket_ctx :: bytes
  si_negotiated_protocol :: bytes

definition decode_session_identifier :: "bytes \<Rightarrow> session_identifier res" where
  "decode_session_identifier src =
     ptls_decode_block 2 (\<lambda>src.
       if length src < length SESSION_IDENTIFIER_MAGIC
          \<or> take (length SESSION_IDENTIFIER_MAGIC) src \<noteq> SESSION_IDENTIFIER_MAGIC
       then Inl PTLS_ALERT_DECODE_ERROR
       else
         res_bind (ptls_decode64 (drop (length SESSION_IDENTIFIER_MAGIC) src)) (\<lambda>(issued_at, src).
         res_bind (ptls_decode_open_block 2 take_rest src) (\<lambda>(psk, src).
         res_bind (ptls_decode16 src) (\<lambda>(key_exchange_id, src).
         res_bind (ptls_decode16 src) (\<lambda>(csid, src).
         res_bind (ptls_decode32 src) (\<lambda>(ticket_age_add, src).
         res_bind (ptls_decode_open_block 2 take_rest src) (\<lambda>(ticket_ctx, src).
         res_bind (ptls_decode_open_block 1 take_rest src) (\<lambda>(negotiated_protocol, src).
           Inr (\<lparr>si_issued_at = issued_at, si_psk = psk, si_key_exchange_id = key_exchange_id,
                 si_csid = csid, si_ticket_age_add = ticket_age_add, si_ticket_ctx = ticket_ctx,
                 si_negotiated_protocol = negotiated_protocol\<rparr>, src)))))))))
       src"

section \<open>Finished and CertificateVerify\<close>

definition build_certificate_verify_signdata :: "ptls_key_schedule \<Rightarrow> string \<Rightarrow> bytes" where
  "build_certificate_verify_signdata sched context_string =
     replicate 64 32 @ ascii context_string @ [0]
     @ fst (hash_final (ksh_ctx (hd (ks_hashes sched))) PTLS_HASH_FINAL_MODE_SNAPSHOT)"

definition calc_verify_data :: "allocator \<Rightarrow> ptls_key_schedule \<Rightarrow> bytes \<Rightarrow> bytes res" where
  "calc_verify_data M sched secret =
     res_bind (ptls_hkdf_expand_label M (ks_algo sched) (ks_digest_size sched)
                 (take (ks_digest_size sched) secret) ''finished'' [] None) (\<lambda>digest.
       case ptls_hmac_create (ks_algo sched) (take (ks_digest_size sched) digest) of
         None \<Rightarrow> Inl PTLS_ERROR_NO_MEMORY
       | Some hmac \<Rightarrow>
           let digest = fst (hash_final (ksh_ctx (hd (ks_hashes sched))) PTLS_HASH_FINAL_MODE_SNAPSHOT) in
           Inr (fst (hmac_final (hmac_update hmac (take (ks_digest_size sched) digest))
                  PTLS_HASH_FINAL_MODE_FREE)))"

definition verify_finished :: "allocator \<Rightarrow> ptls_key_schedule \<Rightarrow> bytes \<Rightarrow> bytes \<Rightarrow> int" where
  "verify_finished M sched dec_secret message =
     (if 4 + ks_digest_size sched \<noteq> length message then PTLS_ALERT_DECODE_ERROR
      else case calc_verify_data M sched dec_secret of
          Inl ret \<Rightarrow> ret
        | Inr verify_data \<Rightarrow>
            if \<not> mem_equal (drop 4 message) verify_data (ks_digest_size sched)
            then PTLS_ALERT_HANDSHAKE_FAILURE else 0)"

section \<open>Encoders that write a derived secret\<close>

text \<open>Two encoders that do the same to every buffer of one direction, and only extend it.\<close>

definition agree :: "bool \<Rightarrow> pusher \<Rightarrow> pusher \<Rightarrow> bool" where
  "agree tx f g \<longleftrightarrow> (\<forall>b. buf_ok b \<longrightarrow> buf_tx b = tx \<longrightarrow> f b = g b \<and> grew b (snd (g b)))"

lemma agree_pushes: "pushes M f bs \<Longrightarrow> agree tx f f"
  unfolding agree_def by (metis prod.collapse pushesD(1))

lemma agree_basic:
  "agree tx (ptls_buffer__do_pushv M bs) (ptls_buffer__do_pushv M bs)"
  "agree tx (ptls_buffer_push16 M v16) (ptls_buffer_push16 M v16)"
  "agree tx (ptls_buffer_push32 M v32) (ptls_buffer_push32 M v32)"
  "agree tx (ptls_buffer_push64 M v64) (ptls_buffer_push64 M v64)"
  by (rule agree_pushes [OF pushes_pushv] agree_pushes [OF pushes_ints(2)] agree_pushes [OF pushes_ints(4)]
      agree_pushes [OF pushes_ints(5)])+

lemma agree_then:
  assumes "agree tx f f'" "agree tx g g'"
  shows "agree tx (push_then f g) (push_then f' g')"
  unfolding agree_def
proof (intro allI impI)
  fix b assume b: "buf_ok b" "buf_tx b = tx"
  have f: "f b = f' b" "grew b (snd (f' b))"
    using assms(1) b by (auto simp: agree_def)
  then have "buf_ok (snd (f' b))" "buf_tx (snd (f' b)) = tx"
    using b by (auto simp: grew_def)
  then have g: "g (snd (f' b)) = g' (snd (f' b))" "grew (snd (f' b)) (snd (g' (snd (f' b))))"
    using assms(2) by (auto simp: agree_def)
  show "push_then f g b = push_then f' g' b \<and> grew b (snd (push_then f' g' b))"
    using f g grew_trans [OF f(2) g(2)] by (simp add: push_then_def case_prod_unfold)
qed

lemma grew_poke_within:
  assumes "grew b b2" "buf_off b + length bs \<le> buf_off b2" "buf_off b \<le> pos" "pos + length bs \<le> buf_off b2"
  shows "grew b (poke pos bs b2)"
  using assms by (auto simp: grew_def poke_def buf_ok_def prefix_def min_def)

lemma agree_block:
  assumes "agree tx f g"
  shows "agree tx (ptls_buffer_push_block M capacity f) (ptls_buffer_push_block M capacity g)"
  unfolding agree_def
proof (intro allI impI)
  fix b assume b: "buf_ok b" "buf_tx b = tx"
  obtain r b1 where p: "ptls_buffer__do_pushv M (replicate capacity 0) b = (r, b1)" by fastforce
  have g1: "grew b b1" and d: "r = 0 \<Longrightarrow> buf_data b1 = buf_data b @ replicate capacity 0"
    using do_pushv_spec [OF b(1) p] by auto
  obtain r2 b2 where g: "g b1 = (r2, b2)" by fastforce
  have f: "f b1 = (r2, b2)" and g2: "grew b1 b2"
    using assms b g1 g by (auto simp: agree_def grew_def)
  have "buf_off b1 \<le> buf_off b2"
    using g2 by (auto simp: grew_def prefix_length_le)
  then have "grew b (poke (buf_off b1 - capacity) (be_bytes capacity n) b2)" if "r = 0" for n
    using d [OF that] grew_trans [OF g1 g2] by (intro grew_poke_within) auto
  then show "ptls_buffer_push_block M capacity f b = ptls_buffer_push_block M capacity g b
      \<and> grew b (snd (ptls_buffer_push_block M capacity g b))"
    using p g f g1 grew_trans [OF g1 g2] by (auto simp: ptls_buffer_push_block_def Let_def)
qed

lemmas agree_intros = agree_then agree_block agree_basic

definition resumption_secret :: "ptls_key_schedule \<Rightarrow> bytes \<Rightarrow> bytes" where
  "resumption_secret sched nonce =
     (let algo = ks_algo sched; ds = hash_digest_size algo;
          msgs = hctx_fed (ksh_ctx (hd (ks_hashes sched)));
          res_master = hkdf_expand_spec algo ds (take ds (ks_secret sched))
            (hkdf_label_spec ds ''res master'' (hash_fn algo msgs) None) in
      hkdf_expand_spec algo ds res_master (hkdf_label_spec ds ''resumption'' nonce None))"

text \<open>A schedule whose first transcript is kept with the schedule's own algorithm.\<close>

definition sched_ok :: "ptls_key_schedule \<Rightarrow> bool" where
  "sched_ok sched \<longleftrightarrow> ks_hashes sched \<noteq> [] \<and> hash_usable (ks_algo sched)
     \<and> hctx_algo (ksh_ctx (hd (ks_hashes sched))) = ks_algo sched"

lemma transcript_digest:
  assumes "sched_ok sched"
  shows "fst (hash_final (ksh_ctx (hd (ks_hashes sched))) PTLS_HASH_FINAL_MODE_SNAPSHOT)
    = hash_fn (ks_algo sched) (hctx_fed (ksh_ctx (hd (ks_hashes sched))))"
  using assms by (simp add: hash_final_def sched_ok_def)

lemma sched_ok_lengths:
  assumes "sched_ok sched"
  shows "0 < ks_digest_size sched" "ks_digest_size sched \<le> 64"
    "length (hash_fn (ks_algo sched) bs) = ks_digest_size sched"
    "length (hmac_spec (ks_algo sched) key bs) = ks_digest_size sched"
    "length (hkdf_expand_spec (ks_algo sched) n prk info) = n"
proof -
  have u: "hash_usable (ks_algo sched)" and ok: "hash_ok (ks_algo sched)"
    using assms by (simp_all add: sched_ok_def hash_usable_def)
  show "0 < ks_digest_size sched" "ks_digest_size sched \<le> 64"
    by (rule hash_usable_ds [OF u])+
  show "length (hash_fn (ks_algo sched) bs) = ks_digest_size sched"
    using ok by (simp add: hash_ok_def)
qed (use assms in \<open>simp_all add: sched_ok_def hash_usable_def hmac_spec_length hkdf_expand_spec_length\<close>)

lemma derive_resumption_secret_eq:
  assumes ok: "sched_ok sched" and "alloc_ok M" "length nonce < 256"
  shows "derive_resumption_secret M sched nonce = Inr (resumption_secret sched nonce)"
proof -
  have "hash_usable (ks_algo sched)" using ok by (simp add: sched_ok_def)
  then show ?thesis
    using assms sched_ok_lengths [OF ok]
    by (simp add: derive_resumption_secret_def derive_secret_def derive_secret_with_hash_def
        transcript_digest expand_label_usable resumption_secret_def Let_def)
qed

lemma length_resumption_secret:
  "sched_ok sched \<Longrightarrow> length (resumption_secret sched nonce) = ks_digest_size sched"
  by (simp add: resumption_secret_def Let_def sched_ok_lengths)

lemma agree_derived:
  assumes "derived = Inr bs" "length bs = n" "0 < n"
  shows "agree tx (push_derived M n tx derived) (ptls_buffer__do_pushv M bs)"
proof -
  have "bs \<noteq> []" using assms by auto
  then have "buf_tx b = tx \<Longrightarrow> push_derived M n tx derived b = ptls_buffer__do_pushv M bs b" for b
    using assms by (simp add: push_derived_def ptls_buffer__do_pushv_def case_prod_unfold)
  then show ?thesis
    using agree_basic(1) [of tx M bs] by (simp add: agree_def)
qed

lemma agree_resumption_secret:
  assumes ok: "sched_ok sched" and "alloc_ok M" "length nonce < 256"
  shows "agree tx (push_resumption_secret M tx sched nonce)
    (ptls_buffer__do_pushv M (resumption_secret sched nonce))"
  unfolding push_resumption_secret_def
  by (intro agree_derived derive_resumption_secret_eq length_resumption_secret sched_ok_lengths assms)

section \<open>Session identifiers\<close>

definition session_ticket_ctx :: "bytes option \<Rightarrow> string option \<Rightarrow> bytes" where
  "session_ticket_ctx ticket_context server_name =
     (case ticket_context of
        Some bs \<Rightarrow> bs | None \<Rightarrow> (case server_name of Some name \<Rightarrow> ascii name | None \<Rightarrow> []))"

definition protocol_octets :: "string option \<Rightarrow> bytes" where
  "protocol_octets negotiated_protocol = (case negotiated_protocol of Some p \<Rightarrow> ascii p | None \<Rightarrow> [])"

definition enc_session_identifier :: "session_identifier \<Rightarrow> bytes" where
  "enc_session_identifier si =
     enc_block 2 (SESSION_IDENTIFIER_MAGIC @ enc64 (si_issued_at si) @ enc_block 2 (si_psk si)
       @ enc16 (si_key_exchange_id si) @ enc16 (si_csid si) @ enc32 (si_ticket_age_add si)
       @ enc_block 2 (si_ticket_ctx si) @ enc_block 1 (si_negotiated_protocol si))"

definition session_identifier_fits :: "session_identifier \<Rightarrow> bool" where
  "session_identifier_fits si \<longleftrightarrow> length (si_negotiated_protocol si) < 256
     \<and> length (si_psk si) + length (si_ticket_ctx si) < 60000"

lemma length_magic [simp]: "length SESSION_IDENTIFIER_MAGIC = 8"
  by (simp add: SESSION_IDENTIFIER_MAGIC_def ascii_def)

lemma take_rest_open [codec]:
  "length bs < 256 \<Longrightarrow> ptls_decode_open_block 1 take_rest (enc_block 1 bs @ rest) = Inr (bs, rest)"
  "length bs < 65536 \<Longrightarrow> ptls_decode_open_block 2 take_rest (enc_block 2 bs @ rest) = Inr (bs, rest)"
  "length bs < 16777216 \<Longrightarrow> ptls_decode_open_block 3 take_rest (enc_block 3 bs @ rest) = Inr (bs, rest)"
  by (rule opaque8.dec_enc opaque16.dec_enc opaque24.dec_enc; assumption)+

lemma take_rest_open_end [codec]:
  "length bs < 256 \<Longrightarrow> ptls_decode_open_block 1 take_rest (enc_block 1 bs) = Inr (bs, [])"
  "length bs < 65536 \<Longrightarrow> ptls_decode_open_block 2 take_rest (enc_block 2 bs) = Inr (bs, [])"
  using take_rest_open [of bs "[]"] by simp_all

lemma decode_block_enc:
  assumes "length bs < 256 ^ capacity" "block bs = Inr (v, [])"
  shows "ptls_decode_block capacity block (enc_block capacity bs) = Inr v"
  using open_block_enc [of bs capacity block v "[]"] assms
  by (simp add: ptls_decode_block_def ptls_decode_assert_block_close_def)

lemma decode_enc_session_identifier:
  assumes "session_identifier_fits si"
  shows "decode_session_identifier (enc_session_identifier si) = Inr si"
  unfolding decode_session_identifier_def enc_session_identifier_def
  using assms
  by (intro decode_block_enc) (simp_all add: session_identifier_fits_def codec del: One_nat_def)

lemma agree_session_identifier:
  assumes "sched_ok sched" "alloc_ok M" "length nonce < 256"
  shows "agree True (encode_session_identifier M now tctx age nonce sched name kxid csid proto)
    (ptls_buffer_push_block M 2
      (push_then (ptls_buffer__do_pushv M SESSION_IDENTIFIER_MAGIC)
      (push_then (ptls_buffer_push64 M now)
      (push_then (ptls_buffer_push_block M 2 (ptls_buffer__do_pushv M (resumption_secret sched nonce)))
      (push_then (ptls_buffer_push16 M kxid)
      (push_then (ptls_buffer_push16 M csid)
      (push_then (ptls_buffer_push32 M age)
      (push_then (ptls_buffer_push_block M 2 (ptls_buffer__do_pushv M (session_ticket_ctx tctx name)))
         (ptls_buffer_push_block M 1 (ptls_buffer__do_pushv M (protocol_octets proto)))))))))))"
proof -
  have n: "agree True push_nothing (ptls_buffer__do_pushv M [])"
    by (simp add: agree_def push_nothing_def ptls_buffer__do_pushv_def grew_refl)
  have c: "agree True (case tctx of Some bs \<Rightarrow> ptls_buffer__do_pushv M bs
          | None \<Rightarrow> (case name of Some name \<Rightarrow> ptls_buffer__do_pushv M (ascii name) | None \<Rightarrow> push_nothing))
       (ptls_buffer__do_pushv M (session_ticket_ctx tctx name))"
    using n agree_basic(1) by (auto simp: session_ticket_ctx_def split: option.split)
  have p: "agree True (case proto of Some p \<Rightarrow> ptls_buffer__do_pushv M (ascii p) | None \<Rightarrow> push_nothing)
       (ptls_buffer__do_pushv M (protocol_octets proto))"
    using n agree_basic(1) by (auto simp: protocol_octets_def split: option.split)
  show ?thesis
    unfolding encode_session_identifier_def
    by (intro agree_intros agree_resumption_secret assms c p)
qed

definition new_session_identifier ::
  "64 word \<Rightarrow> bytes option \<Rightarrow> 32 word \<Rightarrow> bytes \<Rightarrow> ptls_key_schedule \<Rightarrow> string option
     \<Rightarrow> 16 word \<Rightarrow> 16 word \<Rightarrow> string option \<Rightarrow> session_identifier" where
  "new_session_identifier now tctx age nonce sched name kxid csid proto =
     \<lparr>si_issued_at = now, si_psk = resumption_secret sched nonce, si_key_exchange_id = kxid, si_csid = csid,
      si_ticket_age_add = age, si_ticket_ctx = session_ticket_ctx tctx name,
      si_negotiated_protocol = protocol_octets proto\<rparr>"

lemma session_identifier_spec:
  assumes si_def: "si = new_session_identifier now tctx age nonce sched name kxid csid proto"
    and ok: "sched_ok sched" "alloc_ok M" "length nonce < 256"
    and fits: "session_identifier_fits si"
    and b: "buf_ok b" "push_ready b (length (enc_session_identifier si))"
  shows "\<exists>b'. encode_session_identifier M now tctx age nonce sched name kxid csid proto b = (0, b')
    \<and> buf_data b' = buf_data b @ enc_session_identifier si \<and> grew b b'"
proof -
  let ?f = "ptls_buffer_push_block M 2
      (push_then (ptls_buffer__do_pushv M SESSION_IDENTIFIER_MAGIC)
      (push_then (ptls_buffer_push64 M now)
      (push_then (ptls_buffer_push_block M 2 (ptls_buffer__do_pushv M (resumption_secret sched nonce)))
      (push_then (ptls_buffer_push16 M kxid)
      (push_then (ptls_buffer_push16 M csid)
      (push_then (ptls_buffer_push32 M age)
      (push_then (ptls_buffer_push_block M 2 (ptls_buffer__do_pushv M (session_ticket_ctx tctx name)))
         (ptls_buffer_push_block M 1 (ptls_buffer__do_pushv M (protocol_octets proto))))))))))"
  have "length (resumption_secret sched nonce) < 60000" "length (session_ticket_ctx tctx name) < 60000"
    "length (resumption_secret sched nonce) + length (session_ticket_ctx tctx name) < 60000"
    "length (protocol_octets proto) < 256"
    using fits by (auto simp: session_identifier_fits_def si_def new_session_identifier_def)
  then have p: "pushes M ?f (enc_session_identifier si)"
    unfolding enc_session_identifier_def si_def new_session_identifier_def session_identifier.simps
    by (intro push_intros) simp_all
  have tx: "buf_tx b" using b(2) by (simp add: push_ready_def)
  obtain r b' where f: "?f b = (r, b')" by fastforce
  have "encode_session_identifier M now tctx age nonce sched name kxid csid proto b = ?f b"
    using agree_session_identifier [OF ok, of now tctx age name kxid csid proto] b(1) tx
    by (simp add: agree_def)
  then have e: "encode_session_identifier M now tctx age nonce sched name kxid csid proto b = (r, b')"
    unfolding f .
  note D = pushesD [OF p, OF b(1) f]
  have r: "r = 0" by (rule D(3) [OF ok(2) b(2)])
  show ?thesis
    using D(1,2) e unfolding r by (intro exI [of _ b']) simp
qed

section \<open>NewSessionTicket and the stored ticket\<close>

definition enc_new_session_ticket :: "new_session_ticket \<Rightarrow> bytes" where
  "enc_new_session_ticket nst =
     enc32 (nst_lifetime nst) @ enc32 (nst_age_add nst) @ enc_block 1 (nst_nonce nst)
     @ enc_block 2 (nst_ticket nst)
     @ enc_block 2 (if nst_max_early_data_size nst \<noteq> 0
         then enc_ext (PTLS_EXTENSION_TYPE_EARLY_DATA, enc32 (nst_max_early_data_size nst)) else [])"

lemma decode_enc_new_session_ticket:
  assumes "length (nst_nonce nst) < 256" "length (nst_ticket nst) < 65536" "nst_ticket nst \<noteq> []"
  shows "decode_new_session_ticket None (enc_new_session_ticket nst) = Inr nst"
proof -
  let ?e = "nst_max_early_data_size nst"
  let ?es = "if ?e \<noteq> 0 then [(PTLS_EXTENSION_TYPE_EARLY_DATA, enc32 ?e)] else []"
  have "ext_allowed PTLS_HANDSHAKE_TYPE_NEW_SESSION_TICKET PTLS_EXTENSION_TYPE_EARLY_DATA"
    by code_simp
  then have "exts_ok PTLS_HANDSHAKE_TYPE_NEW_SESSION_TICKET {} ?es"
    by simp
  moreover have "run_exts (nst_extension None) 0 ?es = Inr ?e"
    using u32.dec_enc [of ?e "[]"] by (simp add: nst_extension_def call_on_extension_def)
  moreover have "enc_block 2 (if ?e \<noteq> 0 then enc_ext (PTLS_EXTENSION_TYPE_EARLY_DATA, enc32 ?e) else [])
      = enc_block 2 (concat (map enc_ext ?es))"
    by simp
  ultimately have x: "decode_extensions PTLS_HANDSHAKE_TYPE_NEW_SESSION_TICKET (nst_extension None) 0
      (enc_block 2 (if ?e \<noteq> 0 then enc_ext (PTLS_EXTENSION_TYPE_EARLY_DATA, enc32 ?e) else [])) = Inr ?e"
    unfolding decode_extensions_iff [OF hstypes_mem(4)]
    by (intro exI [of _ ?es]) (simp add: enc_ext_def)
  have t: "ptls_decode_open_block 2 (\<lambda>src. if src = [] then Inl PTLS_ALERT_DECODE_ERROR else take_rest src)
      (enc_block 2 (nst_ticket nst) @ rest) = Inr (nst_ticket nst, rest)" for rest
    using assms by (intro open_block_enc) (simp_all add: take_rest_def)
  show ?thesis
    unfolding decode_new_session_ticket_def enc_new_session_ticket_def
    using assms by (simp add: codec t x del: One_nat_def)
qed

lemma pushes_new_session_ticket:
  assumes "pushes M encrypt_ticket ticket" "length ticket < 65536"
  shows "pushes M (push_new_session_ticket M lifetime age encrypt_ticket max_early)
    (enc_new_session_ticket \<lparr>nst_lifetime = lifetime, nst_age_add = age, nst_nonce = [], nst_ticket = ticket,
       nst_max_early_data_size = max_early\<rparr>)"
  unfolding push_new_session_ticket_def enc_new_session_ticket_def new_session_ticket.simps
  using assms
  by (cases "max_early = 0") (auto intro!: push_intros simp: enc_ext_def simp del: One_nat_def)

definition enc_stored_ticket :: "64 word \<Rightarrow> 16 word \<Rightarrow> 16 word \<Rightarrow> bytes \<Rightarrow> bytes \<Rightarrow> bytes" where
  "enc_stored_ticket now kxid csid nst secret =
     enc64 now @ enc16 kxid @ enc16 csid @ enc_block 3 nst @ enc_block 2 secret"

lemma stored_ticket_spec:
  assumes ok: "sched_ok sched" "alloc_ok M" "length nonce < 256" and nst: "length nst < 16777216"
    and run: "push_stored_ticket M now kxid csid nst sched nonce (ptls_buffer_init 1 0 False) = (0, b')"
  shows "buf_data b' = enc_stored_ticket now kxid csid nst (resumption_secret sched nonce)"
proof -
  let ?s = "resumption_secret sched nonce"
  let ?f = "push_then (ptls_buffer_push64 M now)
    (push_then (ptls_buffer_push16 M kxid)
    (push_then (ptls_buffer_push16 M csid)
    (push_then (ptls_buffer_push_block M 3 (ptls_buffer__do_pushv M nst))
       (ptls_buffer_push_block M 2 (ptls_buffer__do_pushv M ?s)))))"
  let ?b = "ptls_buffer_init 1 0 False"
  have b: "buf_ok ?b" "buf_tx ?b = False" "buf_data ?b = []"
    by (simp_all add: buf_ok_init) (simp_all add: ptls_buffer_init_def)
  have "length ?s < 65536"
    using length_resumption_secret [OF ok(1)] sched_ok_lengths(2) [OF ok(1)] by simp
  then have p: "pushes M ?f (enc_stored_ticket now kxid csid nst ?s)"
    unfolding enc_stored_ticket_def using nst by (intro push_intros)
  have "agree False (push_stored_ticket M now kxid csid nst sched nonce) ?f"
    unfolding push_stored_ticket_def by (intro agree_intros agree_resumption_secret ok)
  then have "?f ?b = (0, b')"
    using b run by (simp add: agree_def)
  from pushesD(2) [OF p, OF b(1) this] show ?thesis
    using b(3) by (simp del: One_nat_def)
qed

lemma decode_new_session_ticket_nonce:
  assumes "decode_new_session_ticket cb src = Inr nst"
  shows "length (nst_nonce nst) < 256"
proof -
  obtain s1 s2 nonce where "ptls_decode_open_block 1 take_rest s1 = Inr (nonce, s2)" "nst_nonce nst = nonce"
    using assms by (auto simp: decode_new_session_ticket_def)
  then show ?thesis
    by (auto simp: take_rest_def elim!: open_block_exact)
qed

lemma stored_ticket_round_trip:
  assumes ok: "sched_ok sched" "alloc_ok M" and len: "length message < 16777216"
    and run: "client_handle_new_session_ticket M cb (Some save) obtained kx cs sched message = (ret, Some blob)"
    and known: "find (\<lambda>c. kx_id c = kx_id kx) kxs = Some kx" "find (\<lambda>c. cs_id c = cs_id cs) css = Some cs"
    and fresh: "obtained \<le> now" "now - obtained < 604800000"
  shows "\<exists>nst. decode_new_session_ticket cb (drop 4 message) = Inr nst
    \<and> decode_stored_session_ticket cb kxs css now blob
      = Inr \<lparr>sst_key_share = kx, sst_cs = cs, sst_secret = resumption_secret sched (nst_nonce nst),
             sst_obfuscated_ticket_age = ucast (now - obtained) + nst_age_add nst,
             sst_ticket = nst_ticket nst, sst_max_early_data_size = nst_max_early_data_size nst\<rparr>"
proof -
  obtain nst where nst: "decode_new_session_ticket cb (drop 4 message) = Inr nst"
    using run by (auto simp: client_handle_new_session_ticket_def Let_def split: sum.splits)
  let ?s = "resumption_secret sched (nst_nonce nst)"
  obtain b where "push_stored_ticket M obtained (kx_id kx) (cs_id cs) (drop 4 message) sched (nst_nonce nst)
      (ptls_buffer_init 1 0 False) = (0, b)" "blob = buf_data b"
    using run nst by (auto simp: client_handle_new_session_ticket_def Let_def split: prod.splits if_splits)
  then have blob: "blob = enc_stored_ticket obtained (kx_id kx) (cs_id cs) (drop 4 message) ?s"
    using stored_ticket_spec [OF ok decode_new_session_ticket_nonce [OF nst]] len by simp
  have s: "length ?s < 65536"
    using length_resumption_secret [OF ok(1)] sched_ok_lengths(2) [OF ok(1)] by simp
  have "ptls_decode_open_block 3 (\<lambda>src. res_bind (decode_new_session_ticket cb src) (\<lambda>nst. Inr (nst, [])))
      (enc_block 3 (drop 4 message) @ rest) = Inr (nst, rest)" for rest
    using nst len by (intro open_block_enc) simp_all
  moreover have "ptls_decode_block 2 take_rest (enc_block 2 ?s) = Inr ?s"
    using s by (intro decode_block_enc) (simp_all add: take_rest_def)
  ultimately show ?thesis
    using nst known fresh by (simp add: blob enc_stored_ticket_def decode_stored_session_ticket_def)
qed

section \<open>What Finished and CertificateVerify check\<close>

definition verify_data_spec :: "ptls_key_schedule \<Rightarrow> bytes \<Rightarrow> bytes" where
  "verify_data_spec sched secret =
     (let algo = ks_algo sched; ds = hash_digest_size algo in
      hmac_spec algo
        (hkdf_expand_spec algo ds (take ds secret) (hkdf_label_spec ds ''finished'' [] None))
        (hash_fn algo (hctx_fed (ksh_ctx (hd (ks_hashes sched))))))"

lemma calc_verify_data_eq:
  assumes ok: "sched_ok sched" "alloc_ok M"
  shows "calc_verify_data M sched secret = Inr (verify_data_spec sched secret)"
proof -
  let ?k = "hkdf_expand_spec (ks_algo sched) (ks_digest_size sched) (take (ks_digest_size sched) secret)
     (hkdf_label_spec (ks_digest_size sched) ''finished'' [] None)"
  let ?d = "hash_fn (ks_algo sched) (hctx_fed (ksh_ctx (hd (ks_hashes sched))))"
  have u: "hash_usable (ks_algo sched)" using ok by (simp add: sched_ok_def)
  then obtain hmac where h: "ptls_hmac_create (ks_algo sched) ?k = Some hmac"
    using hmac_create_None by (fastforce simp: hash_usable_def)
  have "fst (hmac_final (hmac_update hmac ?d) PTLS_HASH_FINAL_MODE_FREE) = hmac_spec (ks_algo sched) ?k ?d"
    using hmac_final_rel(1) [OF hmac_update_rel [OF hmac_create_rel [OF h]]] by simp
  then show ?thesis
    using h u ok by (simp add: calc_verify_data_def expand_label_usable transcript_digest [OF ok(1)]
        sched_ok_lengths [OF ok(1)] verify_data_spec_def Let_def)
qed

lemma verify_finished_iff:
  assumes ok: "sched_ok sched" "alloc_ok M"
  shows "verify_finished M sched secret message = 0
    \<longleftrightarrow> 4 \<le> length message \<and> drop 4 message = verify_data_spec sched secret"
proof (cases "length message = 4 + ks_digest_size sched")
  case True
  have "length (verify_data_spec sched secret) = ks_digest_size sched"
    by (simp add: verify_data_spec_def Let_def sched_ok_lengths [OF ok(1)])
  then show ?thesis
    using True mem_equal_iff [of "ks_digest_size sched" "drop 4 message" "verify_data_spec sched secret"]
    by (simp add: verify_finished_def calc_verify_data_eq [OF ok])
next
  case False
  then have "drop 4 message \<noteq> verify_data_spec sched secret \<or> length message < 4"
    using sched_ok_lengths(4) [OF ok(1)]
    by (metis add.commute le_add_diff_inverse2 length_drop not_le verify_data_spec_def)
  then show ?thesis
    using False by (auto simp: verify_finished_def)
qed

lemma ascii_append_zero_inj:
  assumes "ascii s @ 0 # xs = ascii t @ 0 # ys" "0 \<notin> set (ascii s)" "0 \<notin> set (ascii t)"
  shows "ascii s = ascii t \<and> xs = ys"
proof -
  have "takeWhile (\<lambda>b. b \<noteq> 0) (as @ 0 # zs) = as" if "0 \<notin> set as" for as zs :: bytes
    using that by (induction as) auto
  then have "ascii s = ascii t"
    using assms by metis
  then show ?thesis
    using assms(1) by simp
qed

text \<open>What is signed determines the role of the signer and the digest of the transcript.\<close>

lemma signdata_inj:
  assumes "build_certificate_verify_signdata s1 c1 = build_certificate_verify_signdata s2 c2"
    and "0 \<notin> set (ascii c1)" "0 \<notin> set (ascii c2)"
  shows "ascii c1 = ascii c2 \<and> fst (hash_final (ksh_ctx (hd (ks_hashes s1))) PTLS_HASH_FINAL_MODE_SNAPSHOT)
    = fst (hash_final (ksh_ctx (hd (ks_hashes s2))) PTLS_HASH_FINAL_MODE_SNAPSHOT)"
  using assms by (auto simp: build_certificate_verify_signdata_def dest: ascii_append_zero_inj)

end
