(* ===== verification/Negotiate.thy ===== *)
theory Negotiate
  imports Tickets
begin

text \<open>
  Negotiation in \<^verbatim>\<open>lib/picotls.c\<close>: protocol versions, signature algorithms, the cipher suite,
  key shares and groups, the server name, and certificate types.  The lemmas say which of the
  offers each selection picks, and that the encoders and decoders of these vectors agree.
\<close>

unbundle bit_operations_syntax

section \<open>Versions and certificate types\<close>

abbreviation PTLS_PROTOCOL_VERSION_TLS12 :: "16 word" where "PTLS_PROTOCOL_VERSION_TLS12 \<equiv> 0x0303"
abbreviation PTLS_PROTOCOL_VERSION_TLS13 :: "16 word" where "PTLS_PROTOCOL_VERSION_TLS13 \<equiv> 0x0304"

definition supported_versions :: "16 word list" where
  "supported_versions = [PTLS_PROTOCOL_VERSION_TLS13]"

definition is_supported_version :: "16 word \<Rightarrow> bool" where
  "is_supported_version v = list_ex (\<lambda>s. s = v) supported_versions"

abbreviation PTLS_CERTIFICATE_TYPE_X509 :: byte where "PTLS_CERTIFICATE_TYPE_X509 \<equiv> 0"
abbreviation PTLS_CERTIFICATE_TYPE_RAW_PUBLIC_KEY :: byte where "PTLS_CERTIFICATE_TYPE_RAW_PUBLIC_KEY \<equiv> 2"

definition certificate_type_exists :: "byte list \<Rightarrow> byte \<Rightarrow> bool" where
  "certificate_type_exists types desired_type =
     (if desired_type = PTLS_CERTIFICATE_TYPE_X509 \<and> length types = 0 then True
      else list_ex (\<lambda>t. t = desired_type) types)"

text \<open>\<open>strncmp(x.base, y, x.len) == 0 && y[x.len] == 0\<close>: the comparison stops at the first octet
  that differs or where both strings have ended.  \<open>None\<close> is a read of \<open>y\<close> past its terminator.\<close>

fun strncmp_eq :: "bytes \<Rightarrow> bytes \<Rightarrow> bool" where
  "strncmp_eq [] y = True"
| "strncmp_eq (a # x) [] = (a = 0)"
| "strncmp_eq (a # x) (b # y) = (if a \<noteq> b then False else if a = 0 then True else strncmp_eq x y)"

definition vec_is_string :: "bytes \<Rightarrow> string \<Rightarrow> bool option" where
  "vec_is_string x y =
     (if \<not> strncmp_eq x (ascii y) then Some False
      else if length x > length y then None
      else Some (length x = length y))"

section \<open>Signature algorithms and extra extensions\<close>

definition default_algos :: "16 word list" where
  "default_algos = [0x0805, 0x0804, 0x0503, 0x0403, 0x0401, 0x0201]"

text \<open>\<open>algos\<close> is the list of the verifier up to its terminator \<open>UINT16_MAX\<close>.\<close>

definition push_signature_algorithms :: "allocator \<Rightarrow> 16 word list option \<Rightarrow> pusher" where
  "push_signature_algorithms M algos =
     ptls_buffer_push_block M 2
       (push_list (ptls_buffer_push16 M) (case algos of Some l \<Rightarrow> l | None \<Rightarrow> default_algos))"

definition PTLS_MAX_SIGNATURE_ALGORITHMS :: nat where
  "PTLS_MAX_SIGNATURE_ALGORITHMS = 64"

definition add_signature_algorithm :: "16 word list \<Rightarrow> 16 word \<Rightarrow> 16 word list" where
  "add_signature_algorithm sa alg =
     (if length sa < PTLS_MAX_SIGNATURE_ALGORITHMS then sa @ [alg] else sa)"

definition decode_signature_algorithms :: "16 word list \<Rightarrow> bytes \<Rightarrow> 16 word list res" where
  "decode_signature_algorithms sa src =
     ptls_decode_block 2
       (decode_do_while (\<lambda>sa src. res_bind (ptls_decode16 src) (\<lambda>(alg, src).
          Inr (add_signature_algorithm sa alg, src))) sa) src"

definition push_additional_extensions :: "allocator \<Rightarrow> (16 word \<times> bytes) list \<Rightarrow> pusher" where
  "push_additional_extensions M exts =
     push_list (\<lambda>(t, body). buffer_push_extension M t (ptls_buffer__do_pushv M body)) exts"

section \<open>Cipher suites\<close>

abbreviation PTLS_CIPHER_SUITE_CHACHA20_POLY1305_SHA256 :: "16 word" where
  "PTLS_CIPHER_SUITE_CHACHA20_POLY1305_SHA256 \<equiv> 0x1303"

definition suite_matches :: "ptls_hash_algorithm option \<Rightarrow> 16 word \<Rightarrow> ptls_cipher_suite \<Rightarrow> bool" where
  "suite_matches hash cid c \<longleftrightarrow>
     cs_id c = cid \<and> (case hash of None \<Rightarrow> True | Some h \<Rightarrow> same_hash (cs_hash c) h)"

text \<open>The inner loop: \<open>Inl\<close> is the early exit with a selected suite, \<open>Inr\<close> the new \<open>found_index\<close>
  (\<open>None\<close> for \<open>SIZE_MAX\<close>).\<close>

fun select_cipher_scan ::
  "bool \<Rightarrow> ptls_hash_algorithm option \<Rightarrow> 16 word \<Rightarrow> nat \<Rightarrow> ptls_cipher_suite list \<Rightarrow> nat option
     \<Rightarrow> ptls_cipher_suite + nat option" where
  "select_cipher_scan server_pref hash cid i [] found_index = Inr found_index"
| "select_cipher_scan server_pref hash cid i (c # cs) found_index =
     (if suite_matches hash cid c
      then if server_pref
        then if (case found_index of None \<Rightarrow> True | Some f \<Rightarrow> i < f) then Inr (Some i)
             else select_cipher_scan server_pref hash cid (Suc i) cs found_index
        else Inl c
      else select_cipher_scan server_pref hash cid (Suc i) cs found_index)"

definition select_cipher_end :: "ptls_cipher_suite list \<Rightarrow> nat option \<Rightarrow> ptls_cipher_suite res" where
  "select_cipher_end candidates found_index =
     (case found_index of Some i \<Rightarrow> Inr (candidates ! i) | None \<Rightarrow> Inl PTLS_ALERT_HANDSHAKE_FAILURE)"

function select_cipher_loop ::
  "ptls_cipher_suite list \<Rightarrow> bool \<Rightarrow> ptls_hash_algorithm option \<Rightarrow> bool \<Rightarrow> nat option \<Rightarrow> bytes
     \<Rightarrow> ptls_cipher_suite res" where
  "select_cipher_loop candidates server_preference hash server_chacha_priority found_index src =
     (if src = [] then select_cipher_end candidates found_index
      else case ptls_decode16 src of
          Inl ret \<Rightarrow> Inl ret
        | Inr (cid, src') \<Rightarrow>
            (case select_cipher_scan
                    (server_preference
                     \<and> \<not> (server_chacha_priority \<and> cid = PTLS_CIPHER_SUITE_CHACHA20_POLY1305_SHA256))
                    hash cid 0 candidates found_index of
               Inl selected \<Rightarrow> Inr selected
             | Inr found_index' \<Rightarrow>
                 if found_index' = Some 0 then select_cipher_end candidates found_index'
                 else select_cipher_loop candidates server_preference hash False found_index' src'))"
  by pat_completeness auto
termination
  by (relation "measure (\<lambda>(_, _, _, _, _, src). length src)")
    (auto simp: ptls_decode16_def split: if_splits)

declare select_cipher_loop.simps [simp del]

definition select_cipher ::
  "ptls_cipher_suite list \<Rightarrow> bytes \<Rightarrow> bool \<Rightarrow> bool \<Rightarrow> ptls_hash_algorithm option \<Rightarrow> ptls_cipher_suite res" where
  "select_cipher candidates src server_preference server_chacha_priority hash =
     select_cipher_loop candidates server_preference hash server_chacha_priority None src"

section \<open>Key shares and groups\<close>

definition push_key_share_entry :: "allocator \<Rightarrow> 16 word \<Rightarrow> bytes \<Rightarrow> pusher" where
  "push_key_share_entry M grp pubkey =
     push_then (ptls_buffer_push16 M grp) (ptls_buffer_push_block M 2 (ptls_buffer__do_pushv M pubkey))"

definition decode_key_share_entry :: "bytes \<Rightarrow> ((16 word \<times> bytes) \<times> bytes) res" where
  "decode_key_share_entry src =
     res_bind (ptls_decode16 src) (\<lambda>(grp, src).
     res_bind (ptls_decode_open_block 2 take_rest src) (\<lambda>(key, src).
       Inr ((grp, key), src)))"

definition note_key_share ::
  "ptls_key_exchange_algorithm list \<Rightarrow> (ptls_key_exchange_algorithm \<times> bytes) option \<Rightarrow> 16 word \<times> bytes
     \<Rightarrow> (ptls_key_exchange_algorithm \<times> bytes) option" where
  "note_key_share candidates selected entry =
     foldl (\<lambda>sel c. if sel = None \<and> kx_id c = fst entry then Some (c, snd entry) else sel)
       selected candidates"

definition select_key_share ::
  "ptls_key_exchange_algorithm list \<Rightarrow> bool \<Rightarrow> bytes
     \<Rightarrow> ((ptls_key_exchange_algorithm \<times> bytes) option \<times> bytes) res" where
  "select_key_share candidates expect_one src =
     (if expect_one
      then if src = [] then Inl PTLS_ALERT_ILLEGAL_PARAMETER
        else res_bind (decode_key_share_entry src) (\<lambda>(entry, src).
          case note_key_share candidates None entry of
            None \<Rightarrow> Inl PTLS_ALERT_ILLEGAL_PARAMETER
          | Some sel \<Rightarrow> Inr (Some sel, src))
      else decode_while (\<lambda>selected src. res_bind (decode_key_share_entry src) (\<lambda>(entry, src).
             Inr (note_key_share candidates selected entry, src))) None src)"

text \<open>The search returns from inside the block: what follows the match is not looked at.\<close>

function negotiated_group_loop ::
  "ptls_key_exchange_algorithm list \<Rightarrow> bytes \<Rightarrow> ptls_key_exchange_algorithm option res" where
  "negotiated_group_loop candidates src =
     (if src = [] then Inr None
      else case ptls_decode16 src of
          Inl ret \<Rightarrow> Inl ret
        | Inr (grp, src') \<Rightarrow>
            (case find (\<lambda>c. kx_id c = grp) candidates of
               Some c \<Rightarrow> Inr (Some c)
             | None \<Rightarrow> negotiated_group_loop candidates src'))"
  by pat_completeness auto
termination
  by (relation "measure (\<lambda>(_, src). length src)") (auto simp: ptls_decode16_def split: if_splits)

declare negotiated_group_loop.simps [simp del]

definition select_negotiated_group ::
  "ptls_key_exchange_algorithm list \<Rightarrow> bytes \<Rightarrow> ptls_key_exchange_algorithm res" where
  "select_negotiated_group candidates src =
     res_bind (ptls_decode_open_block 2 take_rest src) (\<lambda>(body, after).
     res_bind (negotiated_group_loop candidates body) (\<lambda>sel.
       case sel of
         Some c \<Rightarrow> Inr c
       | None \<Rightarrow> if after \<noteq> [] then Inl PTLS_ALERT_DECODE_ERROR else Inl PTLS_ALERT_HANDSHAKE_FAILURE))"

section \<open>Server name\<close>

abbreviation PTLS_SERVER_NAME_TYPE_HOSTNAME :: byte where "PTLS_SERVER_NAME_TYPE_HOSTNAME \<equiv> 0"

definition emit_server_name_extension :: "allocator \<Rightarrow> string \<Rightarrow> pusher" where
  "emit_server_name_extension M server_name =
     ptls_buffer_push_block M 2
       (push_then (ptls_buffer_push M PTLS_SERVER_NAME_TYPE_HOSTNAME)
          (ptls_buffer_push_block M 2 (ptls_buffer__do_pushv M (ascii server_name))))"

definition decode_server_name_entry :: "bytes option \<Rightarrow> bytes \<Rightarrow> (bytes option \<times> bytes) res" where
  "decode_server_name_entry name src =
     res_bind (ptls_decode8 src) (\<lambda>(type, src).
       ptls_decode_open_block 2 (\<lambda>src.
         if type = PTLS_SERVER_NAME_TYPE_HOSTNAME
         then if src = [] then Inl PTLS_ALERT_DECODE_ERROR
           else if 0 \<in> set src then Inl PTLS_ALERT_ILLEGAL_PARAMETER
           else Inr (Some src, [])
         else Inr (name, [])) src)"

definition client_hello_decode_server_name :: "bytes option \<Rightarrow> bytes \<Rightarrow> (bytes option \<times> bytes) res" where
  "client_hello_decode_server_name name src =
     ptls_decode_open_block 2 (decode_do_while decode_server_name_entry name) src"

section \<open>Strings and signature algorithms\<close>

lemma strncmp_eq_iff:
  "0 \<notin> set x \<Longrightarrow> strncmp_eq x y \<longleftrightarrow> prefix x y"
  by (induction x y rule: strncmp_eq.induct) auto

lemma vec_is_string_eq:
  assumes "0 \<notin> set x"
  shows "vec_is_string x y = Some (x = ascii y)"
proof -
  have "x = ascii y" if "prefix x (ascii y)" "length x = length (ascii y)"
    using that by (metis append_eq_conv_conj prefixE take_all order_refl)
  moreover have "length (ascii y) = length y"
    by (simp add: ascii_def)
  ultimately show ?thesis
    using assms prefix_length_le [of x "ascii y"] by (auto simp: vec_is_string_def strncmp_eq_iff)
qed

lemma add_signature_algorithms:
  "foldl add_signature_algorithm sa xs = sa @ take (PTLS_MAX_SIGNATURE_ALGORITHMS - length sa) xs"
proof (induction xs arbitrary: sa)
  case (Cons x xs)
  have "take (PTLS_MAX_SIGNATURE_ALGORITHMS - length sa) (x # xs)
      = (if length sa < PTLS_MAX_SIGNATURE_ALGORITHMS
         then x # take (PTLS_MAX_SIGNATURE_ALGORITHMS - Suc (length sa)) xs else [])"
    by (auto simp: take_Cons' Suc_diff_Suc)
  then show ?case
    using Cons.IH by (simp add: add_signature_algorithm_def)
qed simp

lemma do_while_nonempty:
  assumes "src \<noteq> []" "\<And>s. consumes1 (step s)"
  shows "decode_do_while step s src = decode_while step s src"
  using assms(1) by (simp add: decode_do_while_def decode_while_unfold [OF assms(2), where src = src])

definition enc_signature_algorithms :: "16 word list \<Rightarrow> bytes" where
  "enc_signature_algorithms algs = enc_block 2 (concat (map enc16 algs))"

lemma length_concat_enc16 [simp]: "length (concat (map enc16 xs)) = 2 * length xs"
  by (induction xs) simp_all

lemma enc16_nonempty [simp]: "enc16 v \<noteq> []"
  by (simp add: enc16_def)

lemma pushes_signature_algorithms:
  assumes "length (case algos of Some l \<Rightarrow> l | None \<Rightarrow> default_algos) < 32768"
  shows "pushes M (push_signature_algorithms M algos)
    (enc_signature_algorithms (case algos of Some l \<Rightarrow> l | None \<Rightarrow> default_algos))"
  unfolding push_signature_algorithms_def enc_signature_algorithms_def
  using assms by (intro push_intros) simp

lemma decode_signature_algorithms_enc:
  assumes "algs \<noteq> []" "length algs < 32768"
  shows "decode_signature_algorithms [] (enc_signature_algorithms algs) = Inr (take 64 algs)"
proof -
  let ?step = "\<lambda>sa src. res_bind (ptls_decode16 src) (\<lambda>(alg, src). Inr (add_signature_algorithm sa alg, src))"
  have c: "consumes1 (?step sa)" for sa
    by (rule consumes1_bind [OF consumes1_ints(2)]) (rule consumes_Inr)
  have "decode_while ?step [] (concat (map enc16 algs)) = Inr (foldl add_signature_algorithm [] algs, [])"
    by (rule u16.dec_vector) (simp_all add: list_all_iff)
  then have "decode_do_while ?step [] (concat (map enc16 algs)) = Inr (foldl add_signature_algorithm [] algs, [])"
    using assms(1) c by (cases algs) (simp_all add: do_while_nonempty)
  then show ?thesis
    using assms(2) unfolding decode_signature_algorithms_def enc_signature_algorithms_def
    by (intro decode_block_enc) (simp_all add: add_signature_algorithms PTLS_MAX_SIGNATURE_ALGORITHMS_def)
qed

section \<open>Which suite is selected\<close>

lemma scan_client:
  "select_cipher_scan False hash cid i cs f =
     (case find (suite_matches hash cid) cs of Some c \<Rightarrow> Inl c | None \<Rightarrow> Inr f)"
  by (induction cs arbitrary: i) auto

text \<open>With client preference the first offer for which there is a candidate decides.\<close>

lemma select_client_preference:
  "select_cipher_loop cands False hash chacha None (concat (map enc16 ids)) =
     (case find (\<lambda>cid. find (suite_matches hash cid) cands \<noteq> None) ids of
        Some cid \<Rightarrow> Inr (the (find (suite_matches hash cid) cands))
      | None \<Rightarrow> Inl PTLS_ALERT_HANDSHAKE_FAILURE)"
proof (induction ids arbitrary: chacha)
  case (Cons cid ids)
  then show ?case
    by (cases "find (suite_matches hash cid) cands")
      (simp_all add: select_cipher_loop.simps [of _ _ _ _ _ "enc16 cid @ _"] scan_client)
qed (simp add: select_cipher_loop.simps select_cipher_end_def)

text \<open>With server preference the first candidate that is offered decides.  \<open>None\<close> is the greatest
  position.\<close>

fun first_idx :: "('a \<Rightarrow> bool) \<Rightarrow> 'a list \<Rightarrow> nat option" where
  "first_idx P [] = None"
| "first_idx P (x # xs) = (if P x then Some 0 else map_option Suc (first_idx P xs))"

fun omin :: "nat option \<Rightarrow> nat option \<Rightarrow> nat option" where
  "omin None b = b"
| "omin (Some a) b = (case b of None \<Rightarrow> Some a | Some b' \<Rightarrow> Some (min a b'))"

lemma omin_simps [simp]: "omin a None = a" "omin (Some 0) b = Some 0"
  by (cases a; cases b; simp)+

lemma omin_assoc: "omin (omin a b) c = omin a (omin b c)"
  by (cases a; cases b; cases c; simp)

lemma first_idx_disj: "first_idx (\<lambda>c. P c \<or> Q c) cs = omin (first_idx P cs) (first_idx Q cs)"
proof (induction cs)
  case (Cons c cs)
  then show ?case
    by (cases "first_idx P cs"; cases "first_idx Q cs") (auto simp: min_def)
qed simp

lemma first_idx_False [simp]: "first_idx (\<lambda>_. False) cs = None"
  by (induction cs) auto

lemma scan_server:
  "select_cipher_scan True hash cid i cs f = Inr (omin f (map_option (\<lambda>k. i + k) (first_idx (suite_matches hash cid) cs)))"
proof (induction cs arbitrary: i)
  case (Cons c cs)
  show ?case
    using Cons.IH [of "Suc i"]
    by (cases f; cases "first_idx (suite_matches hash cid) cs") (auto simp: min_def)
qed simp

lemma select_cipher_end_first:
  "select_cipher_end cands (first_idx P cands)
     = (case find P cands of Some c \<Rightarrow> Inr c | None \<Rightarrow> Inl PTLS_ALERT_HANDSHAKE_FAILURE)"
proof -
  have "map_option (\<lambda>i. cands ! i) (first_idx P cands) = find P cands"
    by (induction cands) (auto simp: option.map_comp o_def)
  then show ?thesis
    by (cases "first_idx P cands"; cases "find P cands") (auto simp: select_cipher_end_def)
qed

lemma loop_server:
  "select_cipher_loop cands True hash False f (concat (map enc16 ids))
     = select_cipher_end cands (omin f (first_idx (\<lambda>c. \<exists>cid \<in> set ids. suite_matches hash cid c) cands))"
proof (induction ids arbitrary: f)
  case (Cons cid ids)
  let ?f = "omin f (first_idx (suite_matches hash cid) cands)"
  have "map_option (\<lambda>k. 0 + k) o' = o'" for o' :: "nat option"
    by (cases o') auto
  then have "select_cipher_scan True hash cid 0 cands f = Inr ?f"
    using scan_server [of hash cid 0 cands f] by simp
  then have "select_cipher_loop cands True hash False f (concat (map enc16 (cid # ids)))
      = (if ?f = Some 0 then select_cipher_end cands ?f
         else select_cipher_loop cands True hash False ?f (concat (map enc16 ids)))"
    by (simp add: select_cipher_loop.simps [of _ _ _ _ _ "enc16 cid @ _"])
  moreover have "omin f (first_idx (\<lambda>c. \<exists>cid' \<in> set (cid # ids). suite_matches hash cid' c) cands)
      = omin ?f (first_idx (\<lambda>c. \<exists>cid \<in> set ids. suite_matches hash cid c) cands)"
    by (simp add: first_idx_disj omin_assoc)
  ultimately show ?case
    by (cases "?f = Some 0") (simp_all only: omin_simps Cons.IH if_True if_False simp_thms)
qed (simp add: select_cipher_loop.simps)

lemma select_server_preference:
  "select_cipher_loop cands True hash False None (concat (map enc16 ids))
     = (case find (\<lambda>c. \<exists>cid \<in> set ids. suite_matches hash cid c) cands of
          Some c \<Rightarrow> Inr c | None \<Rightarrow> Inl PTLS_ALERT_HANDSHAKE_FAILURE)"
  using loop_server [of cands hash None ids] by (simp add: select_cipher_end_first)

text \<open>The suite that is selected, in each of the three modes.\<close>

definition select_cipher_spec ::
  "ptls_cipher_suite list \<Rightarrow> 16 word list \<Rightarrow> bool \<Rightarrow> bool \<Rightarrow> ptls_hash_algorithm option \<Rightarrow> ptls_cipher_suite option" where
  "select_cipher_spec cands ids server_preference chacha hash =
     (let first_suite = (\<lambda>cid. find (suite_matches hash cid) cands);
          chacha_id = PTLS_CIPHER_SUITE_CHACHA20_POLY1305_SHA256 in
      if \<not> server_preference
      then map_option (\<lambda>cid. the (first_suite cid)) (find (\<lambda>cid. first_suite cid \<noteq> None) ids)
      else if chacha \<and> ids \<noteq> [] \<and> hd ids = chacha_id \<and> first_suite chacha_id \<noteq> None
      then first_suite chacha_id
      else find (\<lambda>c. \<exists>cid \<in> set ids. suite_matches hash cid c) cands)"

lemma chacha_unavailable:
  assumes "ids = cid # rest" "cid \<noteq> PTLS_CIPHER_SUITE_CHACHA20_POLY1305_SHA256 \<or> find (suite_matches hash cid) cands = None"
  shows "select_cipher_loop cands True hash True None (concat (map enc16 ids))
    = select_cipher_loop cands True hash False None (concat (map enc16 ids))"
proof (cases "cid = PTLS_CIPHER_SUITE_CHACHA20_POLY1305_SHA256")
  case True
  with assms(2) have none: "find (suite_matches hash cid) cands = None" by simp
  then have "first_idx (suite_matches hash cid) cands = None"
    by (induction cands) (auto split: if_splits)
  then show ?thesis
    using assms(1) none scan_server [of hash cid 0 cands None] True
    by (simp add: select_cipher_loop.simps [of _ _ _ _ _ "enc16 _ @ _"] scan_client)
qed (simp add: assms(1) select_cipher_loop.simps [of _ _ _ _ _ "enc16 cid @ _"])

lemma find_False: "find (\<lambda>_. False) xs = None"
  by (simp add: find_None_iff)

lemma select_cipher_eq_spec:
  "select_cipher cands (concat (map enc16 ids)) server_preference chacha hash
     = (case select_cipher_spec cands ids server_preference chacha hash of
          Some c \<Rightarrow> Inr c | None \<Rightarrow> Inl PTLS_ALERT_HANDSHAKE_FAILURE)"
proof (cases "server_preference \<and> chacha \<and> ids \<noteq> []")
  case False
  then consider "\<not> server_preference" | "server_preference" "ids = []" | "server_preference" "\<not> chacha" by blast
  then show ?thesis
    by cases
      (auto simp: select_cipher_def select_client_preference select_server_preference select_cipher_spec_def
        select_cipher_loop.simps [of _ _ _ _ _ "[]"] select_cipher_end_def Let_def find_False
        simp del: list.simps(9) split: option.splits)
next
  case True
  then obtain cid rest where ids: "ids = cid # rest" by (cases ids) auto
  show ?thesis
  proof (cases "cid = PTLS_CIPHER_SUITE_CHACHA20_POLY1305_SHA256 \<and> find (suite_matches hash cid) cands \<noteq> None")
    case c: True
    then show ?thesis
      using ids True
      by (auto simp: select_cipher_def select_cipher_loop.simps [of _ _ _ _ _ "enc16 _ @ _"] scan_client
          select_cipher_spec_def Let_def)
  next
    case False
    then have "\<not> (hd ids = PTLS_CIPHER_SUITE_CHACHA20_POLY1305_SHA256
        \<and> find (suite_matches hash PTLS_CIPHER_SUITE_CHACHA20_POLY1305_SHA256) cands \<noteq> None)"
      using ids by auto
    then show ?thesis
      using chacha_unavailable [OF ids, of hash cands] False True
      by (auto simp add: select_cipher_def select_server_preference select_cipher_spec_def Let_def
          simp del: list.map)
  qed
qed

section \<open>Which key share and group are selected\<close>

definition enc_key_share :: "16 word \<times> bytes \<Rightarrow> bytes" where
  "enc_key_share e = enc16 (fst e) @ enc_block 2 (snd e)"

lemma consumes1_key_share_entry: "consumes1 decode_key_share_entry"
  unfolding decode_key_share_entry_def
  by (intro consumes1_bind consumes_bind consumes1_ints consumes1_consumes [OF consumes1_open_block] consumes_Inr) simp

interpretation key_share_entry: codec
  "\<lambda>M e. push_key_share_entry M (fst e) (snd e)" enc_key_share decode_key_share_entry
  "\<lambda>e. length (snd e) < 65536"
proof unfold_locales
  show "pushes M (push_key_share_entry M (fst v) (snd v)) (enc_key_share v)"
    if "length (snd v) < 65536" for M and v :: "16 word \<times> bytes"
    unfolding push_key_share_entry_def enc_key_share_def using that by (intro push_intros)
  show "decode_key_share_entry (enc_key_share v @ rest) = Inr (v, rest)"
    if "length (snd v) < 65536" for v :: "16 word \<times> bytes" and rest
    using that by (simp add: decode_key_share_entry_def enc_key_share_def codec)
qed (rule consumes1_key_share_entry)

lemma note_key_share_eq:
  "note_key_share cands sel e =
     (if sel \<noteq> None then sel else map_option (\<lambda>c. (c, snd e)) (find (\<lambda>c. kx_id c = fst e) cands))"
proof -
  have "foldl (\<lambda>sel c. if sel = None \<and> kx_id c = fst e then Some (c, snd e) else sel) (Some x) cands = Some x" for x
    by (induction cands) auto
  then show ?thesis
    unfolding note_key_share_def by (cases sel; induction cands) auto
qed

text \<open>The first share that is for a group the server has.\<close>

definition select_key_share_spec ::
  "ptls_key_exchange_algorithm list \<Rightarrow> (16 word \<times> bytes) list \<Rightarrow> (ptls_key_exchange_algorithm \<times> bytes) option" where
  "select_key_share_spec cands shares =
     (case find (\<lambda>e. find (\<lambda>c. kx_id c = fst e) cands \<noteq> None) shares of
        None \<Rightarrow> None
      | Some e \<Rightarrow> map_option (\<lambda>c. (c, snd e)) (find (\<lambda>c. kx_id c = fst e) cands))"

lemma foldl_note_key_share:
  "foldl (note_key_share cands) sel shares = (if sel \<noteq> None then sel else select_key_share_spec cands shares)"
proof (induction shares arbitrary: sel)
  case (Cons e shares)
  then show ?case
    by (cases "find (\<lambda>c. kx_id c = fst e) cands") (auto simp: note_key_share_eq select_key_share_spec_def)
next
  case Nil
  show ?case by (cases sel) (simp_all add: select_key_share_spec_def)
qed

lemma select_key_share_eq_spec:
  assumes "\<forall>e \<in> set shares. length (snd e) < 65536"
  shows "select_key_share cands False (concat (map enc_key_share shares))
    = Inr (select_key_share_spec cands shares, [])"
proof -
  let ?step = "\<lambda>selected src. res_bind (decode_key_share_entry src) (\<lambda>(entry, src).
             Inr (note_key_share cands selected entry, src))"
  have "decode_while ?step None (concat (map enc_key_share shares))
      = Inr (foldl (note_key_share cands) None shares, [])"
    using assms by (intro key_share_entry.dec_vector) (simp_all add: list_all_iff)
  then show ?thesis
    by (simp add: select_key_share_def foldl_note_key_share)
qed

lemma select_key_share_one:
  assumes "length (snd e) < 65536"
  shows "select_key_share cands True (enc_key_share e @ rest)
    = (case find (\<lambda>c. kx_id c = fst e) cands of
         None \<Rightarrow> Inl PTLS_ALERT_ILLEGAL_PARAMETER | Some c \<Rightarrow> Inr (Some (c, snd e), rest))"
  using key_share_entry.dec_enc [of e rest] key_share_entry.enc_nonempty [of e] assms
  by (simp add: select_key_share_def note_key_share_eq split: option.split)

lemma negotiated_group_loop_enc:
  "negotiated_group_loop cands (concat (map enc16 groups))
     = Inr (case find (\<lambda>g. find (\<lambda>c. kx_id c = g) cands \<noteq> None) groups of
         None \<Rightarrow> None | Some g \<Rightarrow> find (\<lambda>c. kx_id c = g) cands)"
proof (induction groups)
  case (Cons g groups)
  then show ?case
    by (auto simp: negotiated_group_loop.simps [of _ "enc16 g @ _"] split: option.split)
qed (simp add: negotiated_group_loop.simps)

lemma select_negotiated_group_eq_spec:
  assumes "length groups < 32768"
  shows "select_negotiated_group cands (enc_block 2 (concat (map enc16 groups)))
    = (case find (\<lambda>g. find (\<lambda>c. kx_id c = g) cands \<noteq> None) groups of
         None \<Rightarrow> Inl PTLS_ALERT_HANDSHAKE_FAILURE
       | Some g \<Rightarrow> Inr (the (find (\<lambda>c. kx_id c = g) cands)))"
proof (cases "find (\<lambda>g. find (\<lambda>c. kx_id c = g) cands \<noteq> None) groups")
  case (Some g)
  then have "find (\<lambda>c. kx_id c = g) cands \<noteq> None"
    by (auto simp: find_Some_iff)
  then show ?thesis
    using assms Some by (auto simp: select_negotiated_group_def codec negotiated_group_loop_enc)
qed (use assms in \<open>simp add: select_negotiated_group_def codec negotiated_group_loop_enc\<close>)

section \<open>Server names\<close>

definition enc_server_name :: "bytes \<Rightarrow> bytes" where
  "enc_server_name name = enc_block 2 (enc8 PTLS_SERVER_NAME_TYPE_HOSTNAME @ enc_block 2 name)"

lemma pushes_server_name [push_intros]:
  assumes "length name < 65000"
  shows "pushes M (emit_server_name_extension M name) (enc_server_name (ascii name))"
  unfolding emit_server_name_extension_def enc_server_name_def
  using assms by (intro push_intros) (simp_all add: ascii_def)

lemma consumes1_server_name_entry: "consumes1 (decode_server_name_entry name)"
  unfolding decode_server_name_entry_def
  by (intro consumes1_bind consumes1_ints consumes1_consumes [OF consumes1_open_block]) simp

lemma decode_enc_server_name:
  assumes "name \<noteq> []" "0 \<notin> set name" "length name < 65000"
  shows "client_hello_decode_server_name old (enc_server_name name @ rest) = Inr (Some name, rest)"
proof -
  let ?e = "enc8 PTLS_SERVER_NAME_TYPE_HOSTNAME @ enc_block 2 name"
  have e: "decode_server_name_entry old ?e = Inr (Some name, [])"
    using assms open_block_enc [of name 2 "\<lambda>src. if src = [] then Inl PTLS_ALERT_DECODE_ERROR
        else if 0 \<in> set src then Inl PTLS_ALERT_ILLEGAL_PARAMETER else Inr (Some src, [])" "Some name" "[]"]
    by (simp add: decode_server_name_entry_def)
  then have "decode_do_while decode_server_name_entry old ?e = Inr (Some name, [])"
    by (simp add: decode_do_while_def)
  then show ?thesis
    unfolding client_hello_decode_server_name_def enc_server_name_def
    using assms by (intro open_block_enc) simp_all
qed

text \<open>Every name that is accepted is a non-empty string without a zero octet.\<close>

lemma decoded_server_name:
  assumes "client_hello_decode_server_name None src = Inr (Some name, rest)"
  shows "name \<noteq> [] \<and> 0 \<notin> set name"
proof -
  let ?I = "\<lambda>n. \<forall>nm. n = Some nm \<longrightarrow> nm \<noteq> [] \<and> (0 :: byte) \<notin> set nm"
  have step: "?I n'" if I: "?I n" and d: "decode_server_name_entry n s = Inr (n', s')" for n s n' s'
  proof -
    obtain t s1 where "ptls_decode_open_block 2 (\<lambda>src.
         if t = PTLS_SERVER_NAME_TYPE_HOSTNAME
         then if src = [] then Inl PTLS_ALERT_DECODE_ERROR
           else if 0 \<in> set src then Inl PTLS_ALERT_ILLEGAL_PARAMETER
           else Inr (Some src, [])
         else Inr (n, [])) s1 = Inr (n', s')"
      using d by (auto simp: decode_server_name_entry_def)
    then show ?thesis
      by (rule open_block_exact) (use I in \<open>auto split: if_splits\<close>)
  qed
  from assms obtain bs where "decode_do_while decode_server_name_entry None bs = Inr (Some name, [])"
    unfolding client_hello_decode_server_name_def by (rule open_block_exact)
  then obtain n s where n: "decode_server_name_entry None bs = Inr (n, s)"
    and w: "decode_while decode_server_name_entry n s = Inr (Some name, [])"
    by (auto simp: decode_do_while_def)
  have "?I n" by (rule step [OF _ n]) simp
  then have "?I (Some name)"
    using step by (rule decode_while_invariant [where I = ?I, OF w])
  then show ?thesis by simp
qed

end
