(* ===== verification/Hpke.thy ===== *)
theory Hpke
  imports Tickets
begin

text \<open>
  Hybrid public-key encryption, \<^verbatim>\<open>lib/hpke.c\<close>: the labelled key derivations of RFC 9180, the
  Diffie-Hellman KEM and the base-mode setup of the two sides.  The key exchange is the backend's;
  \<open>kx_agree\<close> is what it promises.
\<close>

section \<open>Algorithms\<close>

record ptls_hpke_kem =
  kem_id :: "16 word"
  kem_keyex :: ptls_key_exchange_algorithm
  kem_hash :: ptls_hash_algorithm

record ptls_hpke_cipher_suite =
  hcs_kdf :: "16 word"
  hcs_aead_id :: "16 word"
  hcs_name :: string
  hcs_hash :: ptls_hash_algorithm
  hcs_aead :: ptls_aead_algorithm

section \<open>Labelled derivations\<close>

definition HPKE_V1_LABEL :: bytes where
  "HPKE_V1_LABEL = ascii ''HPKE-v1''"

definition build_suite_id ::
  "allocator \<Rightarrow> ptls_hpke_kem \<Rightarrow> ptls_hpke_cipher_suite option \<Rightarrow> pusher" where
  "build_suite_id M kem cipher =
     (case cipher of
        None \<Rightarrow> push_then (ptls_buffer__do_pushv M (ascii ''KEM'')) (ptls_buffer_push16 M (kem_id kem))
      | Some c \<Rightarrow>
          push_then (ptls_buffer__do_pushv M (ascii ''HPKE''))
         (push_then (ptls_buffer_push16 M (kem_id kem))
         (push_then (ptls_buffer_push16 M (hcs_kdf c))
            (ptls_buffer_push16 M (hcs_aead_id c)))))"

definition suite_hash :: "ptls_hpke_kem \<Rightarrow> ptls_hpke_cipher_suite option \<Rightarrow> ptls_hash_algorithm" where
  "suite_hash kem cipher = (case cipher of Some c \<Rightarrow> hcs_hash c | None \<Rightarrow> kem_hash kem)"

definition labeled_extract ::
  "allocator \<Rightarrow> ptls_hpke_kem \<Rightarrow> ptls_hpke_cipher_suite option \<Rightarrow> bytes \<Rightarrow> string \<Rightarrow> bytes \<Rightarrow> bytes res" where
  "labeled_extract M kem cipher salt label ikm =
     res_bind (run_pusher 64
        (push_then (ptls_buffer__do_pushv M HPKE_V1_LABEL)
        (push_then (build_suite_id M kem cipher)
        (push_then (ptls_buffer__do_pushv M (ascii label))
           (ptls_buffer__do_pushv M ikm)))))
       (\<lambda>labeled_ikm. ptls_hkdf_extract (suite_hash kem cipher) salt labeled_ikm)"

definition labeled_expand ::
  "allocator \<Rightarrow> ptls_hpke_kem \<Rightarrow> ptls_hpke_cipher_suite option \<Rightarrow> nat \<Rightarrow> bytes \<Rightarrow> string \<Rightarrow> bytes \<Rightarrow> bytes res" where
  "labeled_expand M kem cipher outlen prk label info =
     res_bind (run_pusher 64
        (push_then (ptls_buffer_push16 M (of_nat outlen))
        (push_then (ptls_buffer__do_pushv M HPKE_V1_LABEL)
        (push_then (build_suite_id M kem cipher)
        (push_then (ptls_buffer__do_pushv M (ascii label))
           (ptls_buffer__do_pushv M info))))))
       (\<lambda>labeled_info. ptls_hkdf_expand (suite_hash kem cipher) outlen prk labeled_info)"

section \<open>The KEM\<close>

definition extract_and_expand ::
  "allocator \<Rightarrow> ptls_hpke_kem \<Rightarrow> nat \<Rightarrow> bytes \<Rightarrow> bytes \<Rightarrow> bytes \<Rightarrow> bytes res" where
  "extract_and_expand M kem secret_len pk_s pk_r dh =
     res_bind (run_pusher 128 (push_then (ptls_buffer__do_pushv M pk_s) (ptls_buffer__do_pushv M pk_r)))
       (\<lambda>kem_context.
     res_bind (labeled_extract M kem None [] ''eae_prk'' dh) (\<lambda>eae_prk.
       labeled_expand M kem None secret_len (take (hash_digest_size (kem_hash kem)) eae_prk)
         ''shared_secret'' kem_context))"

definition dh_derive :: "allocator \<Rightarrow> ptls_hpke_kem \<Rightarrow> bytes \<Rightarrow> bytes \<Rightarrow> bytes \<Rightarrow> bytes res" where
  "dh_derive M kem pk_s pk_r dh = extract_and_expand M kem (hash_digest_size (kem_hash kem)) pk_s pk_r dh"

text \<open>The result is the shared secret and the encapsulated public key; \<open>seed\<close> is the randomness of
  the key exchange.\<close>

definition dh_encap :: "allocator \<Rightarrow> ptls_hpke_kem \<Rightarrow> bytes \<Rightarrow> bytes \<Rightarrow> (bytes \<times> bytes) res" where
  "dh_encap M kem seed pk_r =
     res_bind (kx_exchange (kem_keyex kem) seed pk_r) (\<lambda>(pk_s, dh).
     res_bind (dh_derive M kem pk_s pk_r dh) (\<lambda>secret. Inr (secret, pk_s)))"

definition dh_decap :: "allocator \<Rightarrow> ptls_hpke_kem \<Rightarrow> bytes \<Rightarrow> bytes \<Rightarrow> bytes \<Rightarrow> bytes res" where
  "dh_decap M kem keyex pk_s pk_r =
     res_bind (kx_on_exchange (kem_keyex kem) keyex pk_s) (\<lambda>dh. dh_derive M kem pk_s pk_r dh)"

section \<open>The key schedule\<close>

definition push_key_schedule_context ::
  "allocator \<Rightarrow> ptls_hpke_kem \<Rightarrow> ptls_hpke_cipher_suite \<Rightarrow> bool \<Rightarrow> bytes \<Rightarrow> pusher" where
  "push_key_schedule_context M kem cipher is_enc info =
     push_then (ptls_buffer_push M 0)
    (push_then (push_derived M (hash_digest_size (hcs_hash cipher)) is_enc
                  (labeled_extract M kem (Some cipher) [] ''psk_id_hash'' []))
       (push_derived M (hash_digest_size (hcs_hash cipher)) is_enc
                  (labeled_extract M kem (Some cipher) [] ''info_hash'' info)))"

text \<open>The context is \<open>None\<close> when the backend could not create it; the return code is zero then too.\<close>

definition hpke_key_schedule ::
  "allocator \<Rightarrow> ptls_hpke_kem \<Rightarrow> ptls_hpke_cipher_suite \<Rightarrow> bool \<Rightarrow> bytes \<Rightarrow> bytes
     \<Rightarrow> ptls_aead_context option res" where
  "hpke_key_schedule M kem cipher is_enc shared_secret info =
     (case push_key_schedule_context M kem cipher is_enc info (ptls_buffer_init 1 128 is_enc) of (ret, ksc) \<Rightarrow>
        if ret \<noteq> 0 then Inl ret
        else
          res_bind (labeled_extract M kem (Some cipher)
                      (take (hash_digest_size (kem_hash kem)) shared_secret) ''secret'' []) (\<lambda>secret.
          res_bind (labeled_expand M kem (Some cipher) (aead_key_size (hcs_aead cipher))
                      (take (hash_digest_size (hcs_hash cipher)) secret) ''key'' (buf_data ksc)) (\<lambda>key.
          res_bind (labeled_expand M kem (Some cipher) (aead_iv_size (hcs_aead cipher))
                      (take (hash_digest_size (hcs_hash cipher)) secret) ''base_nonce'' (buf_data ksc))
            (\<lambda>base_nonce.
               Inr (ptls_aead_new_direct (hcs_aead cipher) is_enc key base_nonce)))))"

definition ptls_hpke_setup_base_s ::
  "allocator \<Rightarrow> ptls_hpke_kem \<Rightarrow> ptls_hpke_cipher_suite \<Rightarrow> bytes \<Rightarrow> bytes \<Rightarrow> bytes
     \<Rightarrow> (bytes \<times> ptls_aead_context option) res" where
  "ptls_hpke_setup_base_s M kem cipher seed pk_r info =
     res_bind (dh_encap M kem seed pk_r) (\<lambda>(secret, pk_s).
     res_bind (hpke_key_schedule M kem cipher True secret info) (\<lambda>ctx. Inr (pk_s, ctx)))"

text \<open>The receiver's key exchange context is the pair of its public key and its private state.\<close>

definition ptls_hpke_setup_base_r ::
  "allocator \<Rightarrow> ptls_hpke_kem \<Rightarrow> ptls_hpke_cipher_suite \<Rightarrow> bytes \<times> bytes \<Rightarrow> bytes \<Rightarrow> bytes
     \<Rightarrow> ptls_aead_context option res" where
  "ptls_hpke_setup_base_r M kem cipher keyex pk_s info =
     res_bind (dh_decap M kem (snd keyex) pk_s (fst keyex)) (\<lambda>secret.
       hpke_key_schedule M kem cipher False secret info)"

section \<open>RFC 9180\<close>

definition suite_id :: "ptls_hpke_kem \<Rightarrow> ptls_hpke_cipher_suite option \<Rightarrow> bytes" where
  "suite_id kem cipher =
     (case cipher of
        None \<Rightarrow> ascii ''KEM'' @ enc16 (kem_id kem)
      | Some c \<Rightarrow> ascii ''HPKE'' @ enc16 (kem_id kem) @ enc16 (hcs_kdf c) @ enc16 (hcs_aead_id c))"

definition labeled_extract_spec ::
  "ptls_hpke_kem \<Rightarrow> ptls_hpke_cipher_suite option \<Rightarrow> bytes \<Rightarrow> string \<Rightarrow> bytes \<Rightarrow> bytes" where
  "labeled_extract_spec kem cipher salt label ikm =
     hmac_spec (suite_hash kem cipher)
       (if salt = [] then replicate (hash_digest_size (suite_hash kem cipher)) 0 else salt)
       (HPKE_V1_LABEL @ suite_id kem cipher @ ascii label @ ikm)"

definition labeled_expand_spec ::
  "ptls_hpke_kem \<Rightarrow> ptls_hpke_cipher_suite option \<Rightarrow> nat \<Rightarrow> bytes \<Rightarrow> string \<Rightarrow> bytes \<Rightarrow> bytes" where
  "labeled_expand_spec kem cipher outlen prk label info =
     hkdf_expand_spec (suite_hash kem cipher) outlen prk
       (enc16 (of_nat outlen) @ HPKE_V1_LABEL @ suite_id kem cipher @ ascii label @ info)"

definition hpke_shared_secret :: "ptls_hpke_kem \<Rightarrow> bytes \<Rightarrow> bytes \<Rightarrow> bytes \<Rightarrow> bytes" where
  "hpke_shared_secret kem pk_s pk_r dh =
     labeled_expand_spec kem None (hash_digest_size (kem_hash kem))
       (labeled_extract_spec kem None [] ''eae_prk'' dh) ''shared_secret'' (pk_s @ pk_r)"

definition hpke_key_nonce ::
  "ptls_hpke_kem \<Rightarrow> ptls_hpke_cipher_suite \<Rightarrow> bytes \<Rightarrow> bytes \<Rightarrow> bytes \<times> bytes" where
  "hpke_key_nonce kem cipher shared_secret info =
     (let ksc = [0] @ labeled_extract_spec kem (Some cipher) [] ''psk_id_hash'' []
                @ labeled_extract_spec kem (Some cipher) [] ''info_hash'' info;
          secret = labeled_extract_spec kem (Some cipher) shared_secret ''secret'' [] in
      (labeled_expand_spec kem (Some cipher) (aead_key_size (hcs_aead cipher)) secret ''key'' ksc,
       labeled_expand_spec kem (Some cipher) (aead_iv_size (hcs_aead cipher)) secret ''base_nonce'' ksc))"

lemma pushes_suite_id [push_intros]: "pushes M (build_suite_id M kem cipher) (suite_id kem cipher)"
  by (cases cipher) (auto simp: build_suite_id_def suite_id_def intro!: push_intros)

lemma length_suite_id: "length (suite_id kem cipher) \<le> 10"
  by (simp add: suite_id_def ascii_def split: option.split)

lemma run_pusher_short:
  assumes "pushes M f bs" "alloc_ok M" "length bs \<le> 1000000" "n \<le> 1000000"
  shows "run_pusher n f = Inr bs"
  using assms by (intro run_pusher_pushes(2)) simp_all

lemma labeled_extract_eq:
  assumes "hash_usable (suite_hash kem cipher)" "alloc_ok M" "length label \<le> 100" "length ikm \<le> 900000"
  shows "labeled_extract M kem cipher salt label ikm = Inr (labeled_extract_spec kem cipher salt label ikm)"
proof -
  have "run_pusher 64 (push_then (ptls_buffer__do_pushv M HPKE_V1_LABEL)
        (push_then (build_suite_id M kem cipher)
        (push_then (ptls_buffer__do_pushv M (ascii label))
           (ptls_buffer__do_pushv M ikm))))
      = Inr (HPKE_V1_LABEL @ suite_id kem cipher @ ascii label @ ikm)"
    using assms length_suite_id [of kem cipher]
    by (intro run_pusher_short [of M] push_intros) (simp_all add: HPKE_V1_LABEL_def ascii_def)
  then show ?thesis
    using assms(1) hash_usable_ds [OF assms(1)]
    by (simp add: labeled_extract_def hkdf_extract_spec labeled_extract_spec_def hash_usable_def take_zeroes)
qed

lemma labeled_expand_eq:
  assumes "hash_usable (suite_hash kem cipher)" "alloc_ok M" "length label \<le> 100" "length info \<le> 900000"
  shows "labeled_expand M kem cipher outlen prk label info
    = Inr (labeled_expand_spec kem cipher outlen prk label info)"
proof -
  have "run_pusher 64 (push_then (ptls_buffer_push16 M (of_nat outlen))
        (push_then (ptls_buffer__do_pushv M HPKE_V1_LABEL)
        (push_then (build_suite_id M kem cipher)
        (push_then (ptls_buffer__do_pushv M (ascii label))
           (ptls_buffer__do_pushv M info)))))
      = Inr (enc16 (of_nat outlen) @ HPKE_V1_LABEL @ suite_id kem cipher @ ascii label @ info)"
    using assms length_suite_id [of kem cipher]
    by (intro run_pusher_short [of M] push_intros) (simp_all add: HPKE_V1_LABEL_def ascii_def)
  then show ?thesis
    using assms(1)
    by (simp add: labeled_expand_def hkdf_expand_eq_spec labeled_expand_spec_def hash_usable_def)
qed

lemma labeled_extract_spec_length:
  "hash_usable (suite_hash kem cipher) \<Longrightarrow>
     length (labeled_extract_spec kem cipher salt label ikm) = hash_digest_size (suite_hash kem cipher)"
  by (simp add: labeled_extract_spec_def hmac_spec_length hash_usable_def)

lemma suite_hash_simps [simp]:
  "suite_hash kem None = kem_hash kem" "suite_hash kem (Some c) = hcs_hash c"
  by (simp_all add: suite_hash_def)

lemma dh_derive_eq:
  assumes "hash_usable (kem_hash kem)" "alloc_ok M" "length dh \<le> 900000" "length pk_s + length pk_r \<le> 900000"
  shows "dh_derive M kem pk_s pk_r dh = Inr (hpke_shared_secret kem pk_s pk_r dh)"
proof -
  have "run_pusher 128 (push_then (ptls_buffer__do_pushv M pk_s) (ptls_buffer__do_pushv M pk_r)) = Inr (pk_s @ pk_r)"
    using assms by (intro run_pusher_short [of M] push_intros) simp_all
  then show ?thesis
    using assms
    by (simp add: dh_derive_def extract_and_expand_def labeled_extract_eq labeled_expand_eq
        labeled_extract_spec_length hpke_shared_secret_def)
qed

lemma agreeD: "agree tx f g \<Longrightarrow> buf_ok b \<Longrightarrow> buf_tx b = tx \<Longrightarrow> f b = g b"
  by (simp add: agree_def)

text \<open>Appending to a buffer of either direction cannot fail when memory does not run out.\<close>

lemma do_pushv_ok:
  assumes "alloc_ok M" "buf_ok b" "buf_base b \<noteq> None" "buf_off b + length bs \<le> SIZE_MAX"
  shows "\<exists>b'. ptls_buffer__do_pushv M bs b = (0, b') \<and> buf_data b' = buf_data b @ bs
    \<and> buf_ok b' \<and> buf_base b' \<noteq> None"
proof -
  obtain r b' where r: "ptls_buffer__do_pushv M bs b = (r, b')" by fastforce
  then show ?thesis
    using do_pushv_spec [OF assms(2) r] assms by (auto simp: grew_def)
qed

lemma key_schedule_context_eq:
  assumes u: "hash_usable (hcs_hash cipher)" and a: "alloc_ok M" and i: "length info \<le> 900000"
  shows "\<exists>b. push_key_schedule_context M kem cipher is_enc info (ptls_buffer_init 1 128 is_enc) = (0, b)
    \<and> buf_data b = [0] @ labeled_extract_spec kem (Some cipher) [] ''psk_id_hash'' []
         @ labeled_extract_spec kem (Some cipher) [] ''info_hash'' info"
proof -
  let ?b = "ptls_buffer_init 1 128 is_enc"
  let ?x = "labeled_extract_spec kem (Some cipher) [] ''psk_id_hash'' []"
  let ?y = "labeled_extract_spec kem (Some cipher) [] ''info_hash'' info"
  note ds = hash_usable_ds [OF u]
  have len: "length ?x \<le> 64" "length ?y \<le> 64"
    using u ds labeled_extract_spec_length [of kem "Some cipher"] by auto
  have x: "agree is_enc (push_derived M (hash_digest_size (hcs_hash cipher)) is_enc
      (labeled_extract M kem (Some cipher) [] label ikm))
      (ptls_buffer__do_pushv M (labeled_extract_spec kem (Some cipher) [] label ikm))"
    if "length label \<le> 100" "length ikm \<le> 900000" for label ikm
    using that u a ds labeled_extract_spec_length [of kem "Some cipher"]
    by (intro agree_derived) (simp_all add: labeled_extract_eq)
  have "agree is_enc (push_key_schedule_context M kem cipher is_enc info)
     (push_then (ptls_buffer__do_pushv M [0]) (push_then (ptls_buffer__do_pushv M ?x) (ptls_buffer__do_pushv M ?y)))"
    unfolding push_key_schedule_context_def ptls_buffer_push_def enc8_def
    using i by (intro agree_then agree_basic x) simp_all
  then have e: "push_key_schedule_context M kem cipher is_enc info ?b
      = push_then (ptls_buffer__do_pushv M [0]) (push_then (ptls_buffer__do_pushv M ?x) (ptls_buffer__do_pushv M ?y)) ?b"
    by (rule agreeD) (rule buf_ok_init, simp, simp add: ptls_buffer_init_def)
  obtain b1 where 1: "ptls_buffer__do_pushv M [0] ?b = (0, b1)" "buf_data b1 = [0]"
    "buf_ok b1" "buf_base b1 \<noteq> None"
    using do_pushv_ok [OF a buf_ok_init [of 128 1 is_enc], of "[0]"] by (auto simp: ptls_buffer_init_def)
  obtain b2 where 2: "ptls_buffer__do_pushv M ?x b1 = (0, b2)" "buf_data b2 = [0] @ ?x"
    "buf_ok b2" "buf_base b2 \<noteq> None"
    using do_pushv_ok [OF a 1(3,4), of ?x] 1(2) len by auto
  obtain b3 where 3: "ptls_buffer__do_pushv M ?y b2 = (0, b3)" "buf_data b3 = [0] @ ?x @ ?y"
    using do_pushv_ok [OF a 2(3,4), of ?y] 2(2) len by auto
  show ?thesis
    unfolding e using 1(1) 2(1) 3 by (simp add: push_then_def)
qed

lemma hpke_key_schedule_eq:
  assumes u: "hash_usable (hcs_hash cipher)" and a: "alloc_ok M" and i: "length info \<le> 800000"
    and s: "length shared_secret = hash_digest_size (kem_hash kem)"
  shows "hpke_key_schedule M kem cipher is_enc shared_secret info
    = Inr (ptls_aead_new_direct (hcs_aead cipher) is_enc (fst (hpke_key_nonce kem cipher shared_secret info))
        (snd (hpke_key_nonce kem cipher shared_secret info)))"
proof -
  obtain b where b: "push_key_schedule_context M kem cipher is_enc info (ptls_buffer_init 1 128 is_enc) = (0, b)"
    "buf_data b = [0] @ labeled_extract_spec kem (Some cipher) [] ''psk_id_hash'' []
         @ labeled_extract_spec kem (Some cipher) [] ''info_hash'' info"
    using key_schedule_context_eq [OF u a, of info kem is_enc] i by auto
  note len = labeled_extract_spec_length [of kem "Some cipher"]
  have "length (buf_data b) \<le> 900000"
    using b(2) u len hash_usable_ds [OF u] by simp
  then show ?thesis
    unfolding hpke_key_schedule_def hpke_key_nonce_def b(1)
    using u a s len b(2)
    by (simp add: labeled_extract_eq labeled_expand_eq Let_def)
qed

text \<open>What a key exchange promises: the two sides of an exchange compute the same value.\<close>

definition kx_agree :: "ptls_key_exchange_algorithm \<Rightarrow> bool" where
  "kx_agree kx \<longleftrightarrow>
     (\<forall>seed pub priv seed' pk_s dh. kx_create kx seed = Inr (pub, priv) \<longrightarrow>
        kx_exchange kx seed' pub = Inr (pk_s, dh) \<longrightarrow>
          kx_on_exchange kx priv pk_s = Inr dh \<and> length dh \<le> 1000 \<and> length pk_s \<le> 2000)"

lemma hpke_shared_secret_length:
  "hash_usable (kem_hash kem) \<Longrightarrow> length (hpke_shared_secret kem pk_s pk_r dh) = hash_digest_size (kem_hash kem)"
  by (simp add: hpke_shared_secret_def labeled_expand_spec_def hkdf_expand_spec_length hash_usable_def)

lemma hpke_setup_agree:
  assumes kx: "kx_agree (kem_keyex kem)" and hu: "hash_usable (kem_hash kem)" "hash_usable (hcs_hash cipher)"
    and a: "alloc_ok M" and ac: "aead_can_create (hcs_aead cipher)"
    and key: "kx_create (kem_keyex kem) seed = Inr (pub, priv)"
    and len: "length pub \<le> 2000" "length info \<le> 800000"
    and enc: "ptls_hpke_setup_base_s M kem cipher seed' pub info = Inr (pk_s, Some ctx_s)"
  shows "\<exists>ctx_r. ptls_hpke_setup_base_r M kem cipher (pub, priv) pk_s info = Inr (Some ctx_r)
    \<and> same_key ctx_s ctx_r \<and> actx_is_enc ctx_s \<and> \<not> actx_is_enc ctx_r \<and> actx_algo ctx_s = hcs_aead cipher"
proof -
  obtain dh where dh: "kx_exchange (kem_keyex kem) seed' pub = Inr (pk_s, dh)"
    using enc by (auto simp: ptls_hpke_setup_base_s_def dh_encap_def)
  have on: "kx_on_exchange (kem_keyex kem) priv pk_s = Inr dh" and l: "length dh \<le> 1000" "length pk_s \<le> 2000"
    using kx key dh unfolding kx_agree_def by blast+
  let ?s = "hpke_shared_secret kem pk_s pub dh"
  have d: "dh_derive M kem pk_s pub dh = Inr ?s"
    using hu a l len by (intro dh_derive_eq) simp_all
  note ks = hpke_key_schedule_eq [OF hu(2) a len(2) hpke_shared_secret_length [OF hu(1), of pk_s pub dh]]
  show ?thesis
    using enc dh on d ac
    by (auto simp: ptls_hpke_setup_base_s_def ptls_hpke_setup_base_r_def dh_encap_def dh_decap_def ks
        ptls_aead_new_direct_def same_key_def)
qed

text \<open>A context that could not be created is not reported: the setup returns zero without one.\<close>

lemma hpke_setup_without_context:
  assumes "hash_usable (kem_hash kem)" "hash_usable (hcs_hash cipher)" "alloc_ok M"
    "\<not> aead_can_create (hcs_aead cipher)" "kx_exchange (kem_keyex kem) seed pk_r = Inr (pk_s, dh)"
    "length dh \<le> 900000" "length pk_s + length pk_r \<le> 900000" "length info \<le> 800000"
  shows "ptls_hpke_setup_base_s M kem cipher seed pk_r info = Inr (pk_s, None)"
  using assms hpke_key_schedule_eq [OF assms(2,3,8) hpke_shared_secret_length [OF assms(1)]]
  by (simp add: ptls_hpke_setup_base_s_def dh_encap_def dh_derive_eq ptls_aead_new_direct_def)

end
