(* ===== verification/Ech.thy ===== *)
theory Ech
  imports Negotiate Hpke
begin

text \<open>
  Encrypted ClientHello configurations in \<^verbatim>\<open>lib/picotls.c\<close>: writing an ECHConfig, the client's
  choice from an ECHConfigList, and the HPKE state it sets up (or imitates) with it.
\<close>

unbundle bit_operations_syntax

section \<open>Configurations\<close>

abbreviation PTLS_ECH_CONFIG_VERSION :: "16 word" where "PTLS_ECH_CONFIG_VERSION \<equiv> 0xfe0d"

text \<open>\<open>inet_pton\<close> of the platform: whether a string is an address of the family.\<close>

datatype address_family = AF_INET | AF_INET6

definition ptls_server_name_is_ipaddr :: "(address_family \<Rightarrow> bytes \<Rightarrow> bool) \<Rightarrow> bytes \<Rightarrow> bool" where
  "ptls_server_name_is_ipaddr inet_pton name =
     (if inet_pton AF_INET name then True else if inet_pton AF_INET6 name then True else False)"

definition ptls_ech_encode_config ::
  "allocator \<Rightarrow> byte \<Rightarrow> ptls_hpke_kem \<Rightarrow> bytes \<Rightarrow> ptls_hpke_cipher_suite list \<Rightarrow> byte \<Rightarrow> string \<Rightarrow> pusher" where
  "ptls_ech_encode_config M config_id kem public_key ciphers max_name_length public_name b =
     (if buffer_require_direction b True \<noteq> 0 then (buffer_require_direction b True, b)
      else
        push_then (ptls_buffer_push16 M PTLS_ECH_CONFIG_VERSION)
         (ptls_buffer_push_block M 2
           (push_then (ptls_buffer_push M config_id)
           (push_then (ptls_buffer_push16 M (kem_id kem))
           (push_then (ptls_buffer_push_block M 2 (ptls_buffer__do_pushv M public_key))
           (push_then (ptls_buffer_push_block M 2
              (push_list (\<lambda>c. push_then (ptls_buffer_push16 M (hcs_kdf c)) (ptls_buffer_push16 M (hcs_aead_id c)))
                 ciphers))
           (push_then (ptls_buffer_push M max_name_length)
           (push_then (ptls_buffer_push_block M 1 (ptls_buffer__do_pushv M (ascii public_name)))
              (ptls_buffer_push_block M 2 push_nothing)))))))) b)"

record st_decoded_ech_config =
  dec_id :: byte
  dec_kem :: "ptls_hpke_kem option"
  dec_public_key :: bytes
  dec_cipher :: "ptls_hpke_cipher_suite option"
  dec_max_name_length :: byte
  dec_public_name :: bytes
  dec_bytes :: bytes

definition empty_ech_config :: st_decoded_ech_config where
  "empty_ech_config = \<lparr>dec_id = 0, dec_kem = None, dec_public_key = [], dec_cipher = None,
     dec_max_name_length = 0, dec_public_name = [], dec_bytes = []\<rparr>"

definition cipher_has_ids :: "16 word \<times> 16 word \<Rightarrow> ptls_hpke_cipher_suite \<Rightarrow> bool" where
  "cipher_has_ids ids c \<longleftrightarrow> hcs_kdf c = fst ids \<and> hcs_aead_id c = snd ids"

definition decode_ech_cipher ::
  "ptls_hpke_cipher_suite list \<Rightarrow> ptls_hpke_cipher_suite option \<Rightarrow> bytes
     \<Rightarrow> (ptls_hpke_cipher_suite option \<times> bytes) res" where
  "decode_ech_cipher ciphers cipher src =
     res_bind (ptls_decode16 src) (\<lambda>(kdf_id, src).
     res_bind (ptls_decode16 src) (\<lambda>(aead_id, src).
       Inr (if cipher = None then find (cipher_has_ids (kdf_id, aead_id)) ciphers else cipher, src)))"

definition skip_decoded :: "st_decoded_ech_config \<Rightarrow> st_decoded_ech_config" where
  "skip_decoded decoded = decoded\<lparr>dec_kem := None, dec_cipher := None\<rparr>"

definition decode_ech_public_name ::
  "allocator \<Rightarrow> (address_family \<Rightarrow> bytes \<Rightarrow> bool) \<Rightarrow> st_decoded_ech_config \<Rightarrow> bytes
     \<Rightarrow> (st_decoded_ech_config \<times> bytes) res" where
  "decode_ech_public_name M inet_pton decoded src =
     (if src = [] then Inl PTLS_ALERT_DECODE_ERROR
      else if \<not> c_malloc M (length src + 1) then Inl PTLS_ERROR_NO_MEMORY
      else if ptls_server_name_is_ipaddr inet_pton (takeWhile (\<lambda>b. b \<noteq> 0) src)
      then Inr (skip_decoded decoded, [])
      else Inr (decoded\<lparr>dec_public_name := src\<rparr>, []))"

definition decode_ech_extension ::
  "st_decoded_ech_config \<Rightarrow> bytes \<Rightarrow> (st_decoded_ech_config \<times> bytes) res" where
  "decode_ech_extension decoded src =
     res_bind (ptls_decode16 src) (\<lambda>(type, src).
     res_bind (ptls_decode_open_block 2 take_rest src) (\<lambda>(_, src).
       Inr (if type AND 0x8000 \<noteq> 0 then skip_decoded decoded else decoded, src)))"

definition decode_one_ech_config ::
  "allocator \<Rightarrow> (address_family \<Rightarrow> bytes \<Rightarrow> bool) \<Rightarrow> ptls_hpke_kem list \<Rightarrow> ptls_hpke_cipher_suite list \<Rightarrow> bytes
     \<Rightarrow> st_decoded_ech_config res" where
  "decode_one_ech_config M inet_pton kems ciphers src =
     res_bind (ptls_decode8 src) (\<lambda>(config_id, src).
     res_bind (ptls_decode16 src) (\<lambda>(kid, src).
     res_bind (ptls_decode_open_block 2
         (\<lambda>src. if src = [] then Inl PTLS_ALERT_DECODE_ERROR else take_rest src) src) (\<lambda>(public_key, src).
     res_bind (ptls_decode_open_block 2 (decode_do_while (decode_ech_cipher ciphers) None) src) (\<lambda>(cipher, src).
     res_bind (ptls_decode8 src) (\<lambda>(max_name_length, src).
     res_bind (ptls_decode_open_block 1 (decode_ech_public_name M inet_pton
         \<lparr>dec_id = config_id, dec_kem = find (\<lambda>k. kem_id k = kid) kems, dec_public_key = public_key,
          dec_cipher = cipher, dec_max_name_length = max_name_length, dec_public_name = [], dec_bytes = []\<rparr>) src)
       (\<lambda>(decoded, src).
       ptls_decode_block 2 (decode_while decode_ech_extension decoded) src))))))"

text \<open>One round of the list: the state is \<open>match_found\<close> and \<open>decoded\<close>.\<close>

definition decode_ech_list_entry ::
  "allocator \<Rightarrow> (address_family \<Rightarrow> bytes \<Rightarrow> bool) \<Rightarrow> ptls_hpke_kem list \<Rightarrow> ptls_hpke_cipher_suite list
     \<Rightarrow> bool \<times> st_decoded_ech_config \<Rightarrow> bytes \<Rightarrow> ((bool \<times> st_decoded_ech_config) \<times> bytes) res" where
  "decode_ech_list_entry M inet_pton kems ciphers st src =
     res_bind (ptls_decode16 src) (\<lambda>(version, src1).
     res_bind (ptls_decode_open_block 2 (\<lambda>body.
         if version = PTLS_ECH_CONFIG_VERSION
         then res_bind (decode_one_ech_config M inet_pton kems ciphers body) (\<lambda>c. Inr (Some c, []))
         else Inr (None, [])) src1) (\<lambda>(thisconf, rest).
       case thisconf of
         Some c \<Rightarrow>
           if \<not> fst st \<and> dec_kem c \<noteq> None \<and> dec_cipher c \<noteq> None
           then Inr ((True, c\<lparr>dec_bytes := take (length src - length rest) src\<rparr>), rest)
           else Inr (st, rest)
       | None \<Rightarrow> Inr (st, rest)))"

definition client_decode_ech_config_list ::
  "allocator \<Rightarrow> (address_family \<Rightarrow> bytes \<Rightarrow> bool) \<Rightarrow> ptls_hpke_kem list \<Rightarrow> ptls_hpke_cipher_suite list \<Rightarrow> bytes
     \<Rightarrow> int \<times> st_decoded_ech_config" where
  "client_decode_ech_config_list M inet_pton kems ciphers config_list =
     (case ptls_decode_block 2
             (decode_do_while (decode_ech_list_entry M inet_pton kems ciphers) (False, empty_ech_config))
             config_list of
        Inl ret \<Rightarrow> (ret, empty_ech_config)
      | Inr (_, decoded) \<Rightarrow> (0, decoded))"

section \<open>The client's ECH state\<close>

datatype ptls_ech_state =
  PTLS_ECH_STATE_NONE | PTLS_ECH_STATE_OFFERED | PTLS_ECH_STATE_ACCEPTED | PTLS_ECH_STATE_GREASE

record st_ptls_ech =
  ech_state :: ptls_ech_state
  ech_config_id :: byte
  ech_kem :: "ptls_hpke_kem option"
  ech_cipher :: "ptls_hpke_cipher_suite option"
  ech_aead :: "ptls_aead_context option"
  ech_inner_client_random :: bytes
  ech_client_enc :: bytes
  ech_client_max_name_length :: byte
  ech_client_public_name :: "bytes option"
  ech_client_first_ech :: bytes

definition clear_ech :: "st_ptls_ech \<Rightarrow> bool \<Rightarrow> st_ptls_ech" where
  "clear_ech ech is_server =
     (let ech1 = ech\<lparr>ech_aead := None, ech_inner_client_random := replicate 32 0\<rparr> in
      if \<not> is_server
      then ech1\<lparr>ech_client_enc := [], ech_client_public_name := None, ech_client_first_ech := []\<rparr>
      else ech1)"

definition ech_info_prefix :: bytes where
  "ech_info_prefix = ascii ''tls ech'' @ [0]"

text \<open>\<open>seed\<close> is the randomness of the key exchange, \<open>random\<close> that of the inner client random.\<close>

definition client_setup_ech ::
  "allocator \<Rightarrow> st_ptls_ech \<Rightarrow> st_decoded_ech_config \<Rightarrow> ptls_hpke_kem \<Rightarrow> ptls_hpke_cipher_suite \<Rightarrow> bytes \<Rightarrow> bytes
     \<Rightarrow> int \<times> st_ptls_ech" where
  "client_setup_ech M ech decoded kem cipher seed random =
     (case run_pusher 256 (push_then (ptls_buffer__do_pushv M ech_info_prefix)
                             (ptls_buffer__do_pushv M (dec_bytes decoded))) of
        Inl ret \<Rightarrow> (ret, clear_ech ech False)
      | Inr info \<Rightarrow>
          (case ptls_hpke_setup_base_s M kem cipher seed (dec_public_key decoded) info of
             Inl ret \<Rightarrow> (ret, clear_ech ech False)
           | Inr (enc, aead) \<Rightarrow>
               let ech1 = ech\<lparr>ech_client_enc := enc, ech_aead := aead, ech_config_id := dec_id decoded,
                              ech_kem := Some kem, ech_cipher := Some cipher,
                              ech_inner_client_random := take 32 random,
                              ech_client_max_name_length := dec_max_name_length decoded\<rparr> in
               if \<not> c_malloc M (length (dec_public_name decoded) + 1)
               then (PTLS_ERROR_NO_MEMORY, clear_ech (ech1\<lparr>ech_client_public_name := None\<rparr>) False)
               else (0, ech1\<lparr>ech_client_public_name := Some (dec_public_name decoded)\<rparr>)))"

text \<open>The three draws of \<open>random_bytes\<close> are arguments; they have 32, 32 and one octets.\<close>

definition client_setup_ech_grease ::
  "allocator \<Rightarrow> st_ptls_ech \<Rightarrow> bytes \<Rightarrow> bytes \<Rightarrow> byte \<Rightarrow> ptls_hpke_kem list \<Rightarrow> ptls_hpke_cipher_suite list \<Rightarrow> bytes
     \<Rightarrow> st_ptls_ech" where
  "client_setup_ech_grease M ech random_secret random_enc random_id kems ciphers sni_name =
     (let ech1 = (case find (\<lambda>k. kem_id k = 32) kems of Some k \<Rightarrow> ech\<lparr>ech_kem := Some k\<rparr> | None \<Rightarrow> ech);
          ech2 = (case find (\<lambda>c. hcs_kdf c = 1 \<and> hcs_aead_id c = 1) ciphers of
                    Some c \<Rightarrow> ech1\<lparr>ech_cipher := Some c\<rparr> | None \<Rightarrow> ech1) in
      case (ech_kem ech2, ech_cipher ech2) of
        (Some kem, Some cipher) \<Rightarrow>
          let ech3 = ech2\<lparr>ech_aead := ptls_aead_new_direct (hcs_aead cipher) True (take 16 random_secret)
                            (drop 16 random_secret)\<rparr> in
          if \<not> c_malloc M 32 then clear_ech ech3 False
          else let ech4 = ech3\<lparr>ech_client_enc := random_enc, ech_config_id := random_id,
                               ech_client_max_name_length := 64\<rparr> in
            if \<not> c_malloc M (length sni_name + 1)
            then clear_ech (ech4\<lparr>ech_client_public_name := None\<rparr>) False
            else ech4\<lparr>ech_client_public_name := Some sni_name\<rparr>
      | _ \<Rightarrow> clear_ech ech2 False)"

section \<open>What the client reads of a configuration\<close>

record ech_config =
  cfg_id :: byte
  cfg_kem_id :: "16 word"
  cfg_public_key :: bytes
  cfg_ciphers :: "(16 word \<times> 16 word) list"
  cfg_max_name_length :: byte
  cfg_public_name :: bytes

definition enc_ech_cipher :: "16 word \<times> 16 word \<Rightarrow> bytes" where
  "enc_ech_cipher ids = enc16 (fst ids) @ enc16 (snd ids)"

definition enc_ech_body :: "ech_config \<Rightarrow> bytes" where
  "enc_ech_body cfg =
     enc8 (cfg_id cfg) @ enc16 (cfg_kem_id cfg) @ enc_block 2 (cfg_public_key cfg)
     @ enc_block 2 (concat (map enc_ech_cipher (cfg_ciphers cfg))) @ enc8 (cfg_max_name_length cfg)
     @ enc_block 1 (cfg_public_name cfg) @ enc_block 2 []"

definition enc_ech_config :: "ech_config \<Rightarrow> bytes" where
  "enc_ech_config cfg = enc16 PTLS_ECH_CONFIG_VERSION @ enc_block 2 (enc_ech_body cfg)"

definition ech_config_ok :: "ech_config \<Rightarrow> bool" where
  "ech_config_ok cfg \<longleftrightarrow> cfg_public_key cfg \<noteq> [] \<and> cfg_ciphers cfg \<noteq> [] \<and> cfg_public_name cfg \<noteq> []
     \<and> length (cfg_public_name cfg) < 256
     \<and> length (cfg_public_key cfg) + 4 * length (cfg_ciphers cfg) < 60000"

lemma length_enc_ech_ciphers [simp]: "length (concat (map enc_ech_cipher ids)) = 4 * length ids"
  by (induction ids) (simp_all add: enc_ech_cipher_def)

lemma length_enc_ech_body [simp]:
  "length (enc_ech_body cfg) = 11 + length (cfg_public_key cfg) + 4 * length (cfg_ciphers cfg) + length (cfg_public_name cfg)"
  by (simp add: enc_ech_body_def)

lemma enc_ech_config_nonempty [simp]: "enc_ech_config cfg \<noteq> []"
  by (simp add: enc_ech_config_def)

text \<open>The configuration \<open>ptls_ech_encode_config\<close> writes.\<close>

definition new_ech_config ::
  "byte \<Rightarrow> ptls_hpke_kem \<Rightarrow> bytes \<Rightarrow> ptls_hpke_cipher_suite list \<Rightarrow> byte \<Rightarrow> string \<Rightarrow> ech_config" where
  "new_ech_config config_id kem public_key ciphers max_name_length public_name =
     \<lparr>cfg_id = config_id, cfg_kem_id = kem_id kem, cfg_public_key = public_key,
      cfg_ciphers = map (\<lambda>c. (hcs_kdf c, hcs_aead_id c)) ciphers,
      cfg_max_name_length = max_name_length, cfg_public_name = ascii public_name\<rparr>"

lemma pushes_ech_config:
  assumes "ech_config_ok (new_ech_config config_id kem public_key ciphers max_name_length public_name)"
  shows "pushes M (ptls_ech_encode_config M config_id kem public_key ciphers max_name_length public_name)
    (enc_ech_config (new_ech_config config_id kem public_key ciphers max_name_length public_name))"
proof (rule pushesI, goal_cases)
  case (1 b r b')
  let ?f = "push_then (ptls_buffer_push16 M PTLS_ECH_CONFIG_VERSION)
         (ptls_buffer_push_block M 2
           (push_then (ptls_buffer_push M config_id)
           (push_then (ptls_buffer_push16 M (kem_id kem))
           (push_then (ptls_buffer_push_block M 2 (ptls_buffer__do_pushv M public_key))
           (push_then (ptls_buffer_push_block M 2
              (push_list (\<lambda>c. push_then (ptls_buffer_push16 M (hcs_kdf c)) (ptls_buffer_push16 M (hcs_aead_id c)))
                 ciphers))
           (push_then (ptls_buffer_push M max_name_length)
           (push_then (ptls_buffer_push_block M 1 (ptls_buffer__do_pushv M (ascii public_name)))
              (ptls_buffer_push_block M 2 push_nothing))))))))"
  let ?cfg = "new_ech_config config_id kem public_key ciphers max_name_length public_name"
  have c: "concat (map enc_ech_cipher (map (\<lambda>c. (hcs_kdf c, hcs_aead_id c)) ciphers))
      = concat (map (\<lambda>c. enc16 (hcs_kdf c) @ enc16 (hcs_aead_id c)) ciphers)"
    by (simp add: enc_ech_cipher_def comp_def)
  have l: "length (concat (map (\<lambda>c. enc16 (hcs_kdf c) @ enc16 (hcs_aead_id c)) ciphers)) = 4 * length ciphers"
    unfolding c [symmetric] length_enc_ech_ciphers by simp
  have ok: "length public_key + 4 * length ciphers < 60000" "length (ascii public_name) < 256"
    using assms by (auto simp: ech_config_ok_def new_ech_config_def)
  have p: "pushes M ?f (enc_ech_config ?cfg)"
    unfolding enc_ech_config_def enc_ech_body_def new_ech_config_def ech_config.simps c
    using ok by (intro push_intros) (simp_all add: l)
  show ?case
  proof (cases "buf_tx b")
    case True
    then have "?f b = (r, b')"
      using 1(2) by (simp add: ptls_ech_encode_config_def buffer_require_direction_def)
    then show ?thesis
      using pushesD [OF p, OF 1(1)] by blast
  next
    case False
    then show ?thesis
      using 1 by (auto simp: ptls_ech_encode_config_def buffer_require_direction_def push_failure_def
          push_ready_def grew_refl)
  qed
qed

definition choose_ech_cipher ::
  "ptls_hpke_cipher_suite list \<Rightarrow> (16 word \<times> 16 word) list \<Rightarrow> ptls_hpke_cipher_suite option" where
  "choose_ech_cipher ciphers idss =
     (case find (\<lambda>ids. find (cipher_has_ids ids) ciphers \<noteq> None) idss of
        None \<Rightarrow> None | Some ids \<Rightarrow> find (cipher_has_ids ids) ciphers)"

lemma fold_ech_cipher:
  "foldl (\<lambda>cipher ids. if cipher = None then find (cipher_has_ids ids) ciphers else cipher) sel idss
     = (if sel \<noteq> None then sel else choose_ech_cipher ciphers idss)"
proof (induction idss arbitrary: sel)
  case (Cons ids idss)
  then show ?case
    by (cases sel; cases "find (cipher_has_ids ids) ciphers") (auto simp: choose_ech_cipher_def)
next
  case Nil
  show ?case by (cases sel) (simp_all add: choose_ech_cipher_def)
qed

lemma consumes1_ech_cipher: "consumes1 (decode_ech_cipher ciphers sel)"
  unfolding decode_ech_cipher_def
  by (intro consumes1_bind consumes1_ints consumes_bind consumes1_consumes [OF consumes1_ints(2)] consumes_Inr)

lemma decode_ech_ciphers:
  assumes "idss \<noteq> []"
  shows "decode_do_while (decode_ech_cipher ciphers) None (concat (map enc_ech_cipher idss))
    = Inr (choose_ech_cipher ciphers idss, [])"
proof -
  have "decode_while (decode_ech_cipher ciphers) None (concat (map enc_ech_cipher idss))
      = Inr (foldl (\<lambda>cipher ids. if cipher = None then find (cipher_has_ids ids) ciphers else cipher) None idss, [])"
    by (rule decode_while_vector) (simp_all add: decode_ech_cipher_def enc_ech_cipher_def)
  moreover have "concat (map enc_ech_cipher idss) \<noteq> []"
    using assms by (cases idss) (simp_all add: enc_ech_cipher_def)
  ultimately show ?thesis
    by (simp add: do_while_nonempty [OF _ consumes1_ech_cipher] fold_ech_cipher)
qed

definition read_ech_config ::
  "(address_family \<Rightarrow> bytes \<Rightarrow> bool) \<Rightarrow> ptls_hpke_kem list \<Rightarrow> ptls_hpke_cipher_suite list \<Rightarrow> ech_config
     \<Rightarrow> st_decoded_ech_config" where
  "read_ech_config inet_pton kems ciphers cfg =
     (let c = \<lparr>dec_id = cfg_id cfg, dec_kem = find (\<lambda>k. kem_id k = cfg_kem_id cfg) kems,
               dec_public_key = cfg_public_key cfg, dec_cipher = choose_ech_cipher ciphers (cfg_ciphers cfg),
               dec_max_name_length = cfg_max_name_length cfg, dec_public_name = [], dec_bytes = []\<rparr> in
      if ptls_server_name_is_ipaddr inet_pton (takeWhile (\<lambda>b. b \<noteq> 0) (cfg_public_name cfg))
      then skip_decoded c else c\<lparr>dec_public_name := cfg_public_name cfg\<rparr>)"

lemma decode_enc_ech_body:
  assumes "ech_config_ok cfg" "alloc_ok M"
  shows "decode_one_ech_config M inet_pton kems ciphers (enc_ech_body cfg)
    = Inr (read_ech_config inet_pton kems ciphers cfg)"
proof -
  let ?nm = "cfg_public_name cfg"
  have ok: "cfg_public_key cfg \<noteq> []" "length (cfg_public_key cfg) < 65536" "cfg_ciphers cfg \<noteq> []"
    "4 * length (cfg_ciphers cfg) < 65536" "?nm \<noteq> []" "length ?nm < 256"
    using assms(1) by (auto simp: ech_config_ok_def)
  have pk: "ptls_decode_open_block 2 (\<lambda>src. if src = [] then Inl PTLS_ALERT_DECODE_ERROR else take_rest src)
      (enc_block 2 (cfg_public_key cfg) @ rest) = Inr (cfg_public_key cfg, rest)" for rest
    using ok by (intro open_block_enc) (simp_all add: take_rest_def)
  have cs: "ptls_decode_open_block 2 (decode_do_while (decode_ech_cipher ciphers) None)
      (enc_block 2 (concat (map enc_ech_cipher (cfg_ciphers cfg))) @ rest)
      = Inr (choose_ech_cipher ciphers (cfg_ciphers cfg), rest)" for rest
    using ok by (intro open_block_enc decode_ech_ciphers) simp_all
  have nm: "ptls_decode_open_block 1 (decode_ech_public_name M inet_pton c) (enc_block 1 ?nm @ rest)
      = Inr (if ptls_server_name_is_ipaddr inet_pton (takeWhile (\<lambda>b. b \<noteq> 0) ?nm) then skip_decoded c
             else c\<lparr>dec_public_name := ?nm\<rparr>, rest)" for c rest
    using ok assms(2) by (intro open_block_enc) (simp_all add: decode_ech_public_name_def c_malloc_ok)
  have ex: "ptls_decode_block 2 (decode_while decode_ech_extension c) (enc_block 2 []) = Inr c" for c
    by (intro decode_block_enc) simp_all
  show ?thesis
    unfolding decode_one_ech_config_def enc_ech_body_def
    by (simp add: pk cs nm ex read_ech_config_def Let_def del: One_nat_def)
qed

text \<open>The client adopts the first configuration it can use, with the octets of that configuration.\<close>

definition ech_usable :: "st_decoded_ech_config \<Rightarrow> bool" where
  "ech_usable c \<longleftrightarrow> dec_kem c \<noteq> None \<and> dec_cipher c \<noteq> None"

definition adopt_ech_config ::
  "(address_family \<Rightarrow> bytes \<Rightarrow> bool) \<Rightarrow> ptls_hpke_kem list \<Rightarrow> ptls_hpke_cipher_suite list \<Rightarrow> ech_config list
     \<Rightarrow> st_decoded_ech_config" where
  "adopt_ech_config inet_pton kems ciphers cfgs =
     (case find (\<lambda>cfg. ech_usable (read_ech_config inet_pton kems ciphers cfg)) cfgs of
        None \<Rightarrow> empty_ech_config
      | Some cfg \<Rightarrow> (read_ech_config inet_pton kems ciphers cfg)\<lparr>dec_bytes := enc_ech_config cfg\<rparr>)"

lemma ech_list_entry_enc:
  assumes "ech_config_ok cfg" "alloc_ok M"
  shows "decode_ech_list_entry M inet_pton kems ciphers st (enc_ech_config cfg @ rest)
    = Inr (if \<not> fst st \<and> ech_usable (read_ech_config inet_pton kems ciphers cfg)
           then (True, (read_ech_config inet_pton kems ciphers cfg)\<lparr>dec_bytes := enc_ech_config cfg\<rparr>) else st, rest)"
proof -
  let ?blk = "\<lambda>body. if PTLS_ECH_CONFIG_VERSION = PTLS_ECH_CONFIG_VERSION
         then res_bind (decode_one_ech_config M inet_pton kems ciphers body) (\<lambda>c. Inr (Some c, []))
         else Inr (None, [])"
  have "ptls_decode_open_block 2 ?blk (enc_block 2 (enc_ech_body cfg) @ rest)
      = Inr (Some (read_ech_config inet_pton kems ciphers cfg), rest)"
    using assms by (intro open_block_enc) (auto simp: decode_enc_ech_body ech_config_ok_def)
  then show ?thesis
    by (simp add: decode_ech_list_entry_def enc_ech_config_def ech_usable_def)
qed

lemma consumes1_ech_list_entry: "consumes1 (decode_ech_list_entry M inet_pton kems ciphers st)"
  unfolding consumes1_def
proof (intro allI impI)
  fix src v rest
  assume run: "decode_ech_list_entry M inet_pton kems ciphers st src = Inr (v, rest)"
  then obtain version src1 where 1: "ptls_decode16 src = Inr (version, src1)"
    by (auto simp: decode_ech_list_entry_def)
  obtain tc where "ptls_decode_open_block 2 (\<lambda>body.
         if version = PTLS_ECH_CONFIG_VERSION
         then res_bind (decode_one_ech_config M inet_pton kems ciphers body) (\<lambda>c. Inr (Some c, []))
         else Inr (None, [])) src1 = Inr (tc, rest)"
    using run unfolding decode_ech_list_entry_def 1 res_bind.simps case_prod_conv
    by (auto split: option.splits if_splits)
  then have "strict_suffix rest src1"
    using consumes1D [OF consumes1_open_block [of 2]] by simp
  moreover have "strict_suffix src1 src"
    by (rule consumes1D [OF consumes1_ints(2) 1])
  ultimately show "strict_suffix rest src"
    by (rule suffix_order.less_trans)
qed

lemma fold_ech_list:
  "foldl (\<lambda>st cfg. if \<not> fst st \<and> P cfg then (True, g cfg) else st) (found, d) cfgs
     = (if found then (found, d)
        else case find P cfgs of None \<Rightarrow> (False, d) | Some cfg \<Rightarrow> (True, g cfg))"
  by (induction cfgs arbitrary: found d) auto

lemma ech_config_list_eq:
  assumes "alloc_ok M" "cfgs \<noteq> []" "list_all ech_config_ok cfgs" "length (concat (map enc_ech_config cfgs)) < 65536"
  shows "client_decode_ech_config_list M inet_pton kems ciphers (enc_block 2 (concat (map enc_ech_config cfgs)))
    = (0, adopt_ech_config inet_pton kems ciphers cfgs)"
proof -
  let ?step = "decode_ech_list_entry M inet_pton kems ciphers"
  let ?P = "\<lambda>cfg. ech_usable (read_ech_config inet_pton kems ciphers cfg)"
  let ?g = "\<lambda>cfg. (read_ech_config inet_pton kems ciphers cfg)\<lparr>dec_bytes := enc_ech_config cfg\<rparr>"
  let ?st = "foldl (\<lambda>st cfg. if \<not> fst st \<and> ?P cfg then (True, ?g cfg) else st) (False, empty_ech_config) cfgs"
  have "decode_while ?step (False, empty_ech_config) (concat (map enc_ech_config cfgs)) = Inr (?st, [])"
    using assms by (intro decode_while_vector) (auto simp: ech_list_entry_enc list_all_iff)
  moreover have ne: "concat (map enc_ech_config cfgs) \<noteq> []"
    using assms(2) by (cases cfgs) simp_all
  ultimately have "decode_do_while ?step (False, empty_ech_config) (concat (map enc_ech_config cfgs)) = Inr (?st, [])"
    unfolding do_while_nonempty [OF ne consumes1_ech_list_entry] by simp
  then have "ptls_decode_block 2 (decode_do_while ?step (False, empty_ech_config))
      (enc_block 2 (concat (map enc_ech_config cfgs))) = Inr ?st"
    using assms(4) by (intro decode_block_enc) simp_all
  then show ?thesis
    by (simp add: client_decode_ech_config_list_def fold_ech_list adopt_ech_config_def split: option.split)
qed

section \<open>The state the client sets up\<close>

lemma ech_info_eq:
  assumes "alloc_ok M" "length bs \<le> 700000"
  shows "run_pusher 256 (push_then (ptls_buffer__do_pushv M ech_info_prefix) (ptls_buffer__do_pushv M bs))
    = Inr (ech_info_prefix @ bs)"
  using assms by (intro run_pusher_short [of M] push_intros) (simp_all add: ech_info_prefix_def ascii_def)

text \<open>A server that knows the private key of the configuration opens what the client seals.\<close>

lemma client_setup_ech_agree:
  assumes kx: "kx_agree (kem_keyex kem)" and hu: "hash_usable (kem_hash kem)" "hash_usable (hcs_hash cipher)"
    and a: "alloc_ok M" and ac: "aead_can_create (hcs_aead cipher)"
    and key: "kx_create (kem_keyex kem) seed = Inr (dec_public_key decoded, priv)"
    and ex: "kx_exchange (kem_keyex kem) seed' (dec_public_key decoded) = Inr (enc, dh)"
    and len: "length (dec_public_key decoded) \<le> 2000" "length (dec_bytes decoded) \<le> 700000"
  shows "\<exists>ech' ctx_s ctx_r. client_setup_ech M ech decoded kem cipher seed' random = (0, ech')
    \<and> ech_aead ech' = Some ctx_s
    \<and> ptls_hpke_setup_base_r M kem cipher (dec_public_key decoded, priv) (ech_client_enc ech')
        (ech_info_prefix @ dec_bytes decoded) = Inr (Some ctx_r)
    \<and> same_key ctx_s ctx_r \<and> actx_algo ctx_s = hcs_aead cipher
    \<and> ech_config_id ech' = dec_id decoded \<and> ech_client_public_name ech' = Some (dec_public_name decoded)"
proof -
  let ?info = "ech_info_prefix @ dec_bytes decoded" and ?pk = "dec_public_key decoded"
  have li: "length ?info \<le> 800000"
    using len(2) by (simp add: ech_info_prefix_def ascii_def)
  have "length dh \<le> 1000" "length enc \<le> 2000"
    using kx key ex unfolding kx_agree_def by blast+
  then have d: "dh_derive M kem enc ?pk dh = Inr (hpke_shared_secret kem enc ?pk dh)"
    using dh_derive_eq [OF hu(1) a] len by simp
  obtain ctx_s where s: "ptls_hpke_setup_base_s M kem cipher seed' ?pk ?info = Inr (enc, Some ctx_s)"
    using hpke_key_schedule_eq [OF hu(2) a li hpke_shared_secret_length [OF hu(1)]] ac ex d
    by (auto simp: ptls_hpke_setup_base_s_def dh_encap_def ptls_aead_new_direct_def)
  obtain ctx_r where "ptls_hpke_setup_base_r M kem cipher (?pk, priv) enc ?info = Inr (Some ctx_r)"
    "same_key ctx_s ctx_r" "actx_algo ctx_s = hcs_aead cipher"
    using hpke_setup_agree [OF kx hu a ac key len(1) li s] by blast
  then show ?thesis
    using s c_malloc_ok [OF a] by (simp add: client_setup_ech_def ech_info_eq [OF a len(2)] Let_def)
qed

end
