(* ===== verification/Base64.thy ===== *)
theory Base64
  imports Aead
begin

text \<open>
  Base64 and PEM files (\<^verbatim>\<open>lib/pembase64.c\<close>): the encoder, the decoder that takes its text a line
  at a time, and the loader of the PEM objects with a given label.  A C string is the list of its
  characters without the terminator; a file is what remains to be read of it.
\<close>

unbundle bit_operations_syntax

abbreviation PTLS_ERROR_INCORRECT_BASE64 :: int where "PTLS_ERROR_INCORRECT_BASE64 \<equiv> 0x232"
abbreviation PTLS_ERROR_PEM_LABEL_NOT_FOUND :: int where "PTLS_ERROR_PEM_LABEL_NOT_FOUND \<equiv> 0x233"

section \<open>The encoder\<close>

definition ptls_base64_alphabet :: bytes where
  "ptls_base64_alphabet = ascii ''ABCDEFGHIJKLMNOPQRSTUVWXYZabcdefghijklmnopqrstuvwxyz0123456789+/''"

definition ptls_base64_values :: "int list" where
  "ptls_base64_values = [
     -1, -1, -1, -1, -1, -1, -1, -1, -1, -1, -1, -1, -1, -1, -1, -1,
     -1, -1, -1, -1, -1, -1, -1, -1, -1, -1, -1, -1, -1, -1, -1, -1,
     -1, -1, -1, -1, -1, -1, -1, -1, -1, -1, -1, 62, -1, -1, -1, 63,
     52, 53, 54, 55, 56, 57, 58, 59, 60, 61, -1, -1, -1, -1, -1, -1,
     -1, 0, 1, 2, 3, 4, 5, 6, 7, 8, 9, 10, 11, 12, 13, 14,
     15, 16, 17, 18, 19, 20, 21, 22, 23, 24, 25, -1, -1, -1, -1, -1,
     -1, 26, 27, 28, 29, 30, 31, 32, 33, 34, 35, 36, 37, 38, 39, 40,
     41, 42, 43, 44, 45, 46, 47, 48, 49, 50, 51, -1, -1, -1, -1, -1]"

definition ptls_base64_cell :: "byte \<Rightarrow> byte \<Rightarrow> byte \<Rightarrow> bytes" where
  "ptls_base64_cell d0 d1 d2 =
     map (\<lambda>n. ptls_base64_alphabet ! unat n)
       [drop_bit 2 d0, push_bit 4 (d0 AND 3) OR drop_bit 4 d1, push_bit 2 (d1 AND 15) OR drop_bit 6 d2, d2 AND 63]"

definition ptls_base64_howlong :: "nat \<Rightarrow> nat" where
  "ptls_base64_howlong data_length = (data_length + 2) div 3 * 4"

text \<open>\<open>'='\<close> is 61.\<close>

fun base64_text :: "bytes \<Rightarrow> bytes" where
  "base64_text (d0 # d1 # d2 # data) = ptls_base64_cell d0 d1 d2 @ base64_text data"
| "base64_text [] = []"
| "base64_text [d0] = [ptls_base64_alphabet ! unat (drop_bit 2 d0),
     ptls_base64_alphabet ! unat (push_bit 4 (d0 AND 3)), 61, 61]"
| "base64_text [d0, d1] = [ptls_base64_alphabet ! unat (drop_bit 2 d0),
     ptls_base64_alphabet ! unat (push_bit 4 (d0 AND 3) OR drop_bit 4 d1),
     ptls_base64_alphabet ! unat (push_bit 2 (d1 AND 15)), 61]"

definition ptls_base64_encode :: "bytes \<Rightarrow> bytes \<times> nat" where
  "ptls_base64_encode data = (let txt = base64_text data @ [0] in (txt, length txt))"

section \<open>The decoder\<close>

datatype base64_status = PTLS_BASE64_DECODE_DONE | PTLS_BASE64_DECODE_IN_PROGRESS | PTLS_BASE64_DECODE_FAILED

record ptls_base64_decode_state =
  b64_nbc :: nat
  b64_nbo :: nat
  b64_status :: base64_status
  b64_v :: "32 word"

definition ptls_base64_decode_init :: ptls_base64_decode_state where
  "ptls_base64_decode_init =
     \<lparr>b64_nbc = 0, b64_nbo = 3, b64_status = PTLS_BASE64_DECODE_IN_PROGRESS, b64_v = 0\<rparr>"

definition is_blank :: "byte \<Rightarrow> bool" where
  "is_blank c \<longleftrightarrow> c = 32 \<or> c = 9 \<or> c = 13 \<or> c = 10"

definition is_final_blank :: "byte \<Rightarrow> bool" where
  "is_final_blank c \<longleftrightarrow> is_blank c \<or> c = 0x0b \<or> c = 0x0c"

text \<open>\<open>char\<close> is signed: an octet from 128 on is a negative \<open>c\<close>.\<close>

definition base64_vc :: "byte \<Rightarrow> int" where
  "base64_vc b = (let c = sint b in if 0 < c \<and> c < 0x7f then ptls_base64_values ! nat c else -1)"

definition base64_octets :: "32 word \<Rightarrow> nat \<Rightarrow> bytes" where
  "base64_octets v nbo = map (\<lambda>j. ucast (drop_bit (8 * (2 - j)) v)) [0..<nbo]"

text \<open>The end of the loop body: when four characters are in, their octets are pushed.  After a
  padded group the rest of the line is run through and the decoder is done.  The flag tells
  whether the loop goes on.\<close>

definition base64_flush ::
  "allocator \<Rightarrow> ptls_base64_decode_state \<Rightarrow> ptls_buffer \<Rightarrow> bool \<times> int \<times> ptls_base64_decode_state \<times> ptls_buffer" where
  "base64_flush M state buf =
     (if b64_nbc state = 4
      then case ptls_buffer__do_pushv M (base64_octets (b64_v state) (b64_nbo state)) buf of (ret, buf') \<Rightarrow>
        if ret \<noteq> 0 then (False, ret, state, buf')
        else if b64_nbo state < 3 then (False, 0, state\<lparr>b64_status := PTLS_BASE64_DECODE_DONE\<rparr>, buf')
        else (True, 0, state\<lparr>b64_v := 0, b64_nbo := 3, b64_nbc := 0\<rparr>, buf')
      else (True, 0, state, buf))"

function base64_decode_loop ::
  "allocator \<Rightarrow> bytes \<Rightarrow> ptls_base64_decode_state \<Rightarrow> ptls_buffer \<Rightarrow> int \<times> ptls_base64_decode_state \<times> ptls_buffer" where
  "base64_decode_loop M txt state buf =
     (case txt of
        [] \<Rightarrow> (0, state, buf)
      | c # txt1 \<Rightarrow>
          if b64_status state \<noteq> PTLS_BASE64_DECODE_IN_PROGRESS then (0, state, buf)
          else let vc = base64_vc c in
            if vc = -1
            then if b64_nbc state = 2 \<and> c = 61 \<and> txt1 \<noteq> [] \<and> hd txt1 = 61
              then case base64_flush M (state\<lparr>b64_nbc := 4, b64_nbo := 1, b64_v := push_bit 12 (b64_v state)\<rparr>) buf of
                (goes_on, ret, state', buf') \<Rightarrow>
                  if goes_on then base64_decode_loop M (tl txt1) state' buf' else (ret, state', buf')
              else if b64_nbc state = 3 \<and> c = 61
              then case base64_flush M (state\<lparr>b64_nbc := 4, b64_nbo := 2, b64_v := push_bit 6 (b64_v state)\<rparr>) buf of
                (goes_on, ret, state', buf') \<Rightarrow>
                  if goes_on then base64_decode_loop M txt1 state' buf' else (ret, state', buf')
              else if dropWhile is_final_blank txt = [] then (0, state, buf)
              else (PTLS_ERROR_INCORRECT_BASE64,
                    state\<lparr>b64_nbo := 0, b64_status := PTLS_BASE64_DECODE_FAILED\<rparr>, buf)
            else case base64_flush M (state\<lparr>b64_nbc := b64_nbc state + 1,
                                           b64_v := push_bit 6 (b64_v state) OR word_of_int vc\<rparr>) buf of
              (goes_on, ret, state', buf') \<Rightarrow>
                if goes_on then base64_decode_loop M txt1 state' buf' else (ret, state', buf'))"
  by pat_completeness auto
termination
  by (relation "measure (\<lambda>(M, txt, s, b). length txt)") auto

declare base64_decode_loop.simps [simp del]

definition ptls_base64_decode ::
  "allocator \<Rightarrow> bytes \<Rightarrow> ptls_base64_decode_state \<Rightarrow> ptls_buffer \<Rightarrow> int \<times> ptls_base64_decode_state \<times> ptls_buffer" where
  "ptls_base64_decode M txt state buf = base64_decode_loop M (dropWhile is_blank txt) state buf"

section \<open>PEM files\<close>

text \<open>\<open>fgets\<close> with a buffer of \<open>n\<close> characters, at the current position of a file.\<close>

definition fgets :: "nat \<Rightarrow> bytes \<Rightarrow> (bytes \<times> bytes) option" where
  "fgets n f =
     (if f = [] then None
      else let m = min (n - 1) (length (takeWhile (\<lambda>c. c \<noteq> 10) f) + 1) in
        Some (takeWhile (\<lambda>c. c \<noteq> 0) (take m f), drop m f))"

lemma fgets_shorter: "fgets n f = Some (line, f') \<Longrightarrow> 1 < n \<Longrightarrow> length f' < length f"
  by (cases f) (auto simp: fgets_def Let_def min_def split: if_splits)

text \<open>Whether \<open>ptls_compare_separator_line\<close> returns 0.\<close>

definition ptls_compare_separator_line :: "bytes \<Rightarrow> bytes \<Rightarrow> bytes \<Rightarrow> bool" where
  "ptls_compare_separator_line line begin_or_end label =
     (if take 5 line \<noteq> ascii ''-----'' then False
      else let line = drop 5 line in
        if take (length begin_or_end) line \<noteq> begin_or_end then False
        else let line = drop (length begin_or_end) line in
          if take 1 line \<noteq> [32] then False
          else let line = drop 1 line in
            if take (length label) line \<noteq> label then False
            else take 5 (drop (length label) line) = ascii ''-----'')"

text \<open>A stream: what is left of it, and whether \<open>ftell\<close> and \<open>fseek\<close> work on it.\<close>

record pem_file =
  f_rest :: bytes
  f_tell_ok :: bool
  f_seek_ok :: bool

function pem_capacity_loop :: "bytes \<Rightarrow> bytes \<Rightarrow> nat \<Rightarrow> int \<times> nat \<times> bytes" where
  "pem_capacity_loop label f capacity =
     (case fgets 256 f of
        None \<Rightarrow> (PTLS_ERROR_PEM_LABEL_NOT_FOUND, capacity, f)
      | Some (line, f') \<Rightarrow>
          if ptls_compare_separator_line line (ascii ''END'') label then (0, capacity, f')
          else if length line > SIZE_MAX - capacity then (PTLS_ERROR_NO_MEMORY, capacity, f')
          else pem_capacity_loop label f' (capacity + length line))"
  by pat_completeness auto
termination
  by (relation "measure (\<lambda>(l, f, c). length f)") (auto dest: fgets_shorter)

declare pem_capacity_loop.simps [simp del]

definition ptls_get_pem_object_capacity :: "pem_file \<Rightarrow> bytes \<Rightarrow> bytes \<Rightarrow> int \<times> nat \<times> pem_file" where
  "ptls_get_pem_object_capacity F label object_start =
     (case pem_capacity_loop label (f_rest F) 0 of (ret, capacity, f) \<Rightarrow>
        if ret \<noteq> 0 then (ret, capacity, F\<lparr>f_rest := f\<rparr>)
        else if \<not> f_seek_ok F then (-1, capacity, F\<lparr>f_rest := f\<rparr>)
        else (0, capacity, F\<lparr>f_rest := object_start\<rparr>))"

definition ptls_pem_buffer_init_capacity :: "allocator \<Rightarrow> nat \<Rightarrow> ptls_buffer res" where
  "ptls_pem_buffer_init_capacity M capacity =
     (let capacity = (if capacity = 0 then 1 else capacity) in
      case M (ptls_buffer_init 1 0 True) capacity 0 of
        None \<Rightarrow> Inl PTLS_ERROR_NO_MEMORY
      | Some addr \<Rightarrow> Inr (ptls_buffer_init addr capacity True))"

text \<open>The first loop of \<open>ptls_get_pem_object_malloc\<close>: the file after the line that opens the object.\<close>

function pem_find_begin :: "bytes \<Rightarrow> bytes \<Rightarrow> bytes option" where
  "pem_find_begin label f =
     (case fgets 256 f of
        None \<Rightarrow> None
      | Some (line, f') \<Rightarrow>
          if ptls_compare_separator_line line (ascii ''BEGIN'') label then Some f' else pem_find_begin label f')"
  by pat_completeness auto
termination
  by (relation "measure (\<lambda>(l, f). length f)") (auto dest: fgets_shorter)

declare pem_find_begin.simps [simp del]

text \<open>The second loop: it is entered with \<open>ret == 0\<close>.\<close>

function pem_decode_lines ::
  "allocator \<Rightarrow> bytes \<Rightarrow> bytes \<Rightarrow> ptls_base64_decode_state \<Rightarrow> ptls_buffer \<Rightarrow> int \<times> ptls_buffer \<times> bytes" where
  "pem_decode_lines M label f state buf =
     (case fgets 256 f of
        None \<Rightarrow> (0, buf, f)
      | Some (line, f') \<Rightarrow>
          if ptls_compare_separator_line line (ascii ''END'') label
          then if b64_status state = PTLS_BASE64_DECODE_DONE
                 \<or> b64_status state = PTLS_BASE64_DECODE_IN_PROGRESS \<and> b64_nbc state = 0
               then (0, buf, f')
               else (PTLS_ERROR_INCORRECT_BASE64, buf, f')
          else case ptls_base64_decode M line state buf of (ret, state', buf') \<Rightarrow>
            if ret \<noteq> 0 then (ret, buf', f') else pem_decode_lines M label f' state' buf')"
  by pat_completeness auto
termination
  by (relation "measure (\<lambda>(M, l, f, s, b). length f)") (auto dest: fgets_shorter)

declare pem_decode_lines.simps [simp del]

text \<open>The object is \<open>None\<close> where the code leaves \<open>object->base\<close> \<open>NULL\<close>.\<close>

definition ptls_get_pem_object_malloc ::
  "allocator \<Rightarrow> pem_file \<Rightarrow> bytes \<Rightarrow> int \<times> ptls_buffer option \<times> pem_file" where
  "ptls_get_pem_object_malloc M F label =
     (case pem_find_begin label (f_rest F) of
        None \<Rightarrow> (PTLS_ERROR_PEM_LABEL_NOT_FOUND, None, F\<lparr>f_rest := []\<rparr>)
      | Some f \<Rightarrow>
          if \<not> f_tell_ok F then (-1, None, F\<lparr>f_rest := f\<rparr>)
          else case ptls_get_pem_object_capacity (F\<lparr>f_rest := f\<rparr>) label f of (ret, capacity, F1) \<Rightarrow>
            if ret \<noteq> 0 then (ret, None, F1)
            else case ptls_pem_buffer_init_capacity M capacity of
              Inl ret \<Rightarrow> (ret, None, F1)
            | Inr buf \<Rightarrow>
                case pem_decode_lines M label (f_rest F1) ptls_base64_decode_init buf of (ret, buf', f') \<Rightarrow>
                  (ret, if ret = 0 \<and> buf_off buf' > 0 then Some buf' else None, F1\<lparr>f_rest := f'\<rparr>))"

lemma pem_find_begin_shorter: "pem_find_begin label f = Some f' \<Longrightarrow> length f' < length f"
proof (induction label f rule: pem_find_begin.induct)
  case (1 label f)
  obtain line f1 where g: "fgets 256 f = Some (line, f1)"
    and r: "f' = f1 \<or> \<not> ptls_compare_separator_line line (ascii ''BEGIN'') label \<and> pem_find_begin label f1 = Some f'"
    using "1.prems" by (subst (asm) pem_find_begin.simps) (auto split: option.splits if_splits)
  have "length f' \<le> length f1"
    using r "1.IH" [OF g refl] by (auto intro: less_imp_le)
  then show ?case
    using fgets_shorter [OF g] by simp
qed

lemma pem_decode_lines_shorter: "pem_decode_lines M label f state buf = (ret, buf', f') \<Longrightarrow> length f' \<le> length f"
proof (induction M label f state buf rule: pem_decode_lines.induct)
  case (1 M label f state buf)
  show ?case
  proof (cases "fgets 256 f")
    case None
    then show ?thesis
      using "1.prems" by (subst (asm) pem_decode_lines.simps) simp
  next
    case (Some lf)
    obtain line f1 where lf: "lf = (line, f1)" by fastforce
    obtain r1 s1 b1 where d: "ptls_base64_decode M line state buf = (r1, s1, b1)"
      by (metis prod_cases3)
    have "length f' \<le> length f1"
      using "1.prems" "1.IH" [OF Some lf [symmetric] _ d [symmetric] refl] Some d unfolding lf
      by (subst (asm) pem_decode_lines.simps) (auto split: if_splits)
    then show ?thesis
      using fgets_shorter [of 256 f line f1] Some lf by simp
  qed
qed

lemma pem_object_shorter:
  assumes "ptls_get_pem_object_malloc M F label = (0, obj, F')"
  shows "length (f_rest F') < length (f_rest F)"
proof -
  obtain f where f: "pem_find_begin label (f_rest F) = Some f"
    using assms by (auto simp: ptls_get_pem_object_malloc_def split: option.splits)
  obtain ret' buf buf' f' where "pem_decode_lines M label f ptls_base64_decode_init buf = (ret', buf', f')" "f_rest F' = f'"
    using assms f by (auto simp: ptls_get_pem_object_malloc_def ptls_get_pem_object_capacity_def
        ptls_pem_buffer_init_capacity_def Let_def split: if_splits prod.splits sum.splits option.splits)
  then show ?thesis
    using pem_decode_lines_shorter pem_find_begin_shorter [OF f] by fastforce
qed

function load_pem_loop ::
  "allocator \<Rightarrow> bytes \<Rightarrow> nat \<Rightarrow> pem_file \<Rightarrow> ptls_buffer list \<Rightarrow> int \<times> ptls_buffer list" where
  "load_pem_loop M label list_max F objs =
     (if length objs < list_max
      then case ptls_get_pem_object_malloc M F label of (ret, object, F') \<Rightarrow>
        if ret = 0
        then load_pem_loop M label list_max F' (case object of Some obj \<Rightarrow> objs @ [obj] | None \<Rightarrow> objs)
        else (ret, objs)
      else (0, objs))"
  by pat_completeness auto
termination
  by (relation "measure (\<lambda>(M, l, n, F, os). length (f_rest F))") (auto dest: pem_object_shorter [OF sym])

declare load_pem_loop.simps [simp del]

text \<open>\<open>None\<close> for a file that cannot be opened.\<close>

definition ptls_load_pem_objects ::
  "allocator \<Rightarrow> pem_file option \<Rightarrow> bytes \<Rightarrow> nat \<Rightarrow> int \<times> ptls_buffer list" where
  "ptls_load_pem_objects M file label list_max =
     (case file of
        None \<Rightarrow> (-1, [])
      | Some F \<Rightarrow>
          (case load_pem_loop M label list_max F [] of (ret, objs) \<Rightarrow>
             (if ret = PTLS_ERROR_PEM_LABEL_NOT_FOUND \<and> objs \<noteq> [] then 0 else ret, objs)))"

abbreviation PTLS_MAX_CERTS_IN_CONTEXT :: nat where "PTLS_MAX_CERTS_IN_CONTEXT \<equiv> 16"

text \<open>The list and count of \<open>ctx->certificates\<close>; the list is \<open>None\<close> when it could not be allocated.\<close>

definition ptls_load_certificates :: "allocator \<Rightarrow> pem_file option \<Rightarrow> int \<times> ptls_buffer list option" where
  "ptls_load_certificates M file =
     (if \<not> c_malloc M (PTLS_MAX_CERTS_IN_CONTEXT * 16) then (PTLS_ERROR_NO_MEMORY, None)
      else case ptls_load_pem_objects M file (ascii ''CERTIFICATE'') PTLS_MAX_CERTS_IN_CONTEXT of
        (ret, objs) \<Rightarrow> (ret, Some objs))"

section \<open>Groups of four characters\<close>

definition sextets_value :: "nat list \<Rightarrow> nat" where
  "sextets_value p = foldl (\<lambda>a s. a * 64 + s) 0 p"

text \<open>The state of a decoder in the middle of its input, with the values of the characters of the
  current group.\<close>

definition b64_state :: "nat list \<Rightarrow> ptls_base64_decode_state" where
  "b64_state p = \<lparr>b64_nbc = length p, b64_nbo = 3, b64_status = PTLS_BASE64_DECODE_IN_PROGRESS,
     b64_v = of_nat (sextets_value p)\<rparr>"

fun group_octets :: "nat list \<Rightarrow> bytes" where
  "group_octets (a # b # c # d # ss) = be_bytes 3 (sextets_value [a, b, c, d]) @ group_octets ss"
| "group_octets ss = []"

fun group_rest :: "nat list \<Rightarrow> nat list" where
  "group_rest (a # b # c # d # ss) = group_rest ss"
| "group_rest ss = ss"

lemma group_append:
  "group_octets (xs @ ys) = group_octets xs @ group_octets (group_rest xs @ ys)"
  "group_rest (xs @ ys) = group_rest (group_rest xs @ ys)"
  by (induction xs rule: group_octets.induct) simp_all

lemma group_rest_less: "length (group_rest xs) < 4"
  by (induction xs rule: group_rest.induct) simp_all

lemma length_group_octets: "length (group_octets xs) \<le> length xs"
  by (induction xs rule: group_octets.induct) simp_all

lemma alphabet_vc: "n < 64 \<Longrightarrow> base64_vc (ptls_base64_alphabet ! n) = int n"
proof -
  have "list_all (\<lambda>n. base64_vc (ptls_base64_alphabet ! n) = int n) [0..<64]"
    by code_simp
  then show "n < 64 \<Longrightarrow> ?thesis" by (simp add: list_all_iff)
qed

lemma vc_others:
  "base64_vc 0 = -1" "base64_vc 9 = -1" "base64_vc 10 = -1" "base64_vc 11 = -1" "base64_vc 12 = -1"
  "base64_vc 13 = -1" "base64_vc 32 = -1" "base64_vc 45 = -1" "base64_vc 61 = -1"
  by code_simp+

lemma alphabet_plain:
  assumes "n < 64"
  shows "\<not> is_final_blank (ptls_base64_alphabet ! n)" "ptls_base64_alphabet ! n \<noteq> 61" "ptls_base64_alphabet ! n \<noteq> 45"
    "ptls_base64_alphabet ! n \<noteq> 0"
  using alphabet_vc [OF assms] by (auto simp: is_final_blank_def is_blank_def vc_others)

lemma push_sextet:
  assumes "s < 64"
  shows "push_bit 6 (w :: 32 word) OR of_nat s = w * 64 + of_nat s"
proof -
  have "\<not> bit (push_bit 6 w) n \<or> \<not> bit (of_nat s :: 32 word) n" for n
  proof (cases "n < 6")
    case False
    then have "s < 2 ^ n"
      using assms power_increasing [of 6 n "2 :: nat"] by simp
    then show ?thesis
      by (simp add: bit_simps bit_nat_def)
  qed (simp add: bit_simps)
  then show ?thesis
    by (subst disjunctive_add [symmetric]) (auto simp: push_bit_eq_mult)
qed

text \<open>Storage that has room for the octets is only written to.\<close>

definition room :: "nat \<Rightarrow> ptls_buffer \<Rightarrow> bool" where
  "room n b \<longleftrightarrow> buf_base b \<noteq> None \<and> buf_off b + n \<le> buf_capacity b \<and> buf_capacity b \<le> SIZE_MAX"

definition appended :: "ptls_buffer \<Rightarrow> bytes \<Rightarrow> ptls_buffer" where
  "appended b bs = b\<lparr>buf_data := buf_data b @ bs\<rparr>"

lemma room_mono: "room n b \<Longrightarrow> m \<le> n \<Longrightarrow> room m b"
  by (simp add: room_def)

lemma room_appended [simp]: "room n (appended b bs) \<longleftrightarrow> room (length bs + n) b"
  by (auto simp: room_def appended_def)

lemma appended_appended [simp]: "appended (appended b xs) ys = appended b (xs @ ys)" "appended b [] = b"
  "buf_data (appended b xs) = buf_data b @ xs"
  by (simp_all add: appended_def)

lemma do_pushv_room: "room (length bs) b \<Longrightarrow> ptls_buffer__do_pushv M bs b = (0, appended b bs)"
  by (auto simp: room_def ptls_buffer__do_pushv_def ptls_buffer_reserve_def ptls_buffer_reserve_aligned_def
      buffer_require_direction_def appended_def Let_def split: option.splits)

lemma sextets_value_snoc: "sextets_value (p @ [s]) = sextets_value p * 64 + s"
  by (simp add: sextets_value_def)

lemma ucast_octet: "n < 4294967296 \<Longrightarrow> (ucast (drop_bit k (of_nat n :: 32 word)) :: byte) = of_nat (n div 2 ^ k)"
proof -
  assume n: "n < 4294967296"
  have "unat (drop_bit k (of_nat n :: 32 word)) = n div 2 ^ k"
    unfolding unsigned_drop_bit_eq using n by (simp add: drop_bit_eq_div take_bit_eq_mod unat_of_nat)
  then show ?thesis
    by (simp add: word_unat_eq_iff unsigned_ucast_eq take_bit_eq_mod)
qed

lemma octets_eq: "n < 16777216 \<Longrightarrow> base64_octets (of_nat n) 3 = be_bytes 3 n"
  using ucast_octet [of n 16] ucast_octet [of n 8] ucast_octet [of n 0]
  by (simp add: base64_octets_def upt_rec numeral_3_eq_3)

lemma sextets_bound: "length p \<le> 4 \<Longrightarrow> list_all (\<lambda>s. s < 64) p \<Longrightarrow> sextets_value p < 64 ^ length p"
proof (induction p rule: rev_induct)
  case (snoc s p)
  then have "sextets_value p + 1 \<le> 64 ^ length p" "s < 64"
    by simp_all
  then have "(sextets_value p + 1) * 64 \<le> 64 ^ length p * 64"
    by (intro mult_right_mono) simp_all
  then show ?case
    using \<open>s < 64\<close> by (simp add: sextets_value_snoc)
qed (simp add: sextets_value_def)

lemma decode_char:
  assumes "s < 64" "length p < 4" "list_all (\<lambda>s. s < 64) p" "length p = 3 \<Longrightarrow> room 3 buf"
  shows "base64_decode_loop M (ptls_base64_alphabet ! s # txt) (b64_state p) buf
    = base64_decode_loop M txt (b64_state (group_rest (p @ [s]))) (appended buf (group_octets (p @ [s])))"
proof -
  have v: "push_bit 6 (of_nat (sextets_value p) :: 32 word) OR word_of_int (int s) = of_nat (sextets_value (p @ [s]))"
    using push_sextet [OF assms(1)] by (simp add: sextets_value_snoc)
  show ?thesis
  proof (cases "length p = 3")
    case True
    then obtain a b c where p: "p = [a, b, c]"
      by (metis length_0_conv length_Suc_conv numeral_3_eq_3)
    have "sextets_value [a, b, c, s] < 16777216"
      using sextets_bound [of "[a, b, c, s]"] assms p by simp
    then have "base64_octets (of_nat (sextets_value [a, b, c, s])) 3 = be_bytes 3 (sextets_value [a, b, c, s])"
      by (rule octets_eq)
    then show ?thesis
      using v assms(1,4) unfolding p
      by (subst base64_decode_loop.simps) (simp add: alphabet_vc b64_state_def base64_flush_def do_pushv_room
          sextets_value_def [of "[]"])
  next
    case False
    then have "group_rest (p @ [s]) = p @ [s]" "group_octets (p @ [s]) = []"
      using assms(2) by (cases p rule: group_rest.cases; simp)+
    then show ?thesis
      using v assms(1) False
      by (subst base64_decode_loop.simps) (simp add: alphabet_vc b64_state_def base64_flush_def)
  qed
qed

lemma group_rest_small: "list_all (\<lambda>s. s < 64) p \<Longrightarrow> list_all (\<lambda>s. s < 64) (group_rest p)"
  by (induction p rule: group_rest.induct) simp_all

lemma decode_chars:
  assumes "list_all (\<lambda>s. s < 64) (p @ ss)" "length p < 4" "room (length (group_octets (p @ ss))) buf"
  shows "base64_decode_loop M (map ((!) ptls_base64_alphabet) ss @ txt) (b64_state p) buf
    = base64_decode_loop M txt (b64_state (group_rest (p @ ss))) (appended buf (group_octets (p @ ss)))"
  using assms
proof (induction ss arbitrary: p buf)
  case Nil
  then show ?case by (cases p rule: group_rest.cases) simp_all
next
  case (Cons s ss)
  let ?p = "group_rest (p @ [s])" and ?b = "appended buf (group_octets (p @ [s]))"
  have split: "group_octets (p @ s # ss) = group_octets (p @ [s]) @ group_octets (?p @ ss)"
    "group_rest (p @ s # ss) = group_rest (?p @ ss)"
    using group_append [of "p @ [s]" ss] by simp_all
  have "length p = 3 \<Longrightarrow> length (group_octets (p @ [s])) = 3"
    by (cases p rule: group_rest.cases) simp_all
  then have "length p = 3 \<Longrightarrow> room 3 buf"
    using Cons.prems(3) split(1) by (auto elim: room_mono)
  then have "base64_decode_loop M (ptls_base64_alphabet ! s # map ((!) ptls_base64_alphabet) ss @ txt) (b64_state p) buf
    = base64_decode_loop M (map ((!) ptls_base64_alphabet) ss @ txt) (b64_state ?p) ?b"
    using Cons.prems by (intro decode_char) auto
  also have "\<dots> = base64_decode_loop M txt (b64_state (group_rest (?p @ ss))) (appended ?b (group_octets (?p @ ss)))"
    using Cons.prems split(1) by (intro Cons.IH) (auto simp: group_rest_less intro!: group_rest_small)
  finally show ?case
    by (simp add: split)
qed

section \<open>Lines of text\<close>

lemma blank_end:
  "base64_decode_loop M [10] (b64_state p) buf = (0, b64_state p, buf)"
  by (subst base64_decode_loop.simps) (simp add: vc_others is_final_blank_def is_blank_def)

lemma dropWhile_blank_chars:
  "list_all (\<lambda>s. s < 64) ss \<Longrightarrow> \<not> is_blank x \<or> ss \<noteq> [] \<Longrightarrow>
     dropWhile is_blank (map ((!) ptls_base64_alphabet) ss @ x # txt) = map ((!) ptls_base64_alphabet) ss @ x # txt"
  using alphabet_plain(1) by (cases ss) (auto simp: is_final_blank_def)

text \<open>A line without padding.\<close>

lemma decode_line:
  assumes "list_all (\<lambda>s. s < 64) (p @ ss)" "length p < 4" "room (length (group_octets (p @ ss))) buf"
  shows "ptls_base64_decode M (map ((!) ptls_base64_alphabet) ss @ [10]) (b64_state p) buf
    = (0, b64_state (group_rest (p @ ss)), appended buf (group_octets (p @ ss)))"
proof (cases ss)
  case Nil
  have "group_rest p = p" "group_octets p = []"
    using assms(2) by (cases p rule: group_rest.cases; simp)+
  then show ?thesis
    using Nil by (subst ptls_base64_decode_def) (simp add: is_blank_def base64_decode_loop.simps [of M "[]"])
next
  case (Cons s ss')
  then show ?thesis
    using decode_chars [OF assms, of M "[10]"] dropWhile_blank_chars [of ss 10 "[]"] assms(1)
    by (simp add: ptls_base64_decode_def blank_end)
qed

section \<open>The end of the data\<close>

text \<open>The octets of an incomplete group, and the state in which padding leaves the decoder.\<close>

definition group_tail :: "nat list \<Rightarrow> bytes" where
  "group_tail p = take (length p - 1) (be_bytes 3 (sextets_value p * 64 ^ (4 - length p)))"

definition b64_done :: "nat list \<Rightarrow> ptls_base64_decode_state" where
  "b64_done p = \<lparr>b64_nbc = 4, b64_nbo = length p - 1, b64_status = PTLS_BASE64_DECODE_DONE,
     b64_v = of_nat (sextets_value p * 64 ^ (4 - length p))\<rparr>"

lemma octets_take: "n < 16777216 \<Longrightarrow> k \<le> 3 \<Longrightarrow> base64_octets (of_nat n) k = take k (be_bytes 3 n)"
  unfolding octets_eq [symmetric] base64_octets_def by (simp only: take_map take_upt add_0)

text \<open>Nothing after the padding is looked at.\<close>

lemma decode_padding:
  assumes "length p = 2 \<or> length p = 3" "list_all (\<lambda>s. s < 64) p" "room (length (group_tail p)) buf"
  shows "base64_decode_loop M (replicate (4 - length p) 61 @ txt) (b64_state p) buf
    = (0, b64_done p, appended buf (group_tail p))"
proof -
  have "sextets_value p * 64 ^ (4 - length p) < 64 ^ length p * 64 ^ (4 - length p)"
    using sextets_bound [OF _ assms(2)] assms(1) by (intro mult_strict_right_mono) auto
  then have n: "sextets_value p * 64 ^ (4 - length p) < 16777216"
    using assms(1) by (auto simp: power_add [symmetric])
  have o: "base64_octets (of_nat (sextets_value p * 64 ^ (4 - length p))) (length p - 1) = group_tail p"
    unfolding group_tail_def using assms(1) by (intro octets_take n) auto
  note push = do_pushv_room [OF assms(3)]
  show ?thesis
    using assms(1)
  proof
    assume "length p = 2"
    then show ?thesis
      using vc_others o push by (subst base64_decode_loop.simps)
        (simp add: numeral_2_eq_2 b64_state_def b64_done_def base64_flush_def push_bit_eq_mult)
  next
    assume "length p = 3"
    then show ?thesis
      using vc_others o push by (subst base64_decode_loop.simps)
        (simp add: b64_state_def b64_done_def base64_flush_def push_bit_eq_mult)
  qed
qed

fun sextets :: "bytes \<Rightarrow> nat list" where
  "sextets (d0 # d1 # d2 # data) =
     [unat d0 div 4, unat d0 mod 4 * 16 + unat d1 div 16, unat d1 mod 16 * 4 + unat d2 div 64, unat d2 mod 64]
     @ sextets data"
| "sextets [] = []"
| "sextets [d0] = [unat d0 div 4, unat d0 mod 4 * 16]"
| "sextets [d0, d1] = [unat d0 div 4, unat d0 mod 4 * 16 + unat d1 div 16, unat d1 mod 16 * 4]"

lemma or_disjoint_byte:
  assumes "m * 2 ^ k + n < 256" "n < 2 ^ k"
  shows "unat (push_bit k (of_nat m :: byte) OR of_nat n) = m * 2 ^ k + n"
proof -
  have "\<not> bit (push_bit k (of_nat m :: byte)) i \<or> \<not> bit (of_nat n :: byte) i" for i
  proof (cases "i < k")
    case False
    then have "n < 2 ^ i"
      using assms(2) power_increasing [of k i "2 :: nat"] by linarith
    then show ?thesis
      by (simp add: bit_simps bit_nat_def)
  qed (simp add: bit_simps)
  then have "push_bit k (of_nat m :: byte) OR of_nat n = of_nat (m * 2 ^ k + n)"
    by (subst disjunctive_add [symmetric]) (auto simp: push_bit_eq_mult)
  then show ?thesis
    using assms(1) by (simp only: unat_of_nat_byte mod_less)
qed

lemma byte_parts:
  "unat (drop_bit k (d :: byte)) = unat d div 2 ^ k"
  "d AND 3 = of_nat (unat d mod 4)" "d AND 15 = of_nat (unat d mod 16)" "d AND 63 = of_nat (unat d mod 64)"
proof -
  show "unat (drop_bit k d) = unat d div 2 ^ k"
    unfolding unsigned_drop_bit_eq by (simp add: drop_bit_eq_div take_bit_eq_mod)
  have "d AND mask n = of_nat (unat d mod 2 ^ n)" for n
  proof -
    have "unat (take_bit n d) = unat d mod 2 ^ n"
      unfolding unsigned_take_bit_eq by (simp add: take_bit_eq_mod)
    then show ?thesis
      by (metis take_bit_eq_mask of_nat_unat ucast_id)
  qed
  from this [of 2] this [of 4] this [of 6]
  show "d AND 3 = of_nat (unat d mod 4)" "d AND 15 = of_nat (unat d mod 16)" "d AND 63 = of_nat (unat d mod 64)"
    by (simp_all add: mask_eq_exp_minus_1)
qed

lemma cell_parts:
  "unat (drop_bit 2 (d0 :: byte)) = unat d0 div 4"
  "unat (push_bit 4 (d0 AND 3)) = unat d0 mod 4 * 16"
  "unat (push_bit 4 (d0 AND 3) OR drop_bit 4 (d1 :: byte)) = unat d0 mod 4 * 16 + unat d1 div 16"
  "unat (push_bit 2 (d1 AND 15)) = unat d1 mod 16 * 4"
  "unat (push_bit 2 (d1 AND 15) OR drop_bit 6 (d2 :: byte)) = unat d1 mod 16 * 4 + unat d2 div 64"
  "unat (d2 AND 63) = unat d2 mod 64"
proof -
  have "drop_bit k (d :: byte) = of_nat (unat d div 2 ^ k)" for k d
    using byte_parts(1) [of k d] by (metis of_nat_unat ucast_id)
  note D = this
  have b: "unat d0 mod 4 \<le> 3" "unat d1 mod 16 \<le> 15" "unat d1 div 16 < 16" "unat d2 div 64 < 4"
    using unat_byte_lt [of d1] unat_byte_lt [of d2] by linarith+
  show "unat (drop_bit 2 d0) = unat d0 div 4" "unat (d2 AND 63) = unat d2 mod 64"
    by (simp_all add: byte_parts del: drop_bit_eq_div)
  show "unat (push_bit 4 (d0 AND 3) OR drop_bit 4 d1) = unat d0 mod 4 * 16 + unat d1 div 16"
    "unat (push_bit 4 (d0 AND 3)) = unat d0 mod 4 * 16"
    using or_disjoint_byte [of "unat d0 mod 4" 4 "unat d1 div 16"] or_disjoint_byte [of "unat d0 mod 4" 4 0] b
    by (simp_all add: byte_parts(2) D)
  show "unat (push_bit 2 (d1 AND 15) OR drop_bit 6 d2) = unat d1 mod 16 * 4 + unat d2 div 64"
    "unat (push_bit 2 (d1 AND 15)) = unat d1 mod 16 * 4"
    using or_disjoint_byte [of "unat d1 mod 16" 2 "unat d2 div 64"] or_disjoint_byte [of "unat d1 mod 16" 2 0] b
    by (simp_all add: byte_parts(3) D)
qed

abbreviation chars :: "nat list \<Rightarrow> bytes" where
  "chars ss \<equiv> map ((!) ptls_base64_alphabet) ss"

lemma base64_text_eq:
  "base64_text data = chars (sextets data) @ replicate ((3 - length data mod 3) mod 3) 61"
proof (induction data rule: sextets.induct)
  case (1 d0 d1 d2 data)
  have "length (d0 # d1 # d2 # data) = length data + 3"
    by simp
  then have "(3 - length (d0 # d1 # d2 # data) mod 3) mod 3 = (3 - length data mod 3) mod 3"
    by (simp only: mod_add_self2)
  then show ?case
    using "1.IH" by (simp only: base64_text.simps sextets.simps ptls_base64_cell_def list.map map_append cell_parts append_assoc)
next
  case (3 d0)
  show ?case
    unfolding base64_text.simps sextets.simps cell_parts by (simp add: numeral_2_eq_2)
next
  case (4 d0 d1)
  show ?case
    unfolding base64_text.simps sextets.simps cell_parts by simp
qed simp

lemma sextet_bounds:
  "unat (d0 :: byte) div 4 < 64" "unat d0 mod 4 * 16 < 64"
  "unat d0 mod 4 * 16 + unat (d1 :: byte) div 16 < 64"
  "unat d1 mod 16 * 4 < 64" "unat d1 mod 16 * 4 + unat (d2 :: byte) div 64 < 64"
proof -
  have "unat d0 mod 4 \<le> 3" "unat d1 mod 16 \<le> 15" "unat d1 div 16 < 16" "unat d2 div 64 < 4" "unat d0 div 4 < 64"
    using unat_byte_lt [of d0] unat_byte_lt [of d1] unat_byte_lt [of d2] by linarith+
  then show "unat (d0 :: byte) div 4 < 64" "unat d0 mod 4 * 16 < 64"
    "unat d0 mod 4 * 16 + unat (d1 :: byte) div 16 < 64"
    "unat d1 mod 16 * 4 < 64" "unat d1 mod 16 * 4 + unat (d2 :: byte) div 64 < 64"
    by linarith+
qed

lemma sextets_small: "list_all (\<lambda>s. s < 64) (sextets data)"
  by (induction data rule: sextets.induct) (simp_all add: sextet_bounds)

lemma sextets_value_cell:
  "sextets_value [unat d0 div 4, unat d0 mod 4 * 16 + unat d1 div 16, unat d1 mod 16 * 4 + unat d2 div 64, unat d2 mod 64]
     = be_nat [d0, d1, d2]"
proof -
  have "((a * 64 + (b * 16 + c)) * 64 + (d * 4 + e)) * 64 + f = (x * 256 + y) * 256 + z"
    if "x = 4 * a + b" "y = 16 * c + d" "z = 64 * e + f" for a b c d e f x y z :: nat
    unfolding that by simp
  from this [of "unat d0" "unat d0 div 4" "unat d0 mod 4" "unat d1" "unat d1 div 16" "unat d1 mod 16"
      "unat d2" "unat d2 div 64" "unat d2 mod 64"]
  show ?thesis
    by (simp only: sextets_value_def be_nat_def foldl.simps mult_0 add_0 mult_div_mod_eq simp_thms)
qed

lemma sextets_octets:
  "group_octets (sextets data) @ group_tail (group_rest (sextets data)) = data"
  "length (group_rest (sextets data)) = (if length data mod 3 = 0 then 0 else length data mod 3 + 1)"
proof (induction data rule: sextets.induct)
  case (1 d0 d1 d2 data)
  {
    case 1
    then show ?case
      using "1.IH"(1) be_bytes_be_nat [of "[d0, d1, d2]"] by (simp add: sextets_value_cell numeral_3_eq_3)
  next
    case 2
    then show ?case using "1.IH"(2) by simp
  }
next
  case (3 d0)
  { case 1
    have "sextets_value [unat d0 div 4, unat d0 mod 4 * 16] * 4096 = be_nat [d0, 0, 0]"
      using sextets_value_cell [of d0 0 0] by (simp add: sextets_value_def)
    then show ?case
      using be_bytes_be_nat [of "[d0, 0, 0]"] by (simp add: group_tail_def numeral_3_eq_3)
  next
    case 2 show ?case by simp }
next
  case (4 d0 d1)
  { case 1
    have "sextets_value [unat d0 div 4, unat d0 mod 4 * 16 + unat d1 div 16, unat d1 mod 16 * 4] * 64 = be_nat [d0, d1, 0]"
      using sextets_value_cell [of d0 d1 0] by (simp add: sextets_value_def)
    then show ?case
      using be_bytes_be_nat [of "[d0, d1, 0]"] by (simp add: group_tail_def numeral_3_eq_3)
  next
    case 2 show ?case by simp }
qed (simp_all add: group_tail_def)

lemma length_base64_text: "length (base64_text data) = ptls_base64_howlong (length data)"
proof (induction data rule: base64_text.induct)
  case (1 d0 d1 d2 data)
  have "(length (d0 # d1 # d2 # data) + 2) div 3 = (length data + 2) div 3 + 1"
    by simp
  then show ?case
    using "1.IH" by (simp only: ptls_base64_howlong_def) (simp add: ptls_base64_cell_def)
qed (simp_all add: ptls_base64_howlong_def)

text \<open>The decoder may stop at the end of an object when it is done or between groups.\<close>

definition b64_complete :: "ptls_base64_decode_state \<Rightarrow> bool" where
  "b64_complete state \<longleftrightarrow> b64_status state = PTLS_BASE64_DECODE_DONE
     \<or> b64_status state = PTLS_BASE64_DECODE_IN_PROGRESS \<and> b64_nbc state = 0"

text \<open>The last line of an encoding, with the padding; the characters of earlier lines are in \<open>p\<close>.\<close>

lemma decode_last_line:
  assumes "list_all (\<lambda>s. s < 64) (p @ ss)" "length p < 4"
    "group_octets (p @ ss) @ group_tail (group_rest (p @ ss)) = bs" "room (length bs) buf"
    "length (group_rest (p @ ss)) = (if n = 0 then 0 else 4 - n)" "n \<le> 2"
  shows "\<exists>state. ptls_base64_decode M (chars ss @ replicate n 61 @ [10]) (b64_state p) buf
      = (0, state, appended buf bs) \<and> b64_complete state"
proof (cases "n = 0")
  case True
  then have "group_rest (p @ ss) = []"
    using assms(5) by simp
  then show ?thesis
    using decode_line [OF assms(1,2), of buf M] assms(3,4) True
    by (auto simp: group_tail_def b64_complete_def b64_state_def)
next
  case False
  let ?q = "group_rest (p @ ss)"
  have q: "length ?q = 2 \<or> length ?q = 3" "4 - length ?q = n"
    using assms(5,6) False by auto
  have r: "room (length (group_octets (p @ ss))) buf"
    "room (length (group_tail ?q)) (appended buf (group_octets (p @ ss)))"
    using assms(4) unfolding assms(3) [symmetric] by (auto elim: room_mono)
  have "dropWhile is_blank (chars ss @ replicate n 61 @ [10]) = chars ss @ replicate n 61 @ [10]"
    using dropWhile_blank_chars [of ss 61 "replicate (n - 1) 61 @ [10]"] assms(1) False
    by (cases n) (simp_all add: is_blank_def)
  then show ?thesis
    using decode_chars [OF assms(1,2) r(1), of M "replicate n 61 @ [10]"] decode_padding [OF q(1) _ r(2), of M "[10]"]
      group_rest_small [OF assms(1)] assms(3)
    by (simp add: ptls_base64_decode_def b64_complete_def b64_done_def q(2))
qed

section \<open>PEM objects\<close>

definition pem_line :: "bytes \<Rightarrow> bytes" where
  "pem_line l = l @ [10]"

definition separator :: "string \<Rightarrow> bytes \<Rightarrow> bytes" where
  "separator begin_or_end label = ascii ''-----'' @ ascii begin_or_end @ [32] @ label @ ascii ''-----''"

definition pem_object :: "bytes \<Rightarrow> bytes list \<Rightarrow> bytes" where
  "pem_object label ls =
     pem_line (separator ''BEGIN'' label) @ concat (map pem_line ls) @ pem_line (separator ''END'' label)"

text \<open>Lines that hold the encoding of \<open>data\<close>, none too long for the line buffer, the padding in the
  last one.\<close>

definition pem_lines_of :: "bytes \<Rightarrow> bytes list \<Rightarrow> bool" where
  "pem_lines_of data ls \<longleftrightarrow> ls \<noteq> [] \<and> concat ls = base64_text data \<and> list_all (\<lambda>l. length l \<le> 254) ls
     \<and> 61 \<notin> set (concat (butlast ls))"

definition label_ok :: "bytes \<Rightarrow> bool" where
  "label_ok label \<longleftrightarrow> length label \<le> 200 \<and> 10 \<notin> set label \<and> 0 \<notin> set label"

lemma fgets_line:
  assumes "length l \<le> 254" "10 \<notin> set l" "0 \<notin> set l"
  shows "fgets 256 (pem_line l @ f) = Some (pem_line l, f)"
proof -
  have "takeWhile (\<lambda>c. c \<noteq> 10) (l @ 10 # f) = l" "takeWhile (\<lambda>c. c \<noteq> 0) (l @ [10]) = l @ [10]"
    using assms(2,3) by (auto simp: takeWhile_append takeWhile_eq_all_conv)
  then show ?thesis
    using assms(1) by (simp add: fgets_def pem_line_def)
qed

lemma fgets_separator:
  "label_ok label \<Longrightarrow> begin_or_end = ''BEGIN'' \<or> begin_or_end = ''END'' \<Longrightarrow>
     fgets 256 (pem_line (separator begin_or_end label) @ f) = Some (pem_line (separator begin_or_end label), f)"
  by (intro fgets_line) (auto simp: separator_def label_ok_def ascii_def)

lemma separator_found:
  "ptls_compare_separator_line (pem_line (separator begin_or_end label)) (ascii begin_or_end) label"
  by (simp add: ptls_compare_separator_line_def separator_def pem_line_def ascii_def)

lemma fgets_chars:
  assumes "list_all (\<lambda>s. s < 64) ss" "length ss + n \<le> 254"
  shows "fgets 256 (pem_line (chars ss @ replicate n 61) @ f) = Some (pem_line (chars ss @ replicate n 61), f)"
    "\<not> ptls_compare_separator_line (pem_line (chars ss @ replicate n 61)) bo label"
proof -
  have "ptls_base64_alphabet ! s \<noteq> 10" "ptls_base64_alphabet ! s \<noteq> 0" if "s \<in> set ss" for s
    using alphabet_plain [of s] assms(1) that by (auto simp: list_all_iff is_final_blank_def is_blank_def)
  then show "fgets 256 (pem_line (chars ss @ replicate n 61) @ f) = Some (pem_line (chars ss @ replicate n 61), f)"
    using assms(2) by (intro fgets_line) auto
  show "\<not> ptls_compare_separator_line (pem_line (chars ss @ replicate n 61)) bo label"
    using assms(1) alphabet_plain(3) by (cases ss; cases n)
      (auto simp: ptls_compare_separator_line_def pem_line_def ascii_def)
qed

lemma pem_decode_body:
  assumes "chars ss = concat ls" "list_all (\<lambda>l. length l \<le> 254) ls" "list_all (\<lambda>s. s < 64) (p @ ss)"
    "length p < 4" "room (length (group_octets (p @ ss))) buf"
  shows "pem_decode_lines M label (concat (map pem_line ls) @ f) (b64_state p) buf
    = pem_decode_lines M label f (b64_state (group_rest (p @ ss))) (appended buf (group_octets (p @ ss)))"
  using assms
proof (induction ls arbitrary: ss p buf)
  case Nil
  then show ?case by (cases p rule: group_rest.cases) simp_all
next
  case (Cons l ls)
  obtain s1 s2 where ss: "ss = s1 @ s2" "l = chars s1" "chars s2 = concat ls"
    using Cons.prems(1) by (auto simp: map_eq_append_conv)
  let ?p = "group_rest (p @ s1)" and ?b = "appended buf (group_octets (p @ s1))"
  note g = group_append [of "p @ s1" s2, unfolded append_assoc]
  have r: "room (length (group_octets (p @ s1))) buf" "room (length (group_octets (?p @ s2))) ?b"
    using Cons.prems(5) unfolding ss(1) g by (auto elim: room_mono)
  have small: "list_all (\<lambda>s. s < 64) (p @ s1)" "list_all (\<lambda>s. s < 64) (?p @ s2)" "list_all (\<lambda>s. s < 64) s1"
    using Cons.prems(3) group_rest_small [of "p @ s1"] by (simp_all add: ss)
  have "pem_decode_lines M label (pem_line l @ concat (map pem_line ls) @ f) (b64_state p) buf
      = pem_decode_lines M label (concat (map pem_line ls) @ f) (b64_state ?p) ?b"
    using fgets_chars [OF small(3), of 0] Cons.prems(2) decode_line [OF small(1) Cons.prems(4) r(1), of M]
    by (subst pem_decode_lines.simps) (simp add: ss(2) pem_line_def)
  also have "\<dots> = pem_decode_lines M label f (b64_state (group_rest (?p @ s2))) (appended ?b (group_octets (?p @ s2)))"
    using Cons.prems(2) by (intro Cons.IH ss small r group_rest_less) simp_all
  finally show ?case
    by (simp add: ss(1) g)
qed

lemma pem_capacity_body:
  assumes "list_all (\<lambda>l. \<exists>ss n. l = chars ss @ replicate n 61 \<and> list_all (\<lambda>s. s < 64) ss \<and> length l \<le> 254) ls"
    "label_ok label" "capacity + length (concat (map pem_line ls)) \<le> SIZE_MAX"
  shows "pem_capacity_loop label (concat (map pem_line ls) @ pem_line (separator ''END'' label) @ f) capacity
    = (0, capacity + length (concat (map pem_line ls)), f)"
  using assms
proof (induction ls arbitrary: capacity)
  case Nil
  then show ?case
    by (subst pem_capacity_loop.simps) (simp add: fgets_separator separator_found)
next
  case (Cons l ls)
  obtain ss n where l: "l = chars ss @ replicate n 61" "list_all (\<lambda>s. s < 64) ss" "length ss + n \<le> 254"
    using Cons.prems(1) by auto
  have fits: "\<not> length (pem_line l) > SIZE_MAX - capacity"
    using Cons.prems(3) by simp
  have "pem_capacity_loop label (pem_line l @ concat (map pem_line ls) @ pem_line (separator ''END'' label) @ f) capacity
      = pem_capacity_loop label (concat (map pem_line ls) @ pem_line (separator ''END'' label) @ f) (capacity + length (pem_line l))"
    using fgets_chars [OF l(2,3)] fits unfolding l(1)
    by (subst pem_capacity_loop.simps) simp
  then show ?case
    using Cons by simp
qed

lemma pem_lines_split:
  assumes "pem_lines_of data ls"
  obtains init s1 s2 n where "ls = init @ [chars s2 @ replicate n 61]" "concat init = chars s1"
    "s1 @ s2 = sextets data" "n = (3 - length data mod 3) mod 3"
proof -
  let ?n = "(3 - length data mod 3) mod 3"
  obtain init l where ls: "ls = init @ [l]"
    using assms by (cases ls rule: rev_cases) (auto simp: pem_lines_of_def)
  have eq: "concat init @ l = chars (sextets data) @ replicate ?n 61" and no: "61 \<notin> set (concat init)"
    using assms by (simp_all add: pem_lines_of_def ls base64_text_eq)
  from eq obtain us where "concat init = chars (sextets data) @ us \<and> us @ l = replicate ?n 61
      \<or> concat init @ us = chars (sextets data) \<and> l = us @ replicate ?n 61"
    by (auto simp: append_eq_append_conv2)
  then have "concat init @ us = chars (sextets data) \<and> l = us @ replicate ?n 61"
  proof
    assume a: "concat init = chars (sextets data) @ us \<and> us @ l = replicate ?n 61"
    then have "us = []"
      using no by (cases us; cases ?n) auto
    with a show ?thesis by simp
  qed
  moreover from this obtain s1 s2 where "sextets data = s1 @ s2" "concat init = chars s1" "us = chars s2"
    by (metis map_eq_append_conv)
  ultimately show thesis
    using that [of init s2 ?n s1] ls by simp
qed

lemma pem_lines_of_chars:
  assumes "pem_lines_of data ls"
  shows "list_all (\<lambda>l. \<exists>ss n. l = chars ss @ replicate n 61 \<and> list_all (\<lambda>s. s < 64) ss \<and> length l \<le> 254) ls"
proof -
  obtain init s1 s2 n where ls: "ls = init @ [chars s2 @ replicate n 61]" "concat init = chars s1"
    "s1 @ s2 = sextets data"
    using pem_lines_split [OF assms] .
  have small: "list_all (\<lambda>s. s < 64) s1" "list_all (\<lambda>s. s < 64) s2"
    using sextets_small [of data] unfolding ls(3) [symmetric] by simp_all
  have "\<exists>ss. l = chars ss \<and> list_all (\<lambda>s. s < 64) ss" if l: "l \<in> set init" for l
  proof -
    obtain xs ys where "init = xs @ l # ys"
      using split_list [OF l] by blast
    then have "chars s1 = concat xs @ l @ concat ys"
      using ls(2) by simp
    then show ?thesis
      using small(1) by (auto simp: map_eq_append_conv append_eq_map_conv)
  qed
  then show ?thesis
    using assms small(2) unfolding pem_lines_of_def ls(1) list_all_iff
    by (metis append.right_neutral replicate_0 Un_iff empty_iff list.set set_append insert_iff)
qed

lemma pem_object_decoded:
  assumes ls: "pem_lines_of data ls" and "label_ok label" "room (length data) buf"
  shows "pem_decode_lines M label (concat (map pem_line ls) @ pem_line (separator ''END'' label) @ f)
      ptls_base64_decode_init buf = (0, appended buf data, f)"
proof -
  obtain init s1 s2 n where sp: "ls = init @ [chars s2 @ replicate n 61]" "concat init = chars s1"
    "s1 @ s2 = sextets data" "n = (3 - length data mod 3) mod 3"
    using pem_lines_split [OF ls] .
  have small: "list_all (\<lambda>s. s < 64) s1" "list_all (\<lambda>s. s < 64) s2" "list_all (\<lambda>s. s < 64) (group_rest s1 @ s2)"
    using sextets_small [of data] group_rest_small [of s1] unfolding sp(3) [symmetric] by simp_all
  have len: "list_all (\<lambda>l. length l \<le> 254) init" "length s2 + n \<le> 254"
    using ls by (simp_all add: pem_lines_of_def sp(1))
  define q bs where "q = group_rest s1" and "bs = drop (length (group_octets s1)) data"
  have parts: "group_octets (q @ s2) @ group_tail (group_rest (q @ s2)) = bs" "group_octets s1 @ bs = data"
    using sextets_octets(1) [of data] unfolding sp(3) [symmetric] group_append [of s1 s2] q_def bs_def by auto
  have r: "room (length (group_octets s1)) buf" "room (length bs) (appended buf (group_octets s1))"
    using assms(3) unfolding parts(2) [symmetric] by (auto elim: room_mono)
  have "length (group_rest (q @ s2)) = (if n = 0 then 0 else 4 - n)" "n \<le> 2"
    using sextets_octets(2) [of data] unfolding sp(3) [symmetric] group_append(2) [of s1 s2] q_def sp(4)
    by (auto split: if_splits) linarith?
  then obtain state where dec: "ptls_base64_decode M (chars s2 @ replicate n 61 @ [10]) (b64_state q)
      (appended buf (group_octets s1)) = (0, state, appended buf data)" and fin: "b64_complete state"
    using decode_last_line [OF small(3) [folded q_def] _ parts(1) r(2), of n M] group_rest_less [of s1] parts(2)
    by (auto simp: q_def)
  have "pem_decode_lines M label (pem_line (chars s2 @ replicate n 61) @ pem_line (separator ''END'' label) @ f)
      (b64_state q) (appended buf (group_octets s1)) = (0, appended buf data, f)"
    using fgets_chars [OF small(2) len(2)] dec fin assms(2)
    by (subst pem_decode_lines.simps, simp add: pem_line_def [of "chars s2 @ replicate n 61"])
       (subst pem_decode_lines.simps, simp add: fgets_separator separator_found b64_complete_def)
  moreover have "ptls_base64_decode_init = b64_state []"
    by (simp add: ptls_base64_decode_init_def b64_state_def sextets_value_def)
  ultimately show ?thesis
    using pem_decode_body [OF sp(2) [symmetric] len(1), of "[]" buf M label] small(1) r(1) by (simp add: sp(1) q_def)
qed

lemma pem_object_loaded:
  assumes "pem_lines_of data ls" "label_ok label" "alloc_ok M" "data \<noteq> []"
    "length (pem_object label ls) \<le> SIZE_MAX" "f_tell_ok F" "f_seek_ok F" "f_rest F = pem_object label ls @ f"
  shows "\<exists>obj. ptls_get_pem_object_malloc M F label = (0, Some obj, F\<lparr>f_rest := f\<rparr>) \<and> buf_data obj = data"
proof -
  let ?body = "concat (map pem_line ls) @ pem_line (separator ''END'' label) @ f"
  let ?c = "length (concat (map pem_line ls))"
  have b: "pem_find_begin label (f_rest F) = Some ?body"
    unfolding assms(8) pem_object_def append_assoc using assms(2)
    by (subst pem_find_begin.simps) (simp add: fgets_separator separator_found)
  have cap: "pem_capacity_loop label ?body 0 = (0, ?c, f)" and fits: "?c \<le> SIZE_MAX"
    using pem_capacity_body [OF pem_lines_of_chars [OF assms(1)] assms(2), of 0 f] assms(5) by (simp_all add: pem_object_def)
  have "length (concat ls) \<le> ?c"
    by (induction ls) (simp_all add: pem_line_def)
  moreover have "length data \<le> ptls_base64_howlong (length data)"
    unfolding ptls_base64_howlong_def by linarith
  ultimately have le: "length data \<le> ?c"
    using assms(1) by (simp add: pem_lines_of_def length_base64_text)
  then have pos: "?c \<noteq> 0"
    using assms(4) by (metis le_zero_eq length_0_conv)
  obtain addr where addr: "M (ptls_buffer_init 1 0 True) ?c 0 = Some addr"
    using assms(3) unfolding alloc_ok_def by blast
  have "room (length data) (ptls_buffer_init addr ?c True)"
    using le fits by (simp add: room_def ptls_buffer_init_def)
  note dec = pem_object_decoded [OF assms(1,2) this, of M f]
  have "ptls_pem_buffer_init_capacity M ?c = Inr (ptls_buffer_init addr ?c True)"
    using addr pos by (simp only: ptls_pem_buffer_init_capacity_def Let_def if_False option.case)
  moreover have "buf_data (ptls_buffer_init addr ?c True) = []"
    by (simp add: ptls_buffer_init_def)
  ultimately show ?thesis
    using assms(4,6,7) dec
    by (simp add: ptls_get_pem_object_malloc_def b ptls_get_pem_object_capacity_def cap)
qed

lemma pem_file_loaded:
  assumes "list_all (\<lambda>(data, ls). pem_lines_of data ls \<and> data \<noteq> [] \<and> length (pem_object label ls) \<le> SIZE_MAX) objs"
    "label_ok label" "alloc_ok M" "f_tell_ok F" "f_seek_ok F"
    "f_rest F = concat (map (\<lambda>x. pem_object label (snd x)) objs)" "length acc + length objs \<le> list_max"
  shows "\<exists>bs ret. load_pem_loop M label list_max F acc = (ret, acc @ bs) \<and> map buf_data bs = map fst objs
    \<and> (ret = 0 \<or> ret = PTLS_ERROR_PEM_LABEL_NOT_FOUND)"
  using assms
proof (induction objs arbitrary: F acc)
  case Nil
  have "pem_find_begin label [] = None"
    by (subst pem_find_begin.simps) (simp add: fgets_def)
  then have "ptls_get_pem_object_malloc M F label = (PTLS_ERROR_PEM_LABEL_NOT_FOUND, None, F\<lparr>f_rest := []\<rparr>)"
    using Nil.prems(6) by (simp add: ptls_get_pem_object_malloc_def)
  then show ?case
    by (subst load_pem_loop.simps) simp
next
  case (Cons o1 objs)
  obtain data ls where o1: "o1 = (data, ls)" by fastforce
  let ?f = "concat (map (\<lambda>x. pem_object label (snd x)) objs)"
  obtain obj where g: "ptls_get_pem_object_malloc M F label = (0, Some obj, F\<lparr>f_rest := ?f\<rparr>)" "buf_data obj = data"
    using pem_object_loaded [of data ls label M F ?f] Cons.prems o1 by auto
  have "\<exists>bs ret. load_pem_loop M label list_max (F\<lparr>f_rest := ?f\<rparr>) (acc @ [obj]) = (ret, (acc @ [obj]) @ bs)
      \<and> map buf_data bs = map fst objs \<and> (ret = 0 \<or> ret = PTLS_ERROR_PEM_LABEL_NOT_FOUND)"
    using Cons.prems by (intro Cons.IH) simp_all
  then show ?case
    using g Cons.prems(7) o1 by (subst load_pem_loop.simps) fastforce
qed

section \<open>Objects stay in the storage allocated for them\<close>

definition b64_pending :: "ptls_base64_decode_state \<Rightarrow> nat" where
  "b64_pending state = (if b64_status state = PTLS_BASE64_DECODE_IN_PROGRESS then b64_nbc state else 0)"

definition b64_inv :: "ptls_base64_decode_state \<Rightarrow> bool" where
  "b64_inv state \<longleftrightarrow> (b64_status state = PTLS_BASE64_DECODE_IN_PROGRESS \<longrightarrow> b64_nbo state = 3 \<and> b64_nbc state < 4)"

lemma flush_in_place:
  assumes "base64_flush M state buf = (goes_on, ret, state', buf')" "b64_nbo state \<le> 3"
    "b64_nbc state = 4 \<Longrightarrow> room (b64_nbo state) buf"
    "b64_nbc state < 4 \<Longrightarrow> b64_nbo state = 3" "b64_nbc state \<le> 4"
    "b64_status state = PTLS_BASE64_DECODE_IN_PROGRESS"
  shows "ret = 0 \<and> b64_inv state' \<and> (\<exists>bs. buf' = appended buf bs
    \<and> length bs + b64_pending state' \<le> (if b64_nbc state = 4 then b64_nbo state else b64_nbc state))"
proof (cases "b64_nbc state = 4")
  case True
  let ?o = "base64_octets (b64_v state) (b64_nbo state)"
  have "length ?o = b64_nbo state"
    by (simp add: base64_octets_def)
  then show ?thesis
    using assms do_pushv_room [of ?o buf M] True
    by (auto simp: base64_flush_def b64_inv_def b64_pending_def split: if_splits intro!: exI [of _ ?o])
next
  case False
  then show ?thesis
    using assms by (auto simp: base64_flush_def b64_inv_def b64_pending_def intro!: exI [of _ "[] :: bytes"])
qed

text \<open>One round of the loop, given what the rounds after it do.\<close>

lemma round_in_place:
  assumes run: "(case base64_flush M s buf of (goes_on, ret, state', buf') \<Rightarrow>
           if goes_on then base64_decode_loop M t state' buf' else (ret, state', buf')) = (ret, state', buf')"
    and s: "b64_status s = PTLS_BASE64_DECODE_IN_PROGRESS" "b64_nbc s \<le> 4" "b64_nbo s \<le> 3"
      "b64_nbc s < 4 \<Longrightarrow> b64_nbo s = 3"
      "(if b64_nbc s = 4 then b64_nbo s else b64_nbc s) + length t \<le> N"
    and room: "room N buf"
    and rest: "\<And>g r s' b'. base64_flush M s buf = (g, r, s', b') \<Longrightarrow> g \<Longrightarrow>
       base64_decode_loop M t s' b' = (ret, state', buf') \<Longrightarrow> b64_inv s' \<Longrightarrow> room (b64_pending s' + length t) b' \<Longrightarrow>
       \<exists>bs. buf' = appended b' bs \<and> length bs + b64_pending state' \<le> b64_pending s' + length t \<and> b64_inv state'"
  shows "\<exists>bs. buf' = appended buf bs \<and> length bs + b64_pending state' \<le> N \<and> b64_inv state'"
proof -
  obtain g r s' b' where f: "base64_flush M s buf = (g, r, s', b')"
    by (metis prod_cases4)
  have "b64_nbc s = 4 \<Longrightarrow> room (b64_nbo s) buf"
    using room s(5) by (auto elim: room_mono)
  then obtain bs where fl: "b64_inv s'" "b' = appended buf bs"
    "length bs + b64_pending s' \<le> (if b64_nbc s = 4 then b64_nbo s else b64_nbc s)"
    using flush_in_place [OF f s(3) _ s(4,2,1)] by auto
  show ?thesis
  proof (cases g)
    case True
    have "room (b64_pending s' + length t) b'"
      using room fl(3) s(5) unfolding fl(2) room_appended by (elim room_mono) linarith
    then obtain bs' where "buf' = appended b' bs'" "length bs' + b64_pending state' \<le> b64_pending s' + length t"
        "b64_inv state'"
      using rest [OF f True _ fl(1)] run f True by auto
    then show ?thesis
      using fl s(5) by (intro exI [of _ "bs @ bs'"]) auto
  next
    case False
    then show ?thesis
      using run f fl s(5) by (intro exI [of _ bs]) auto
  qed
qed

lemma decode_in_place:
  assumes "base64_decode_loop M cs state buf = (ret, state', buf')" "b64_inv state"
    "room (b64_pending state + length cs) buf"
  shows "\<exists>bs. buf' = appended buf bs \<and> length bs + b64_pending state' \<le> b64_pending state + length cs
    \<and> b64_inv state'"
  using assms
proof (induction M cs state buf rule: base64_decode_loop.induct)
  case (1 M cs state buf)
  show ?case
  proof (cases "cs = [] \<or> b64_status state \<noteq> PTLS_BASE64_DECODE_IN_PROGRESS")
    case True
    then show ?thesis
      using 1(4,5) by (subst (asm) base64_decode_loop.simps) (auto split: list.splits intro: exI [of _ "[] :: bytes"])
  next
    case False
    then obtain c cs1 where cs: "cs = c # cs1" and st: "b64_status state = PTLS_BASE64_DECODE_IN_PROGRESS"
      by (cases cs) auto
    have nb: "b64_nbo state = 3" "b64_nbc state < 4" "b64_pending state = b64_nbc state"
      using 1(5) st by (simp_all add: b64_inv_def b64_pending_def)
    note round = round_in_place [OF _ _ _ _ _ _ 1(6)] and unfold = base64_decode_loop.simps [of M "_ # _"] Let_def
    show ?thesis
    proof (cases "base64_vc c = -1")
      case False
      show ?thesis
        by (rule round [where s = "state\<lparr>b64_nbc := b64_nbc state + 1, b64_v := push_bit 6 (b64_v state) OR word_of_int (base64_vc c)\<rparr>"
            and t = cs1])
          (use 1(4) False st nb cs 1(3) [OF cs _ refl False _ refl refl] in \<open>auto simp: unfold\<close>)
    next
      case other: True
      consider (pad2) "b64_nbc state = 2 \<and> c = 61 \<and> cs1 \<noteq> [] \<and> hd cs1 = 61"
        | (pad3) "\<not> (b64_nbc state = 2 \<and> c = 61 \<and> cs1 \<noteq> [] \<and> hd cs1 = 61)" "b64_nbc state = 3 \<and> c = 61"
        | (stop) "\<not> (b64_nbc state = 2 \<and> c = 61 \<and> cs1 \<noteq> [] \<and> hd cs1 = 61)" "\<not> (b64_nbc state = 3 \<and> c = 61)"
        by blast
      then show ?thesis
      proof cases
        case pad2
        show ?thesis
          by (rule round [where s = "state\<lparr>b64_nbc := 4, b64_nbo := 1, b64_v := push_bit 12 (b64_v state)\<rparr>" and t = "tl cs1"])
            (use 1(4) other pad2 st nb cs 1(1) [OF cs _ refl other pad2 _ refl refl] in \<open>auto simp: unfold\<close>)
      next
        case pad3
        show ?thesis
          by (rule round [where s = "state\<lparr>b64_nbc := 4, b64_nbo := 2, b64_v := push_bit 6 (b64_v state)\<rparr>" and t = cs1])
            (use 1(4) other pad3 st nb cs 1(2) [OF cs _ refl other pad3 _ refl refl] in \<open>auto simp: unfold\<close>)
      next
        case stop
        then show ?thesis
          using 1(4,5) st other by (auto simp: unfold cs b64_inv_def b64_pending_def
              split: if_splits intro!: exI [of _ "[] :: bytes"])
      qed
    qed
  qed
qed

lemma pem_capacity_mono: "pem_capacity_loop label f c = (0, c', f') \<Longrightarrow> c \<le> SIZE_MAX \<Longrightarrow> c \<le> c' \<and> c' \<le> SIZE_MAX"
proof (induction label f c rule: pem_capacity_loop.induct)
  case (1 label f c)
  from "1.prems" show ?case
    using "1.IH" by (subst (asm) pem_capacity_loop.simps) (fastforce split: option.splits if_splits)
qed

lemma pem_decode_in_place:
  assumes "pem_decode_lines M label f state buf = (ret, buf', f')" "b64_inv state" "c \<le> SIZE_MAX"
    "pem_capacity_loop label f c = (0, c', f'')" "room (b64_pending state + (c' - c)) buf"
  shows "\<exists>bs. buf' = appended buf bs"
  using assms
proof (induction M label f state buf arbitrary: c rule: pem_decode_lines.induct)
  case (1 M label f state buf)
  show ?case
  proof (cases "fgets 256 f")
    case None
    then show ?thesis
      using "1.prems"(4) by (subst (asm) pem_capacity_loop.simps) simp
  next
    case (Some lf)
    obtain line f1 where lf: "lf = (line, f1)" by fastforce
    show ?thesis
    proof (cases "ptls_compare_separator_line line (ascii ''END'') label")
      case True
      then show ?thesis
        using "1.prems"(1) Some lf by (subst (asm) pem_decode_lines.simps)
          (auto split: if_splits intro: exI [of _ "[] :: bytes"])
    next
      case False
      obtain r1 s1 b1 where d: "ptls_base64_decode M line state buf = (r1, s1, b1)"
        by (metis prod_cases3)
      have cap: "c + length line \<le> SIZE_MAX" "pem_capacity_loop label f1 (c + length line) = (0, c', f'')"
        using "1.prems"(3,4) Some lf False by (subst (asm) pem_capacity_loop.simps, auto split: if_splits)+
      have le: "c + length line \<le> c'"
        using pem_capacity_mono [OF cap(2,1)] by simp
      have "length (dropWhile is_blank line) \<le> length line"
        by (rule length_dropWhile_le)
      moreover have "room (b64_pending state + length (dropWhile is_blank line)) buf"
        using "1.prems"(5) calculation le by (elim room_mono) linarith
      ultimately obtain bs where b1: "b1 = appended buf bs" "b64_inv s1"
        "length bs + b64_pending s1 \<le> b64_pending state + length line"
        using decode_in_place [OF d [unfolded ptls_base64_decode_def] "1.prems"(2)] by (auto intro: order_trans)
      have "room (b64_pending s1 + (c' - (c + length line))) b1"
        using "1.prems"(5) b1(3) le unfolding b1(1) room_appended by (elim room_mono) linarith
      then have "r1 = 0 \<Longrightarrow> pem_decode_lines M label f1 s1 b1 = (ret, buf', f') \<Longrightarrow> \<exists>bs. buf' = appended b1 bs"
        using "1.IH" [OF Some lf [symmetric] False d [symmetric] refl _ _ b1(2) cap] by simp
      then show ?thesis
        using "1.prems"(1) Some lf False d b1(1)
        by (subst (asm) pem_decode_lines.simps) (auto split: if_splits)
    qed
  qed
qed

text \<open>An object that lies in a block the C library's \<open>malloc\<close> returned, never in one the buffer
  allocated for itself.\<close>

definition malloc_owned :: "allocator \<Rightarrow> ptls_buffer \<Rightarrow> bool" where
  "malloc_owned M obj \<longleftrightarrow> (\<exists>addr capacity. M (ptls_buffer_init 1 0 True) capacity 0 = Some addr
     \<and> buf_base obj = Some addr \<and> buf_capacity obj = capacity \<and> \<not> buf_is_allocated obj)"

lemma pem_object_in_place:
  assumes "ptls_get_pem_object_malloc M F label = (0, Some obj, F')"
  shows "malloc_owned M obj"
proof -
  obtain f capacity f1 addr f' where
    cap: "pem_capacity_loop label f 0 = (0, capacity, f1)"
    and addr: "M (ptls_buffer_init 1 0 True) (if capacity = 0 then 1 else capacity) 0 = Some addr"
    and dec: "pem_decode_lines M label f ptls_base64_decode_init
      (ptls_buffer_init addr (if capacity = 0 then 1 else capacity) True) = (0, obj, f')"
    using assms by (simp add: ptls_get_pem_object_malloc_def ptls_get_pem_object_capacity_def
        ptls_pem_buffer_init_capacity_def Let_def split: option.splits if_splits prod.splits sum.splits) auto
  have "capacity \<le> SIZE_MAX"
    using pem_capacity_mono [OF cap] by simp
  then have "room (b64_pending ptls_base64_decode_init + (capacity - 0))
      (ptls_buffer_init addr (if capacity = 0 then 1 else capacity) True)"
    by (simp add: room_def ptls_buffer_init_def b64_pending_def ptls_base64_decode_init_def)
  then obtain bs where "obj = appended (ptls_buffer_init addr (if capacity = 0 then 1 else capacity) True) bs"
    using pem_decode_in_place [OF dec _ _ cap] by (auto simp: b64_inv_def ptls_base64_decode_init_def)
  then show ?thesis
    using addr by (simp add: malloc_owned_def appended_def ptls_buffer_init_def)
qed

lemma pem_loop_in_place:
  "load_pem_loop M label list_max F objs = (ret, objs') \<Longrightarrow> list_all (malloc_owned M) objs \<Longrightarrow> length objs \<le> list_max \<Longrightarrow>
     list_all (malloc_owned M) objs' \<and> length objs' \<le> list_max"
proof (induction M label list_max F objs rule: load_pem_loop.induct)
  case (1 M label list_max F objs)
  obtain r obj F' where g: "ptls_get_pem_object_malloc M F label = (r, obj, F')"
    by (metis prod_cases3)
  have "r = 0 \<Longrightarrow> list_all (malloc_owned M) (case obj of Some obj \<Rightarrow> objs @ [obj] | None \<Rightarrow> objs)"
    using "1.prems"(2) pem_object_in_place g by (auto split: option.splits)
  then show ?case
    using "1.IH" [OF _ g [symmetric] refl] "1.prems" g
    by (subst (asm) (2) load_pem_loop.simps) (auto split: if_splits option.splits)
qed

section \<open>Text after the padding\<close>

lemma decode_text_padded:
  assumes "length data mod 3 \<noteq> 0" "room (length data) buf"
  shows "\<exists>state. ptls_base64_decode M (base64_text data @ garbage) ptls_base64_decode_init buf = (0, state, appended buf data)
    \<and> b64_status state = PTLS_BASE64_DECODE_DONE"
proof -
  let ?ss = "sextets data" and ?n = "(3 - length data mod 3) mod 3"
  let ?q = "group_rest ?ss"
  have n: "length ?q = 2 \<or> length ?q = 3" "?n = 4 - length ?q"
    using sextets_octets(2) [of data] assms(1) by auto
  have ne: "?ss \<noteq> []"
    using assms(1) by (cases data rule: sextets.cases) auto
  have parts: "group_octets ?ss @ group_tail ?q = data"
    by (rule sextets_octets)
  have r: "room (length (group_octets ?ss)) buf" "room (length (group_tail ?q)) (appended buf (group_octets ?ss))"
    using assms(2) by (subst (asm) parts [symmetric], auto elim: room_mono)+
  have blank: "dropWhile is_blank (base64_text data @ garbage) = chars ?ss @ replicate (4 - length ?q) 61 @ garbage"
    using ne sextets_small [of data] alphabet_plain(1) unfolding base64_text_eq n(2)
    by (cases ?ss) (auto simp: is_final_blank_def)
  have init: "ptls_base64_decode_init = b64_state []"
    by (simp add: ptls_base64_decode_init_def b64_state_def sextets_value_def)
  show ?thesis
    using decode_chars [of "[]" ?ss buf M "replicate (4 - length ?q) 61 @ garbage"] r sextets_small [of data]
      decode_padding [OF n(1) group_rest_small [OF sextets_small] r(2), of M garbage] parts
    by (simp add: ptls_base64_decode_def blank init b64_done_def)
qed

end
