(* ===== verification/Ciphers.thy ===== *)
theory Ciphers
  imports Aead
begin

text \<open>
  The ciphers that are built from other ciphers in portable code: the FFX mode of \<^verbatim>\<open>lib/ffx.c\<close>,
  the QUIC-LB four-pass cipher of \<^verbatim>\<open>lib/quiclb-impl.h\<close> and the ChaCha20-Poly1305 construction of
  \<^verbatim>\<open>lib/chacha20poly1305.h\<close>.  The block function, the stream cipher and the authenticator they
  are built from belong to a backend and are parameters.
\<close>

unbundle bit_operations_syntax

section \<open>Symmetric ciphers\<close>

text \<open>\<open>cipher_fn key iv pos input\<close> is the transformation of \<open>input\<close> by a context with that key and IV that
  has already processed \<open>pos\<close> octets.\<close>

record ptls_cipher_algorithm =
  cipher_name :: string
  cipher_key_size :: nat
  cipher_block_size :: nat
  cipher_iv_size :: nat
  cipher_fn :: "bytes \<Rightarrow> bytes \<Rightarrow> nat \<Rightarrow> bytes \<Rightarrow> bytes"
  cipher_can_create :: bool

record ptls_cipher_context =
  cctx_algo :: ptls_cipher_algorithm
  cctx_key :: bytes
  cctx_iv :: bytes
  cctx_pos :: nat

definition ptls_cipher_new :: "ptls_cipher_algorithm \<Rightarrow> bool \<Rightarrow> bytes \<Rightarrow> ptls_cipher_context option" where
  "ptls_cipher_new algo is_enc key =
     (if cipher_can_create algo then Some \<lparr>cctx_algo = algo, cctx_key = key, cctx_iv = [], cctx_pos = 0\<rparr> else None)"

definition ptls_cipher_init :: "ptls_cipher_context \<Rightarrow> bytes \<Rightarrow> ptls_cipher_context" where
  "ptls_cipher_init ctx iv = ctx\<lparr>cctx_iv := iv, cctx_pos := 0\<rparr>"

definition ptls_cipher_encrypt :: "ptls_cipher_context \<Rightarrow> bytes \<Rightarrow> bytes \<times> ptls_cipher_context" where
  "ptls_cipher_encrypt ctx input =
     (cipher_fn (cctx_algo ctx) (cctx_key ctx) (cctx_iv ctx) (cctx_pos ctx) input,
      ctx\<lparr>cctx_pos := cctx_pos ctx + length input\<rparr>)"

section \<open>FFX\<close>

record ptls_ffx_context =
  ffx_enc_ctx :: ptls_cipher_context
  ffx_nb_rounds :: nat
  ffx_is_enc :: bool
  ffx_byte_length :: nat
  ffx_nb_left :: nat
  ffx_nb_right :: nat
  ffx_mask_last_byte :: byte
  ffx_tweaks :: bytes

definition last_byte_mask :: bytes where
  "last_byte_mask = [0xff, 0xfe, 0xfc, 0xf8, 0xf0, 0xe0, 0xc0, 0x80]"

definition ptls_ffx_setup_crypto ::
  "ptls_cipher_algorithm \<Rightarrow> bool \<Rightarrow> nat \<Rightarrow> nat \<Rightarrow> bytes \<Rightarrow> ptls_ffx_context res" where
  "ptls_ffx_setup_crypto algo is_enc nb_rounds bit_length key =
     (let len = (bit_length + 7) div 8 in
      if len \<le> 32 \<and> len \<ge> 2
      then case ptls_cipher_new algo True key of
          None \<Rightarrow> Inl PTLS_ERROR_LIBRARY
        | Some enc_ctx \<Rightarrow> Inr \<lparr>ffx_enc_ctx = enc_ctx, ffx_nb_rounds = nb_rounds, ffx_is_enc = is_enc, ffx_byte_length = len,
            ffx_nb_left = len div 2, ffx_nb_right = len - len div 2,
            ffx_mask_last_byte = last_byte_mask ! (bit_length mod 8), ffx_tweaks = replicate 16 0\<rparr>
      else Inl PTLS_ERROR_LIBRARY)"

definition ptls_ffx_new ::
  "allocator \<Rightarrow> ptls_cipher_algorithm \<Rightarrow> bool \<Rightarrow> nat \<Rightarrow> nat \<Rightarrow> bytes \<Rightarrow> nat \<Rightarrow> ptls_ffx_context option" where
  "ptls_ffx_new M algo is_enc nb_rounds bit_length key context_size =
     (if c_malloc M context_size
      then case ptls_ffx_setup_crypto algo is_enc nb_rounds bit_length key of Inl _ \<Rightarrow> None | Inr ctx \<Rightarrow> Some ctx
      else None)"

definition ffx_init :: "ptls_ffx_context \<Rightarrow> bytes \<Rightarrow> ptls_ffx_context" where
  "ffx_init ctx iv = ctx\<lparr>ffx_tweaks := take 16 iv\<rparr>"

text \<open>\<open>xs[i] ^= ys[i]\<close> for the first \<open>n\<close> octets.\<close>

definition xor_octets :: "nat \<Rightarrow> bytes \<Rightarrow> bytes \<Rightarrow> bytes" where
  "xor_octets n xs ys = map (\<lambda>i. if i < n then xs ! i XOR ys ! i else xs ! i) [0..<length xs]"

definition ptls_ffx_one_pass ::
  "ptls_cipher_context \<Rightarrow> bytes \<Rightarrow> nat \<Rightarrow> bytes \<Rightarrow> nat \<Rightarrow> byte \<Rightarrow> bytes \<Rightarrow> byte \<Rightarrow> byte \<Rightarrow> bytes" where
  "ptls_ffx_one_pass enc_ctx source src_size target tgt_size mask_last_byte tweaks rnd nb_rounds =
     (let iv = take 16 tweaks;
          iv = iv[unat (rnd AND 15) := iv ! unat (rnd AND 15) XOR nb_rounds];
          iv = xor_octets src_size iv source;
          confusion = fst (ptls_cipher_encrypt (ptls_cipher_init enc_ctx iv) (replicate 16 0));
          target = xor_octets (tgt_size - 1) target confusion in
      target[tgt_size - 1 := target ! (tgt_size - 1) XOR (confusion ! (tgt_size - 1) AND mask_last_byte)])"

text \<open>The two loops; \<open>i\<close> is the loop counter, the state the two halves.\<close>

definition ffx_pass_left :: "ptls_ffx_context \<Rightarrow> byte \<Rightarrow> bytes \<times> bytes \<Rightarrow> bytes \<times> bytes" where
  "ffx_pass_left ctx rnd lr =
     (ptls_ffx_one_pass (ffx_enc_ctx ctx) (snd lr) (ffx_nb_right ctx) (fst lr) (ffx_nb_left ctx) 0xff (ffx_tweaks ctx)
        rnd (of_nat (ffx_nb_rounds ctx)), snd lr)"

definition ffx_pass_right :: "ptls_ffx_context \<Rightarrow> byte \<Rightarrow> bytes \<times> bytes \<Rightarrow> bytes \<times> bytes" where
  "ffx_pass_right ctx rnd lr =
     (fst lr, ptls_ffx_one_pass (ffx_enc_ctx ctx) (fst lr) (ffx_nb_left ctx) (snd lr) (ffx_nb_right ctx)
        (ffx_mask_last_byte ctx) (ffx_tweaks ctx) rnd (of_nat (ffx_nb_rounds ctx)))"

function ffx_enc_loop :: "ptls_ffx_context \<Rightarrow> nat \<Rightarrow> bytes \<times> bytes \<Rightarrow> bytes \<times> bytes" where
  "ffx_enc_loop ctx i lr =
     (if i < ffx_nb_rounds ctx
      then ffx_enc_loop ctx (i + 2) (ffx_pass_right ctx (of_nat (i + 1)) (ffx_pass_left ctx (of_nat i) lr))
      else lr)"
  by pat_completeness auto
termination
  by (relation "measure (\<lambda>(ctx, i, lr). ffx_nb_rounds ctx - i)") auto

function ffx_dec_loop :: "ptls_ffx_context \<Rightarrow> nat \<Rightarrow> bytes \<times> bytes \<Rightarrow> bytes \<times> bytes" where
  "ffx_dec_loop ctx i lr =
     (if i < ffx_nb_rounds ctx
      then ffx_dec_loop ctx (i + 2)
             (ffx_pass_left ctx (word_of_int (int (ffx_nb_rounds ctx) - 2 - int i))
               (ffx_pass_right ctx (word_of_int (int (ffx_nb_rounds ctx) - 1 - int i)) lr))
      else lr)"
  by pat_completeness auto
termination
  by (relation "measure (\<lambda>(ctx, i, lr). ffx_nb_rounds ctx - i)") auto

declare ffx_enc_loop.simps [simp del] ffx_dec_loop.simps [simp del]

text \<open>The output has the length of the input; a length that is not the context's gives zeros.\<close>

definition ffx_encrypt :: "ptls_ffx_context \<Rightarrow> bytes \<Rightarrow> bytes" where
  "ffx_encrypt ctx input =
     (if length input \<noteq> ffx_byte_length ctx then replicate (length input) 0
      else let nl = ffx_nb_left ctx; nr = ffx_nb_right ctx; mlb = ffx_mask_last_byte ctx;
               left = take nl input @ replicate (16 - nl) 0;
               right = take nr (drop nl input) @ replicate (16 - nr) 0;
               last_byte = right ! (nr - 1);
               right = right[nr - 1 := right ! (nr - 1) AND mlb];
               (left, right) = (if ffx_is_enc ctx then ffx_enc_loop ctx 0 (left, right) else ffx_dec_loop ctx 0 (left, right));
               right = right[nr - 1 := right ! (nr - 1) AND mlb];
               right = right[nr - 1 := right ! (nr - 1) OR (last_byte AND NOT mlb)] in
        take nl left @ take nr right)"

section \<open>QUIC-LB\<close>

abbreviation PTLS_QUICLB_MIN_BLOCK_SIZE :: nat where "PTLS_QUICLB_MIN_BLOCK_SIZE \<equiv> 7"
abbreviation PTLS_QUICLB_MAX_BLOCK_SIZE :: nat where "PTLS_QUICLB_MAX_BLOCK_SIZE \<equiv> 19"

text \<open>A block is a list of 16 octets; the block function encrypts one.\<close>

definition quiclb_block :: "bytes \<Rightarrow> bytes" where
  "quiclb_block bs = take 16 (bs @ replicate 16 0)"

definition picotls_quiclb_cipher_aes :: "ptls_cipher_context \<Rightarrow> bytes \<Rightarrow> bytes" where
  "picotls_quiclb_cipher_aes aesecb block = fst (ptls_cipher_encrypt aesecb block)"

definition picotls_quiclb_one_round ::
  "(bytes \<Rightarrow> bytes) \<Rightarrow> bytes \<Rightarrow> bytes \<Rightarrow> bytes \<Rightarrow> bytes \<Rightarrow> bytes" where
  "picotls_quiclb_one_round aesecb_func x y mask_side len_pass =
     (let dest = map2 (OR) (map2 (AND) y mask_side) len_pass in map2 (XOR) (aesecb_func dest) x)"

definition picotls_quiclb_split_input :: "bytes \<Rightarrow> nat \<Rightarrow> bytes \<times> bytes" where
  "picotls_quiclb_split_input input len =
     (quiclb_block (take ((len + 1) div 2) input),
      quiclb_block (take ((len + 1) div 2) (drop (len div 2) input)))"

definition picotls_quiclb_merge_output :: "nat \<Rightarrow> bytes \<Rightarrow> bytes \<Rightarrow> bytes" where
  "picotls_quiclb_merge_output len l r =
     take (len div 2) l
     @ (if len mod 2 = 0 then take (len div 2) r
        else ((l ! (len div 2) AND 0xf0) OR (r ! 0 AND 0x0f)) # take (len div 2) (drop 1 r))"

definition quiclb_masks :: "(bytes \<times> bytes) list" where
  "quiclb_masks = map (\<lambda>(l, r). (quiclb_block l, quiclb_block r)) [
     ([0xff, 0xff, 0xff, 0xf0], [0x0f, 0xff, 0xff, 0xff]),
     ([0xff, 0xff, 0xff, 0xff], [0xff, 0xff, 0xff, 0xff]),
     ([0xff, 0xff, 0xff, 0xff, 0xf0], [0x0f, 0xff, 0xff, 0xff, 0xff]),
     ([0xff, 0xff, 0xff, 0xff, 0xff], [0xff, 0xff, 0xff, 0xff, 0xff]),
     ([0xff, 0xff, 0xff, 0xff, 0xff, 0xf0], [0x0f, 0xff, 0xff, 0xff, 0xff, 0xff]),
     ([0xff, 0xff, 0xff, 0xff, 0xff, 0xff], [0xff, 0xff, 0xff, 0xff, 0xff, 0xff]),
     ([0xff, 0xff, 0xff, 0xff, 0xff, 0xff, 0xf0], [0x0f, 0xff, 0xff, 0xff, 0xff, 0xff, 0xff]),
     ([0xff, 0xff, 0xff, 0xff, 0xff, 0xff, 0xff], [0xff, 0xff, 0xff, 0xff, 0xff, 0xff, 0xff]),
     ([0xff, 0xff, 0xff, 0xff, 0xff, 0xff, 0xff, 0xf0], [0x0f, 0xff, 0xff, 0xff, 0xff, 0xff, 0xff, 0xff]),
     ([0xff, 0xff, 0xff, 0xff, 0xff, 0xff, 0xff, 0xff], [0xff, 0xff, 0xff, 0xff, 0xff, 0xff, 0xff, 0xff]),
     ([0xff, 0xff, 0xff, 0xff, 0xff, 0xff, 0xff, 0xff, 0xf0], [0x0f, 0xff, 0xff, 0xff, 0xff, 0xff, 0xff, 0xff, 0xff]),
     ([0xff, 0xff, 0xff, 0xff, 0xff, 0xff, 0xff, 0xff, 0xff], [0xff, 0xff, 0xff, 0xff, 0xff, 0xff, 0xff, 0xff, 0xff]),
     ([0xff, 0xff, 0xff, 0xff, 0xff, 0xff, 0xff, 0xff, 0xff, 0xf0],
      [0x0f, 0xff, 0xff, 0xff, 0xff, 0xff, 0xff, 0xff, 0xff, 0xff])]"

definition picotls_quiclb_transform :: "(bytes \<Rightarrow> bytes) \<Rightarrow> bytes \<Rightarrow> nat \<Rightarrow> bool \<Rightarrow> bytes" where
  "picotls_quiclb_transform aesecb_func input len encrypt =
     (let (ml, mr) = quiclb_masks ! (len - PTLS_QUICLB_MIN_BLOCK_SIZE);
          round_l = (\<lambda>rnd x y. picotls_quiclb_one_round aesecb_func x y ml (replicate 14 0 @ [of_nat len, rnd]));
          round_r = (\<lambda>rnd x y. picotls_quiclb_one_round aesecb_func x y mr (replicate 14 0 @ [of_nat len, rnd])) in
      if encrypt
      then let (l0, r0) = picotls_quiclb_split_input input len;
               r1 = round_l 1 r0 l0;
               l1 = round_r 2 l0 r1;
               r2 = round_l 3 r1 l1;
               l2 = round_r 4 l1 r2 in
           picotls_quiclb_merge_output len l2 r2
      else let (l2, r2) = picotls_quiclb_split_input input len;
               l1 = round_r 4 l2 r2;
               r1 = round_l 3 r2 l1;
               l0 = round_r 2 l1 r1;
               r0 = round_l 1 r1 l0 in
           picotls_quiclb_merge_output len l0 r0)"

section \<open>Masked blocks\<close>

text \<open>Only the bits under a mask take part in the rounds.\<close>

definition keep :: "bytes \<Rightarrow> bytes \<Rightarrow> bytes" where
  "keep m bs = map2 (AND) bs m"

definition half_masks :: "nat \<Rightarrow> bytes \<times> bytes" where
  "half_masks len =
     (quiclb_block (replicate (len div 2) 0xff @ (if odd len then [0xf0] else [])),
      quiclb_block ((if odd len then [0x0f] else []) @ replicate (len div 2) 0xff))"

lemma length_quiclb_block [simp]: "length (quiclb_block bs) = 16"
  by (simp add: quiclb_block_def)

lemma quiclb_masks_eq:
  assumes "PTLS_QUICLB_MIN_BLOCK_SIZE \<le> len" "len \<le> PTLS_QUICLB_MAX_BLOCK_SIZE"
  shows "quiclb_masks ! (len - PTLS_QUICLB_MIN_BLOCK_SIZE) = half_masks len"
proof -
  have "list_all (\<lambda>len. quiclb_masks ! (len - 7) = half_masks len) [7..<20]"
    by code_simp
  moreover have "len \<in> set [7..<20]"
    using assms unfolding set_upt by auto
  ultimately show ?thesis
    unfolding list_all_iff by (rule bspec)
qed

lemma nth_quiclb_block: "i < 16 \<Longrightarrow> quiclb_block bs ! i = (if i < length bs then bs ! i else 0)"
  by (simp add: quiclb_block_def nth_append)

lemma half_masks_nth:
  assumes "i < 16"
  shows "fst (half_masks len) ! i = (if i < len div 2 then 0xff else if odd len \<and> i = len div 2 then 0xf0 else 0)"
    "snd (half_masks len) ! i =
       (if odd len then if i = 0 then 0x0f else if i \<le> len div 2 then 0xff else 0
        else if i < len div 2 then 0xff else 0)"
  using assms by (auto simp: half_masks_def nth_quiclb_block nth_append nth_Cons' split: if_splits)

lemma length_half_masks [simp]: "length (fst (half_masks len)) = 16" "length (snd (half_masks len)) = 16"
  by (simp_all add: half_masks_def)

lemma keep_eq_iff:
  assumes "length a = 16" "length b = 16" "length m = 16"
  shows "keep m a = keep m b \<longleftrightarrow> (\<forall>i<16. a ! i AND m ! i = b ! i AND m ! i)"
  using assms by (auto simp: keep_def list_eq_iff_nth_eq)

text \<open>A round is undone by the same round, and respects equality under a mask in both inputs.\<close>

lemma one_round_cong:
  assumes "keep m y = keep m y'"
  shows "picotls_quiclb_one_round f x y m lp = picotls_quiclb_one_round f x y' m lp"
  using assms by (simp add: picotls_quiclb_one_round_def keep_def)

lemma length_one_round:
  "(\<And>b. length b = 16 \<Longrightarrow> length (f b) = 16) \<Longrightarrow> length x = 16 \<Longrightarrow> length y = 16 \<Longrightarrow> length m = 16 \<Longrightarrow> length lp = 16 \<Longrightarrow>
     length (picotls_quiclb_one_round f x y m lp) = 16"
  by (simp add: picotls_quiclb_one_round_def Let_def)

lemma one_round_undo:
  assumes f: "\<And>b. length b = 16 \<Longrightarrow> length (f b) = 16"
    and len: "length x = 16" "length x' = 16" "length y = 16" "length y' = 16" "length m = 16" "length m' = 16" "length lp = 16"
    and eq: "keep m' x' = keep m' (picotls_quiclb_one_round f x y m lp)" "keep m y' = keep m y"
  shows "keep m' (picotls_quiclb_one_round f x' y' m lp) = keep m' x"
proof -
  define c where "c = f (map2 (OR) (map2 (AND) y m) lp)"
  have c: "length c = 16"
    using f len by (simp add: c_def)
  have r: "picotls_quiclb_one_round f z y m lp = map2 (XOR) c z" for z
    by (simp add: picotls_quiclb_one_round_def c_def Let_def)
  have "x' ! i AND m' ! i = (c ! i XOR x ! i) AND m' ! i" if "i < 16" for i
    using eq(1) len c that unfolding r by (subst (asm) keep_eq_iff) simp_all
  then have "(c ! i XOR x' ! i) AND m' ! i = x ! i AND m' ! i" if "i < 16" for i
    using that by (simp add: bit.conj_xor_distrib2 xor.assoc [symmetric])
  then show ?thesis
    unfolding one_round_cong [OF eq(2)] r using len c by (subst keep_eq_iff) simp_all
qed

section \<open>Splitting and merging\<close>

lemma nth_merge:
  assumes "length l = 16" "length r = 16" "len \<le> PTLS_QUICLB_MAX_BLOCK_SIZE" "i < len"
  shows "picotls_quiclb_merge_output len l r ! i =
    (if i < len div 2 then l ! i
     else if odd len \<and> i = len div 2 then (l ! (len div 2) AND 0xf0) OR (r ! 0 AND 0x0f)
     else r ! (i - len div 2))"
proof -
  have "len div 2 < 16"
    using assms(3) by simp
  moreover have "i < len div 2 + len div 2 + len mod 2"
    using assms(4) by presburger
  ultimately show ?thesis
    using assms(1,2) by (auto simp: picotls_quiclb_merge_output_def nth_append nth_Cons' min_def mod_2_eq_odd Suc_diff_Suc)
qed

lemma length_merge:
  assumes "length l = 16" "length r = 16" "len \<le> PTLS_QUICLB_MAX_BLOCK_SIZE"
  shows "length (picotls_quiclb_merge_output len l r) = len"
  using assms by (auto simp: picotls_quiclb_merge_output_def min_def mod_2_eq_odd; presburger)

lemma nth_split:
  assumes "i < 16" "length input = len" "len \<le> PTLS_QUICLB_MAX_BLOCK_SIZE"
  shows "fst (picotls_quiclb_split_input input len) ! i = (if i < (len + 1) div 2 then input ! i else 0)"
    "snd (picotls_quiclb_split_input input len) ! i = (if i < (len + 1) div 2 then input ! (i + len div 2) else 0)"
  using assms by (auto simp: picotls_quiclb_split_input_def nth_quiclb_block add.commute)

lemma length_split [simp]:
  "length (fst (picotls_quiclb_split_input input len)) = 16" "length (snd (picotls_quiclb_split_input input len)) = 16"
  by (simp_all add: picotls_quiclb_split_input_def)

lemma nibbles:
  "((x :: byte) AND 0xf0 OR y AND 0x0f) AND 0xf0 = x AND 0xf0"
  "((x :: byte) AND 0xf0 OR y AND 0x0f) AND 0x0f = y AND 0x0f"
  "((x :: byte) AND 0xf0) OR (x AND 0x0f) = x" "(x :: byte) AND 0xff = x"
proof -
  have "x AND mask 8 = x"
    by (simp add: take_bit_eq_mask [symmetric] take_bit_word_eq_self)
  then show ff: "x AND 0xff = x"
    by (simp add: mask_eq_exp_minus_1)
  show "(x AND 0xf0 OR y AND 0x0f) AND 0xf0 = x AND 0xf0" "(x AND 0xf0 OR y AND 0x0f) AND 0x0f = y AND 0x0f"
    by (simp_all add: bit.conj_disj_distrib2 and.assoc)
  show "(x AND 0xf0) OR (x AND 0x0f) = x"
    using ff by (simp add: bit.conj_disj_distrib [symmetric])
qed

lemma merge_keep:
  assumes len: "length l = 16" "length r = 16" "length l' = 16" "length r' = 16" "len \<le> PTLS_QUICLB_MAX_BLOCK_SIZE"
    and eq: "keep (fst (half_masks len)) l = keep (fst (half_masks len)) l'"
      "keep (snd (half_masks len)) r = keep (snd (half_masks len)) r'"
  shows "picotls_quiclb_merge_output len l r = picotls_quiclb_merge_output len l' r'"
proof (rule nth_equalityI)
  fix i assume "i < length (picotls_quiclb_merge_output len l r)"
  then have i: "i < len" "i \<le> len div 2 + len div 2"
    using length_merge [OF len(1,2,5)] by auto
  have h: "len div 2 < 16"
    using len(5) by simp
  have d: "i - len div 2 < 16" "i - len div 2 \<le> len div 2" "even len \<Longrightarrow> 0 < len div 2 \<and> i - len div 2 < len div 2"
    using i h by (auto elim!: evenE)
  have l: "l ! j AND fst (half_masks len) ! j = l' ! j AND fst (half_masks len) ! j"
    and r: "r ! j AND snd (half_masks len) ! j = r' ! j AND snd (half_masks len) ! j" if "j < 16" for j
    using that eq len by (simp_all add: keep_eq_iff)
  show "picotls_quiclb_merge_output len l r ! i = picotls_quiclb_merge_output len l' r' ! i"
    using l [of i] l [of "len div 2"] r [of 0] r [of "i - len div 2"] i h len d
    by (auto simp: nth_merge half_masks_nth nibbles(4) split: if_splits)
qed (simp_all add: length_merge len)

lemma split_merge:
  assumes "length l = 16" "length r = 16" "len \<le> PTLS_QUICLB_MAX_BLOCK_SIZE" "1 \<le> len"
  shows "keep (fst (half_masks len)) (fst (picotls_quiclb_split_input (picotls_quiclb_merge_output len l r) len))
      = keep (fst (half_masks len)) l"
    "keep (snd (half_masks len)) (snd (picotls_quiclb_split_input (picotls_quiclb_merge_output len l r) len))
      = keep (snd (half_masks len)) r"
proof -
  have "odd len \<Longrightarrow> len div 2 + len div 2 < len"
    by presburger
  then show "keep (fst (half_masks len)) (fst (picotls_quiclb_split_input (picotls_quiclb_merge_output len l r) len))
      = keep (fst (half_masks len)) l"
    "keep (snd (half_masks len)) (snd (picotls_quiclb_split_input (picotls_quiclb_merge_output len l r) len))
      = keep (snd (half_masks len)) r"
    using assms by (auto simp: keep_eq_iff nth_split length_merge nth_merge half_masks_nth nibbles)
qed

lemma merge_split:
  assumes "length input = len" "len \<le> PTLS_QUICLB_MAX_BLOCK_SIZE"
  shows "picotls_quiclb_merge_output len (fst (picotls_quiclb_split_input input len))
      (snd (picotls_quiclb_split_input input len)) = input"
  using assms by (intro nth_equalityI) (auto simp: nth_split length_merge nth_merge nibbles)

text \<open>The four rounds in both directions, on the halves.\<close>

definition quiclb_round :: "(bytes \<Rightarrow> bytes) \<Rightarrow> nat \<Rightarrow> bytes \<Rightarrow> byte \<Rightarrow> bytes \<Rightarrow> bytes \<Rightarrow> bytes" where
  "quiclb_round f len m rnd x y = picotls_quiclb_one_round f x y m (replicate 14 0 @ [of_nat len, rnd])"

definition enc_rounds :: "(bytes \<Rightarrow> bytes) \<Rightarrow> nat \<Rightarrow> bytes \<Rightarrow> bytes \<Rightarrow> bytes \<Rightarrow> bytes \<Rightarrow> bytes \<times> bytes" where
  "enc_rounds f len ml mr l0 r0 =
     (let r1 = quiclb_round f len ml 1 r0 l0; l1 = quiclb_round f len mr 2 l0 r1;
          r2 = quiclb_round f len ml 3 r1 l1 in (quiclb_round f len mr 4 l1 r2, r2))"

definition dec_rounds :: "(bytes \<Rightarrow> bytes) \<Rightarrow> nat \<Rightarrow> bytes \<Rightarrow> bytes \<Rightarrow> bytes \<Rightarrow> bytes \<Rightarrow> bytes \<times> bytes" where
  "dec_rounds f len ml mr l2 r2 =
     (let l1 = quiclb_round f len mr 4 l2 r2; r1 = quiclb_round f len ml 3 r2 l1;
          l0 = quiclb_round f len mr 2 l1 r1 in (l0, quiclb_round f len ml 1 r1 l0))"

lemma transform_eq:
  assumes "PTLS_QUICLB_MIN_BLOCK_SIZE \<le> len" "len \<le> PTLS_QUICLB_MAX_BLOCK_SIZE"
  shows "picotls_quiclb_transform f input len encrypt =
    (case picotls_quiclb_split_input input len of (l, r) \<Rightarrow>
       case (if encrypt then enc_rounds else dec_rounds) f len (fst (half_masks len)) (snd (half_masks len)) l r of
         (l', r') \<Rightarrow> picotls_quiclb_merge_output len l' r')"
  by (simp add: picotls_quiclb_transform_def quiclb_masks_eq [OF assms] enc_rounds_def dec_rounds_def quiclb_round_def
      Let_def split: prod.split)

lemma rounds_undo:
  assumes f: "\<And>b. length b = 16 \<Longrightarrow> length (f b) = 16"
    and len: "length ml = 16" "length mr = 16" "length l0 = 16" "length r0 = 16" "length l2' = 16" "length r2' = 16"
    and enc: "enc_rounds f n ml mr l0 r0 = (l2, r2)" and dec: "dec_rounds f n ml mr l2' r2' = (l0', r0')"
    and eq: "keep ml l2' = keep ml l2" "keep mr r2' = keep mr r2"
  shows "keep ml l0' = keep ml l0 \<and> keep mr r0' = keep mr r0
    \<and> length l2 = 16 \<and> length r2 = 16 \<and> length l0' = 16 \<and> length r0' = 16"
proof -
  have ll: "length (quiclb_round f n m rnd x y) = 16" if "length x = 16" "length y = 16" "length m = 16" for m rnd x y
    unfolding quiclb_round_def using f that by (intro length_one_round) simp_all
  have undo: "keep m' (quiclb_round f n m rnd x' y') = keep m' x"
    if "keep m' x' = keep m' (quiclb_round f n m rnd x y)" "keep m y' = keep m y" "length x = 16" "length x' = 16"
      "length y = 16" "length y' = 16" "length m = 16" "length m' = 16" for m m' rnd x x' y y'
    using that f unfolding quiclb_round_def by (intro one_round_undo [where y = y]) simp_all
  define r1 l1 where "r1 = quiclb_round f n ml 1 r0 l0" and "l1 = quiclb_round f n mr 2 l0 r1"
  have e: "r2 = quiclb_round f n ml 3 r1 l1" "l2 = quiclb_round f n mr 4 l1 r2"
    using enc by (auto simp: enc_rounds_def r1_def l1_def Let_def)
  define l1' r1' where "l1' = quiclb_round f n mr 4 l2' r2'" and "r1' = quiclb_round f n ml 3 r2' l1'"
  have d: "l0' = quiclb_round f n mr 2 l1' r1'" "r0' = quiclb_round f n ml 1 r1' l0'"
    using dec by (auto simp: dec_rounds_def r1'_def l1'_def Let_def)
  note lens = len ll [OF len(4,3,1), of 1, folded r1_def]
  have lens': "length l1 = 16" "length r2 = 16" "length l2 = 16" "length l1' = 16" "length r1' = 16" "length l0' = 16" "length r0' = 16"
    using lens ll by (simp_all add: l1_def e d l1'_def r1'_def)
  have "keep ml l1' = keep ml l1"
    unfolding l1'_def using eq e(2) lens lens' by (intro undo [where y = r2]) simp_all
  moreover from this have "keep mr r1' = keep mr r1"
    unfolding r1'_def using eq e(1) lens lens' by (intro undo [where y = l1]) simp_all
  moreover from calculation have "keep ml l0' = keep ml l0"
    unfolding d using l1_def lens lens' by (intro undo [where y = r1]) simp_all
  moreover from calculation have "keep mr r0' = keep mr r0"
    unfolding d(2) using r1_def lens lens' by (intro undo [where y = l0]) simp_all
  ultimately show ?thesis
    using lens' by simp
qed

lemma enc_rounds_length:
  assumes "\<And>b. length b = 16 \<Longrightarrow> length (f b) = 16" "length ml = 16" "length mr = 16" "length l0 = 16" "length r0 = 16"
    "enc_rounds f n ml mr l0 r0 = (l2, r2)"
  shows "length l2 = 16 \<and> length r2 = 16"
proof -
  obtain l0' r0' where "dec_rounds f n ml mr l2 r2 = (l0', r0')" by fastforce
  have "length (quiclb_round f n m rnd x y) = 16" if "length x = 16" "length y = 16" "length m = 16" for m rnd x y
    unfolding quiclb_round_def using assms(1) that by (intro length_one_round) simp_all
  then show ?thesis
    using assms(2-) by (auto simp: enc_rounds_def Let_def)
qed

lemma quiclb_round_trip:
  assumes f: "\<And>b. length b = 16 \<Longrightarrow> length (f b) = 16"
    and len: "PTLS_QUICLB_MIN_BLOCK_SIZE \<le> len" "len \<le> PTLS_QUICLB_MAX_BLOCK_SIZE" "length input = len"
  shows "picotls_quiclb_transform f (picotls_quiclb_transform f input len True) len False = input
    \<and> length (picotls_quiclb_transform f input len True) = len"
proof -
  obtain l0 r0 where s: "picotls_quiclb_split_input input len = (l0, r0)" by fastforce
  obtain l2 r2 where e: "enc_rounds f len (fst (half_masks len)) (snd (half_masks len)) l0 r0 = (l2, r2)" by fastforce
  obtain l2' r2' where s': "picotls_quiclb_split_input (picotls_quiclb_merge_output len l2 r2) len = (l2', r2')" by fastforce
  obtain l0' r0' where d: "dec_rounds f len (fst (half_masks len)) (snd (half_masks len)) l2' r2' = (l0', r0')" by fastforce
  have l0: "length l0 = 16" "length r0 = 16" "length l2' = 16" "length r2' = 16"
    using length_split [of input len] length_split [of "picotls_quiclb_merge_output len l2 r2" len] s s' by simp_all
  have l2: "length l2 = 16" "length r2 = 16"
    using enc_rounds_length [OF f _ _ l0(1,2) e] by simp_all
  have "keep (fst (half_masks len)) l0' = keep (fst (half_masks len)) l0 \<and>
      keep (snd (half_masks len)) r0' = keep (snd (half_masks len)) r0 \<and> length l0' = 16 \<and> length r0' = 16"
    using rounds_undo [OF f _ _ l0 e d] split_merge [OF l2 len(2)] len(1) s' by simp
  then have "picotls_quiclb_merge_output len l0' r0' = picotls_quiclb_merge_output len l0 r0"
    using l0 len(2) by (intro merge_keep) simp_all
  then show ?thesis
    using merge_split [OF len(3,2)] length_merge [OF l2 len(2)] s s' e d by (simp add: transform_eq [OF len(1,2)])
qed

section \<open>FFX undoes itself\<close>

lemma length_xor_octets [simp]: "length (xor_octets n xs ys) = length xs"
  by (simp add: xor_octets_def)

lemma nth_xor_octets [simp]: "i < length xs \<Longrightarrow> xor_octets n xs ys ! i = (if i < n then xs ! i XOR ys ! i else xs ! i)"
  by (simp add: xor_octets_def)

lemma length_one_pass [simp]: "length (ptls_ffx_one_pass e src n tgt m k t r nr) = length tgt"
  by (simp add: ptls_ffx_one_pass_def Let_def)

text \<open>A pass adds to the target a value that depends only on the source.\<close>

definition pass_confusion :: "ptls_cipher_context \<Rightarrow> bytes \<Rightarrow> nat \<Rightarrow> bytes \<Rightarrow> byte \<Rightarrow> byte \<Rightarrow> bytes" where
  "pass_confusion e src n t r nr =
     (let iv = take 16 t; iv = iv[unat (r AND 15) := iv ! unat (r AND 15) XOR nr]; iv = xor_octets n iv src in
      fst (ptls_cipher_encrypt (ptls_cipher_init e iv) (replicate 16 0)))"

lemma one_pass_nth:
  assumes "i < length tgt" "1 \<le> m"
  shows "ptls_ffx_one_pass e src n tgt m k t r nr ! i =
    (if i < m - 1 then tgt ! i XOR pass_confusion e src n t r nr ! i
     else if i = m - 1 then tgt ! i XOR (pass_confusion e src n t r nr ! i AND k) else tgt ! i)"
  using assms by (simp add: ptls_ffx_one_pass_def pass_confusion_def Let_def nth_list_update)

lemma one_pass_undo:
  "1 \<le> m \<Longrightarrow> ptls_ffx_one_pass e src n (ptls_ffx_one_pass e src n tgt m k t r nr) m k t r nr = tgt"
  by (intro nth_equalityI) (simp_all add: one_pass_nth xor.assoc)

lemma pass_undo:
  "1 \<le> ffx_nb_left ctx \<Longrightarrow> ffx_pass_left ctx r (ffx_pass_left ctx r lr) = lr"
  "1 \<le> ffx_nb_right ctx \<Longrightarrow> ffx_pass_right ctx r (ffx_pass_right ctx r lr) = lr"
  by (simp_all add: ffx_pass_left_def ffx_pass_right_def one_pass_undo)

text \<open>The loops as folds over the pairs of rounds.\<close>

definition enc_pair :: "ptls_ffx_context \<Rightarrow> nat \<Rightarrow> bytes \<times> bytes \<Rightarrow> bytes \<times> bytes" where
  "enc_pair ctx k lr = ffx_pass_right ctx (of_nat (2 * k + 1)) (ffx_pass_left ctx (of_nat (2 * k)) lr)"

definition dec_pair :: "ptls_ffx_context \<Rightarrow> nat \<Rightarrow> bytes \<times> bytes \<Rightarrow> bytes \<times> bytes" where
  "dec_pair ctx k lr = ffx_pass_left ctx (of_nat (2 * k)) (ffx_pass_right ctx (of_nat (2 * k + 1)) lr)"

lemma enc_loop_fold:
  "ffx_nb_rounds ctx = 2 * n \<Longrightarrow> j \<le> n \<Longrightarrow> ffx_enc_loop ctx (2 * j) lr = fold (enc_pair ctx) [j..<n] lr"
proof (induction "n - j" arbitrary: j lr)
  case 0
  then show ?case by (subst ffx_enc_loop.simps) simp
next
  case (Suc d)
  then have "ffx_enc_loop ctx (2 * Suc j) (enc_pair ctx j lr) = fold (enc_pair ctx) [Suc j..<n] (enc_pair ctx j lr)"
    by (intro Suc.hyps(1)) simp_all
  moreover have "j < n"
    using Suc.hyps(2) by simp
  ultimately show ?case
    using Suc.prems by (subst ffx_enc_loop.simps) (simp add: enc_pair_def upt_conv_Cons)
qed

lemma dec_loop_fold:
  "ffx_nb_rounds ctx = 2 * n \<Longrightarrow> j \<le> n \<Longrightarrow> ffx_dec_loop ctx (2 * j) lr = fold (dec_pair ctx) (rev [0..<n - j]) lr"
proof (induction "n - j" arbitrary: j lr)
  case 0
  then show ?case by (subst ffx_dec_loop.simps) simp
next
  case (Suc d)
  then have n: "n = d + Suc j"
    by simp
  have IH: "ffx_dec_loop ctx (2 * Suc j) lr' = fold (dec_pair ctx) (rev [0..<d]) lr'" for lr'
    using Suc.hyps(1) [of "Suc j" lr'] Suc.prems n by simp
  have "int (ffx_nb_rounds ctx) - 2 - int (2 * j) = int (2 * d)" "int (ffx_nb_rounds ctx) - 1 - int (2 * j) = int (2 * d + 1)"
    using Suc.prems n by simp_all
  then have "ffx_dec_loop ctx (2 * j) lr = ffx_dec_loop ctx (2 * Suc j) (dec_pair ctx d lr)"
    using Suc.prems n by (subst ffx_dec_loop.simps) (simp add: dec_pair_def)
  then show ?case
    using IH n by simp
qed

lemma fold_undo:
  assumes "\<And>k s. g k (f k s) = s"
  shows "fold g (rev ks) (fold f ks s) = s"
  using assms by (induction ks arbitrary: s rule: rev_induct) simp_all

lemma loops_undo:
  assumes "ffx_nb_rounds ctx = 2 * n" "1 \<le> ffx_nb_left ctx" "1 \<le> ffx_nb_right ctx"
  shows "ffx_dec_loop ctx 0 (ffx_enc_loop ctx 0 lr) = lr"
proof -
  have "dec_pair ctx k (enc_pair ctx k s) = s" for k s
    using pass_undo assms by (simp add: dec_pair_def enc_pair_def)
  then have "fold (dec_pair ctx) (rev [0..<n]) (fold (enc_pair ctx) [0..<n] lr) = lr"
    by (rule fold_undo)
  then show ?thesis
    using enc_loop_fold [OF assms(1), of 0 lr] dec_loop_fold [OF assms(1), of 0] by simp
qed

text \<open>The bits of the last octet outside the mask never change, nor do the octets beyond the halves.\<close>

definition halves_ok :: "ptls_ffx_context \<Rightarrow> bytes \<times> bytes \<Rightarrow> bool" where
  "halves_ok ctx lr \<longleftrightarrow> length (fst lr) = 16 \<and> length (snd lr) = 16
     \<and> (\<forall>i<16. ffx_nb_left ctx \<le> i \<longrightarrow> fst lr ! i = 0) \<and> (\<forall>i<16. ffx_nb_right ctx \<le> i \<longrightarrow> snd lr ! i = 0)
     \<and> snd lr ! (ffx_nb_right ctx - 1) AND ffx_mask_last_byte ctx = snd lr ! (ffx_nb_right ctx - 1)"

lemma pass_halves_ok:
  assumes "halves_ok ctx lr" "1 \<le> ffx_nb_left ctx" "1 \<le> ffx_nb_right ctx" "ffx_nb_right ctx \<le> 16"
  shows "halves_ok ctx (ffx_pass_left ctx r lr)" "halves_ok ctx (ffx_pass_right ctx r lr)"
  using assms by (auto simp: halves_ok_def ffx_pass_left_def ffx_pass_right_def one_pass_nth
      bit.conj_xor_distrib2 and.assoc)

lemma enc_loop_halves_ok:
  "halves_ok ctx lr \<Longrightarrow> 1 \<le> ffx_nb_left ctx \<Longrightarrow> 1 \<le> ffx_nb_right ctx \<Longrightarrow> ffx_nb_right ctx \<le> 16 \<Longrightarrow>
     halves_ok ctx (ffx_enc_loop ctx i lr)"
proof (induction ctx i lr rule: ffx_enc_loop.induct)
  case (1 ctx i lr)
  then show ?case
    by (subst ffx_enc_loop.simps) (simp add: pass_halves_ok)
qed

definition ffx_ok :: "ptls_ffx_context \<Rightarrow> bool" where
  "ffx_ok ctx \<longleftrightarrow> even (ffx_nb_rounds ctx) \<and> 1 \<le> ffx_nb_left ctx \<and> 1 \<le> ffx_nb_right ctx \<and> ffx_nb_left ctx \<le> 16
     \<and> ffx_nb_right ctx \<le> 16 \<and> ffx_byte_length ctx = ffx_nb_left ctx + ffx_nb_right ctx"

lemma ffx_setup_ok: "ptls_ffx_setup_crypto algo e n bits key = Inr ctx \<Longrightarrow> even n \<Longrightarrow> ffx_ok ctx"
  by (auto simp: ptls_ffx_setup_crypto_def ffx_ok_def Let_def split: if_splits option.splits)

lemma pass_direction [simp]:
  "ffx_pass_left (ctx\<lparr>ffx_is_enc := e\<rparr>) r lr = ffx_pass_left ctx r lr"
  "ffx_pass_right (ctx\<lparr>ffx_is_enc := e\<rparr>) r lr = ffx_pass_right ctx r lr"
  by (simp_all add: ffx_pass_left_def ffx_pass_right_def)

lemma dec_loop_direction [simp]:
  "ffx_dec_loop (ctx\<lparr>ffx_is_enc := e\<rparr>) i lr = ffx_dec_loop ctx i lr"
proof (induction ctx i lr rule: ffx_dec_loop.induct)
  case (1 ctx i lr)
  show ?case
    using "1.IH" by (subst (1 2) ffx_dec_loop.simps) (simp del: of_nat_diff of_int_diff)
qed

lemma masked_bits:
  assumes "(a :: byte) AND m = a"
  shows "(a OR (b AND NOT m)) AND m = a" "(a OR (b AND NOT m)) AND NOT m = b AND NOT m"
proof -
  have "a AND NOT m = 0"
    using assms by (metis and.assoc and_zero_eq bit.conj_cancel_right)
  then show "(a OR (b AND NOT m)) AND m = a" "(a OR (b AND NOT m)) AND NOT m = b AND NOT m"
    using assms by (simp_all add: bit.conj_disj_distrib2 and.assoc)
qed

lemma mask_split: "((b :: byte) AND m) OR (b AND NOT m) = b"
  by (simp add: bit.conj_disj_distrib [symmetric])

text \<open>What \<open>ffx_encrypt\<close> does before and after the rounds.\<close>

definition ffx_enter :: "ptls_ffx_context \<Rightarrow> bytes \<Rightarrow> bytes \<times> bytes" where
  "ffx_enter ctx input =
     (let nl = ffx_nb_left ctx; nr = ffx_nb_right ctx;
          right = take nr (drop nl input) @ replicate (16 - nr) 0 in
      (take nl input @ replicate (16 - nl) 0, right[nr - 1 := right ! (nr - 1) AND ffx_mask_last_byte ctx]))"

definition ffx_leave :: "ptls_ffx_context \<Rightarrow> byte \<Rightarrow> bytes \<times> bytes \<Rightarrow> bytes" where
  "ffx_leave ctx last_byte lr =
     (let nr = ffx_nb_right ctx; m = ffx_mask_last_byte ctx in
      take (ffx_nb_left ctx) (fst lr)
      @ take nr ((snd lr)[nr - 1 := (snd lr ! (nr - 1) AND m) OR (last_byte AND NOT m)]))"

lemma update_read: "xs[i := xs[i := a] ! i OR b] = xs[i := a OR (b :: byte)]"
  by (cases "i < length xs") (simp_all add: not_less list_update_beyond)

lemma ffx_encrypt_eq:
  assumes "ffx_ok ctx" "length input = ffx_byte_length ctx"
  shows "ffx_encrypt ctx input = ffx_leave ctx (last input)
    ((if ffx_is_enc ctx then ffx_enc_loop else ffx_dec_loop) ctx 0 (ffx_enter ctx input))"
proof -
  have "input \<noteq> []" "ffx_nb_left ctx + (ffx_nb_right ctx - 1) = length input - 1"
    using assms by (auto simp: ffx_ok_def)
  then have "(take (ffx_nb_right ctx) (drop (ffx_nb_left ctx) input) @ replicate (16 - ffx_nb_right ctx) 0) ! (ffx_nb_right ctx - 1)
      = last input"
    using assms by (simp add: ffx_ok_def nth_append last_conv_nth del: One_nat_def)
  then show ?thesis
    using assms(2) by (simp add: ffx_encrypt_def ffx_enter_def ffx_leave_def Let_def update_read split: prod.splits)
qed

lemma enter_ok:
  assumes "ffx_ok ctx" "length input = ffx_byte_length ctx"
  shows "halves_ok ctx (ffx_enter ctx input)"
  using assms by (auto simp: ffx_ok_def halves_ok_def ffx_enter_def Let_def nth_append nth_list_update and.assoc)

lemma leave_enter:
  assumes "ffx_ok ctx" "length input = ffx_byte_length ctx"
  shows "ffx_leave ctx b (ffx_enter ctx input)
    = input[length input - 1 := (last input AND ffx_mask_last_byte ctx) OR (b AND NOT (ffx_mask_last_byte ctx))]"
proof -
  let ?nl = "ffx_nb_left ctx" and ?nr = "ffx_nb_right ctx" and ?m = "ffx_mask_last_byte ctx"
  have n: "1 \<le> ?nl" "?nl \<le> 16" "1 \<le> ?nr" "?nr \<le> 16" "length input = ?nl + ?nr"
    using assms by (auto simp: ffx_ok_def)
  moreover from this have "input \<noteq> []"
    by auto
  ultimately have "drop ?nl input ! (?nr - 1) = last input"
    by (simp add: last_conv_nth)
  then have "take ?nr (drop ?nl input) ! (?nr - 1) = last input"
    using n by simp
  then have "ffx_leave ctx b (ffx_enter ctx input)
      = take ?nl input @ (drop ?nl input)[?nr - 1 := (last input AND ?m) OR (b AND NOT ?m)]"
    using n by (simp add: ffx_leave_def ffx_enter_def Let_def list_update_append nth_append and.assoc take_update_swap)
  also have "\<dots> = (take ?nl input @ drop ?nl input)[length input - 1 := (last input AND ?m) OR (b AND NOT ?m)]"
    using n by (subst list_update_append) auto
  finally show ?thesis by simp
qed

lemma enter_leave:
  assumes "ffx_ok ctx" "halves_ok ctx lr"
  shows "ffx_enter ctx (ffx_leave ctx b lr) = lr" "length (ffx_leave ctx b lr) = ffx_byte_length ctx"
    "last (ffx_leave ctx b lr) AND NOT (ffx_mask_last_byte ctx) = b AND NOT (ffx_mask_last_byte ctx)"
proof -
  let ?nl = "ffx_nb_left ctx" and ?nr = "ffx_nb_right ctx" and ?m = "ffx_mask_last_byte ctx"
  obtain l r where lr: "lr = (l, r)" by fastforce
  have n: "1 \<le> ?nl" "?nl \<le> 16" "1 \<le> ?nr" "?nr \<le> 16" "length l = 16" "length r = 16" "ffx_byte_length ctx = ?nl + ?nr"
    and h: "r ! (?nr - 1) AND ?m = r ! (?nr - 1)"
    using assms by (auto simp: ffx_ok_def halves_ok_def lr)
  have tail: "take ?nl l @ replicate (16 - ?nl) 0 = l" "take ?nr r @ replicate (16 - ?nr) 0 = r"
    using assms(2) n by (auto simp: halves_ok_def lr list_eq_iff_nth_eq nth_append)
  define x where "x = r ! (?nr - 1) OR (b AND NOT ?m)"
  have leave: "ffx_leave ctx b lr = take ?nl l @ (take ?nr r)[?nr - 1 := x]"
    using n h by (simp add: ffx_leave_def lr Let_def x_def take_update_swap)
  have bits: "x AND ?m = r ! (?nr - 1)" "x AND NOT ?m = b AND NOT ?m"
    unfolding x_def by (rule masked_bits [OF h])+
  show "length (ffx_leave ctx b lr) = ffx_byte_length ctx"
    using n by (simp add: leave)
  have "last (ffx_leave ctx b lr) = x"
    using n unfolding leave by (subst last_conv_nth) (auto simp: nth_append)
  then show "last (ffx_leave ctx b lr) AND NOT ?m = b AND NOT ?m"
    by (simp add: bits)
  have "((take ?nr r)[?nr - 1 := r ! (?nr - 1)] @ replicate (16 - ?nr) 0) = r"
    using n tail(2) by (metis diff_less less_one list_update_id nth_take order_less_le_trans)
  then show "ffx_enter ctx (ffx_leave ctx b lr) = lr"
    unfolding leave ffx_enter_def Let_def
    using n tail(1) bits(1) by (simp add: lr nth_append list_update_append)
qed

lemma ffx_round_trip:
  assumes ok: "ffx_ok ctx" "ffx_is_enc ctx" and len: "length input = ffx_byte_length ctx"
  shows "ffx_encrypt (ctx\<lparr>ffx_is_enc := False\<rparr>) (ffx_encrypt ctx input) = input
    \<and> length (ffx_encrypt ctx input) = length input"
proof -
  let ?d = "ctx\<lparr>ffx_is_enc := False\<rparr>"
  obtain n where n: "ffx_nb_rounds ctx = 2 * n"
    using ok(1) by (auto simp: ffx_ok_def)
  define lr where "lr = ffx_enc_loop ctx 0 (ffx_enter ctx input)"
  have out: "ffx_encrypt ctx input = ffx_leave ctx (last input) lr"
    using ffx_encrypt_eq [OF ok(1) len] ok(2) by (simp add: lr_def)
  have h: "halves_ok ctx lr"
    using enter_ok [OF ok(1) len] ok(1) unfolding lr_def by (intro enc_loop_halves_ok) (simp_all add: ffx_ok_def)
  note el = enter_leave [OF ok(1) h]
  have ne: "input \<noteq> []"
    using ok(1) len by (auto simp: ffx_ok_def)
  have undo: "ffx_dec_loop ctx 0 lr = ffx_enter ctx input"
    using loops_undo [OF n] ok(1) by (simp add: ffx_ok_def lr_def)
  have same: "ffx_ok ?d" "ffx_enter ?d x = ffx_enter ctx x" "ffx_leave ?d c y = ffx_leave ctx c y" for x y c
    using ok(1) by (simp_all add: ffx_ok_def ffx_enter_def ffx_leave_def)
  have "ffx_encrypt ?d (ffx_leave ctx (last input) lr) = ffx_leave ctx (last (ffx_leave ctx (last input) lr)) (ffx_enter ctx input)"
    using ffx_encrypt_eq [OF same(1), of "ffx_leave ctx (last input) lr"] el undo same(2,3) by simp
  also have "\<dots> = input"
    unfolding leave_enter [OF ok(1) len] el(3) mask_split using ne by (simp add: last_conv_nth)
  finally show ?thesis
    using out el(2) len by simp
qed

lemma ffx_untouched_bits:
  assumes ok: "ffx_ok ctx" "ffx_is_enc ctx" and len: "length input = ffx_byte_length ctx"
  shows "last (ffx_encrypt ctx input) AND NOT (ffx_mask_last_byte ctx) = last input AND NOT (ffx_mask_last_byte ctx)"
proof -
  have "halves_ok ctx (ffx_enc_loop ctx 0 (ffx_enter ctx input))"
    using enter_ok [OF ok(1) len] ok(1) by (intro enc_loop_halves_ok) (simp_all add: ffx_ok_def)
  then show ?thesis
    using ffx_encrypt_eq [OF ok(1) len] ok enter_leave(3) by simp
qed

section \<open>ChaCha20-Poly1305\<close>

abbreviation PTLS_CHACHA20POLY1305_TAG_SIZE :: nat where "PTLS_CHACHA20POLY1305_TAG_SIZE \<equiv> 16"
abbreviation PTLS_CHACHA20POLY1305_IV_SIZE :: nat where "PTLS_CHACHA20POLY1305_IV_SIZE \<equiv> 12"
abbreviation CHACHA20POLY1305_BLOCKSIZE :: nat where "CHACHA20POLY1305_BLOCKSIZE \<equiv> 64"

text \<open>The state of Poly1305 is its key and the message so far.\<close>

record chacha20poly1305_context =
  ccp_chacha :: ptls_cipher_context
  ccp_static_iv :: bytes
  ccp_aadlen :: nat
  ccp_textlen :: nat
  ccp_poly_key :: bytes
  ccp_poly_msg :: bytes

definition poly1305_init :: "bytes \<Rightarrow> chacha20poly1305_context \<Rightarrow> chacha20poly1305_context" where
  "poly1305_init rkey ctx = ctx\<lparr>ccp_poly_key := rkey, ccp_poly_msg := []\<rparr>"

definition poly1305_update :: "bytes \<Rightarrow> chacha20poly1305_context \<Rightarrow> chacha20poly1305_context" where
  "poly1305_update bs ctx = ctx\<lparr>ccp_poly_msg := ccp_poly_msg ctx @ bs\<rparr>"

definition chacha20poly1305_write_u64 :: "64 word \<Rightarrow> bytes" where
  "chacha20poly1305_write_u64 v = map (\<lambda>i. ucast (drop_bit i v)) [0, 8, 16, 24, 32, 40, 48, 56]"

definition chacha20poly1305_encrypt_pad :: "nat \<Rightarrow> chacha20poly1305_context \<Rightarrow> chacha20poly1305_context" where
  "chacha20poly1305_encrypt_pad n ctx =
     (if n mod 16 \<noteq> 0 then poly1305_update (replicate (16 - n mod 16) 0) ctx else ctx)"

text \<open>\<open>poly\<close> is the authenticator: the tag of a message under the key block.\<close>

definition chacha20poly1305_finalize :: "(bytes \<Rightarrow> bytes \<Rightarrow> bytes) \<Rightarrow> chacha20poly1305_context \<Rightarrow> bytes" where
  "chacha20poly1305_finalize poly ctx =
     (let ctx = chacha20poly1305_encrypt_pad (ccp_textlen ctx) ctx;
          ctx = poly1305_update (chacha20poly1305_write_u64 (of_nat (ccp_aadlen ctx))
                                 @ chacha20poly1305_write_u64 (of_nat (ccp_textlen ctx))) ctx in
      poly (ccp_poly_key ctx) (ccp_poly_msg ctx))"

definition chacha20poly1305_init ::
  "ptls_aead_algorithm \<Rightarrow> 64 word \<Rightarrow> bytes \<Rightarrow> chacha20poly1305_context \<Rightarrow> chacha20poly1305_context" where
  "chacha20poly1305_init algo seq aad ctx =
     (let iv = replicate (16 - PTLS_CHACHA20POLY1305_IV_SIZE) 0 @ ptls_aead__build_iv algo (ccp_static_iv ctx) seq;
          chacha = ptls_cipher_init (ccp_chacha ctx) iv;
          (tmpbuf, chacha) = ptls_cipher_encrypt chacha (replicate CHACHA20POLY1305_BLOCKSIZE 0);
          ctx = poly1305_init tmpbuf (ctx\<lparr>ccp_chacha := chacha\<rparr>);
          ctx = (if length aad \<noteq> 0
                 then chacha20poly1305_encrypt_pad (length aad) (poly1305_update aad ctx) else ctx) in
      ctx\<lparr>ccp_aadlen := length aad, ccp_textlen := 0\<rparr>)"

definition chacha20poly1305_encrypt_update ::
  "bytes \<Rightarrow> chacha20poly1305_context \<Rightarrow> bytes \<times> chacha20poly1305_context" where
  "chacha20poly1305_encrypt_update input ctx =
     (let (output, chacha) = ptls_cipher_encrypt (ccp_chacha ctx) input;
          ctx = poly1305_update output (ctx\<lparr>ccp_chacha := chacha\<rparr>) in
      (output, ctx\<lparr>ccp_textlen := ccp_textlen ctx + length input\<rparr>))"

definition chacha20poly1305_encrypt_final ::
  "(bytes \<Rightarrow> bytes \<Rightarrow> bytes) \<Rightarrow> chacha20poly1305_context \<Rightarrow> bytes" where
  "chacha20poly1305_encrypt_final poly ctx = chacha20poly1305_finalize poly ctx"

definition chacha20poly1305_decrypt ::
  "(bytes \<Rightarrow> bytes \<Rightarrow> bytes) \<Rightarrow> ptls_aead_algorithm \<Rightarrow> bytes \<Rightarrow> 64 word \<Rightarrow> bytes \<Rightarrow> chacha20poly1305_context
     \<Rightarrow> bytes option" where
  "chacha20poly1305_decrypt poly algo input seq aad ctx =
     (if length input < PTLS_CHACHA20POLY1305_TAG_SIZE then None
      else let textlen = length input - PTLS_CHACHA20POLY1305_TAG_SIZE;
               ctx = chacha20poly1305_init algo seq aad ctx;
               ctx = (poly1305_update (take textlen input) ctx)\<lparr>ccp_textlen := textlen\<rparr>;
               tag = chacha20poly1305_finalize poly ctx in
        if mem_equal tag (drop textlen input) PTLS_CHACHA20POLY1305_TAG_SIZE
        then Some (fst (ptls_cipher_encrypt (ccp_chacha ctx) (take textlen input)))
        else None)"

definition chacha20poly1305_setup_crypto ::
  "bool \<Rightarrow> bytes \<Rightarrow> bytes \<Rightarrow> ptls_cipher_algorithm \<Rightarrow> chacha20poly1305_context res" where
  "chacha20poly1305_setup_crypto is_enc key iv chacha =
     (case ptls_cipher_new chacha is_enc key of
        None \<Rightarrow> Inl PTLS_ERROR_LIBRARY
      | Some ctx \<Rightarrow> Inr \<lparr>ccp_chacha = ctx, ccp_static_iv = take PTLS_CHACHA20POLY1305_IV_SIZE iv, ccp_aadlen = 0,
                        ccp_textlen = 0, ccp_poly_key = [], ccp_poly_msg = []\<rparr>)"

definition chacha20poly1305_get_iv :: "chacha20poly1305_context \<Rightarrow> bytes" where
  "chacha20poly1305_get_iv ctx = ccp_static_iv ctx"

definition chacha20poly1305_set_iv :: "bytes \<Rightarrow> chacha20poly1305_context \<Rightarrow> chacha20poly1305_context" where
  "chacha20poly1305_set_iv iv ctx = ctx\<lparr>ccp_static_iv := take PTLS_CHACHA20POLY1305_IV_SIZE iv\<rparr>"

text \<open>The default \<open>do_encrypt_v\<close> and \<open>do_encrypt\<close> of the AEAD interface, for this cipher.\<close>

fun encrypt_updates :: "bytes list \<Rightarrow> chacha20poly1305_context \<Rightarrow> bytes \<times> chacha20poly1305_context" where
  "encrypt_updates [] ctx = ([], ctx)"
| "encrypt_updates (input # inputs) ctx =
     (case chacha20poly1305_encrypt_update input ctx of (output, ctx) \<Rightarrow>
        case encrypt_updates inputs ctx of (outputs, ctx) \<Rightarrow> (output @ outputs, ctx))"

definition ptls_aead__do_encrypt_v ::
  "(bytes \<Rightarrow> bytes \<Rightarrow> bytes) \<Rightarrow> ptls_aead_algorithm \<Rightarrow> bytes list \<Rightarrow> 64 word \<Rightarrow> bytes \<Rightarrow> chacha20poly1305_context \<Rightarrow> bytes" where
  "ptls_aead__do_encrypt_v poly algo input seq aad ctx =
     (case encrypt_updates input (chacha20poly1305_init algo seq aad ctx) of (output, ctx) \<Rightarrow>
        output @ chacha20poly1305_encrypt_final poly ctx)"

definition ptls_aead__do_encrypt ::
  "(bytes \<Rightarrow> bytes \<Rightarrow> bytes) \<Rightarrow> ptls_aead_algorithm \<Rightarrow> bytes \<Rightarrow> 64 word \<Rightarrow> bytes \<Rightarrow> chacha20poly1305_context \<Rightarrow> bytes" where
  "ptls_aead__do_encrypt poly algo input seq aad ctx = ptls_aead__do_encrypt_v poly algo [input] seq aad ctx"

text \<open>The supplementary encryption of 16 zero octets, made after the output has been written; \<open>pick\<close> tells
  where in the output its input lies.\<close>

definition ptls_aead__do_supplementary :: "ptls_cipher_context \<Rightarrow> bytes \<Rightarrow> bytes" where
  "ptls_aead__do_supplementary supp_ctx supp_input =
     fst (ptls_cipher_encrypt (ptls_cipher_init supp_ctx supp_input) (replicate 16 0))"

definition ptls_aead__do_encrypt_v_s ::
  "(bytes \<Rightarrow> bytes \<Rightarrow> bytes) \<Rightarrow> ptls_aead_algorithm \<Rightarrow> bytes list \<Rightarrow> 64 word \<Rightarrow> bytes
     \<Rightarrow> (ptls_cipher_context \<times> (bytes \<Rightarrow> bytes)) option \<Rightarrow> chacha20poly1305_context \<Rightarrow> bytes \<times> bytes option" where
  "ptls_aead__do_encrypt_v_s poly algo input seq aad supp ctx =
     (let output = ptls_aead__do_encrypt_v poly algo input seq aad ctx in
      (output, map_option (\<lambda>(supp_ctx, pick). ptls_aead__do_supplementary supp_ctx (pick output)) supp))"

section \<open>What the construction computes\<close>

text \<open>What a backend promises of its stream cipher: octets are combined with a key stream, from the
  position the context has reached.\<close>

definition stream_cipher :: "ptls_cipher_algorithm \<Rightarrow> bool" where
  "stream_cipher algo \<longleftrightarrow> (\<exists>ks. \<forall>key iv pos input.
     cipher_fn algo key iv pos input = map (\<lambda>i. input ! i XOR ks key iv (pos + i)) [0..<length input])"

lemma stream_cipher_facts:
  assumes "stream_cipher algo"
  shows "length (cipher_fn algo key iv pos xs) = length xs"
    "cipher_fn algo key iv pos (xs @ ys) = cipher_fn algo key iv pos xs @ cipher_fn algo key iv (pos + length xs) ys"
    "cipher_fn algo key iv pos (cipher_fn algo key iv pos xs) = xs"
    "cipher_fn algo key iv pos [] = []"
proof -
  obtain ks where ks: "\<And>key iv pos input. cipher_fn algo key iv pos input = map (\<lambda>i. input ! i XOR ks key iv (pos + i)) [0..<length input]"
    using assms unfolding stream_cipher_def by blast
  show "length (cipher_fn algo key iv pos xs) = length xs" "cipher_fn algo key iv pos [] = []"
    by (simp_all add: ks)
  show "cipher_fn algo key iv pos (xs @ ys) = cipher_fn algo key iv pos xs @ cipher_fn algo key iv (pos + length xs) ys"
    by (intro nth_equalityI) (auto simp: ks nth_append add.assoc)
  show "cipher_fn algo key iv pos (cipher_fn algo key iv pos xs) = xs"
    by (intro nth_equalityI) (simp_all add: ks xor.assoc)
qed

definition pad16 :: "bytes \<Rightarrow> bytes" where
  "pad16 bs = (if length bs mod 16 \<noteq> 0 then bs @ replicate (16 - length bs mod 16) 0 else bs)"

definition ccp_tag :: "(bytes \<Rightarrow> bytes \<Rightarrow> bytes) \<Rightarrow> bytes \<Rightarrow> bytes \<Rightarrow> bytes \<Rightarrow> bytes" where
  "ccp_tag poly otk aad ct =
     poly otk (pad16 aad @ pad16 ct @ chacha20poly1305_write_u64 (of_nat (length aad))
               @ chacha20poly1305_write_u64 (of_nat (length ct)))"

text \<open>The AEAD of RFC 8439 over a stream cipher whose first block keys the authenticator.\<close>

definition ccp_seal :: "ptls_cipher_algorithm \<Rightarrow> (bytes \<Rightarrow> bytes \<Rightarrow> bytes) \<Rightarrow> bytes \<Rightarrow> bytes \<Rightarrow> bytes \<Rightarrow> bytes \<Rightarrow> bytes" where
  "ccp_seal chacha poly key nonce aad p =
     (let iv = replicate 4 0 @ nonce; ct = cipher_fn chacha key iv 64 p in
      ct @ ccp_tag poly (cipher_fn chacha key iv 0 (replicate 64 0)) aad ct)"

definition ccp_open ::
  "ptls_cipher_algorithm \<Rightarrow> (bytes \<Rightarrow> bytes \<Rightarrow> bytes) \<Rightarrow> bytes \<Rightarrow> bytes \<Rightarrow> bytes \<Rightarrow> bytes \<Rightarrow> bytes option" where
  "ccp_open chacha poly key nonce aad c =
     (if length c < 16 then None
      else let iv = replicate 4 0 @ nonce; n = length c - 16 in
        if drop n c = ccp_tag poly (cipher_fn chacha key iv 0 (replicate 64 0)) aad (take n c)
        then Some (cipher_fn chacha key iv 64 (take n c)) else None)"

definition chacha20poly1305_algorithm ::
  "ptls_cipher_algorithm \<Rightarrow> (bytes \<Rightarrow> bytes \<Rightarrow> bytes) \<Rightarrow> ptls_aead_algorithm" where
  "chacha20poly1305_algorithm chacha poly =
     \<lparr>aead_name = ''CHACHA20-POLY1305'', aead_key_size = 32, aead_iv_size = PTLS_CHACHA20POLY1305_IV_SIZE,
      aead_tag_size = PTLS_CHACHA20POLY1305_TAG_SIZE, aead_tls12_fixed_iv_size = 12, aead_tls12_record_iv_size = 0,
      aead_align_bits = 0, aead_seal = ccp_seal chacha poly, aead_open = ccp_open chacha poly,
      aead_can_create = cipher_can_create chacha\<rparr>"

lemma encrypt_updates_eq:
  assumes "stream_cipher (cctx_algo (ccp_chacha ctx))"
  shows "encrypt_updates inputs ctx =
    (let c = ccp_chacha ctx; ct = cipher_fn (cctx_algo c) (cctx_key c) (cctx_iv c) (cctx_pos c) (concat inputs) in
     (ct, ctx\<lparr>ccp_chacha := c\<lparr>cctx_pos := cctx_pos c + length (concat inputs)\<rparr>, ccp_poly_msg := ccp_poly_msg ctx @ ct,
              ccp_textlen := ccp_textlen ctx + length (concat inputs)\<rparr>))"
  using assms
proof (induction inputs arbitrary: ctx)
  case Nil
  then show ?case
    by (simp add: stream_cipher_facts Let_def)
next
  case (Cons i inputs)
  show ?case
    using Cons.prems by (simp add: Cons.IH chacha20poly1305_encrypt_update_def ptls_cipher_encrypt_def poly1305_update_def
        Let_def stream_cipher_facts add.assoc)
qed

lemma ccp_init_eq:
  "chacha20poly1305_init algo seq aad ctx =
    (let iv = replicate 4 0 @ ptls_aead__build_iv algo (ccp_static_iv ctx) seq; c = ccp_chacha ctx in
     ctx\<lparr>ccp_chacha := c\<lparr>cctx_iv := iv, cctx_pos := 64\<rparr>,
         ccp_poly_key := cipher_fn (cctx_algo c) (cctx_key c) iv 0 (replicate 64 0), ccp_poly_msg := pad16 aad,
         ccp_aadlen := length aad, ccp_textlen := 0\<rparr>)"
  by (simp add: chacha20poly1305_init_def ptls_cipher_init_def ptls_cipher_encrypt_def poly1305_init_def
      poly1305_update_def chacha20poly1305_encrypt_pad_def pad16_def Let_def)

lemma ccp_finalize_eq:
  assumes "ccp_poly_msg ctx = pad16 aad @ ct" "ccp_aadlen ctx = length aad" "ccp_textlen ctx = length ct"
  shows "chacha20poly1305_finalize poly ctx = ccp_tag poly (ccp_poly_key ctx) aad ct"
  using assms by (simp add: chacha20poly1305_finalize_def chacha20poly1305_encrypt_pad_def poly1305_update_def ccp_tag_def
      pad16_def Let_def)

text \<open>The operations of the code compute this AEAD, however the plaintext is split.\<close>

lemma ccp_encrypt_eq:
  assumes "stream_cipher chacha" "chacha20poly1305_setup_crypto True key iv chacha = Inr ctx"
  shows "ptls_aead__do_encrypt_v poly (chacha20poly1305_algorithm chacha poly) inputs seq aad ctx
    = ccp_seal chacha poly key (ptls_aead__build_iv (chacha20poly1305_algorithm chacha poly) (take 12 iv) seq) aad (concat inputs)"
proof -
  have ctx: "cctx_algo (ccp_chacha ctx) = chacha" "cctx_key (ccp_chacha ctx) = key" "ccp_static_iv ctx = take 12 iv"
    using assms(2) by (auto simp: chacha20poly1305_setup_crypto_def ptls_cipher_new_def split: if_splits)
  show ?thesis
    using assms(1) ctx
    by (simp add: ptls_aead__do_encrypt_v_def ccp_init_eq encrypt_updates_eq chacha20poly1305_encrypt_final_def Let_def
        ccp_seal_def ccp_finalize_eq [where aad = aad] stream_cipher_facts(1))
qed

lemma ccp_decrypt_eq:
  assumes "chacha20poly1305_setup_crypto False key iv chacha = Inr ctx" "\<And>k m. length (poly k m) = 16"
  shows "chacha20poly1305_decrypt poly (chacha20poly1305_algorithm chacha poly) input seq aad ctx
    = ccp_open chacha poly key (ptls_aead__build_iv (chacha20poly1305_algorithm chacha poly) (take 12 iv) seq) aad input"
proof (cases "length input < 16")
  case True
  then show ?thesis
    by (simp add: chacha20poly1305_decrypt_def ccp_open_def)
next
  case False
  have ctx: "cctx_algo (ccp_chacha ctx) = chacha" "cctx_key (ccp_chacha ctx) = key" "ccp_static_iv ctx = take 12 iv"
    using assms(1) by (auto simp: chacha20poly1305_setup_crypto_def ptls_cipher_new_def split: if_splits)
  have "mem_equal (ccp_tag poly otk aad ct) (drop (length input - 16) input) 16
      \<longleftrightarrow> drop (length input - 16) input = ccp_tag poly otk aad ct" for otk ct
    using mem_equal_iff [of 16 "ccp_tag poly otk aad ct" "drop (length input - 16) input"] False assms(2)
    by (auto simp: ccp_tag_def)
  then show ?thesis
    using False ctx by (simp add: chacha20poly1305_decrypt_def ccp_open_def ccp_init_eq poly1305_update_def Let_def
        ccp_finalize_eq [where aad = aad and ct = "take (length input - 16) input"] ptls_cipher_encrypt_def)
qed

lemma ccp_aead_ok:
  assumes "stream_cipher chacha" "\<And>k m. length (poly k m) = 16"
  shows "aead_ok (chacha20poly1305_algorithm chacha poly)"
  using assms by (auto simp: aead_ok_def chacha20poly1305_algorithm_def ccp_seal_def ccp_open_def Let_def ccp_tag_def
      stream_cipher_facts split: if_splits)

end
