(* ===== verification/Asn1.thy ===== *)
theory Asn1
  imports Base64
begin

text \<open>
  The ASN.1 reader of \<^verbatim>\<open>lib/asn1.c\<close> and the loader of PKCS#8 private keys built on it
  (\<^verbatim>\<open>lib/minicrypto-pem.c\<close>).  An array with its length is the list of its octets, and \<open>None\<close> stands for
  a read outside the array, a use of a null pointer, or a loop that does not end; the lemmas show
  when that happens.  The messages for the log callback are not modelled.
\<close>

unbundle bit_operations_syntax

abbreviation PTLS_ERROR_BER_MALFORMED_TYPE :: int where "PTLS_ERROR_BER_MALFORMED_TYPE \<equiv> 0x235"
abbreviation PTLS_ERROR_BER_MALFORMED_LENGTH :: int where "PTLS_ERROR_BER_MALFORMED_LENGTH \<equiv> 0x236"
abbreviation PTLS_ERROR_BER_EXCESSIVE_LENGTH :: int where "PTLS_ERROR_BER_EXCESSIVE_LENGTH \<equiv> 0x237"
abbreviation PTLS_ERROR_BER_ELEMENT_TOO_SHORT :: int where "PTLS_ERROR_BER_ELEMENT_TOO_SHORT \<equiv> 0x238"
abbreviation PTLS_ERROR_BER_UNEXPECTED_EOC :: int where "PTLS_ERROR_BER_UNEXPECTED_EOC \<equiv> 0x239"
abbreviation PTLS_ERROR_DER_INDEFINITE_LENGTH :: int where "PTLS_ERROR_DER_INDEFINITE_LENGTH \<equiv> 0x23a"
abbreviation PTLS_ERROR_INCORRECT_ASN1_SYNTAX :: int where "PTLS_ERROR_INCORRECT_ASN1_SYNTAX \<equiv> 0x23b"
abbreviation PTLS_ERROR_INCORRECT_PEM_KEY_VERSION :: int where "PTLS_ERROR_INCORRECT_PEM_KEY_VERSION \<equiv> 0x23c"
abbreviation PTLS_ERROR_INCORRECT_PEM_ECDSA_KEY_VERSION :: int where
  "PTLS_ERROR_INCORRECT_PEM_ECDSA_KEY_VERSION \<equiv> 0x23d"
abbreviation PTLS_ERROR_INCORRECT_PEM_ECDSA_CURVE :: int where "PTLS_ERROR_INCORRECT_PEM_ECDSA_CURVE \<equiv> 0x23e"
abbreviation PTLS_ERROR_INCORRECT_PEM_ECDSA_KEYSIZE :: int where "PTLS_ERROR_INCORRECT_PEM_ECDSA_KEYSIZE \<equiv> 0x23f"
abbreviation PTLS_ERROR_INCORRECT_ASN1_ECDSA_KEY_SYNTAX :: int where
  "PTLS_ERROR_INCORRECT_ASN1_ECDSA_KEY_SYNTAX \<equiv> 0x240"

abbreviation PTLS_ASN1_MAX_RECURSION :: nat where "PTLS_ASN1_MAX_RECURSION \<equiv> 32"

section \<open>Types and lengths\<close>

definition rd :: "bytes \<Rightarrow> nat \<Rightarrow> byte option" where
  "rd bytes i = (if i < length bytes then Some (bytes ! i) else None)"

text \<open>The loop over the octets of a long type number: whether the last one was found, the number (32
  bits wide) and the index.\<close>

function asn1_long_type :: "bytes \<Rightarrow> nat \<Rightarrow> 32 word \<Rightarrow> bool \<times> 32 word \<times> nat" where
  "asn1_long_type bytes byte_index long_type =
     (if byte_index < length bytes \<and> long_type \<le> 0x7fffffff
      then let next_byte = bytes ! byte_index;
               long_type = push_bit 7 long_type OR ucast (next_byte AND 127) in
        if next_byte AND 128 = 0 then (True, long_type, byte_index + 1)
        else asn1_long_type bytes (byte_index + 1) long_type
      else (False, long_type, byte_index))"
  by pat_completeness auto
termination
  by (relation "measure (\<lambda>(bytes, i, t). length bytes - i)") auto

declare asn1_long_type.simps [simp del]

record asn1_type =
  ty_structure_bit :: bool
  ty_class :: byte
  ty_number :: "32 word"

definition ptls_asn1_read_type :: "bytes \<Rightarrow> int \<Rightarrow> (asn1_type \<times> int \<times> nat) option" where
  "ptls_asn1_read_type bytes decode_error =
     Option.bind (rd bytes 0) (\<lambda>first_byte.
       let ty = \<lparr>ty_structure_bit = (drop_bit 5 first_byte AND 1 = 1), ty_class = drop_bit 6 first_byte AND 3,
                 ty_number = ucast (first_byte AND 31)\<rparr> in
       if first_byte AND 31 = 31
       then case asn1_long_type bytes 1 0 of (end_found, long_type, byte_index) \<Rightarrow>
         if end_found then Some (ty\<lparr>ty_number := long_type\<rparr>, decode_error, byte_index)
         else Some (ty, PTLS_ERROR_BER_MALFORMED_TYPE, byte_index)
       else Some (ty, decode_error, 1))"

record asn1_length =
  ln_length :: "32 word"
  ln_indefinite :: bool
  ln_last_byte :: nat

text \<open>The length field at \<open>byte_index\<close>; the length is 32 bits wide whatever the number of its octets.\<close>

definition ptls_asn1_read_length :: "bytes \<Rightarrow> nat \<Rightarrow> int \<Rightarrow> asn1_length \<times> int \<times> nat" where
  "ptls_asn1_read_length bytes byte_index decode_error =
     (let bytes_max = length bytes in
      if byte_index < bytes_max
      then let b = bytes ! byte_index; byte_index = byte_index + 1;
               (ln, decode_error, byte_index) =
                 (if b AND 128 \<noteq> 0
                  then let length_of_length = unat (b AND 127) in
                    if byte_index + length_of_length \<ge> bytes_max
                    then (\<lparr>ln_length = 0, ln_indefinite = False, ln_last_byte = bytes_max\<rparr>,
                          PTLS_ERROR_BER_MALFORMED_LENGTH, byte_index)
                    else let len = foldl (\<lambda>l b. push_bit 8 l OR ucast b) 0
                                     (take length_of_length (drop byte_index bytes));
                             byte_index = byte_index + length_of_length in
                      if length_of_length = 0
                      then (\<lparr>ln_length = len, ln_indefinite = True, ln_last_byte = bytes_max\<rparr>, decode_error, byte_index)
                      else (\<lparr>ln_length = len, ln_indefinite = False, ln_last_byte = byte_index + unat len\<rparr>,
                            decode_error, byte_index)
                  else (\<lparr>ln_length = ucast b, ln_indefinite = False, ln_last_byte = byte_index + unat b\<rparr>,
                        decode_error, byte_index)) in
        (ln, if decode_error = 0 \<and> ln_last_byte ln > bytes_max then PTLS_ERROR_BER_EXCESSIVE_LENGTH else decode_error,
         byte_index)
      else (\<lparr>ln_length = 0, ln_indefinite = False, ln_last_byte = bytes_max\<rparr>, decode_error, byte_index))"

text \<open>Called with no pointer for \<open>indefinite_length\<close>, as all callers do.\<close>

definition ptls_asn1_get_expected_type_and_length ::
  "bytes \<Rightarrow> nat \<Rightarrow> byte \<Rightarrow> asn1_length \<Rightarrow> int \<Rightarrow> asn1_length \<times> int \<times> nat" where
  "ptls_asn1_get_expected_type_and_length bytes byte_index expected_type ln decode_error =
     (if byte_index \<ge> length bytes then (ln, PTLS_ERROR_INCORRECT_ASN1_SYNTAX, byte_index)
      else if bytes ! byte_index \<noteq> expected_type then (ln, PTLS_ERROR_INCORRECT_ASN1_SYNTAX, byte_index)
      else case ptls_asn1_read_length bytes (byte_index + 1) decode_error of (ln', decode_error', byte_index') \<Rightarrow>
        (ln', if ln_indefinite ln' then PTLS_ERROR_DER_INDEFINITE_LENGTH else decode_error', byte_index'))"

section \<open>Validation\<close>

text \<open>The loop over the elements of a structured one.  \<open>elem\<close> validates one element; \<open>fuel\<close> bounds the
  number of rounds, and \<open>None\<close> is reached only if it runs out or an element reads outside.\<close>

primrec asn1_elements ::
  "nat \<Rightarrow> (bytes \<Rightarrow> int \<Rightarrow> (int \<times> nat) option) \<Rightarrow> bytes \<Rightarrow> nat \<Rightarrow> bool \<Rightarrow> nat \<Rightarrow> int \<Rightarrow> (int \<times> nat) option" where
  "asn1_elements 0 elem bytes last_byte indefinite byte_index decode_error =
     (if byte_index < last_byte then None else Some (decode_error, byte_index))"
| "asn1_elements (Suc fuel) elem bytes last_byte indefinite byte_index decode_error =
     (if byte_index < last_byte
      then Option.bind (rd bytes byte_index) (\<lambda>b.
        if indefinite \<and> b = 0
        then if byte_index + 2 > length bytes then Some (PTLS_ERROR_BER_UNEXPECTED_EOC, length bytes)
          else Option.bind (rd bytes (byte_index + 1)) (\<lambda>b1.
            if b1 \<noteq> 0 then Some (PTLS_ERROR_BER_UNEXPECTED_EOC, length bytes)
            else Some (decode_error, byte_index + 2))
        else Option.bind (elem (take (last_byte - byte_index) (drop byte_index bytes)) decode_error) (\<lambda>(err, n).
          if err \<noteq> 0 then Some (err, length bytes)
          else asn1_elements fuel elem bytes last_byte indefinite (byte_index + n) err))
      else Some (decode_error, byte_index))"

text \<open>\<open>depth\<close> is how many levels may still be entered; the result is the error and the index.\<close>

primrec asn1_validate :: "nat \<Rightarrow> bytes \<Rightarrow> int \<Rightarrow> (int \<times> nat) option" where
  "asn1_validate 0 bytes decode_error = Some (PTLS_ERROR_INCORRECT_ASN1_SYNTAX, 0)"
| "asn1_validate (Suc depth) bytes decode_error =
     Option.bind (ptls_asn1_read_type bytes decode_error) (\<lambda>(ty, decode_error, byte_index).
       case ptls_asn1_read_length bytes byte_index decode_error of (ln, decode_error, byte_index) \<Rightarrow>
         if ln_last_byte ln \<le> length bytes
         then if ty_structure_bit ty
           then asn1_elements (length bytes) (asn1_validate depth) bytes (ln_last_byte ln) (ln_indefinite ln)
                  byte_index decode_error
           else Some (decode_error, ln_last_byte ln)
         else Some (decode_error, byte_index))"

definition ptls_asn1_validation_recursive :: "bytes \<Rightarrow> int \<Rightarrow> nat \<Rightarrow> (int \<times> nat) option" where
  "ptls_asn1_validation_recursive bytes decode_error level =
     asn1_validate (PTLS_ASN1_MAX_RECURSION + 1 - level) bytes decode_error"

definition ptls_asn1_validation :: "bytes \<Rightarrow> int option" where
  "ptls_asn1_validation bytes =
     map_option (\<lambda>(decode_error, decoded).
         if decode_error = 0 \<and> decoded < length bytes then PTLS_ERROR_BER_ELEMENT_TOO_SHORT else decode_error)
       (ptls_asn1_validation_recursive bytes 0 0)"

section \<open>Private keys\<close>

record ptls_asn1_pkcs8_private_key =
  pk_vec :: bytes
  pk_algorithm_index :: nat
  pk_algorithm_length :: "32 word"
  pk_parameters_index :: nat
  pk_parameters_length :: "32 word"
  pk_key_data_index :: nat
  pk_key_data_length :: "32 word"

definition no_length :: asn1_length where
  "no_length = \<lparr>ln_length = 0, ln_indefinite = False, ln_last_byte = 0\<rparr>"

text \<open>The check of an INTEGER of one octet with a given value.\<close>

definition expect_version :: "bytes \<Rightarrow> nat \<Rightarrow> byte \<Rightarrow> int \<Rightarrow> int \<Rightarrow> int \<times> nat" where
  "expect_version bytes byte_index version missing wrong =
     (if byte_index + 3 > length bytes then (missing, byte_index)
      else if bytes ! byte_index \<noteq> 0x02 \<or> bytes ! (byte_index + 1) \<noteq> 0x01 \<or> bytes ! (byte_index + 2) \<noteq> version
      then (wrong, byte_index)
      else (0, byte_index + 3))"

text \<open>Called without a log context.  The index the code returns is not used by its caller.\<close>

definition ptls_minicrypto_asn1_decode_private_key ::
  "ptls_asn1_pkcs8_private_key \<Rightarrow> (int \<times> ptls_asn1_pkcs8_private_key) option" where
  "ptls_minicrypto_asn1_decode_private_key pkey =
     (let bytes = pk_vec pkey; bytes_max = length bytes;
          (ln0, err, idx) = ptls_asn1_get_expected_type_and_length bytes 0 0x30 no_length 0;
          err = (if err = 0 \<and> bytes_max \<noteq> ln_last_byte ln0 then PTLS_ERROR_BER_EXCESSIVE_LENGTH else err);
          (err, idx) = (if err = 0 then expect_version bytes idx 0 PTLS_ERROR_INCORRECT_PEM_KEY_VERSION
                                          PTLS_ERROR_INCORRECT_PEM_KEY_VERSION
                        else (err, idx));
          (ln1, err, idx) = (if err = 0 then ptls_asn1_get_expected_type_and_length bytes idx 0x30 no_length err
                             else (no_length, err, idx));
          last_byte1 = ln_last_byte ln1;
          (ln, err, idx) = (if err = 0 then ptls_asn1_get_expected_type_and_length (take last_byte1 bytes) idx 0x06 no_length err
                            else (no_length, err, idx)) in
      if err \<noteq> 0 then Some (err, pkey)
      else let pkey = pkey\<lparr>pk_algorithm_index := idx, pk_algorithm_length := ln_length ln\<rparr>;
               idx = idx + unat (ln_length ln) in
        Option.bind
          (if last_byte1 \<le> idx then Some (err, idx, pkey\<lparr>pk_parameters_index := 0, pk_parameters_length := 0\<rparr>)
           else Option.bind (ptls_asn1_validation_recursive (take (last_byte1 - idx) (drop idx bytes)) err 2) (\<lambda>(err, n).
             Some (err, if err = 0 then idx + unat (of_nat n :: 32 word) else idx,
                   pkey\<lparr>pk_parameters_index := idx, pk_parameters_length := of_nat n\<rparr>)))
          (\<lambda>(err, idx, pkey).
            let err = (if err = 0 \<and> idx \<noteq> last_byte1 then PTLS_ERROR_BER_ELEMENT_TOO_SHORT else err) in
            if err \<noteq> 0 then Some (err, pkey)
            else let (ln, err, idx) =
                   ptls_asn1_get_expected_type_and_length (take (ln_last_byte ln0) bytes) idx 0x04 no_length err in
              if err \<noteq> 0 then Some (err, pkey)
              else let pkey = pkey\<lparr>pk_key_data_index := idx, pk_key_data_length := ln_length ln\<rparr> in
                Some (if idx + unat (ln_length ln) \<noteq> ln_last_byte ln0 then PTLS_ERROR_BER_ELEMENT_TOO_SHORT else 0, pkey)))"

definition ptls_pem_parse_private_key ::
  "allocator \<Rightarrow> pem_file option \<Rightarrow> ptls_asn1_pkcs8_private_key \<Rightarrow> (int \<times> ptls_asn1_pkcs8_private_key) option" where
  "ptls_pem_parse_private_key M file pkey =
     (case ptls_load_pem_objects M file (ascii ''PRIVATE KEY'') 1 of (ret, objs) \<Rightarrow>
        let pkey = (case objs of [obj] \<Rightarrow> pkey\<lparr>pk_vec := buf_data obj\<rparr> | _ \<Rightarrow> pkey) in
        if ret \<noteq> 0 then Some (ret, pkey)
        else if length objs \<noteq> 1 then Some (PTLS_ERROR_PEM_LABEL_NOT_FOUND, pkey)
        else ptls_minicrypto_asn1_decode_private_key pkey)"

definition ptls_asn1_algorithm_ecdsa :: bytes where
  "ptls_asn1_algorithm_ecdsa = [0x2a, 0x86, 0x48, 0xce, 0x3d, 0x02, 0x01]"

definition ptls_asn1_curve_secp256r1 :: bytes where
  "ptls_asn1_curve_secp256r1 = [0x2a, 0x86, 0x48, 0xce, 0x3d, 0x03, 0x01, 0x07]"

text \<open>The key is given by a pointer (\<open>None\<close> for \<open>NULL\<close>) and a length; the result is the return code and
  the key stored.\<close>

definition ptls_minicrypto_init_secp256r1sha256_sign_certificate ::
  "bytes option \<Rightarrow> nat \<Rightarrow> (int \<times> bytes) option" where
  "ptls_minicrypto_init_secp256r1sha256_sign_certificate key_base key_len =
     (if key_len \<noteq> 32 then Some (PTLS_ERROR_INCOMPATIBLE_KEY, [])
      else case key_base of
        None \<Rightarrow> None
      | Some key \<Rightarrow> if length key < 32 then None else Some (0, take 32 key))"

text \<open>The result is the return code and the signing key given to the context.\<close>

definition ptls_set_ecdsa_private_key ::
  "allocator \<Rightarrow> ptls_asn1_pkcs8_private_key \<Rightarrow> (int \<times> bytes option) option" where
  "ptls_set_ecdsa_private_key M pkey =
     (let bytes = take (unat (pk_parameters_length pkey)) (drop (pk_parameters_index pkey) (pk_vec pkey));
          (ln, err, idx) = ptls_asn1_get_expected_type_and_length bytes 0 0x06 no_length 0;
          curve_id_length = ln_length ln;
          err = (if err = 0 \<and> length bytes \<noteq> ln_last_byte ln then PTLS_ERROR_BER_EXCESSIVE_LENGTH else err);
          curve_id = (if err = 0 then Some (drop idx bytes) else None);
          bytes = take (unat (pk_key_data_length pkey)) (drop (pk_key_data_index pkey) (pk_vec pkey));
          (lnk, err, idx) = (if err = 0 then ptls_asn1_get_expected_type_and_length bytes 0 0x30 ln err else (ln, err, 0));
          last_byte = ln_last_byte lnk;
          err = (if err = 0 \<and> length bytes \<noteq> last_byte then PTLS_ERROR_BER_ELEMENT_TOO_SHORT else err);
          (err, idx) = (if err = 0 then expect_version bytes idx 1 PTLS_ERROR_INCORRECT_ASN1_ECDSA_KEY_SYNTAX
                                          PTLS_ERROR_INCORRECT_PEM_ECDSA_KEY_VERSION
                        else (err, idx));
          (lne, err, idx) = (if err = 0 then ptls_asn1_get_expected_type_and_length (take last_byte bytes) idx 0x04 no_length err
                             else (no_length, err, idx));
          ecdsa_key_data = (if err = 0 then Some (drop idx bytes) else None);
          ecdsa_key_data_length = unat (ln_length lne) in
      if unat curve_id_length = length ptls_asn1_curve_secp256r1 \<and> curve_id \<noteq> None
         \<and> take (length ptls_asn1_curve_secp256r1) (the curve_id) = ptls_asn1_curve_secp256r1
      then if ecdsa_key_data_length \<noteq> 32 then Some (PTLS_ERROR_INCORRECT_PEM_ECDSA_KEYSIZE, None)
        else if \<not> c_malloc M 40 then Some (PTLS_ERROR_NO_MEMORY, None)
        else map_option (\<lambda>(ret, key). (ret, if ret = 0 then Some key else None))
               (ptls_minicrypto_init_secp256r1sha256_sign_certificate ecdsa_key_data ecdsa_key_data_length)
      else Some (PTLS_ERROR_INCORRECT_PEM_ECDSA_CURVE, None))"

definition ptls_minicrypto_load_private_key :: "allocator \<Rightarrow> pem_file option \<Rightarrow> (int \<times> bytes option) option" where
  "ptls_minicrypto_load_private_key M file =
     Option.bind (ptls_pem_parse_private_key M file
         \<lparr>pk_vec = [], pk_algorithm_index = 0, pk_algorithm_length = 0, pk_parameters_index = 0, pk_parameters_length = 0,
          pk_key_data_index = 0, pk_key_data_length = 0\<rparr>) (\<lambda>(ret, pkey).
       if ret \<noteq> 0 then Some (ret, None)
       else if unat (pk_algorithm_length pkey) \<noteq> length ptls_asn1_algorithm_ecdsa
         \<or> take (length ptls_asn1_algorithm_ecdsa) (drop (pk_algorithm_index pkey) (pk_vec pkey)) \<noteq> ptls_asn1_algorithm_ecdsa
       then Some (-1, None)
       else ptls_set_ecdsa_private_key M pkey)"

section \<open>Validation reads inside its input and ends\<close>

lemma long_type_bounds:
  "asn1_long_type bytes i t = (f, t', j) \<Longrightarrow> i \<le> length bytes \<Longrightarrow> i \<le> j \<and> j \<le> length bytes"
proof (induction bytes i t rule: asn1_long_type.induct)
  case (1 bytes i t)
  from "1.prems" show ?case
    using "1.IH" [OF _ refl refl] by (subst (asm) asn1_long_type.simps) (fastforce simp: Let_def split: if_splits)
qed

lemma read_type_bounds:
  assumes "bytes \<noteq> []"
  shows "\<exists>ty err' i. ptls_asn1_read_type bytes err = Some (ty, err', i) \<and> 1 \<le> i \<and> i \<le> length bytes"
proof -
  obtain f t j where l: "asn1_long_type bytes 1 0 = (f, t, j)"
    by (metis prod_cases3)
  have "1 \<le> length bytes"
    using assms by (cases bytes) auto
  then show ?thesis
    using assms l long_type_bounds [OF l] by (simp add: ptls_asn1_read_type_def rd_def Let_def del: One_nat_def)
qed

lemma read_length_bounds:
  assumes "ptls_asn1_read_length bytes i err = (ln, err', j)" "i \<le> length bytes"
  shows "i \<le> j" "j \<le> length bytes" "err' = 0 \<Longrightarrow> ln_last_byte ln \<le> length bytes" "err' = 0 \<Longrightarrow> err = 0"
    "ln_last_byte ln \<le> length bytes \<Longrightarrow> j \<le> ln_last_byte ln"
  using assms by (auto simp: ptls_asn1_read_length_def Let_def split: if_splits)

text \<open>What the loop needs of the validation of an element.\<close>

definition elem_ok :: "(bytes \<Rightarrow> int \<Rightarrow> (int \<times> nat) option) \<Rightarrow> bool" where
  "elem_ok elem \<longleftrightarrow> (\<forall>bytes err. bytes \<noteq> [] \<longrightarrow>
     (\<exists>e n. elem bytes err = Some (e, n) \<and> n \<le> length bytes \<and> (e = 0 \<longrightarrow> 1 \<le> n)))"

lemma elem_okD:
  "elem_ok elem \<Longrightarrow> bytes \<noteq> [] \<Longrightarrow> \<exists>e n. elem bytes err = Some (e, n) \<and> n \<le> length bytes \<and> (e = 0 \<longrightarrow> 1 \<le> n)"
  unfolding elem_ok_def by blast

lemma asn1_elements_ok:
  assumes "elem_ok elem" "last_byte \<le> length bytes" "i \<le> last_byte" "last_byte - i \<le> fuel"
  shows "\<exists>e n. asn1_elements fuel elem bytes last_byte ind i err = Some (e, n) \<and> n \<le> length bytes \<and> i \<le> n"
  using assms(3,4)
proof (induction fuel arbitrary: i err)
  case 0
  then show ?case using assms(2) by simp
next
  case (Suc fuel)
  show ?case
  proof (cases "i < last_byte")
    case True
    let ?slice = "take (last_byte - i) (drop i bytes)"
    have sl: "?slice \<noteq> []" "length ?slice = last_byte - i" "i < length bytes"
      using True assms(2) by auto
    obtain e n where el: "elem ?slice err = Some (e, n)" "n \<le> last_byte - i" "e = 0 \<Longrightarrow> 1 \<le> n"
      using elem_okD [OF assms(1) sl(1), of err] sl(2) by auto
    have "e = 0 \<Longrightarrow> \<exists>e' n'. asn1_elements fuel elem bytes last_byte ind (i + n) 0 = Some (e', n') \<and> n' \<le> length bytes \<and> i + n \<le> n'"
      using el(2,3) Suc.prems True by (intro Suc.IH) auto
    then show ?thesis
      using True sl(3) el by (auto simp: rd_def)
  qed (use Suc.prems assms(2) in auto)
qed

lemma asn1_validate_ok: "elem_ok (asn1_validate depth)"
proof (induction depth)
  case 0
  show ?case by (simp add: elem_ok_def)
next
  case (Suc depth)
  show ?case
    unfolding elem_ok_def
  proof (intro allI impI)
    fix bytes :: bytes and err
    assume "bytes \<noteq> []"
    then obtain ty e1 i where t: "ptls_asn1_read_type bytes err = Some (ty, e1, i)" "1 \<le> i" "i \<le> length bytes"
      using read_type_bounds by blast
    obtain ln e2 j where l: "ptls_asn1_read_length bytes i e1 = (ln, e2, j)"
      by (metis prod_cases3)
    note b = read_length_bounds [OF l t(3)]
    have "ln_last_byte ln \<le> length bytes \<Longrightarrow> \<exists>e n. asn1_elements (length bytes) (asn1_validate depth) bytes (ln_last_byte ln)
        (ln_indefinite ln) j e2 = Some (e, n) \<and> n \<le> length bytes \<and> j \<le> n"
      using b by (intro asn1_elements_ok Suc.IH) auto
    then show "\<exists>e n. asn1_validate (Suc depth) bytes err = Some (e, n) \<and> n \<le> length bytes \<and> (e = 0 \<longrightarrow> 1 \<le> n)"
      using t l b by (auto split: if_splits)
  qed
qed

lemma asn1_validation_none: "ptls_asn1_validation bytes = None \<longleftrightarrow> bytes = []"
proof (cases "bytes = []")
  case True
  have "PTLS_ASN1_MAX_RECURSION + 1 - 0 = Suc 32"
    by simp
  then show ?thesis
    using True by (simp only: ptls_asn1_validation_def ptls_asn1_validation_recursive_def asn1_validate.simps)
      (simp add: ptls_asn1_read_type_def rd_def)
next
  case False
  then show ?thesis
    using elem_okD [OF asn1_validate_ok False, of "PTLS_ASN1_MAX_RECURSION + 1 - 0" 0]
    by (auto simp: ptls_asn1_validation_def ptls_asn1_validation_recursive_def)
qed

section \<open>Elliptic-curve keys\<close>

text \<open>A PKCS#8 encoding of a P-256 key whose private key field announces 32 octets and is followed by the
  octets \<open>tail\<close> up to the end.\<close>

definition ecdsa_key_data :: "byte \<Rightarrow> bytes \<Rightarrow> bytes" where
  "ecdsa_key_data c tail = [0x30, c, 0x02, 0x01, 0x01, 0x04, 0x20] @ tail"

definition ecdsa_key_head :: "byte \<Rightarrow> byte \<Rightarrow> bytes" where
  "ecdsa_key_head a b = [0x30, a, 0x02, 0x01, 0x00, 0x30, 0x13, 0x06, 0x07] @ ptls_asn1_algorithm_ecdsa
     @ [0x06, 0x08] @ ptls_asn1_curve_secp256r1 @ [0x04, b]"

definition ecdsa_key_der :: "bytes \<Rightarrow> bytes" where
  "ecdsa_key_der tail = (let n = length tail in
     ecdsa_key_head (of_nat (33 + n)) (of_nat (7 + n)) @ ecdsa_key_data (of_nat (5 + n)) tail)"

definition pkcs8_key :: "bytes \<Rightarrow> ptls_asn1_pkcs8_private_key" where
  "pkcs8_key vec = \<lparr>pk_vec = vec, pk_algorithm_index = 0, pk_algorithm_length = 0, pk_parameters_index = 0,
     pk_parameters_length = 0, pk_key_data_index = 0, pk_key_data_length = 0\<rparr>"

text \<open>A definite length of one octet.\<close>

lemma high_bit_clear:
  assumes "unat (b :: byte) < 128"
  shows "b AND 128 = 0"
proof -
  have "\<not> bit (of_nat (unat b) :: byte) 7"
    using assms by (simp only: bit_of_nat_iff bit_nat_def) simp
  moreover have "of_nat (unat b) = b"
    by simp
  ultimately have "\<not> bit b 7"
    by simp
  then show ?thesis
    using and_exp_eq_0_iff_not_bit [of b 7] by simp
qed

lemma read_short_length:
  assumes "i < length bytes" "unat (bytes ! i) < 128"
  shows "ptls_asn1_read_length bytes i 0 =
    (\<lparr>ln_length = ucast (bytes ! i), ln_indefinite = False, ln_last_byte = i + 1 + unat (bytes ! i)\<rparr>,
     if i + 1 + unat (bytes ! i) > length bytes then PTLS_ERROR_BER_EXCESSIVE_LENGTH else 0, i + 1)"
  using assms high_bit_clear [OF assms(2)] by (simp add: ptls_asn1_read_length_def Let_def)

lemma expected_short:
  assumes "i + 1 < length bytes" "bytes ! i = ty" "unat (bytes ! (i + 1)) < 128"
  shows "ptls_asn1_get_expected_type_and_length bytes i ty ln 0 =
    (\<lparr>ln_length = ucast (bytes ! (i + 1)), ln_indefinite = False, ln_last_byte = i + 2 + unat (bytes ! (i + 1))\<rparr>,
     if i + 2 + unat (bytes ! (i + 1)) > length bytes then PTLS_ERROR_BER_EXCESSIVE_LENGTH else 0, i + 2)"
  using assms read_short_length [of "i + 1" bytes] by (simp add: ptls_asn1_get_expected_type_and_length_def)

lemma ecdsa_params_valid:
  "ptls_asn1_validation_recursive ([0x06, 0x08] @ ptls_asn1_curve_secp256r1) 0 2 = Some (0, 10)"
  by code_simp

lemma unat_ucast_byte: "unat (ucast (b :: byte) :: 32 word) = unat b"
proof -
  have "unat b < 2 ^ 32"
    by (rule less_trans [OF unat_byte_lt]) simp
  then show ?thesis
    by (simp only: unsigned_ucast_eq) (simp add: take_bit_nat_eq_self)
qed

lemma decode_ecdsa_key:
  assumes "unat a = 33 + length tail" "unat b = 7 + length tail" "length tail \<le> 32"
  shows "ptls_minicrypto_asn1_decode_private_key (pkcs8_key (ecdsa_key_head a b @ ecdsa_key_data c tail)) =
    Some (0, \<lparr>pk_vec = ecdsa_key_head a b @ ecdsa_key_data c tail, pk_algorithm_index = 9, pk_algorithm_length = 7,
              pk_parameters_index = 16, pk_parameters_length = 10, pk_key_data_index = 28, pk_key_data_length = ucast b\<rparr>)"
proof -
  define v where "v = ecdsa_key_head a b @ ecdsa_key_data c tail"
  have len: "length v = 35 + length tail"
    by (simp add: v_def ecdsa_key_head_def ecdsa_key_data_def ptls_asn1_algorithm_ecdsa_def ptls_asn1_curve_secp256r1_def)
  have nth: "v ! 0 = 0x30" "v ! 1 = a" "v ! 2 = 2" "v ! 3 = 1" "v ! 4 = 0" "v ! 5 = 0x30"
    "v ! 6 = 0x13" "v ! 7 = 6" "v ! 8 = 7" "v ! 26 = 4" "v ! 27 = b"
    by (simp_all add: v_def ecdsa_key_head_def ptls_asn1_algorithm_ecdsa_def ptls_asn1_curve_secp256r1_def)
  have params: "take 10 (drop 16 v) = [0x06, 0x08] @ ptls_asn1_curve_secp256r1"
    by (simp add: v_def ecdsa_key_head_def ptls_asn1_algorithm_ecdsa_def ptls_asn1_curve_secp256r1_def)
  have e0: "ptls_asn1_get_expected_type_and_length v 0 0x30 no_length 0 =
      (\<lparr>ln_length = ucast a, ln_indefinite = False, ln_last_byte = 35 + length tail\<rparr>, 0, 2)"
    using expected_short [of 0 v "0x30"] len nth(1,2) assms by simp
  have ver: "expect_version v 2 0 x x = (0, 5)" for x
    using len nth(3,4,5) by (simp add: expect_version_def)
  have e1: "ptls_asn1_get_expected_type_and_length v 5 0x30 no_length 0 =
      (\<lparr>ln_length = 0x13, ln_indefinite = False, ln_last_byte = 26\<rparr>, 0, 7)"
    using expected_short [of 5 v "0x30"] len nth(6,7) by simp
  have e2: "ptls_asn1_get_expected_type_and_length (take 26 v) 7 0x06 no_length 0 =
      (\<lparr>ln_length = 7, ln_indefinite = False, ln_last_byte = 16\<rparr>, 0, 9)"
    using expected_short [of 7 "take 26 v" "0x06"] len nth(8,9) by simp
  have e3: "ptls_asn1_get_expected_type_and_length v 26 0x04 no_length 0 =
      (\<lparr>ln_length = ucast b, ln_indefinite = False, ln_last_byte = 35 + length tail\<rparr>, 0, 28)"
    using expected_short [of 26 v "0x04"] len nth(10,11) assms by simp
  show ?thesis
    unfolding v_def [symmetric] using assms(2) ecdsa_params_valid params len
    by (simp add: ptls_minicrypto_asn1_decode_private_key_def pkcs8_key_def e0 e1 e2 e3 ver Let_def unat_ucast_byte)
qed

text \<open>With all 32 octets there the key is given to the context.  With fewer the length is still 32 but the
  pointer is \<open>NULL\<close>: the error found while reading is not looked at before the key is copied.\<close>

lemma set_ecdsa_key:
  assumes "unat b = 7 + length tail" "unat c = 5 + length tail" "length tail \<le> 32" "c_malloc M 40"
    "pkey = \<lparr>pk_vec = ecdsa_key_head a b @ ecdsa_key_data c tail, pk_algorithm_index = 9, pk_algorithm_length = 7,
              pk_parameters_index = 16, pk_parameters_length = 10, pk_key_data_index = 28, pk_key_data_length = ucast b\<rparr>"
  shows "ptls_set_ecdsa_private_key M pkey = (if length tail < 32 then None else Some (0, Some tail))"
proof -
  define v where "v = ecdsa_key_head a b @ ecdsa_key_data c tail"
  define p k where "p = [0x06, 0x08] @ ptls_asn1_curve_secp256r1" and "k = ecdsa_key_data c tail"
  have bytes: "take 10 (drop 16 v) = p" "take (7 + length tail) (drop 28 v) = k"
    by (simp_all add: v_def p_def k_def ecdsa_key_head_def ecdsa_key_data_def ptls_asn1_algorithm_ecdsa_def ptls_asn1_curve_secp256r1_def)
  have len: "length p = 10" "length k = 7 + length tail"
    by (simp_all add: p_def k_def ecdsa_key_data_def ptls_asn1_curve_secp256r1_def)
  have nth: "k ! 0 = 0x30" "k ! 1 = c" "k ! 2 = 2" "k ! 3 = 1" "k ! 4 = 1" "k ! 5 = 4" "k ! 6 = 0x20" "drop 7 k = tail"
    "p ! 0 = 6" "p ! 1 = 8" "drop 2 p = ptls_asn1_curve_secp256r1"
    by (simp_all add: p_def k_def ecdsa_key_data_def)
  have e0: "ptls_asn1_get_expected_type_and_length p 0 0x06 no_length 0 =
      (\<lparr>ln_length = 8, ln_indefinite = False, ln_last_byte = 10\<rparr>, 0, 2)"
    using expected_short [of 0 p "0x06"] len nth(9,10) by simp
  have e1: "ptls_asn1_get_expected_type_and_length k 0 0x30 ln 0 =
      (\<lparr>ln_length = ucast c, ln_indefinite = False, ln_last_byte = 7 + length tail\<rparr>, 0, 2)" for ln
    using expected_short [of 0 k "0x30"] len nth(1,2) assms by simp
  have ver: "expect_version k 2 1 x y = (0, 5)" for x y
    using len nth(3,4,5) by (simp add: expect_version_def)
  have e2: "ptls_asn1_get_expected_type_and_length k 5 0x04 no_length 0 =
      (\<lparr>ln_length = 32, ln_indefinite = False, ln_last_byte = 39\<rparr>,
       if length tail < 32 then PTLS_ERROR_BER_EXCESSIVE_LENGTH else 0, 7)"
    using expected_short [of 5 k "0x04"] len nth(6,7) by simp
  have "length ptls_asn1_curve_secp256r1 = 8"
    by (simp add: ptls_asn1_curve_secp256r1_def)
  then show ?thesis
    using assms(1,3,4) len nth(8,11) unfolding assms(5) v_def [symmetric]
    by (simp add: ptls_set_ecdsa_private_key_def bytes e0 e1 e2 ver Let_def unat_ucast_byte
        ptls_minicrypto_init_secp256r1sha256_sign_certificate_def)
qed

lemma ecdsa_key_loaded:
  assumes "length tail \<le> 32" "c_malloc M 40"
  shows "\<exists>pkey. ptls_minicrypto_asn1_decode_private_key (pkcs8_key (ecdsa_key_der tail)) = Some (0, pkey)
    \<and> ptls_set_ecdsa_private_key M pkey = (if length tail < 32 then None else Some (0, Some tail))"
proof -
  have n: "unat (of_nat (k + length tail) :: byte) = k + length tail" if "k \<le> 33" for k
    unfolding unat_of_nat_byte using assms(1) that by simp
  let ?a = "of_nat (33 + length tail) :: byte" and ?b = "of_nat (7 + length tail) :: byte"
    and ?c = "of_nat (5 + length tail) :: byte"
  have "unat ?a = 33 + length tail" "unat ?b = 7 + length tail" "unat ?c = 5 + length tail"
    by (rule n, simp)+
  note nn = this
  show ?thesis
    unfolding ecdsa_key_der_def Let_def decode_ecdsa_key [OF nn(1,2) assms(1), of ?c]
    using set_ecdsa_key [OF nn(2,3) assms refl, of ?a] by simp
qed

section \<open>Writing\<close>

text \<open>Blocks of 128 octets or more end in \<open>abort\<close>: the function that would write a longer length is not
  implemented.\<close>

definition ptls_buffer__adjust_asn1_blocksize :: "nat \<Rightarrow> ptls_buffer \<Rightarrow> (int \<times> ptls_buffer) option" where
  "ptls_buffer__adjust_asn1_blocksize body_size b = None"

definition ptls_buffer_push_asn1_block ::
  "allocator \<Rightarrow> (ptls_buffer \<Rightarrow> (int \<times> ptls_buffer) option) \<Rightarrow> ptls_buffer \<Rightarrow> (int \<times> ptls_buffer) option" where
  "ptls_buffer_push_asn1_block M block b =
     (case ptls_buffer_push M 0xff b of (ret, b1) \<Rightarrow>
        if ret \<noteq> 0 then Some (ret, b1)
        else let body_start = buf_off b1 in
          Option.bind (block b1) (\<lambda>(ret, b2).
            if ret \<noteq> 0 then Some (ret, b2)
            else let body_size = buf_off b2 - body_start in
              if body_size < 128 then Some (0, poke (body_start - 1) [of_nat body_size] b2)
              else ptls_buffer__adjust_asn1_blocksize body_size b2))"

definition ptls_buffer_push_asn1_sequence ::
  "allocator \<Rightarrow> (ptls_buffer \<Rightarrow> (int \<times> ptls_buffer) option) \<Rightarrow> ptls_buffer \<Rightarrow> (int \<times> ptls_buffer) option" where
  "ptls_buffer_push_asn1_sequence M block b =
     (case ptls_buffer_push M 0x30 b of (ret, b1) \<Rightarrow>
        if ret \<noteq> 0 then Some (ret, b1) else ptls_buffer_push_asn1_block M block b1)"

text \<open>When only zeros are left the code still reads the octet at \<open>p\<close>, which is then the end of the input.\<close>

definition ptls_buffer_push_asn1_ubigint :: "allocator \<Rightarrow> bytes \<Rightarrow> ptls_buffer \<Rightarrow> (int \<times> ptls_buffer) option" where
  "ptls_buffer_push_asn1_ubigint M bignum b =
     (let p = dropWhile (\<lambda>x. x = 0) bignum in
      case ptls_buffer_push M 2 b of (ret, b1) \<Rightarrow>
        if ret \<noteq> 0 then Some (ret, b1)
        else ptls_buffer_push_asn1_block M (\<lambda>b.
          case p of
            [] \<Rightarrow> None
          | x # _ \<Rightarrow> Some (push_then (if x \<ge> 0x80 then ptls_buffer_push M 0 else push_nothing)
                            (ptls_buffer__do_pushv M p) b)) b1)"

definition ubigint_body :: "bytes \<Rightarrow> bytes" where
  "ubigint_body bignum =
     (let p = dropWhile (\<lambda>x. x = 0) bignum in if p \<noteq> [] \<and> hd p \<ge> 0x80 then 0 # p else p)"

lemma push_ubigint_eq:
  assumes "dropWhile (\<lambda>x. x = 0) bignum \<noteq> []" "length (ubigint_body bignum) < 128" "room (length (ubigint_body bignum) + 2) b"
  shows "ptls_buffer_push_asn1_ubigint M bignum b
    = Some (0, appended b ([2, of_nat (length (ubigint_body bignum))] @ ubigint_body bignum))"
proof -
  let ?body = "ubigint_body bignum"
  obtain x xs where p: "dropWhile (\<lambda>x. x = 0) bignum = x # xs"
    using assms(1) by (cases "dropWhile (\<lambda>x. x = 0) bignum") auto
  have r: "room 1 b" "room 1 (appended b [2])" "room (length ?body) (appended (appended b [2]) [0xff])"
    using assms(3) by (auto elim: room_mono)
  have push: "room (length ?body) b' \<Longrightarrow> push_then (if x \<ge> 0x80 then ptls_buffer_push M 0 else push_nothing)
      (ptls_buffer__do_pushv M (x # xs)) b' = (0, appended b' ?body)" for b'
    using do_pushv_room [of "[0]" b' M] do_pushv_room [of "x # xs" "appended b' [0]" M] do_pushv_room [of "x # xs" b' M]
      room_mono [of "length ?body" b' "Suc 0"]
    by (auto simp: push_then_def push_nothing_def ptls_buffer_push_def enc8_def ubigint_body_def p Let_def)
  have "poke (buf_off b + 1) [of_nat (length ?body)] (appended b ([2, 0xff] @ ?body))
      = appended b ([2, of_nat (length ?body)] @ ?body)"
    by (simp add: poke_def appended_def)
  then show ?thesis
    using assms(2) r push [OF r(3)] do_pushv_room [of "[2]" b M] do_pushv_room [of "[0xff]" "appended b [2]" M]
    by (simp add: ptls_buffer_push_asn1_ubigint_def ptls_buffer_push_asn1_block_def ptls_buffer_push_def enc8_def p Let_def)
qed

lemma push_ubigint_zero:
  assumes "dropWhile (\<lambda>x. x = 0) bignum = []" "room 2 b"
  shows "ptls_buffer_push_asn1_ubigint M bignum b = None"
proof -
  have r: "room 1 b" "room 1 (appended b [2])"
    using assms(2) by (auto elim: room_mono)
  show ?thesis
    unfolding ptls_buffer_push_asn1_ubigint_def assms(1)
    using r do_pushv_room [of "[2]" b M] do_pushv_room [of "[0xff]" "appended b [2]" M]
    by (simp add: ptls_buffer_push_asn1_block_def ptls_buffer_push_def enc8_def Let_def)
qed

end
