(* ===== verification/Connection.thy ===== *)
theory Connection
  imports Records Tickets Ech
begin

text \<open>
  The state of a connection, \<open>struct st_ptls_t\<close> of \<^verbatim>\<open>lib/picotls.c\<close>, and the operations
  that work on its traffic protection: installing keys (\<open>setup_traffic_protection\<close>,
  \<open>commission_handshake_secret\<close>), updating them (\<open>update_traffic_key\<close>, \<open>handle_key_update\<close>), emitting
  handshake messages through the record and the raw emitter, sending data and alerts
  (\<open>ptls_send\<close>, \<open>ptls_send_alert\<close>), moving the sending half to an object of its own
  (\<open>ptls_detach_tx\<close>, \<open>ptls_tx_*\<close>), and exporting secrets.

  A function of the source that works on a connection is an action: it maps the state to a return
  code or a result and the state left behind.  The value \<open>None\<close> stands for a run that dereferences
  \<open>NULL\<close> or fails an \<open>assert\<close>.
\<close>

section \<open>Actions\<close>

type_synonym ('s, 'a) act = "'s \<Rightarrow> ('a res \<times> 's) option"

definition act_return :: "'a \<Rightarrow> ('s, 'a) act" where
  "act_return x s = Some (Inr x, s)"

definition act_fail :: "int \<Rightarrow> ('s, 'a) act" where
  "act_fail ret s = Some (Inl ret, s)"

definition act_bind :: "('s, 'a) act \<Rightarrow> ('a \<Rightarrow> ('s, 'b) act) \<Rightarrow> ('s, 'b) act" where
  "act_bind m f s =
     (case m s of
        None \<Rightarrow> None
      | Some (Inl ret, s') \<Rightarrow> Some (Inl ret, s')
      | Some (Inr x, s') \<Rightarrow> f x s')"

definition act_seq :: "('s, unit) act \<Rightarrow> ('s, 'b) act \<Rightarrow> ('s, 'b) act" where
  "act_seq m m' = act_bind m (\<lambda>_. m')"

definition act_get :: "('s \<Rightarrow> 'a) \<Rightarrow> ('s, 'a) act" where
  "act_get f s = Some (Inr (f s), s)"

definition act_put :: "('s \<Rightarrow> 's) \<Rightarrow> ('s, unit) act" where
  "act_put f s = Some (Inr (), f s)"

text \<open>A pointer that is followed, and an assertion.\<close>

definition act_deref :: "('s \<Rightarrow> 'a option) \<Rightarrow> ('s, 'a) act" where
  "act_deref f s = (case f s of None \<Rightarrow> None | Some x \<Rightarrow> Some (Inr x, s))"

definition act_assert :: "('s \<Rightarrow> bool) \<Rightarrow> ('s, unit) act" where
  "act_assert p s = (if p s then Some (Inr (), s) else None)"

definition act_res :: "('s \<Rightarrow> 'a res) \<Rightarrow> ('s, 'a) act" where
  "act_res f s = Some (f s, s)"

definition act_code :: "('s \<Rightarrow> int) \<Rightarrow> ('s, unit) act" where
  "act_code f s = Some (if f s = 0 then Inr () else Inl (f s), s)"

definition act_when :: "('s \<Rightarrow> bool) \<Rightarrow> ('s, unit) act \<Rightarrow> ('s, unit) act" where
  "act_when p m s = (if p s then m s else Some (Inr (), s))"

definition act_guard :: "('s \<Rightarrow> bool) \<Rightarrow> int \<Rightarrow> ('s, unit) act" where
  "act_guard p ret s = (if p s then Some (Inr (), s) else Some (Inl ret, s))"

text \<open>The return code of a C function.\<close>

fun ret_code :: "unit res \<Rightarrow> int" where
  "ret_code (Inr _) = 0"
| "ret_code (Inl ret) = ret"

definition run_act :: "('s, unit) act \<Rightarrow> 's \<Rightarrow> (int \<times> 's) option" where
  "run_act m s = map_option (apfst ret_code) (m s)"

lemmas act_defs = act_return_def act_fail_def act_bind_def act_seq_def act_get_def act_put_def
  act_deref_def act_assert_def act_res_def act_code_def act_when_def act_guard_def

text \<open>\<open>decode_open_extensions\<close> and \<open>decode_extensions\<close> around a block that works on the connection.  The block
  gets the type, a local value, the octets of the extension and the octets that follow it in the list.\<close>

function act_extension_loop ::
  "int \<Rightarrow> (16 word \<Rightarrow> 'l \<Rightarrow> bytes \<Rightarrow> bytes \<Rightarrow> ('s, 'l \<times> bytes) act) \<Rightarrow> 64 word \<Rightarrow> 'l \<Rightarrow> bytes \<Rightarrow> ('s, 'l) act" where
  "act_extension_loop hstype block bits l src s =
     (if src = [] then Some (Inr l, s)
      else case ptls_decode16 src of
        Inl ret \<Rightarrow> Some (Inl ret, s)
      | Inr (exttype, src1) \<Rightarrow>
          (case extension_bitmap_testandset bits hstype exttype of
             None \<Rightarrow> Some (Inl PTLS_ALERT_ILLEGAL_PARAMETER, s)
           | Some bits' \<Rightarrow>
               (case ptls_decode_open_block 2 take_rest src1 of
                  Inl ret \<Rightarrow> Some (Inl ret, s)
                | Inr (body, rest) \<Rightarrow>
                    (case block exttype l body rest s of
                       None \<Rightarrow> None
                     | Some (Inl ret, s') \<Rightarrow> Some (Inl ret, s')
                     | Some (Inr (l', left), s') \<Rightarrow>
                         if left \<noteq> [] then Some (Inl PTLS_ALERT_DECODE_ERROR, s')
                         else act_extension_loop hstype block bits' l' rest s'))))"
  by pat_completeness auto
termination
  by (relation "measure (\<lambda>(_, _, _, _, src, _). length src)")
    (auto dest!: consumes1_length [OF consumes1_ints(2)] consumes1_length [OF consumes1_open_block, rotated])

declare act_extension_loop.simps [simp del]

definition act_decode_open_extensions ::
  "int \<Rightarrow> (16 word \<Rightarrow> 'l \<Rightarrow> bytes \<Rightarrow> bytes \<Rightarrow> ('s, 'l \<times> bytes) act) \<Rightarrow> 'l \<Rightarrow> bytes \<Rightarrow> ('s, 'l \<times> bytes) act" where
  "act_decode_open_extensions hstype block l src =
     act_bind (act_res (\<lambda>_. ptls_decode_open_block 2 take_rest src)) (\<lambda>(body, after).
     act_bind (act_extension_loop hstype block 0 l body) (\<lambda>l'. act_return (l', after)))"

definition act_decode_extensions ::
  "int \<Rightarrow> (16 word \<Rightarrow> 'l \<Rightarrow> bytes \<Rightarrow> bytes \<Rightarrow> ('s, 'l \<times> bytes) act) \<Rightarrow> 'l \<Rightarrow> bytes \<Rightarrow> ('s, 'l) act" where
  "act_decode_extensions hstype block l src =
     act_bind (act_decode_open_extensions hstype block l src) (\<lambda>(l', after).
       act_res (\<lambda>_. ptls_decode_assert_block_close (l', after)))"

section \<open>State\<close>

datatype ptls_state =
    PTLS_STATE_CLIENT_HANDSHAKE_START
  | PTLS_STATE_CLIENT_EXPECT_SERVER_HELLO
  | PTLS_STATE_CLIENT_EXPECT_SECOND_SERVER_HELLO
  | PTLS_STATE_CLIENT_EXPECT_ENCRYPTED_EXTENSIONS
  | PTLS_STATE_CLIENT_EXPECT_CERTIFICATE_REQUEST_OR_CERTIFICATE
  | PTLS_STATE_CLIENT_EXPECT_CERTIFICATE
  | PTLS_STATE_CLIENT_EXPECT_CERTIFICATE_VERIFY
  | PTLS_STATE_CLIENT_EXPECT_FINISHED
  | PTLS_STATE_SERVER_EXPECT_CLIENT_HELLO
  | PTLS_STATE_SERVER_EXPECT_SECOND_CLIENT_HELLO
  | PTLS_STATE_SERVER_GENERATING_CERTIFICATE_VERIFY
  | PTLS_STATE_SERVER_EXPECT_CERTIFICATE
  | PTLS_STATE_SERVER_EXPECT_CERTIFICATE_VERIFY
  | PTLS_STATE_SERVER_EXPECT_END_OF_EARLY_DATA
  | PTLS_STATE_SERVER_EXPECT_FINISHED
  | PTLS_STATE_CLIENT_POST_HANDSHAKE
  | PTLS_STATE_SERVER_POST_HANDSHAKE

text \<open>The source compares states by their position in the enumeration.\<close>

primrec state_index :: "ptls_state \<Rightarrow> nat" where
  "state_index PTLS_STATE_CLIENT_HANDSHAKE_START = 0"
| "state_index PTLS_STATE_CLIENT_EXPECT_SERVER_HELLO = 1"
| "state_index PTLS_STATE_CLIENT_EXPECT_SECOND_SERVER_HELLO = 2"
| "state_index PTLS_STATE_CLIENT_EXPECT_ENCRYPTED_EXTENSIONS = 3"
| "state_index PTLS_STATE_CLIENT_EXPECT_CERTIFICATE_REQUEST_OR_CERTIFICATE = 4"
| "state_index PTLS_STATE_CLIENT_EXPECT_CERTIFICATE = 5"
| "state_index PTLS_STATE_CLIENT_EXPECT_CERTIFICATE_VERIFY = 6"
| "state_index PTLS_STATE_CLIENT_EXPECT_FINISHED = 7"
| "state_index PTLS_STATE_SERVER_EXPECT_CLIENT_HELLO = 8"
| "state_index PTLS_STATE_SERVER_EXPECT_SECOND_CLIENT_HELLO = 9"
| "state_index PTLS_STATE_SERVER_GENERATING_CERTIFICATE_VERIFY = 10"
| "state_index PTLS_STATE_SERVER_EXPECT_CERTIFICATE = 11"
| "state_index PTLS_STATE_SERVER_EXPECT_CERTIFICATE_VERIFY = 12"
| "state_index PTLS_STATE_SERVER_EXPECT_END_OF_EARLY_DATA = 13"
| "state_index PTLS_STATE_SERVER_EXPECT_FINISHED = 14"
| "state_index PTLS_STATE_CLIENT_POST_HANDSHAKE = 15"
| "state_index PTLS_STATE_SERVER_POST_HANDSHAKE = 16"

instantiation ptls_state :: linorder
begin

definition less_eq_ptls_state :: "ptls_state \<Rightarrow> ptls_state \<Rightarrow> bool" where
  "less_eq_ptls_state s t \<longleftrightarrow> state_index s \<le> state_index t"

definition less_ptls_state :: "ptls_state \<Rightarrow> ptls_state \<Rightarrow> bool" where
  "less_ptls_state s t \<longleftrightarrow> state_index s < state_index t"

instance
proof
  fix s t :: ptls_state
  assume "s \<le> t" "t \<le> s"
  then show "s = t"
    unfolding less_eq_ptls_state_def by (cases s; cases t) simp_all
qed (auto simp: less_eq_ptls_state_def less_ptls_state_def)

end

abbreviation PTLS_STATE_POST_HANDSHAKE_MIN :: ptls_state where
  "PTLS_STATE_POST_HANDSHAKE_MIN \<equiv> PTLS_STATE_CLIENT_POST_HANDSHAKE"

lemmas state_le_defs = less_eq_ptls_state_def less_ptls_state_def

text \<open>\<open>ptls_context_t\<close>.  A callback is the function it computes, a list that may be \<open>NULL\<close> is an
  \<open>option\<close>.  \<open>ctx_get_time\<close> is the time at which the operation runs and \<open>ctx_random_bytes\<close> gives
  the octets of the \<open>n\<close>-th request for random octets.  A certificate emitter gives the type and the
  body of the message it pushes, a signer the algorithm and what it appends; a certificate verifier
  gives the function that is to check the CertificateVerify message.\<close>

type_synonym verify_sign = "16 word \<Rightarrow> bytes \<Rightarrow> bytes \<Rightarrow> int"

record ptls_context =
  ctx_random_bytes :: "nat \<Rightarrow> nat \<Rightarrow> bytes"
  ctx_get_time :: "64 word"
  ctx_key_exchanges :: "ptls_key_exchange_algorithm list option"
  ctx_cipher_suites :: "ptls_cipher_suite list option"
  ctx_tls12_cipher_suites :: "ptls_cipher_suite list option"
  ctx_certificates :: "bytes list"
  ctx_psk_identity :: "bytes option"
  ctx_psk_secret :: "bytes option"
  ctx_psk_hash :: "ptls_hash_algorithm option"
  ctx_ech_ciphers :: "ptls_hpke_cipher_suite list option"
  ctx_ech_kems :: "ptls_hpke_kem list"
  ctx_ech_create_opener :: "(byte \<Rightarrow> 16 word \<times> 16 word \<Rightarrow> bytes \<Rightarrow> bytes
     \<Rightarrow> (ptls_aead_context \<times> ptls_hpke_kem \<times> ptls_hpke_cipher_suite) option) option"
  ctx_ech_retry_configs :: bytes
  ctx_emit_certificate :: "(bytes \<Rightarrow> bool \<Rightarrow> 16 word list \<Rightarrow> (int \<times> pusher) res) option"
  ctx_sign_certificate :: "(bytes \<Rightarrow> 16 word list \<Rightarrow> (16 word \<times> pusher) res) option"
  ctx_verify_certificate :: "(bytes option \<Rightarrow> bytes list \<Rightarrow> verify_sign option res) option"
  ctx_verify_algos :: "16 word list option"
  ctx_ticket_lifetime :: "32 word"
  ctx_max_early_data_size :: "32 word"
  ctx_max_buffer_size :: nat
  ctx_hkdf_label_prefix :: "string option"
  ctx_require_dhe_on_psk :: bool
  ctx_use_exporter :: bool
  ctx_send_change_cipher_spec :: bool
  ctx_require_client_authentication :: bool
  ctx_omit_end_of_early_data :: bool
  ctx_use_raw_public_keys :: bool
  ctx_server_cipher_preference :: bool
  ctx_server_cipher_chacha_priority :: bool
  ctx_encrypt_ticket :: "(bool \<Rightarrow> bytes \<Rightarrow> pusher) option"
  ctx_save_ticket :: "(bytes \<Rightarrow> int) option"
  ctx_update_traffic_key :: "(bool \<Rightarrow> nat \<Rightarrow> bytes \<Rightarrow> int) option"
  ctx_decompress_certificate :: "(16 word list \<times> (16 word \<Rightarrow> nat \<Rightarrow> bytes \<Rightarrow> bytes res)) option"
  ctx_on_extension :: on_extension_cb
  ctx_ticket_context :: "bytes option"
  ctx_client_ca_names :: "bytes list"
  ctx_ticket_requests_client :: "byte \<times> byte"
  ctx_ticket_requests_server_max :: byte

text \<open>\<open>ptls_handshake_properties_t\<close>; the pointers to results are \<open>option\<close>s of what they point to.\<close>

datatype ptls_early_data_acceptance =
  PTLS_EARLY_DATA_ACCEPTANCE_UNKNOWN | PTLS_EARLY_DATA_REJECTED | PTLS_EARLY_DATA_ACCEPTED

record ptls_handshake_properties =
  prop_negotiated_protocols :: "bytes list"
  prop_session_ticket :: "bytes option"
  prop_max_early_data_size :: "nat option"
  prop_early_data_acceptance :: ptls_early_data_acceptance
  prop_negotiate_before_key_exchange :: bool
  prop_ech_configs :: "bytes option"
  prop_ech_retry_configs :: "bytes option"
  prop_selected_psk_binder :: bytes
  prop_cookie_key :: "bytes option"
  prop_cookie_additional_data :: bytes
  prop_enforce_retry :: bool
  prop_retry_uses_cookie :: bool
  prop_additional_extensions :: "(16 word \<times> bytes) list option"
  prop_collect_extension :: "(16 word \<Rightarrow> bool) option"
  prop_collected_extensions :: "(16 word \<times> bytes) list \<Rightarrow> int"

text \<open>\<open>ptls_message_emitter_t\<close> and its two implementations.  \<open>em_start\<close> is \<open>rec_start\<close> of the record
  emitter and \<open>start_off\<close> of the raw one; the protection the emitter points to is \<open>tls_enc\<close>.\<close>

record ptls_message_emitter =
  em_buf :: ptls_buffer
  em_is_raw :: bool
  em_start :: nat
  em_epoch_offsets :: "nat list"

text \<open>\<open>struct st_ptls_t\<close>, with the members of the two unions \<open>client\<close> and \<open>server\<close> side by side.  The
  last four fields are not part of it: the ticket last given to \<open>save_ticket\<close>, the number of requests for
  random octets so far, and the emitter and the handshake properties, which the source passes as arguments.\<close>

record ptls =
  tls_ctx :: ptls_context
  tls_state :: ptls_state
  tls_recvbuf_rec :: ptls_buffer
  tls_recvbuf_mess :: ptls_buffer
  tls_key_schedule :: "ptls_key_schedule option"
  tls_dec :: st_ptls_traffic_protection
  tls_enc :: st_ptls_traffic_protection
  tls_server_name :: "bytes option"
  tls_negotiated_protocol :: "bytes option"
  tls_key_share :: "ptls_key_exchange_algorithm option"
  tls_cipher_suite :: "ptls_cipher_suite option"
  tls_client_random :: bytes
  tls_exporter_early :: "bytes option"
  tls_exporter_one_rtt :: "bytes option"
  tls_ech :: st_ptls_ech
  tls_is_server :: bool
  tls_is_psk_handshake :: bool
  tls_send_change_cipher_spec :: bool
  tls_needs_key_update :: bool
  tls_key_update_send_request :: bool
  tls_tx_detached :: bool
  tls_detached_tx_protocol_version :: "16 word"
  tls_key_update_requests :: "32 word"
  tls_legacy_session_id :: bytes
  tls_key_share_ctx :: "(ptls_key_exchange_algorithm \<times> bytes \<times> bytes) option"
  tls_offered_psk :: bool
  tls_using_early_data :: bool
  tls_cr_context :: "bytes option"
  tls_cr_signature_algorithms :: "16 word list"
  tls_pending_traffic_secret :: bytes
  tls_early_data_skipped_bytes :: "32 word"
  tls_num_tickets_to_send :: "8 word"
  tls_async_job :: bool
  tls_certificate_verify :: "verify_sign option"
  tls_pending_handshake_secret :: "bytes option"
  tls_saved_ticket :: "bytes option"
  tls_rng :: nat
  tls_emitter :: "ptls_message_emitter option"
  tls_properties :: "ptls_handshake_properties option"

type_synonym 'a tls_act = "(ptls, 'a) act"

definition tls_prot :: "bool \<Rightarrow> ptls \<Rightarrow> st_ptls_traffic_protection" where
  "tls_prot is_enc tls = (if is_enc then tls_enc tls else tls_dec tls)"

definition set_prot :: "bool \<Rightarrow> st_ptls_traffic_protection \<Rightarrow> ptls \<Rightarrow> ptls" where
  "set_prot is_enc tp tls = (if is_enc then tls\<lparr>tls_enc := tp\<rparr> else tls\<lparr>tls_dec := tp\<rparr>)"

definition empty_prot :: st_ptls_traffic_protection where
  "empty_prot = \<lparr>tp_secret = replicate 64 0, tp_epoch = 0, tp_aead = None, tp_seq = 0,
     tp_tls12 = False, tp_tls12_enc_record_iv = 0\<rparr>"

definition tls_random_bytes :: "nat \<Rightarrow> bytes tls_act" where
  "tls_random_bytes n tls =
     Some (Inr (ctx_random_bytes (tls_ctx tls) (tls_rng tls) n), tls\<lparr>tls_rng := tls_rng tls + 1\<rparr>)"

section \<open>Installing keys\<close>

text \<open>\<open>derive_secret\<close> writes over the first \<open>digest_size\<close> octets of the secret.\<close>

definition write_secret :: "nat \<Rightarrow> bytes \<Rightarrow> bytes \<Rightarrow> bytes" where
  "write_secret n new old = take n new @ drop n old"

definition install_aead :: "allocator \<Rightarrow> bool \<Rightarrow> 64 word \<Rightarrow> unit tls_act" where
  "install_aead M is_enc seq =
     act_bind (act_deref tls_cipher_suite) (\<lambda>cs.
     act_bind (act_get (\<lambda>tls. ptls_aead_new M (cs_aead cs) (cs_hash cs) is_enc (tp_secret (tls_prot is_enc tls))
                                (ctx_hkdf_label_prefix (tls_ctx tls)))) (\<lambda>aead.
     act_seq (act_put (\<lambda>tls. set_prot is_enc ((tls_prot is_enc tls)\<lparr>tp_aead := aead\<rparr>) tls))
     (act_seq (act_guard (\<lambda>_. aead \<noteq> None) PTLS_ERROR_NO_MEMORY)
       (act_put (\<lambda>tls. set_prot is_enc ((tls_prot is_enc tls)\<lparr>tp_seq := seq\<rparr>) tls)))))"

definition setup_traffic_protection ::
  "allocator \<Rightarrow> bool \<Rightarrow> string option \<Rightarrow> nat \<Rightarrow> 64 word \<Rightarrow> bool \<Rightarrow> unit tls_act" where
  "setup_traffic_protection M is_enc secret_label epoch seq skip_notify =
     act_bind (act_deref tls_key_schedule) (\<lambda>sched.
     act_seq
       (case secret_label of
          None \<Rightarrow> act_return ()
        | Some label \<Rightarrow>
            act_bind (act_res (\<lambda>_. derive_secret M sched label)) (\<lambda>secret.
            act_put (\<lambda>tls. let tp = tls_prot is_enc tls in
              set_prot is_enc (tp\<lparr>tp_secret := write_secret (ks_digest_size sched) secret (tp_secret tp)\<rparr>) tls)))
     (act_seq (act_put (\<lambda>tls. set_prot is_enc ((tls_prot is_enc tls)\<lparr>tp_epoch := epoch\<rparr>) tls))
     (act_bind (act_get (\<lambda>tls. ctx_update_traffic_key (tls_ctx tls))) (\<lambda>notify.
        case notify of
          Some cb \<Rightarrow> if skip_notify then act_return ()
                     else act_code (\<lambda>tls. cb is_enc epoch (tp_secret (tls_prot is_enc tls)))
        | None \<Rightarrow> install_aead M is_enc seq))))"

definition commission_handshake_secret :: "allocator \<Rightarrow> unit tls_act" where
  "commission_handshake_secret M =
     act_bind (act_get (\<lambda>tls. \<not> tls_is_server tls)) (\<lambda>is_enc.
     act_bind (act_deref tls_pending_handshake_secret) (\<lambda>secret.
     act_seq (act_put (\<lambda>tls. (set_prot is_enc ((tls_prot is_enc tls)\<lparr>tp_secret := secret\<rparr>) tls)
                                 \<lparr>tls_pending_handshake_secret := None\<rparr>))
       (setup_traffic_protection M is_enc None 2 0 True)))"

definition derive_exporter_secret :: "allocator \<Rightarrow> bool \<Rightarrow> unit tls_act" where
  "derive_exporter_secret M is_early =
     act_when (\<lambda>tls. ctx_use_exporter (tls_ctx tls))
       (act_seq (act_assert (\<lambda>tls. (if is_early then tls_exporter_early tls else tls_exporter_one_rtt tls) = None))
       (act_bind (act_deref tls_key_schedule) (\<lambda>sched.
        act_seq (act_guard (\<lambda>_. c_malloc M (ks_digest_size sched)) PTLS_ERROR_NO_MEMORY)
       (act_seq (act_put (\<lambda>tls. if is_early then tls\<lparr>tls_exporter_early := Some (replicate (ks_digest_size sched) 0)\<rparr>
                                else tls\<lparr>tls_exporter_one_rtt := Some (replicate (ks_digest_size sched) 0)\<rparr>))
       (act_bind (act_res (\<lambda>_. derive_secret M sched (if is_early then ''e exp master'' else ''exp master''))) (\<lambda>secret.
        act_put (\<lambda>tls. if is_early then tls\<lparr>tls_exporter_early := Some secret\<rparr>
                       else tls\<lparr>tls_exporter_one_rtt := Some secret\<rparr>)))))))"

text \<open>The new secret replaces the old one; of the 64 octets the source copies only the first
  \<open>digest_size\<close> are written before.\<close>

definition update_traffic_key :: "allocator \<Rightarrow> bool \<Rightarrow> unit tls_act" where
  "update_traffic_key M is_enc =
     act_bind (act_deref tls_key_schedule) (\<lambda>sched.
     act_bind (act_res (\<lambda>tls. ptls_hkdf_expand_label M (ks_algo sched) (ks_digest_size sched)
                 (take (ks_digest_size sched) (tp_secret (tls_prot is_enc tls))) ''traffic upd'' [] None)) (\<lambda>secret.
     act_seq (act_put (\<lambda>tls. set_prot is_enc ((tls_prot is_enc tls)\<lparr>tp_secret := secret\<rparr>) tls))
       (setup_traffic_protection M is_enc None 3 0 True)))"

definition handle_key_update :: "allocator \<Rightarrow> bytes \<Rightarrow> unit tls_act" where
  "handle_key_update M message =
     (let src = drop 4 message in
      act_seq (act_guard (\<lambda>_. length src = 1 \<and> src ! 0 \<le> 1) PTLS_ALERT_DECODE_ERROR)
     (act_seq (update_traffic_key M False)
       (act_when (\<lambda>_. src ! 0 \<noteq> 0)
         (act_seq (act_guard (\<lambda>tls. ctx_update_traffic_key (tls_ctx tls) = None) PTLS_ALERT_UNEXPECTED_MESSAGE)
         (act_bind (act_get tls_tx_detached) (\<lambda>detached.
            if detached
            then act_seq (act_guard (\<lambda>tls. tls_key_update_requests tls \<noteq> - 1) PTLS_ALERT_INTERNAL_ERROR)
                   (act_put (\<lambda>tls. tls\<lparr>tls_key_update_requests := tls_key_update_requests tls + 1\<rparr>))
            else act_put (\<lambda>tls. tls\<lparr>tls_needs_key_update := True\<rparr>)))))))"

section \<open>Emitting messages\<close>

definition em_push :: "pusher \<Rightarrow> unit tls_act" where
  "em_push f =
     act_bind (act_deref tls_emitter) (\<lambda>em tls.
       case f (em_buf em) of (ret, b) \<Rightarrow>
         Some (if ret = 0 then Inr () else Inl ret, tls\<lparr>tls_emitter := Some (em\<lparr>em_buf := b\<rparr>)\<rparr>))"

definition em_off :: "nat tls_act" where
  "em_off = act_bind (act_deref tls_emitter) (\<lambda>em. act_return (buf_off (em_buf em)))"

definition set_em_start :: "nat \<Rightarrow> unit tls_act" where
  "set_em_start n = act_bind (act_deref tls_emitter) (\<lambda>em.
     act_put (\<lambda>tls. tls\<lparr>tls_emitter := Some (em\<lparr>em_start := n\<rparr>)\<rparr>))"

definition begin_message :: "allocator \<Rightarrow> unit tls_act" where
  "begin_message M =
     act_bind (act_deref tls_emitter) (\<lambda>em.
     act_seq (set_em_start (buf_off (em_buf em)))
       (if em_is_raw em then act_return ()
        else em_push (\<lambda>b. case begin_record_message M b of (ret, rec_start, b') \<Rightarrow> (ret, b'))))"

text \<open>The end of the raw emitter's message is the end of its epoch and of all later ones.\<close>

definition commit_raw_message :: "unit tls_act" where
  "commit_raw_message =
     act_bind (act_deref tls_emitter) (\<lambda>em.
     act_bind (act_get (\<lambda>tls. tp_epoch (tls_enc tls))) (\<lambda>enc_epoch.
       let epoch = (if enc_epoch = 1
                      \<and> buf_data (em_buf em) ! em_start em = word_of_int PTLS_HANDSHAKE_TYPE_CLIENT_HELLO
                    then 0 else enc_epoch);
           later = [Suc epoch..<5] in
       act_seq (act_assert (\<lambda>_. list_all (\<lambda>e. em_epoch_offsets em ! e = em_start em) later))
         (act_put (\<lambda>tls. tls\<lparr>tls_emitter := Some (em\<lparr>
            em_epoch_offsets := foldl (\<lambda>offs e. offs[e := buf_off (em_buf em)]) (em_epoch_offsets em) later,
            em_start := SIZE_MAX\<rparr>)\<rparr>))))"

definition commit_record :: "allocator \<Rightarrow> unit tls_act" where
  "commit_record M =
     act_bind (act_deref tls_emitter) (\<lambda>em tls.
       case commit_record_message M (em_start em) (tls_enc tls) (em_buf em) of (ret, tp, b) \<Rightarrow>
         Some (if ret = 0 then Inr () else Inl ret,
               tls\<lparr>tls_enc := tp, tls_emitter := Some (em\<lparr>em_buf := b\<rparr>)\<rparr>))"

definition commit_message :: "allocator \<Rightarrow> unit tls_act" where
  "commit_message M =
     act_bind (act_deref tls_emitter) (\<lambda>em. if em_is_raw em then commit_raw_message else commit_record M)"

text \<open>\<open>use_sched\<close> is whether the message enters the transcript.\<close>

definition ptls_buffer_push_message_body :: "allocator \<Rightarrow> bool \<Rightarrow> int \<Rightarrow> pusher \<Rightarrow> unit tls_act" where
  "ptls_buffer_push_message_body M use_sched type block =
     act_bind em_off (\<lambda>mess_start.
     act_seq (em_push (push_then (ptls_buffer_push M (word_of_int type)) (ptls_buffer_push_block M 3 block)))
       (act_when (\<lambda>_. use_sched)
         (act_bind (act_deref tls_emitter) (\<lambda>em.
          act_bind (act_deref tls_key_schedule) (\<lambda>sched.
          act_put (\<lambda>tls. tls\<lparr>tls_key_schedule :=
            Some (ptls__key_schedule_update_hash sched (drop mess_start (buf_data (em_buf em))) False)\<rparr>))))))"

definition ptls_push_message :: "allocator \<Rightarrow> bool \<Rightarrow> int \<Rightarrow> pusher \<Rightarrow> unit tls_act" where
  "ptls_push_message M use_sched type block =
     act_seq (begin_message M)
     (act_seq (ptls_buffer_push_message_body M use_sched type block) (commit_message M))"

text \<open>The block of a Finished message: the verify data for a traffic secret.\<close>

definition push_verify_data :: "allocator \<Rightarrow> ptls_key_schedule \<Rightarrow> bytes \<Rightarrow> pusher" where
  "push_verify_data M sched secret =
     push_derived M (ks_digest_size sched) True (calc_verify_data M sched secret)"

definition send_finished :: "allocator \<Rightarrow> unit tls_act" where
  "send_finished M =
     act_bind (act_deref tls_key_schedule) (\<lambda>sched.
     act_bind (act_get (\<lambda>tls. tp_secret (tls_enc tls))) (\<lambda>secret.
       ptls_push_message M True PTLS_HANDSHAKE_TYPE_FINISHED (push_verify_data M sched secret)))"

definition push_change_cipher_spec :: "allocator \<Rightarrow> unit tls_act" where
  "push_change_cipher_spec M =
     act_when tls_send_change_cipher_spec
       (act_bind (act_deref tls_emitter) (\<lambda>em.
        act_seq (act_guard (\<lambda>_. \<not> em_is_raw em) PTLS_ALERT_UNEXPECTED_MESSAGE)
       (act_seq (em_push (buffer_push_record M PTLS_CONTENT_TYPE_CHANGE_CIPHER_SPEC (ptls_buffer_push M 1)))
          (act_put (\<lambda>tls. tls\<lparr>tls_send_change_cipher_spec := False\<rparr>)))))"

section \<open>Session tickets\<close>

text \<open>The octets that \<open>push_finished_ahead\<close> writes are taken back: only the transcript keeps the messages
  the client is going to send.\<close>

definition em_truncate :: "nat \<Rightarrow> unit tls_act" where
  "em_truncate n = em_push (\<lambda>b. (0, b\<lparr>buf_data := take n (buf_data b)\<rparr>))"

definition push_finished_ahead :: "allocator \<Rightarrow> unit tls_act" where
  "push_finished_ahead M =
     act_bind em_off (\<lambda>orig_off.
     act_seq
       (act_when (\<lambda>tls. tls_pending_handshake_secret tls \<noteq> None \<and> \<not> ctx_omit_end_of_early_data (tls_ctx tls))
         (act_seq (act_assert (\<lambda>tls. tls_state tls = PTLS_STATE_SERVER_EXPECT_END_OF_EARLY_DATA))
         (act_seq (ptls_buffer_push_message_body M True PTLS_HANDSHAKE_TYPE_END_OF_EARLY_DATA push_nothing)
            (em_truncate orig_off))))
     (act_bind (act_deref tls_key_schedule) (\<lambda>sched.
      act_bind (act_get (\<lambda>tls. case tls_pending_handshake_secret tls of
                  Some secret \<Rightarrow> secret | None \<Rightarrow> tp_secret (tls_dec tls))) (\<lambda>secret.
      act_seq (ptls_buffer_push_message_body M True PTLS_HANDSHAKE_TYPE_FINISHED (push_verify_data M sched secret))
        (em_truncate orig_off)))))"

text \<open>A C string of given octets.\<close>

definition str_of :: "bytes \<Rightarrow> string" where
  "str_of = map (\<lambda>b. char_of (unat b))"

text \<open>The raw session identifier is written to a buffer of 128 octets on the stack; without a key
  exchange it stays empty.\<close>

definition session_id_octets :: "allocator \<Rightarrow> 32 word \<Rightarrow> bytes tls_act" where
  "session_id_octets M age_add =
     act_bind (act_get (\<lambda>tls. tls_key_share tls)) (\<lambda>key_share.
       case key_share of
         None \<Rightarrow> act_return []
       | Some kx \<Rightarrow>
           act_bind (act_deref tls_key_schedule) (\<lambda>sched.
           act_bind (act_deref tls_cipher_suite) (\<lambda>cs.
           act_res (\<lambda>tls.
             case encode_session_identifier M (ctx_get_time (tls_ctx tls)) (ctx_ticket_context (tls_ctx tls)) age_add []
                    sched (map_option str_of (tls_server_name tls)) (kx_id kx) (cs_id cs)
                    (map_option str_of (tls_negotiated_protocol tls))
                    (ptls_buffer_init 1 128 True) of
               (ret, b) \<Rightarrow> if ret \<noteq> 0 then Inl ret else Inr (buf_data b)))))"

definition send_ticket_message :: "allocator \<Rightarrow> unit tls_act" where
  "send_ticket_message M =
     act_seq (push_finished_ahead M)
     (act_bind (tls_random_bytes 4) (\<lambda>rnd.
        let age_add = ntoh32 (rev rnd) in
      act_bind (session_id_octets M age_add) (\<lambda>session_id.
      act_bind (act_get tls_ctx) (\<lambda>ctx.
        case ctx_encrypt_ticket ctx of
          None \<Rightarrow> (\<lambda>_. None)
        | Some encrypt_ticket \<Rightarrow>
            ptls_push_message M True PTLS_HANDSHAKE_TYPE_NEW_SESSION_TICKET
              (push_new_session_ticket M (ctx_ticket_lifetime ctx) age_add (encrypt_ticket True session_id)
                 (ctx_max_early_data_size ctx))))))"

text \<open>The transcript is saved before and restored at the end, whatever happened in between.\<close>

definition send_session_ticket :: "allocator \<Rightarrow> unit tls_act" where
  "send_session_ticket M =
     act_bind (act_deref tls_key_schedule) (\<lambda>sched.
     act_seq (act_assert (\<lambda>tls. ctx_ticket_lifetime (tls_ctx tls) \<noteq> 0))
     (act_seq (act_assert (\<lambda>tls. ctx_encrypt_ticket (tls_ctx tls) \<noteq> None))
       (\<lambda>tls. case send_ticket_message M tls of
          None \<Rightarrow> None
        | Some (r, tls') \<Rightarrow>
            Some (r, tls'\<lparr>tls_key_schedule := map_option
              (on_first_hash (\<lambda>h. h\<lparr>ksh_ctx := ksh_ctx (hd (ks_hashes sched))\<rparr>)) (tls_key_schedule tls')\<rparr>))))"

section \<open>Sending\<close>

definition record_emitter :: "ptls_buffer \<Rightarrow> ptls_message_emitter" where
  "record_emitter sendbuf = \<lparr>em_buf = sendbuf, em_is_raw = False, em_start = 0, em_epoch_offsets = []\<rparr>"

text \<open>A function that takes the buffer to write to: the emitter is set up around it.\<close>

definition with_emitter ::
  "ptls_message_emitter \<Rightarrow> unit tls_act \<Rightarrow> ptls \<Rightarrow> (int \<times> ptls \<times> ptls_message_emitter) option" where
  "with_emitter em m tls =
     (case m (tls\<lparr>tls_emitter := Some em\<rparr>) of
        None \<Rightarrow> None
      | Some (r, tls') \<Rightarrow>
          map_option (\<lambda>em'. (ret_code r, tls'\<lparr>tls_emitter := tls_emitter tls\<rparr>, em')) (tls_emitter tls'))"

definition update_send_key ::
  "allocator \<Rightarrow> bool \<Rightarrow> ptls \<Rightarrow> ptls_buffer \<Rightarrow> (int \<times> ptls \<times> ptls_buffer) option" where
  "update_send_key M request_update tls sendbuf =
     (case with_emitter (record_emitter sendbuf)
             (act_seq (ptls_push_message M False PTLS_HANDSHAKE_TYPE_KEY_UPDATE
                         (ptls_buffer_push M (if request_update then 1 else 0)))
                (update_traffic_key M True)) tls of
        None \<Rightarrow> None
      | Some (ret, tls', em) \<Rightarrow>
          Some (ret, tls', if ret \<noteq> 0 then (em_buf em)\<lparr>buf_data := take (buf_off sendbuf) (buf_data (em_buf em))\<rparr>
                           else em_buf em))"

text \<open>The update that is due before data is sent.\<close>

definition update_key_if_needed ::
  "allocator \<Rightarrow> ptls \<Rightarrow> ptls_buffer \<Rightarrow> (int \<times> ptls \<times> ptls_buffer) option" where
  "update_key_if_needed M tls sendbuf =
     (let tls1 = (if tp_seq (tls_enc tls) \<ge> 16777216 \<and> tls_key_schedule tls \<noteq> None
                  then tls\<lparr>tls_needs_key_update := True\<rparr> else tls) in
      if tls_needs_key_update tls1
      then case update_send_key M (tls_key_update_send_request tls1) tls1 sendbuf of
          None \<Rightarrow> None
        | Some (ret, tls2, b) \<Rightarrow>
            if ret \<noteq> 0 then Some (ret, tls2, b)
            else Some (0, tls2\<lparr>tls_needs_key_update := False, tls_key_update_send_request := False\<rparr>, b)
      else Some (0, tls1, sendbuf))"

definition ptls_send ::
  "allocator \<Rightarrow> ptls \<Rightarrow> ptls_buffer \<Rightarrow> bytes \<Rightarrow> (int \<times> ptls \<times> ptls_buffer) option" where
  "ptls_send M tls sendbuf input =
     (if tls_tx_detached tls then Some (PTLS_ERROR_NOT_AVAILABLE, tls, sendbuf)
      else if tp_aead (tls_enc tls) = None then None
      else if buffer_require_direction sendbuf True \<noteq> 0
      then Some (buffer_require_direction sendbuf True, tls, sendbuf)
      else case update_key_if_needed M tls sendbuf of
          None \<Rightarrow> None
        | Some (ret, tls1, b) \<Rightarrow>
            if ret \<noteq> 0 then Some (ret, tls1, b)
            else case tp_aead (tls_enc tls1) of
                None \<Rightarrow> None
              | Some aead \<Rightarrow>
                  (case buffer_push_encrypted_records M PTLS_CONTENT_TYPE_APPDATA input aead (tls_enc tls1) b of
                     (ret, tp, b') \<Rightarrow> Some (ret, tls1\<lparr>tls_enc := tp\<rparr>, b')))"

definition ptls_update_key :: "ptls \<Rightarrow> bool \<Rightarrow> (int \<times> ptls) option" where
  "ptls_update_key tls request_update =
     (if tls_tx_detached tls then Some (PTLS_ERROR_NOT_AVAILABLE, tls)
      else if ctx_update_traffic_key (tls_ctx tls) \<noteq> None then None
      else Some (0, tls\<lparr>tls_needs_key_update := True, tls_key_update_send_request := request_update\<rparr>))"

definition ptls_get_record_overhead :: "ptls \<Rightarrow> nat option" where
  "ptls_get_record_overhead tls =
     (if tls_tx_detached tls then Some 0
      else case tp_aead (tls_enc tls) of
          None \<Rightarrow> None
        | Some aead \<Rightarrow>
            let algo = actx_algo aead in
            Some (if tp_tls12 (tls_enc tls) then 5 + aead_tls12_record_iv_size algo + aead_tag_size algo
                  else 6 + aead_tag_size algo))"

definition ptls_send_alert ::
  "allocator \<Rightarrow> ptls \<Rightarrow> ptls_buffer \<Rightarrow> byte \<Rightarrow> byte \<Rightarrow> int \<times> ptls \<times> ptls_buffer" where
  "ptls_send_alert M tls sendbuf level description =
     (let rec_start = buf_off sendbuf in
      if tls_tx_detached tls then (PTLS_ERROR_NOT_AVAILABLE, tls, sendbuf)
      else if buffer_require_direction sendbuf True \<noteq> 0 then (buffer_require_direction sendbuf True, tls, sendbuf)
      else case buffer_push_record M PTLS_CONTENT_TYPE_ALERT
                  (ptls_buffer__do_pushv M [level, description]) sendbuf of
          (ret, b) \<Rightarrow>
            if ret \<noteq> 0 then (ret, tls, b)
            else case tp_aead (tls_enc tls) of
                None \<Rightarrow> (0, tls, b)
              | Some aead \<Rightarrow>
                  if tls_state tls \<le> PTLS_STATE_CLIENT_EXPECT_FINISHED then (0, tls, b)
                  else (case buffer_encrypt_record M rec_start aead (tls_enc tls) b of
                      (ret, tp, b') \<Rightarrow> (ret, tls\<lparr>tls_enc := tp\<rparr>, b')))"

definition ptls_get_protocol_version :: "ptls \<Rightarrow> 16 word" where
  "ptls_get_protocol_version tls =
     (if tls_tx_detached tls then tls_detached_tx_protocol_version tls
      else if tp_tls12 (tls_enc tls) then 0x0303 else 0x0304)"

definition ptls_get_traffic_keys ::
  "allocator \<Rightarrow> ptls \<Rightarrow> bool \<Rightarrow> (bytes \<times> bytes \<times> 64 word) res option" where
  "ptls_get_traffic_keys M tls is_enc =
     (if is_enc \<and> tls_tx_detached tls then Some (Inl PTLS_ERROR_NOT_AVAILABLE)
      else case tls_cipher_suite tls of
          None \<Rightarrow> None
        | Some cs \<Rightarrow>
            Some (res_bind (get_traffic_keys M (cs_aead cs) (cs_hash cs) (tp_secret (tls_prot is_enc tls)) [] None)
              (\<lambda>(key, iv). Inr (key, iv, tp_seq (tls_prot is_enc tls)))))"

section \<open>The detached sending half\<close>

text \<open>\<open>ptls_tx_t\<close> holds a connection of which only the fields below are set; the others are zero.\<close>

definition zero_buffer :: ptls_buffer where
  "zero_buffer = ptls_buffer_dispose (ptls_buffer_init 0 0 False)"

definition empty_ech :: st_ptls_ech where
  "empty_ech = \<lparr>ech_state = PTLS_ECH_STATE_NONE, ech_config_id = 0, ech_kem = None, ech_cipher = None,
     ech_aead = None, ech_inner_client_random = replicate 32 0, ech_client_enc = [],
     ech_client_max_name_length = 0, ech_client_public_name = None, ech_client_first_ech = []\<rparr>"

definition detached_tls :: "ptls \<Rightarrow> ptls_key_schedule option \<Rightarrow> ptls" where
  "detached_tls tls sched =
     \<lparr>tls_ctx = tls_ctx tls, tls_state = tls_state tls, tls_recvbuf_rec = zero_buffer,
      tls_recvbuf_mess = zero_buffer, tls_key_schedule = sched, tls_dec = empty_prot, tls_enc = tls_enc tls,
      tls_server_name = tls_server_name tls, tls_negotiated_protocol = tls_negotiated_protocol tls,
      tls_key_share = None, tls_cipher_suite = tls_cipher_suite tls, tls_client_random = tls_client_random tls,
      tls_exporter_early = None, tls_exporter_one_rtt = None, tls_ech = empty_ech,
      tls_is_server = tls_is_server tls,
      tls_is_psk_handshake = tls_is_psk_handshake tls, tls_send_change_cipher_spec = False,
      tls_needs_key_update = tls_needs_key_update tls,
      tls_key_update_send_request = tls_key_update_send_request tls, tls_tx_detached = False,
      tls_detached_tx_protocol_version = 0, tls_key_update_requests = 0,
      tls_legacy_session_id = [], tls_key_share_ctx = None, tls_offered_psk = False,
      tls_using_early_data = False, tls_cr_context = None, tls_cr_signature_algorithms = [],
      tls_pending_traffic_secret = replicate 64 0, tls_early_data_skipped_bytes = 0,
      tls_num_tickets_to_send = 0, tls_async_job = False, tls_certificate_verify = None,
      tls_pending_handshake_secret = None, tls_saved_ticket = None, tls_rng = tls_rng tls,
      tls_emitter = None, tls_properties = None\<rparr>"

definition dup_str :: "allocator \<Rightarrow> bytes option \<Rightarrow> bool" where
  "dup_str M s \<longleftrightarrow> (case s of None \<Rightarrow> True | Some str \<Rightarrow> c_malloc M (length str + 1))"

text \<open>\<open>sz\<close> is \<open>sizeof(ptls_tx_t)\<close>.  A failure leaves the connection as it was.\<close>

definition ptls_detach_tx :: "allocator \<Rightarrow> nat \<Rightarrow> ptls \<Rightarrow> int \<times> ptls \<times> ptls option" where
  "ptls_detach_tx M sz tls =
     (if tls_tx_detached tls \<or> ctx_update_traffic_key (tls_ctx tls) \<noteq> None
         \<or> tls_state tls \<noteq> PTLS_STATE_CLIENT_POST_HANDSHAKE \<and> tls_state tls \<noteq> PTLS_STATE_SERVER_POST_HANDSHAKE
         \<or> tp_aead (tls_enc tls) = None
      then (PTLS_ERROR_NOT_AVAILABLE, tls, None)
      else if \<not> c_malloc M sz \<or> \<not> dup_str M (tls_server_name tls) \<or> \<not> dup_str M (tls_negotiated_protocol tls)
      then (PTLS_ERROR_NO_MEMORY, tls, None)
      else
        let tls12 = tp_tls12 (tls_enc tls);
            sched = (if tls12 then None else key_schedule_new M (tls_cipher_suite tls) None False) in
        if \<not> tls12 \<and> sched = None then (PTLS_ERROR_NO_MEMORY, tls, None)
        else (0,
          tls\<lparr>tls_detached_tx_protocol_version := (if tls12 then 0x0303 else 0x0304), tls_enc := empty_prot,
              tls_needs_key_update := False, tls_key_update_send_request := False, tls_tx_detached := True\<rparr>,
          Some (detached_tls tls sched)))"

text \<open>The functions on the detached half; \<open>None\<close> as the object is \<open>NULL\<close>.\<close>

definition ptls_tx_send ::
  "allocator \<Rightarrow> ptls option \<Rightarrow> ptls_buffer \<Rightarrow> bytes \<Rightarrow> (int \<times> ptls option \<times> ptls_buffer) option" where
  "ptls_tx_send M tx sendbuf input =
     (case tx of
        None \<Rightarrow> Some (PTLS_ERROR_NOT_AVAILABLE, None, sendbuf)
      | Some tls \<Rightarrow> map_option (apsnd (apfst Some)) (ptls_send M tls sendbuf input))"

text \<open>The vectors may hold one record at most.\<close>

fun sendv_length :: "nat \<Rightarrow> bytes list \<Rightarrow> nat option" where
  "sendv_length inlen [] = Some inlen"
| "sendv_length inlen (v # vs) =
     (if length v > PTLS_MAX_PLAINTEXT_RECORD_SIZE - inlen then None else sendv_length (inlen + length v) vs)"

definition tls12_sendv_record ::
  "ptls_aead_context \<Rightarrow> st_ptls_traffic_protection \<Rightarrow> bytes list \<Rightarrow> nat
     \<Rightarrow> nat \<times> bytes \<times> st_ptls_traffic_protection" where
  "tls12_sendv_record aead enc vec inlen =
     (let algo = actx_algo aead;
          explicit_iv = aead_tls12_record_iv_size algo \<noteq> 0;
          nonce = (if explicit_iv then tp_tls12_enc_record_iv enc else tp_seq enc);
          enc1 = (if explicit_iv then enc\<lparr>tp_tls12_enc_record_iv := tp_tls12_enc_record_iv enc + 1\<rparr> else enc);
          aad = build_tls12_aad PTLS_CONTENT_TYPE_APPDATA (tp_seq enc1) inlen in
      (aead_tls12_record_iv_size algo + inlen + aead_tag_size algo,
       (if explicit_iv then encode64 nonce else []) @ ptls_aead_encrypt_v aead vec nonce aad,
       enc1\<lparr>tp_seq := tp_seq enc1 + 1\<rparr>))"

definition tls13_sendv_record ::
  "ptls_aead_context \<Rightarrow> st_ptls_traffic_protection \<Rightarrow> bytes list \<Rightarrow> nat
     \<Rightarrow> nat \<times> bytes \<times> st_ptls_traffic_protection" where
  "tls13_sendv_record aead enc vec inlen =
     (let algo = actx_algo aead in
      (inlen + aead_tag_size algo + 1,
       ptls_aead_encrypt_v aead (vec @ [[PTLS_CONTENT_TYPE_APPDATA]]) (tp_seq enc)
         (build_aad (inlen + 1 + aead_tag_size algo)),
       enc\<lparr>tp_seq := tp_seq enc + 1\<rparr>))"

definition ptls_tx_sendv ::
  "allocator \<Rightarrow> ptls option \<Rightarrow> ptls_buffer \<Rightarrow> bytes list \<Rightarrow> (int \<times> ptls option \<times> ptls_buffer) option" where
  "ptls_tx_sendv M tx sendbuf vec =
     (case tx of
        None \<Rightarrow> Some (PTLS_ERROR_NOT_AVAILABLE, None, sendbuf)
      | Some tls \<Rightarrow>
          case sendv_length 0 vec of
            None \<Rightarrow> Some (PTLS_ERROR_LIBRARY, Some tls, sendbuf)
          | Some inlen \<Rightarrow>
              if buffer_require_direction sendbuf True \<noteq> 0
              then Some (buffer_require_direction sendbuf True, Some tls, sendbuf)
              else if tp_aead (tls_enc tls) = None then None
              else case update_key_if_needed M tls sendbuf of
                  None \<Rightarrow> None
                | Some (ret, tls1, b) \<Rightarrow>
                    if ret \<noteq> 0 \<or> inlen = 0 then Some (ret, Some tls1, b)
                    else case tp_aead (tls_enc tls1) of
                        None \<Rightarrow> None
                      | Some aead \<Rightarrow>
                          (case (if tp_tls12 (tls_enc tls1) then tls12_sendv_record else tls13_sendv_record)
                                  aead (tls_enc tls1) vec inlen of
                             (room, data, enc) \<Rightarrow>
                          case buffer_push_record M PTLS_CONTENT_TYPE_APPDATA
                                 (reserve_and_write M room (aead_align_bits (actx_algo aead)) data) b of
                             (ret, b') \<Rightarrow>
                               Some (ret, Some (if ret = 0 \<or> ret = PTLS_ERROR_BLOCK_OVERFLOW
                                                then tls1\<lparr>tls_enc := enc\<rparr> else tls1), b')))"

definition ptls_tx_update_key ::
  "allocator \<Rightarrow> ptls option \<Rightarrow> ptls_buffer \<Rightarrow> bool \<Rightarrow> (int \<times> ptls option \<times> ptls_buffer) option" where
  "ptls_tx_update_key M tx sendbuf request_update =
     (case tx of
        None \<Rightarrow> Some (PTLS_ERROR_NOT_AVAILABLE, None, sendbuf)
      | Some tls \<Rightarrow>
          if tls_key_schedule tls = None then Some (PTLS_ERROR_NOT_AVAILABLE, Some tls, sendbuf)
          else if buffer_require_direction sendbuf True \<noteq> 0
          then Some (buffer_require_direction sendbuf True, Some tls, sendbuf)
          else map_option (apsnd (apfst Some)) (update_send_key M request_update tls sendbuf))"

definition ptls_tx_send_alert ::
  "allocator \<Rightarrow> ptls option \<Rightarrow> ptls_buffer \<Rightarrow> byte \<Rightarrow> byte \<Rightarrow> int \<times> ptls option \<times> ptls_buffer" where
  "ptls_tx_send_alert M tx sendbuf level description =
     (case tx of
        None \<Rightarrow> (PTLS_ERROR_NOT_AVAILABLE, None, sendbuf)
      | Some tls \<Rightarrow> apsnd (apfst Some) (ptls_send_alert M tls sendbuf level description))"

definition ptls_tx_get_cipher :: "ptls option \<Rightarrow> ptls_cipher_suite option" where
  "ptls_tx_get_cipher tx = Option.bind tx tls_cipher_suite"

definition ptls_tx_get_protocol_version :: "ptls option \<Rightarrow> 16 word" where
  "ptls_tx_get_protocol_version tx = (case tx of None \<Rightarrow> 0 | Some tls \<Rightarrow> ptls_get_protocol_version tls)"

definition ptls_tx_get_record_overhead :: "ptls option \<Rightarrow> nat option" where
  "ptls_tx_get_record_overhead tx = (case tx of None \<Rightarrow> Some 0 | Some tls \<Rightarrow> ptls_get_record_overhead tls)"

definition ptls_take_key_update_request :: "ptls \<Rightarrow> bool \<times> ptls" where
  "ptls_take_key_update_request tls =
     (if tls_key_update_requests tls = 0 then (False, tls)
      else (True, tls\<lparr>tls_key_update_requests := tls_key_update_requests tls - 1\<rparr>))"

section \<open>Exporters\<close>

definition ptls_export_secret ::
  "allocator \<Rightarrow> ptls \<Rightarrow> nat \<Rightarrow> string \<Rightarrow> bytes \<Rightarrow> bool \<Rightarrow> bytes res option" where
  "ptls_export_secret M tls outlen label context_value is_early =
     (case tls_key_schedule tls of
        None \<Rightarrow> None
      | Some sched \<Rightarrow>
          let algo = ks_algo sched; ds = ks_digest_size sched in
          case (if is_early then tls_exporter_early tls else tls_exporter_one_rtt tls) of
            None \<Rightarrow>
              Some (Inl (if is_early
                then if tls_state tls \<in> {PTLS_STATE_CLIENT_HANDSHAKE_START, PTLS_STATE_SERVER_EXPECT_CLIENT_HELLO}
                  then PTLS_ERROR_IN_PROGRESS else PTLS_ERROR_NOT_AVAILABLE
                else PTLS_ERROR_IN_PROGRESS))
          | Some master_secret \<Rightarrow>
              Some (res_bind (ptls_calc_hash algo context_value) (\<lambda>context_value_hash.
                    res_bind (ptls_hkdf_expand_label M algo ds (take ds master_secret) label
                                (take ds (hash_empty_digest algo)) None) (\<lambda>derived_secret.
                      ptls_hkdf_expand_label M algo outlen (take ds derived_secret) ''exporter''
                        (take ds context_value_hash) None))))"

end
