(* ===== verification/Authentication.thy ===== *)
theory Authentication
  imports Connection Negotiate
begin

text \<open>
  The authentication messages of \<^verbatim>\<open>lib/picotls.c\<close>: CertificateRequest, Certificate (also
  compressed), CertificateVerify, EndOfEarlyData and Finished, both the functions that emit them
  (\<open>ptls_build_certificate_message\<close>, \<open>send_certificate\<close>, \<open>send_certificate_verify\<close>,
  \<open>server_finish_handshake\<close>) and the handlers of both sides, which are whole actions on the connection:
  they check the message, update the transcript, install the keys and move the state.  Also the
  precompressed certificates of \<^verbatim>\<open>lib/certificate_compression.c\<close>; Brotli is a parameter.
\<close>

section \<open>Building the messages\<close>

abbreviation PTLS_SERVER_CERTIFICATE_VERIFY_CONTEXT_STRING :: string where
  "PTLS_SERVER_CERTIFICATE_VERIFY_CONTEXT_STRING \<equiv> ''TLS 1.3, server CertificateVerify''"

abbreviation PTLS_CLIENT_CERTIFICATE_VERIFY_CONTEXT_STRING :: string where
  "PTLS_CLIENT_CERTIFICATE_VERIFY_CONTEXT_STRING \<equiv> ''TLS 1.3, client CertificateVerify''"

definition push_ocsp_status :: "allocator \<Rightarrow> bytes \<Rightarrow> pusher" where
  "push_ocsp_status M ocsp_status =
     buffer_push_extension M PTLS_EXTENSION_TYPE_STATUS_REQUEST
       (push_then (ptls_buffer_push M 1)
         (ptls_buffer_push_block M 3 (ptls_buffer__do_pushv M ocsp_status)))"

fun push_certificates :: "allocator \<Rightarrow> bytes list \<Rightarrow> bytes \<Rightarrow> pusher" where
  "push_certificates M [] ocsp_status = push_nothing"
| "push_certificates M (cert # certs) ocsp_status =
     push_then (ptls_buffer_push_block M 3 (ptls_buffer__do_pushv M cert))
    (push_then (ptls_buffer_push_block M 2
        (if ocsp_status \<noteq> [] then push_ocsp_status M ocsp_status else push_nothing))
      (push_certificates M certs []))"

definition ptls_build_certificate_message :: "allocator \<Rightarrow> bytes \<Rightarrow> bytes list \<Rightarrow> bytes \<Rightarrow> pusher" where
  "ptls_build_certificate_message M context certificates ocsp_status =
     push_then (ptls_buffer_push_block M 1 (ptls_buffer__do_pushv M context))
       (ptls_buffer_push_block M 3 (push_certificates M certificates ocsp_status))"

definition default_emit_certificate_cb :: "allocator \<Rightarrow> bytes \<Rightarrow> unit tls_act" where
  "default_emit_certificate_cb M context =
     act_bind (act_get (\<lambda>tls. ctx_certificates (tls_ctx tls))) (\<lambda>certs.
       ptls_push_message M True PTLS_HANDSHAKE_TYPE_CERTIFICATE
         (ptls_build_certificate_message M context certs []))"

definition send_certificate ::
  "allocator \<Rightarrow> 16 word list \<Rightarrow> bytes \<Rightarrow> bool \<Rightarrow> 16 word list \<Rightarrow> unit tls_act" where
  "send_certificate M signature_algorithms context push_status_request compress_algos =
     act_seq (act_guard (\<lambda>_. signature_algorithms \<noteq> []) PTLS_ALERT_MISSING_EXTENSION)
     (act_bind (act_get (\<lambda>tls. ctx_emit_certificate (tls_ctx tls))) (\<lambda>emit.
        case emit of
          None \<Rightarrow> default_emit_certificate_cb M context
        | Some cb \<Rightarrow>
            case cb context push_status_request compress_algos of
              Inl ret \<Rightarrow> if ret = PTLS_ERROR_DELEGATE then default_emit_certificate_cb M context
                         else act_fail ret
            | Inr (type, body) \<Rightarrow> ptls_push_message M True type body))"

text \<open>The body of a CertificateVerify message: the algorithm is filled in once the signer has
  chosen it.\<close>

definition push_certificate_verify :: "allocator \<Rightarrow> (16 word \<times> pusher) res \<Rightarrow> pusher" where
  "push_certificate_verify M outcome b =
     (let algo_off = buf_off b in
      push_then (ptls_buffer_push16 M 0)
        (ptls_buffer_push_block M 2
          (case outcome of
             Inl ret \<Rightarrow> (\<lambda>b. (ret, b))
           | Inr (algo, signature) \<Rightarrow> push_then signature (\<lambda>b. (0, poke algo_off (enc16 algo) b)))) b)"

definition send_certificate_verify :: "allocator \<Rightarrow> 16 word list \<Rightarrow> string \<Rightarrow> unit tls_act" where
  "send_certificate_verify M signature_algorithms context_string =
     act_bind (act_get (\<lambda>tls. ctx_sign_certificate (tls_ctx tls))) (\<lambda>signer.
       case signer of
         None \<Rightarrow> act_return ()
       | Some sign \<Rightarrow>
           act_bind em_off (\<lambda>start_off.
           act_bind (act_deref tls_key_schedule) (\<lambda>sched tls.
             let outcome = sign (build_certificate_verify_signdata sched context_string) signature_algorithms;
                 is_async = (case outcome of Inl ret \<Rightarrow> ret = PTLS_ERROR_ASYNC_OPERATION | Inr _ \<Rightarrow> False) in
             case ptls_push_message M True PTLS_HANDSHAKE_TYPE_CERTIFICATE_VERIFY
                    (push_certificate_verify M outcome) (tls\<lparr>tls_async_job := is_async\<rparr>) of
               Some (Inl ret, tls') \<Rightarrow>
                 if ret = PTLS_ERROR_ASYNC_OPERATION
                 then if tls_is_server tls then act_seq (em_truncate start_off) (act_fail ret) tls' else None
                 else Some (Inl ret, tls')
             | r \<Rightarrow> r)))"

section \<open>Receiving certificates\<close>

definition update_hash :: "bytes \<Rightarrow> unit tls_act" where
  "update_hash message =
     act_bind (act_deref tls_key_schedule) (\<lambda>sched.
     act_put (\<lambda>tls. tls\<lparr>tls_key_schedule := Some (ptls__key_schedule_update_hash sched message False)\<rparr>))"

definition set_state :: "ptls_state \<Rightarrow> unit tls_act" where
  "set_state st = act_put (\<lambda>tls. tls\<lparr>tls_state := st\<rparr>)"

definition cr_extension ::
  "on_extension_cb \<Rightarrow> 16 word \<Rightarrow> 16 word list \<Rightarrow> bytes \<Rightarrow> (16 word list \<times> bytes) res" where
  "cr_extension cb exttype sa src =
     res_bind (call_on_extension cb PTLS_HANDSHAKE_TYPE_CERTIFICATE_REQUEST exttype src) (\<lambda>_.
       if exttype = PTLS_EXTENSION_TYPE_SIGNATURE_ALGORITHMS
       then res_bind (decode_signature_algorithms sa src) (\<lambda>sa. Inr (sa, []))
       else Inr (sa, []))"

definition decode_certificate_request :: "allocator \<Rightarrow> bytes \<Rightarrow> unit tls_act" where
  "decode_certificate_request M src =
     act_bind (act_res (\<lambda>_. ptls_decode_open_block 1 take_rest src)) (\<lambda>(context, src).
     act_seq (act_guard (\<lambda>_. c_malloc M (if length context \<noteq> 0 then length context else 1)) PTLS_ERROR_NO_MEMORY)
     (act_seq (act_put (\<lambda>tls. tls\<lparr>tls_cr_context := Some context\<rparr>))
     (act_bind (act_res (\<lambda>tls. decode_extensions PTLS_HANDSHAKE_TYPE_CERTIFICATE_REQUEST
                  (cr_extension (ctx_on_extension (tls_ctx tls))) (tls_cr_signature_algorithms tls) src)) (\<lambda>sa.
      act_seq (act_put (\<lambda>tls. tls\<lparr>tls_cr_signature_algorithms := sa\<rparr>))
        (act_guard (\<lambda>_. sa \<noteq> []) PTLS_ALERT_MISSING_EXTENSION)))))"

definition client_handle_certificate_request :: "allocator \<Rightarrow> bytes \<Rightarrow> unit tls_act" where
  "client_handle_certificate_request M message =
     act_seq (act_assert (\<lambda>tls. \<not> tls_is_psk_handshake tls))
     (act_seq (decode_certificate_request M (drop 4 message))
     (act_seq (act_guard (\<lambda>tls. tls_cr_context tls = Some []) PTLS_ALERT_ILLEGAL_PARAMETER)
     (act_seq (set_state PTLS_STATE_CLIENT_EXPECT_CERTIFICATE)
     (act_seq (update_hash message) (act_fail PTLS_ERROR_IN_PROGRESS)))))"

text \<open>One entry of the certificate list; only the first 16 certificates are kept.\<close>

definition decode_certificate_entry ::
  "on_extension_cb \<Rightarrow> bytes list \<Rightarrow> bytes \<Rightarrow> (bytes list \<times> bytes) res" where
  "decode_certificate_entry cb certs src =
     res_bind (ptls_decode_open_block 3 take_rest src) (\<lambda>(cert, src).
     res_bind (decode_open_extensions PTLS_HANDSHAKE_TYPE_CERTIFICATE
         (\<lambda>type s body. res_bind (call_on_extension cb PTLS_HANDSHAKE_TYPE_CERTIFICATE type body) (\<lambda>_. Inr (s, [])))
         () src) (\<lambda>(_, src).
       Inr (if length certs < 16 then certs @ [cert] else certs, src)))"

definition decode_certificate :: "on_extension_cb \<Rightarrow> bytes \<Rightarrow> bytes list res" where
  "decode_certificate cb src =
     res_bind (ptls_decode_open_block 1
         (\<lambda>src. if src \<noteq> [] then Inl PTLS_ALERT_ILLEGAL_PARAMETER else Inr ((), [])) src) (\<lambda>(_, src).
       ptls_decode_block 3 (decode_while (decode_certificate_entry cb) []) src)"

text \<open>The result is \<open>got_certs\<close>.\<close>

definition handle_certificate :: "bytes \<Rightarrow> bool tls_act" where
  "handle_certificate src =
     act_bind (act_res (\<lambda>tls. decode_certificate (ctx_on_extension (tls_ctx tls)) src)) (\<lambda>certs.
     act_bind (act_get id) (\<lambda>tls.
       case ctx_verify_certificate (tls_ctx tls) of
         None \<Rightarrow> act_return (certs \<noteq> [])
       | Some verify \<Rightarrow>
           let server_name = (if tls_is_server tls then None
                              else if ech_state (tls_ech tls) = PTLS_ECH_STATE_OFFERED
                              then ech_client_public_name (tls_ech tls) else tls_server_name tls) in
           act_bind (act_res (\<lambda>_. verify server_name certs)) (\<lambda>verify_sign.
           act_seq (act_put (\<lambda>tls. tls\<lparr>tls_certificate_verify := verify_sign\<rparr>)) (act_return (certs \<noteq> [])))))"

definition client_do_handle_certificate :: "bytes \<Rightarrow> unit tls_act" where
  "client_do_handle_certificate src =
     act_bind (handle_certificate src) (\<lambda>got_certs. act_guard (\<lambda>_. got_certs) PTLS_ALERT_ILLEGAL_PARAMETER)"

definition client_handle_certificate :: "bytes \<Rightarrow> unit tls_act" where
  "client_handle_certificate message =
     act_seq (client_do_handle_certificate (drop 4 message))
     (act_seq (update_hash message)
     (act_seq (set_state PTLS_STATE_CLIENT_EXPECT_CERTIFICATE_VERIFY) (act_fail PTLS_ERROR_IN_PROGRESS)))"

definition client_handle_compressed_certificate :: "allocator \<Rightarrow> bytes \<Rightarrow> unit tls_act" where
  "client_handle_compressed_certificate M message =
     act_bind (act_get (\<lambda>tls. ctx_decompress_certificate (tls_ctx tls))) (\<lambda>decompress.
       case decompress of
         None \<Rightarrow> act_fail PTLS_ALERT_UNEXPECTED_MESSAGE
       | Some (_, cb) \<Rightarrow>
           act_bind (act_res (\<lambda>_.
             res_bind (ptls_decode16 (drop 4 message)) (\<lambda>(algo, src).
             res_bind (ptls_decode24 src) (\<lambda>(uncompressed_size, src).
               if uncompressed_size > 65536 then Inl PTLS_ALERT_BAD_CERTIFICATE
               else if \<not> c_malloc M (unat uncompressed_size) then Inl PTLS_ERROR_NO_MEMORY
               else ptls_decode_block 3
                      (\<lambda>src. res_bind (cb algo (unat uncompressed_size) src) (\<lambda>out. Inr (out, []))) src)))) (\<lambda>uncompressed.
           act_seq (client_do_handle_certificate uncompressed)
           (act_seq (update_hash message)
           (act_seq (set_state PTLS_STATE_CLIENT_EXPECT_CERTIFICATE_VERIFY) (act_fail PTLS_ERROR_IN_PROGRESS)))))"

definition server_handle_certificate :: "bytes \<Rightarrow> unit tls_act" where
  "server_handle_certificate message =
     act_bind (handle_certificate (drop 4 message)) (\<lambda>got_certs.
     act_seq (update_hash message)
     (act_seq (set_state (if got_certs then PTLS_STATE_SERVER_EXPECT_CERTIFICATE_VERIFY
                          else PTLS_STATE_SERVER_EXPECT_FINISHED)) (act_fail PTLS_ERROR_IN_PROGRESS)))"

section \<open>CertificateVerify\<close>

definition decode_certificate_verify :: "bytes \<Rightarrow> (16 word \<times> bytes) res" where
  "decode_certificate_verify src =
     res_bind (ptls_decode16 src) (\<lambda>(algo, src).
     res_bind (ptls_decode_block 2 take_rest src) (\<lambda>signature. Inr (algo, signature)))"

definition handle_certificate_verify :: "bytes \<Rightarrow> string \<Rightarrow> unit tls_act" where
  "handle_certificate_verify message context_string =
     act_bind (act_res (\<lambda>_. decode_certificate_verify (drop 4 message))) (\<lambda>(algo, signature).
     act_bind (act_deref tls_key_schedule) (\<lambda>sched.
     act_bind (act_get tls_certificate_verify) (\<lambda>cb.
     act_seq (act_put (\<lambda>tls. tls\<lparr>tls_certificate_verify := None\<rparr>))
     (act_seq (act_code (\<lambda>_. case cb of
          None \<Rightarrow> 0
        | Some f \<Rightarrow> f algo (build_certificate_verify_signdata sched context_string) signature))
       (update_hash message)))))"

definition client_handle_certificate_verify :: "bytes \<Rightarrow> unit tls_act" where
  "client_handle_certificate_verify message =
     act_seq (handle_certificate_verify message PTLS_SERVER_CERTIFICATE_VERIFY_CONTEXT_STRING)
     (act_seq (set_state PTLS_STATE_CLIENT_EXPECT_FINISHED) (act_fail PTLS_ERROR_IN_PROGRESS))"

definition server_handle_certificate_verify :: "bytes \<Rightarrow> unit tls_act" where
  "server_handle_certificate_verify message =
     act_seq (handle_certificate_verify message PTLS_CLIENT_CERTIFICATE_VERIFY_CONTEXT_STRING)
     (act_seq (set_state PTLS_STATE_SERVER_EXPECT_FINISHED) (act_fail PTLS_ERROR_IN_PROGRESS))"

section \<open>Finished\<close>

definition extract_next_secret :: "allocator \<Rightarrow> bytes option \<Rightarrow> unit tls_act" where
  "extract_next_secret M ikm =
     act_bind (act_deref tls_key_schedule) (\<lambda>sched.
     act_bind (act_res (\<lambda>_. key_schedule_extract M sched ikm)) (\<lambda>sched'.
     act_put (\<lambda>tls. tls\<lparr>tls_key_schedule := Some sched'\<rparr>)))"

definition check_finished :: "allocator \<Rightarrow> bytes \<Rightarrow> unit tls_act" where
  "check_finished M message =
     act_bind (act_deref tls_key_schedule) (\<lambda>sched.
     act_code (\<lambda>tls. verify_finished M sched (tp_secret (tls_dec tls)) message))"

definition act_ignore :: "('s, unit) act \<Rightarrow> ('s, unit) act" where
  "act_ignore m s = (case m s of None \<Rightarrow> None | Some (_, s') \<Rightarrow> Some (Inr (), s'))"

text \<open>A client that sent early data ends it and switches to the handshake keys.\<close>

definition client_end_early_data :: "allocator \<Rightarrow> unit tls_act" where
  "client_end_early_data M =
     act_when (\<lambda>tls. tls_pending_handshake_secret tls \<noteq> None)
       (act_seq (act_assert (\<lambda>tls. tp_aead (tls_enc tls) \<noteq> None \<or> ctx_update_traffic_key (tls_ctx tls) \<noteq> None))
       (act_seq (act_when (\<lambda>tls. tls_using_early_data tls \<and> \<not> ctx_omit_end_of_early_data (tls_ctx tls))
          (ptls_push_message M True PTLS_HANDSHAKE_TYPE_END_OF_EARLY_DATA push_nothing))
       (act_seq (act_put (\<lambda>tls. tls\<lparr>tls_using_early_data := False\<rparr>))
          (commission_handshake_secret M))))"

text \<open>The certificate a server asked for.  The request is forgotten whether or not sending worked.\<close>

definition client_send_certificate :: "allocator \<Rightarrow> unit tls_act" where
  "client_send_certificate M =
     act_bind (act_deref tls_cr_context) (\<lambda>context.
     act_bind (act_get tls_cr_signature_algorithms) (\<lambda>sa tls.
       case act_seq (send_certificate M sa context False [])
              (send_certificate_verify M sa PTLS_CLIENT_CERTIFICATE_VERIFY_CONTEXT_STRING) tls of
         None \<Rightarrow> None
       | Some (r, tls') \<Rightarrow> Some (r, tls'\<lparr>tls_cr_context := None\<rparr>)))"

text \<open>What \<open>send_finished\<close> returns is overwritten by the return value of the next call.\<close>

definition client_handle_finished :: "allocator \<Rightarrow> bytes \<Rightarrow> unit tls_act" where
  "client_handle_finished M message =
     act_bind (act_get (\<lambda>tls. ech_state (tls_ech tls) = PTLS_ECH_STATE_OFFERED)) (\<lambda>alert_ech_required.
     act_seq (check_finished M message)
     (act_seq (update_hash message)
     (act_seq (extract_next_secret M None)
     (act_seq (setup_traffic_protection M False (Some ''s ap traffic'') 3 0 False)
     (act_bind (act_deref tls_key_schedule) (\<lambda>sched.
      act_bind (act_res (\<lambda>_. derive_secret M sched ''c ap traffic'')) (\<lambda>send_secret.
      act_seq (derive_exporter_secret M False)
     (act_seq (client_end_early_data M)
     (act_seq (push_change_cipher_spec M)
     (act_seq (act_when (\<lambda>tls. \<not> alert_ech_required \<and> tls_cr_context tls \<noteq> None) (client_send_certificate M))
     (act_seq (act_ignore (send_finished M))
     (act_seq (act_put (\<lambda>tls. tls\<lparr>tls_enc := (tls_enc tls)\<lparr>tp_secret := send_secret\<rparr>\<rparr>))
     (act_seq (setup_traffic_protection M True None 3 0 False)
     (act_seq (set_state PTLS_STATE_CLIENT_POST_HANDSHAKE)
       (act_guard (\<lambda>_. \<not> alert_ech_required) PTLS_ALERT_ECH_REQUIRED)))))))))))))))"

definition server_handle_end_of_early_data :: "allocator \<Rightarrow> bytes \<Rightarrow> unit tls_act" where
  "server_handle_end_of_early_data M message =
     act_seq (commission_handshake_secret M)
     (act_seq (update_hash message)
     (act_seq (set_state PTLS_STATE_SERVER_EXPECT_FINISHED) (act_fail PTLS_ERROR_IN_PROGRESS)))"

definition server_handle_finished :: "allocator \<Rightarrow> bytes \<Rightarrow> unit tls_act" where
  "server_handle_finished M message =
     act_seq (check_finished M message)
     (act_seq (act_put (\<lambda>tls. tls\<lparr>tls_dec := (tls_dec tls)\<lparr>tp_secret := tls_pending_traffic_secret tls\<rparr>,
                                     tls_pending_traffic_secret := replicate 64 0\<rparr>))
     (act_seq (setup_traffic_protection M False None 3 0 False)
     (act_seq (update_hash message)
       (set_state PTLS_STATE_SERVER_POST_HANDSHAKE))))"

section \<open>The end of the server's flight\<close>

fun send_tickets :: "allocator \<Rightarrow> nat \<Rightarrow> unit tls_act" where
  "send_tickets M 0 = act_return ()"
| "send_tickets M (Suc n) = act_seq (send_session_ticket M) (send_tickets M n)"

definition server_certificate_verify :: "allocator \<Rightarrow> 16 word list \<Rightarrow> unit tls_act" where
  "server_certificate_verify M signature_algorithms tls =
     (case send_certificate_verify M signature_algorithms PTLS_SERVER_CERTIFICATE_VERIFY_CONTEXT_STRING tls of
        Some (Inl ret, tls') \<Rightarrow>
          Some (Inl ret, if ret = PTLS_ERROR_ASYNC_OPERATION
            then tls'\<lparr>tls_state := PTLS_STATE_SERVER_GENERATING_CERTIFICATE_VERIFY\<rparr> else tls')
      | r \<Rightarrow> r)"

definition server_next_state :: "allocator \<Rightarrow> unit tls_act" where
  "server_next_state M =
     act_bind (act_get id) (\<lambda>tls.
       if tls_pending_handshake_secret tls \<noteq> None
       then if ctx_omit_end_of_early_data (tls_ctx tls)
         then act_seq (commission_handshake_secret M) (set_state PTLS_STATE_SERVER_EXPECT_FINISHED)
         else set_state PTLS_STATE_SERVER_EXPECT_END_OF_EARLY_DATA
       else if ctx_require_client_authentication (tls_ctx tls)
       then set_state PTLS_STATE_SERVER_EXPECT_CERTIFICATE
       else set_state PTLS_STATE_SERVER_EXPECT_FINISHED)"

definition server_finish_handshake :: "allocator \<Rightarrow> bool \<Rightarrow> 16 word list \<Rightarrow> unit tls_act" where
  "server_finish_handshake M send_cert_verify signature_algorithms =
     act_seq (act_when (\<lambda>_. send_cert_verify) (server_certificate_verify M signature_algorithms))
     (act_seq (send_finished M)
     (act_seq (act_assert (\<lambda>tls. map_option ks_generation (tls_key_schedule tls) = Some 2))
     (act_seq (extract_next_secret M None)
     (act_seq (setup_traffic_protection M True (Some ''s ap traffic'') 3 0 False)
     (act_bind (act_deref tls_key_schedule) (\<lambda>sched.
      act_bind (act_res (\<lambda>_. derive_secret M sched ''c ap traffic'')) (\<lambda>secret.
      act_seq (act_put (\<lambda>tls. tls\<lparr>tls_pending_traffic_secret :=
                 write_secret (ks_digest_size sched) secret (tls_pending_traffic_secret tls)\<rparr>))
     (act_seq (derive_exporter_secret M False)
     (act_seq (server_next_state M)
     (act_seq (act_when (\<lambda>tls. tls_num_tickets_to_send tls \<noteq> 0)
        (act_seq (act_assert (\<lambda>tls. ctx_ticket_lifetime (tls_ctx tls) \<noteq> 0))
          (act_bind (act_get (\<lambda>tls. unat (tls_num_tickets_to_send tls))) (send_tickets M))))
       (act_guard (\<lambda>tls. \<not> ctx_require_client_authentication (tls_ctx tls)) PTLS_ERROR_IN_PROGRESS)))))))))))"

section \<open>Compressed certificates\<close>

abbreviation PTLS_CERTIFICATE_COMPRESSION_ALGORITHM_BROTLI :: "16 word" where
  "PTLS_CERTIFICATE_COMPRESSION_ALGORITHM_BROTLI \<equiv> 2"

text \<open>\<open>brotli_decode capacity input\<close> is the decompressed output, \<open>None\<close> when \<open>BrotliDecoderDecompress\<close>
  fails.\<close>

definition decompress_certificate ::
  "(nat \<Rightarrow> bytes \<Rightarrow> bytes option) \<Rightarrow> 16 word \<Rightarrow> nat \<Rightarrow> bytes \<Rightarrow> bytes res" where
  "decompress_certificate brotli_decode algorithm outlen input =
     (if algorithm \<noteq> PTLS_CERTIFICATE_COMPRESSION_ALGORITHM_BROTLI then Inl PTLS_ALERT_BAD_CERTIFICATE
      else case brotli_decode outlen input of
          None \<Rightarrow> Inl PTLS_ALERT_BAD_CERTIFICATE
        | Some out \<Rightarrow> if length out \<noteq> outlen then Inl PTLS_ALERT_BAD_CERTIFICATE else Inr out)"

record compressed_certificate_entry =
  cce_uncompressed_length :: "32 word"
  cce_bytes :: bytes

definition empty_compressed_entry :: compressed_certificate_entry where
  "empty_compressed_entry = \<lparr>cce_uncompressed_length = 0, cce_bytes = []\<rparr>"

record emit_compressed_certificate =
  ecc_with_ocsp_status :: compressed_certificate_entry
  ecc_without_ocsp_status :: compressed_certificate_entry

text \<open>The callback: the type and body of the message, or the code.\<close>

definition emit_compressed_certificate_cb ::
  "allocator \<Rightarrow> emit_compressed_certificate \<Rightarrow> bytes \<Rightarrow> bool \<Rightarrow> 16 word list \<Rightarrow> (int \<times> pusher) res" where
  "emit_compressed_certificate_cb M self context push_status_request compress_algos =
     (if PTLS_CERTIFICATE_COMPRESSION_ALGORITHM_BROTLI \<notin> set compress_algos then Inl PTLS_ERROR_DELEGATE
      else let entry = (if push_status_request \<and> cce_uncompressed_length (ecc_with_ocsp_status self) \<noteq> 0
                        then ecc_with_ocsp_status self else ecc_without_ocsp_status self) in
        Inr (PTLS_HANDSHAKE_TYPE_COMPRESSED_CERTIFICATE,
          push_then (ptls_buffer_push16 M PTLS_CERTIFICATE_COMPRESSION_ALGORITHM_BROTLI)
         (push_then (ptls_buffer_push24 M (cce_uncompressed_length entry))
           (ptls_buffer_push_block M 3 (ptls_buffer__do_pushv M (cce_bytes entry))))))"

text \<open>The output must be shorter than the input by at least one octet.\<close>

definition build_compressed ::
  "allocator \<Rightarrow> (nat \<Rightarrow> bytes \<Rightarrow> bytes option) \<Rightarrow> bytes list \<Rightarrow> bytes \<Rightarrow> compressed_certificate_entry res" where
  "build_compressed M brotli_encode certificates ocsp_status =
     (case ptls_build_certificate_message M [] certificates ocsp_status (ptls_buffer_init 1 0 True) of (ret, b) \<Rightarrow>
        if ret \<noteq> 0 then Inl ret
        else if \<not> c_malloc M (buf_off b - 1) then Inl PTLS_ERROR_NO_MEMORY
        else case brotli_encode (buf_off b - 1) (buf_data b) of
            None \<Rightarrow> Inl PTLS_ERROR_COMPRESSION_FAILURE
          | Some out \<Rightarrow> Inr \<lparr>cce_uncompressed_length = of_nat (buf_off b), cce_bytes = out\<rparr>)"

definition ptls_init_compressed_certificate ::
  "allocator \<Rightarrow> (nat \<Rightarrow> bytes \<Rightarrow> bytes option) \<Rightarrow> bytes list \<Rightarrow> bytes \<Rightarrow> emit_compressed_certificate res" where
  "ptls_init_compressed_certificate M brotli_encode certificates ocsp_status =
     res_bind (build_compressed M brotli_encode certificates []) (\<lambda>without.
     res_bind (if ocsp_status \<noteq> [] then build_compressed M brotli_encode certificates ocsp_status
               else Inr empty_compressed_entry) (\<lambda>with_status.
       Inr \<lparr>ecc_with_ocsp_status = with_status, ecc_without_ocsp_status = without\<rparr>))"

end
