(* ===== verification/ClientHandshake.thy ===== *)
theory ClientHandshake
  imports Authentication
begin

text \<open>
  The client's part of the negotiation in \<^verbatim>\<open>lib/picotls.c\<close>: writing a ClientHello in its three
  forms (\<open>encode_client_hello\<close>), sending it with PSK binders and Encrypted ClientHello
  (\<open>send_client_hello\<close>), and handling ServerHello, HelloRetryRequest and EncryptedExtensions.
\<close>

section \<open>Writing a ClientHello\<close>

datatype encode_ch_mode = ENCODE_CH_MODE_INNER | ENCODE_CH_MODE_ENCODED_INNER | ENCODE_CH_MODE_OUTER

abbreviation PTLS_ECH_CLIENT_HELLO_TYPE_OUTER :: byte where "PTLS_ECH_CLIENT_HELLO_TYPE_OUTER \<equiv> 0"
abbreviation PTLS_ECH_CLIENT_HELLO_TYPE_INNER :: byte where "PTLS_ECH_CLIENT_HELLO_TYPE_INNER \<equiv> 1"
abbreviation PTLS_CERTIFICATE_TYPE_X509 :: byte where "PTLS_CERTIFICATE_TYPE_X509 \<equiv> 0"
abbreviation PTLS_CERTIFICATE_TYPE_RAW_PUBLIC_KEY :: byte where "PTLS_CERTIFICATE_TYPE_RAW_PUBLIC_KEY \<equiv> 2"
abbreviation PTLS_PSK_KE_MODE_PSK :: byte where "PTLS_PSK_KE_MODE_PSK \<equiv> 0"
abbreviation PTLS_PSK_KE_MODE_PSK_DHE :: byte where "PTLS_PSK_KE_MODE_PSK_DHE \<equiv> 1"

text \<open>The arguments of \<open>encode_client_hello\<close>.  \<open>cha_key_share\<close> is the group and the public key of
  \<open>key_share_ctx\<close>, \<open>cha_ech_cipher\<close> the identifiers of \<open>ech->cipher\<close>, \<open>cha_ech_size\<close> the size of the payload
  (the value of \<open>*ech_size_offset\<close> on entry).  The last three are the octets that \<open>random_bytes\<close>
  gives while the extension \<open>pre_shared_key\<close> is written.\<close>

record encode_ch_args =
  cha_mode :: encode_ch_mode
  cha_is_second_flight :: bool
  cha_client_random :: bytes
  cha_key_share :: "(16 word \<times> bytes) option"
  cha_sni_name :: "bytes option"
  cha_legacy_session_id :: bytes
  cha_ech :: st_ptls_ech
  cha_ech_cipher :: "16 word \<times> 16 word"
  cha_ech_size :: nat
  cha_ech_replay :: bytes
  cha_has_psk :: bool
  cha_psk_identity :: bytes
  cha_obfuscated_ticket_age :: "32 word"
  cha_cookie :: "bytes option"
  cha_using_early_data :: bool
  cha_random_identity :: bytes
  cha_random_age :: "32 word"
  cha_random_binder :: bytes

definition push_ext_when :: "allocator \<Rightarrow> bool \<Rightarrow> 16 word \<Rightarrow> pusher \<Rightarrow> pusher" where
  "push_ext_when M c type block = (if c then buffer_push_extension M type block else push_nothing)"

definition ch_ech_extension :: "allocator \<Rightarrow> encode_ch_args \<Rightarrow> pusher" where
  "ch_ech_extension M a =
     (let ech = cha_ech a in
      if cha_mode a = ENCODE_CH_MODE_OUTER
      then buffer_push_extension M PTLS_EXTENSION_TYPE_ENCRYPTED_CLIENT_HELLO
        (push_then (ptls_buffer_push M PTLS_ECH_CLIENT_HELLO_TYPE_OUTER)
        (push_then (ptls_buffer_push16 M (fst (cha_ech_cipher a)))
        (push_then (ptls_buffer_push16 M (snd (cha_ech_cipher a)))
        (push_then (ptls_buffer_push M (ech_config_id ech))
        (push_then (ptls_buffer_push_block M 2
           (if cha_is_second_flight a then push_nothing else ptls_buffer__do_pushv M (ech_client_enc ech)))
          (ptls_buffer_push_block M 2
            (reserve_and_write M (cha_ech_size a) 0 (replicate (cha_ech_size a) 0))))))))
      else if ech_aead ech \<noteq> None
      then buffer_push_extension M PTLS_EXTENSION_TYPE_ENCRYPTED_CLIENT_HELLO
             (ptls_buffer_push M PTLS_ECH_CLIENT_HELLO_TYPE_INNER)
      else push_ext_when M (cha_ech_replay a \<noteq> []) PTLS_EXTENSION_TYPE_ENCRYPTED_CLIENT_HELLO
             (ptls_buffer__do_pushv M (cha_ech_replay a)))"

definition ch_key_share_extension :: "allocator \<Rightarrow> encode_ch_args \<Rightarrow> pusher" where
  "ch_key_share_extension M a =
     (if cha_mode a = ENCODE_CH_MODE_ENCODED_INNER
      then buffer_push_extension M PTLS_EXTENSION_TYPE_ECH_OUTER_EXTENSIONS
             (ptls_buffer_push_block M 1 (ptls_buffer_push16 M PTLS_EXTENSION_TYPE_KEY_SHARE))
      else buffer_push_extension M PTLS_EXTENSION_TYPE_KEY_SHARE
             (ptls_buffer_push_block M 2
               (case cha_key_share a of
                  None \<Rightarrow> push_nothing
                | Some (g, pubkey) \<Rightarrow> push_key_share_entry M g pubkey)))"

definition ch_psk_extensions :: "allocator \<Rightarrow> ptls_context \<Rightarrow> encode_ch_args \<Rightarrow> pusher" where
  "ch_psk_extensions M ctx a =
     (let hide = (cha_mode a = ENCODE_CH_MODE_OUTER \<and> ech_state (cha_ech a) \<noteq> PTLS_ECH_STATE_GREASE);
          identity = (if hide
            then reserve_and_write M (length (cha_psk_identity a)) 0 (cha_random_identity a)
            else ptls_buffer__do_pushv M (cha_psk_identity a)) in
      push_then (push_ext_when M (ctx_save_ticket ctx \<noteq> None \<or> cha_has_psk a)
        PTLS_EXTENSION_TYPE_PSK_KEY_EXCHANGE_MODES
        (ptls_buffer_push_block M 1
          (push_then (if ctx_require_dhe_on_psk ctx then push_nothing else ptls_buffer_push M PTLS_PSK_KE_MODE_PSK)
            (ptls_buffer_push M PTLS_PSK_KE_MODE_PSK_DHE))))
     (push_then (push_ext_when M (cha_has_psk a \<and> cha_using_early_data a \<and> \<not> cha_is_second_flight a)
        PTLS_EXTENSION_TYPE_EARLY_DATA push_nothing)
       (push_ext_when M (cha_has_psk a) PTLS_EXTENSION_TYPE_PRE_SHARED_KEY
         (push_then (ptls_buffer_push_block M 2
            (push_then (ptls_buffer_push_block M 2 identity)
              (ptls_buffer_push32 M (if hide then cha_random_age a else cha_obfuscated_ticket_age a))))
           (ptls_buffer_push_block M 2 (ptls_buffer_push_block M 1
              (reserve_and_write M (length (cha_random_binder a)) 0 (cha_random_binder a))))))))"

definition ch_protocols :: "ptls_handshake_properties option \<Rightarrow> bytes list" where
  "ch_protocols properties = (case properties of None \<Rightarrow> [] | Some p \<Rightarrow> prop_negotiated_protocols p)"

definition ch_extra_extensions :: "ptls_handshake_properties option \<Rightarrow> (16 word \<times> bytes) list" where
  "ch_extra_extensions properties =
     (case properties of
        None \<Rightarrow> []
      | Some p \<Rightarrow> case prop_additional_extensions p of None \<Rightarrow> [] | Some exts \<Rightarrow> exts)"

definition ch_extensions ::
  "allocator \<Rightarrow> ptls_context \<Rightarrow> ptls_handshake_properties option \<Rightarrow> encode_ch_args \<Rightarrow> pusher" where
  "ch_extensions M ctx properties a =
     push_then (ch_ech_extension M a)
    (push_then (ch_key_share_extension M a)
    (push_then (case cha_sni_name a of
        None \<Rightarrow> push_nothing
      | Some name \<Rightarrow> buffer_push_extension M PTLS_EXTENSION_TYPE_SERVER_NAME
                       (emit_server_name_extension M (str_of name)))
    (push_then (push_ext_when M (ch_protocols properties \<noteq> []) PTLS_EXTENSION_TYPE_ALPN
        (ptls_buffer_push_block M 2
          (push_list (\<lambda>p. ptls_buffer_push_block M 1 (ptls_buffer__do_pushv M p)) (ch_protocols properties))))
    (push_then (case ctx_decompress_certificate ctx of
        None \<Rightarrow> push_nothing
      | Some (algos, _) \<Rightarrow> buffer_push_extension M PTLS_EXTENSION_TYPE_COMPRESS_CERTIFICATE
                            (ptls_buffer_push_block M 1 (push_list (ptls_buffer_push16 M) algos)))
    (push_then (buffer_push_extension M PTLS_EXTENSION_TYPE_SUPPORTED_VERSIONS
        (ptls_buffer_push_block M 1 (push_list (ptls_buffer_push16 M) supported_versions)))
    (push_then (buffer_push_extension M PTLS_EXTENSION_TYPE_SIGNATURE_ALGORITHMS
        (push_signature_algorithms M (ctx_verify_algos ctx)))
    (push_then (case ctx_key_exchanges ctx of
        None \<Rightarrow> push_nothing
      | Some kxs \<Rightarrow> buffer_push_extension M PTLS_EXTENSION_TYPE_SUPPORTED_GROUPS
                      (ptls_buffer_push_block M 2 (push_list (\<lambda>kx. ptls_buffer_push16 M (kx_id kx)) kxs)))
    (push_then (case cha_cookie a of
        None \<Rightarrow> push_nothing
      | Some cookie \<Rightarrow> buffer_push_extension M PTLS_EXTENSION_TYPE_COOKIE
                         (ptls_buffer_push_block M 2 (ptls_buffer__do_pushv M cookie)))
    (push_then (push_ext_when M (ctx_use_raw_public_keys ctx) PTLS_EXTENSION_TYPE_SERVER_CERTIFICATE_TYPE
        (ptls_buffer_push_block M 1 (ptls_buffer_push M PTLS_CERTIFICATE_TYPE_RAW_PUBLIC_KEY)))
    (push_then (push_ext_when M
        (ctx_save_ticket ctx \<noteq> None \<and> ctx_ticket_requests_client ctx \<noteq> (0, 0))
        PTLS_EXTENSION_TYPE_TICKET_REQUEST
        (ptls_buffer__do_pushv M [fst (ctx_ticket_requests_client ctx), snd (ctx_ticket_requests_client ctx)]))
    (push_then (push_additional_extensions M (ch_extra_extensions properties))
      (ch_psk_extensions M ctx a))))))))))))"

definition encode_client_hello ::
  "allocator \<Rightarrow> ptls_context \<Rightarrow> ptls_handshake_properties option \<Rightarrow> ptls_cipher_suite list \<Rightarrow> encode_ch_args
     \<Rightarrow> pusher" where
  "encode_client_hello M ctx properties cipher_suites a =
     push_then (ptls_buffer_push M (word_of_int PTLS_HANDSHAKE_TYPE_CLIENT_HELLO))
       (ptls_buffer_push_block M 3
         (push_then (ptls_buffer_push16 M 0x0303)
         (push_then (ptls_buffer__do_pushv M (cha_client_random a))
         (push_then (ptls_buffer_push_block M 1
            (if cha_mode a = ENCODE_CH_MODE_ENCODED_INNER then push_nothing
             else ptls_buffer__do_pushv M (cha_legacy_session_id a)))
         (push_then (ptls_buffer_push_block M 2 (push_list (\<lambda>cs. ptls_buffer_push16 M (cs_id cs)) cipher_suites))
         (push_then (ptls_buffer_push_block M 1 (ptls_buffer_push M 0))
           (ptls_buffer_push_block M 2 (ch_extensions M ctx properties a))))))))"

definition outer_ech_header_size :: "nat \<Rightarrow> nat" where
  "outer_ech_header_size enc_size = 10 + enc_size"

text \<open>The value of \<open>*ech_size_offset\<close> on return: where the payload of the outer extension starts.  It is
  the first extension, so what precedes it is the fixed part of the message.\<close>

definition ech_payload_offset :: "nat \<Rightarrow> nat \<Rightarrow> nat \<Rightarrow> nat \<Rightarrow> nat" where
  "ech_payload_offset mess_start session_id_len num_suites enc_size =
     mess_start + 4 + 2 + 32 + (1 + session_id_len) + (2 + 2 * num_suites) + 2 + 2 + 4
       + outer_ech_header_size enc_size"

text \<open>The transcript and the binder of a ClientHello \<open>ch\<close>; the binder is the end of the message.\<close>

definition update_ch_hash_and_binder ::
  "allocator \<Rightarrow> ptls_key_schedule \<Rightarrow> bytes \<Rightarrow> bool \<Rightarrow> bytes \<Rightarrow> bool \<Rightarrow> (ptls_key_schedule \<times> bytes) res" where
  "update_ch_hash_and_binder M ks ch has_psk binder_key is_outer =
     (if has_psk
      then let psk_binder_off = length ch - (3 + ks_digest_size ks);
               ks1 = ptls__key_schedule_update_hash ks (take psk_binder_off ch) is_outer in
        res_bind (calc_verify_data M ks1 binder_key) (\<lambda>binder.
          let tail = take 3 (drop psk_binder_off ch) @ binder in
          Inr (ptls__key_schedule_update_hash ks1 tail is_outer, take psk_binder_off ch @ tail))
      else Inr (ptls__key_schedule_update_hash ks ch is_outer, ch))"

section \<open>Sending a ClientHello\<close>

text \<open>The pre-shared key that is offered: its secret, its identity and the label of the binder key.\<close>

record ch_psk =
  psk_secret :: "bytes option"
  psk_identity :: bytes
  psk_label :: string
  psk_obfuscated_age :: "32 word"

definition no_psk :: ch_psk where
  "no_psk = \<lparr>psk_secret = None, psk_identity = [], psk_label = [], psk_obfuscated_age = 0\<rparr>"

definition set_ech :: "st_ptls_ech \<Rightarrow> unit tls_act" where
  "set_ech ech = act_put (\<lambda>tls. tls\<lparr>tls_ech := ech\<rparr>)"

definition set_early_data_size :: "nat \<Rightarrow> unit tls_act" where
  "set_early_data_size n = act_put (\<lambda>tls. tls\<lparr>tls_properties :=
     map_option (\<lambda>p. p\<lparr>prop_max_early_data_size := map_option (\<lambda>_. n) (prop_max_early_data_size p)\<rparr>)
       (tls_properties tls)\<rparr>)"

definition wants_early_data :: "ptls \<Rightarrow> bool" where
  "wants_early_data tls = (case tls_properties tls of
     None \<Rightarrow> False | Some p \<Rightarrow> prop_max_early_data_size p \<noteq> None)"

definition client_try_ech ::
  "allocator \<Rightarrow> (address_family \<Rightarrow> bytes \<Rightarrow> bool) \<Rightarrow> bytes \<Rightarrow> ptls_hpke_cipher_suite list \<Rightarrow> bytes \<Rightarrow> unit tls_act" where
  "client_try_ech M inet_pton sni_name ciphers configs =
     act_bind (act_get (\<lambda>tls. ctx_ech_kems (tls_ctx tls))) (\<lambda>kems.
       if configs \<noteq> []
       then let decoded = snd (client_decode_ech_config_list M inet_pton kems ciphers configs) in
         case (dec_kem decoded, dec_cipher decoded) of
           (Some kem, Some cipher) \<Rightarrow>
             act_bind (tls_random_bytes 32) (\<lambda>seed.
             act_bind (tls_random_bytes 32) (\<lambda>random.
             act_bind (act_get (\<lambda>tls. client_setup_ech M (tls_ech tls) decoded kem cipher seed random)) (\<lambda>(ret, ech).
               act_seq (set_ech ech) (act_code (\<lambda>_. ret)))))
         | _ \<Rightarrow> act_return ()
       else
         act_bind (tls_random_bytes 32) (\<lambda>random_secret.
         act_bind (tls_random_bytes 32) (\<lambda>random_enc.
         act_bind (tls_random_bytes 1) (\<lambda>random_id.
         act_put (\<lambda>tls. tls\<lparr>tls_ech :=
           (client_setup_ech_grease M (tls_ech tls) random_secret random_enc (random_id ! 0) kems ciphers sni_name)
             \<lparr>ech_state := PTLS_ECH_STATE_GREASE\<rparr>\<rparr>)))))"

definition client_setup_ech_if_asked ::
  "allocator \<Rightarrow> (address_family \<Rightarrow> bytes \<Rightarrow> bool) \<Rightarrow> bool \<Rightarrow> bytes option \<Rightarrow> unit tls_act" where
  "client_setup_ech_if_asked M inet_pton is_second_flight sni_name =
     act_bind (act_get id) (\<lambda>tls.
       case (tls_properties tls, sni_name, ctx_ech_ciphers (tls_ctx tls)) of
         (Some p, Some name, Some ciphers) \<Rightarrow>
           if is_second_flight then act_return ()
           else (case prop_ech_configs p of
               None \<Rightarrow> act_return ()
             | Some configs \<Rightarrow> client_try_ech M inet_pton name ciphers configs)
       | _ \<Rightarrow> act_return ())"

text \<open>A key of the context.  On the second flight the suite the server chose is asserted to go with it.\<close>

definition suite_has_hash :: "ptls_hash_algorithm option \<Rightarrow> ptls_cipher_suite \<Rightarrow> bool" where
  "suite_has_hash h cs = (case h of None \<Rightarrow> False | Some algo \<Rightarrow> same_hash (cs_hash cs) algo)"

definition client_external_psk :: "bool \<Rightarrow> bytes \<Rightarrow> ch_psk tls_act" where
  "client_external_psk is_second_flight identity =
     act_bind (act_get tls_ctx) (\<lambda>ctx.
     act_seq
       (if \<not> is_second_flight
        then act_seq (act_put (\<lambda>tls. tls\<lparr>tls_offered_psk := True\<rparr>))
          (act_bind (act_deref (\<lambda>tls. ctx_cipher_suites (tls_ctx tls))) (\<lambda>suites.
           act_seq (act_put (\<lambda>tls. case find (suite_has_hash (ctx_psk_hash ctx)) suites of
               None \<Rightarrow> tls | Some cs \<Rightarrow> tls\<lparr>tls_cipher_suite := Some cs\<rparr>))
          (act_seq (act_assert (\<lambda>tls. tls_cipher_suite tls \<noteq> None))
            (act_when wants_early_data
              (act_seq (act_put (\<lambda>tls. tls\<lparr>tls_using_early_data := True\<rparr>)) (set_early_data_size SIZE_MAX))))))
        else act_assert (\<lambda>tls. case tls_cipher_suite tls of
               None \<Rightarrow> False | Some cs \<Rightarrow> suite_has_hash (ctx_psk_hash ctx) cs))
       (act_return \<lparr>psk_secret = ctx_psk_secret ctx, psk_identity = identity, psk_label = ''ext binder'',
                    psk_obfuscated_age = 0\<rparr>))"

text \<open>A stored session ticket.  A ticket that cannot be decoded is ignored.\<close>

definition client_resumption_psk :: "bool \<Rightarrow> bytes \<Rightarrow> ptls_key_exchange_algorithm list \<Rightarrow> ch_psk tls_act" where
  "client_resumption_psk is_second_flight ticket kxs =
     act_bind (act_deref (\<lambda>tls. ctx_cipher_suites (tls_ctx tls))) (\<lambda>suites.
     act_bind (act_get id) (\<lambda>tls.
       case decode_stored_session_ticket (ctx_on_extension (tls_ctx tls)) kxs suites (ctx_get_time (tls_ctx tls)) ticket of
         Inl _ \<Rightarrow> act_return no_psk
       | Inr st \<Rightarrow>
           act_seq (act_put (\<lambda>tls. tls\<lparr>tls_offered_psk := True,
               tls_key_share := (case tls_key_share tls of None \<Rightarrow> Some (sst_key_share st) | ks \<Rightarrow> ks),
               tls_cipher_suite := Some (sst_cs st)\<rparr>))
           (act_seq (act_when (\<lambda>tls. \<not> is_second_flight \<and> sst_max_early_data_size st \<noteq> 0 \<and> wants_early_data tls)
             (act_seq (act_put (\<lambda>tls. tls\<lparr>tls_using_early_data := True\<rparr>))
               (set_early_data_size (unat (sst_max_early_data_size st)))))
           (act_return \<lparr>psk_secret = Some (sst_secret st), psk_identity = sst_ticket st, psk_label = ''res binder'',
                        psk_obfuscated_age = sst_obfuscated_ticket_age st\<rparr>))))"

definition client_choose_psk :: "bool \<Rightarrow> ch_psk tls_act" where
  "client_choose_psk is_second_flight =
     act_bind (act_get id) (\<lambda>tls.
     act_bind (case ctx_psk_identity (tls_ctx tls) of
         None \<Rightarrow> act_return no_psk
       | Some identity \<Rightarrow> client_external_psk is_second_flight identity) (\<lambda>psk.
       case (psk_secret psk, Option.bind (tls_properties tls) prop_session_ticket, ctx_key_exchanges (tls_ctx tls)) of
         (None, Some ticket, Some kxs) \<Rightarrow> client_resumption_psk is_second_flight ticket kxs
       | _ \<Rightarrow> act_return psk))"

definition client_report_early_data :: "unit tls_act" where
  "client_report_early_data =
     act_bind (act_get tls_using_early_data) (\<lambda>early.
     act_seq (if early then act_return () else set_early_data_size 0)
       (act_put (\<lambda>tls. tls\<lparr>tls_properties := map_option (\<lambda>p. p\<lparr>prop_early_data_acceptance :=
          (if early then PTLS_EARLY_DATA_ACCEPTANCE_UNKNOWN else PTLS_EARLY_DATA_REJECTED)\<rparr>) (tls_properties tls)\<rparr>)))"

text \<open>\<open>create\<close> of a key exchange draws its own random octets.\<close>

definition client_create_key_share :: "unit tls_act" where
  "client_create_key_share =
     act_seq (act_put (\<lambda>tls.
        if tls_key_share tls = None \<and> \<not> (case tls_properties tls of None \<Rightarrow> False
              | Some p \<Rightarrow> prop_negotiate_before_key_exchange p)
        then case ctx_key_exchanges (tls_ctx tls) of Some (kx # _) \<Rightarrow> tls\<lparr>tls_key_share := Some kx\<rparr> | _ \<Rightarrow> tls
        else tls))
     (act_seq (act_assert (\<lambda>tls. tls_key_share_ctx tls = None))
     (act_bind (act_get tls_key_share) (\<lambda>key_share.
        case key_share of
          None \<Rightarrow> act_return ()
        | Some kx \<Rightarrow>
            act_bind (tls_random_bytes 32) (\<lambda>seed.
            act_bind (act_res (\<lambda>_. kx_create kx seed)) (\<lambda>(pub, priv).
            act_put (\<lambda>tls. tls\<lparr>tls_key_share_ctx := Some (kx, pub, priv)\<rparr>))))))"

definition client_new_key_schedule :: "allocator \<Rightarrow> ch_psk \<Rightarrow> unit tls_act" where
  "client_new_key_schedule M psk =
     act_bind (act_get (\<lambda>tls. key_schedule_new M (tls_cipher_suite tls) (ctx_cipher_suites (tls_ctx tls))
                                (ech_aead (tls_ech tls) \<noteq> None))) (\<lambda>sched.
       case sched of
         None \<Rightarrow> act_fail PTLS_ERROR_NO_MEMORY
       | Some ks \<Rightarrow>
           act_seq (act_put (\<lambda>tls. tls\<lparr>tls_key_schedule := Some ks\<rparr>)) (extract_next_secret M (psk_secret psk)))"

definition ch_arguments ::
  "encode_ch_mode \<Rightarrow> bool \<Rightarrow> bytes option \<Rightarrow> ch_psk \<Rightarrow> bytes option option \<Rightarrow> nat \<Rightarrow> bytes \<Rightarrow> 32 word \<Rightarrow> bytes \<Rightarrow> ptls
     \<Rightarrow> encode_ch_args" where
  "ch_arguments mode is_second_flight sni_name psk cookie ech_size random_identity random_age random_binder tls =
     \<lparr>cha_mode = mode, cha_is_second_flight = is_second_flight,
      cha_client_random = (if mode \<noteq> ENCODE_CH_MODE_OUTER \<and> ech_aead (tls_ech tls) \<noteq> None
        then ech_inner_client_random (tls_ech tls) else tls_client_random tls),
      cha_key_share = map_option (\<lambda>(kx, pub, priv). (kx_id kx, pub)) (tls_key_share_ctx tls),
      cha_sni_name = (if mode = ENCODE_CH_MODE_OUTER then ech_client_public_name (tls_ech tls) else sni_name),
      cha_legacy_session_id = tls_legacy_session_id tls, cha_ech = tls_ech tls,
      cha_ech_cipher = (case ech_cipher (tls_ech tls) of None \<Rightarrow> (0, 0) | Some c \<Rightarrow> (hcs_kdf c, hcs_aead_id c)),
      cha_ech_size = ech_size,
      cha_ech_replay = (if mode = ENCODE_CH_MODE_INNER then ech_client_first_ech (tls_ech tls) else []),
      cha_has_psk = (psk_secret psk \<noteq> None), cha_psk_identity = psk_identity psk,
      cha_obfuscated_ticket_age = psk_obfuscated_age psk, cha_cookie = Option.bind cookie id,
      cha_using_early_data = tls_using_early_data tls, cha_random_identity = random_identity,
      cha_random_age = random_age, cha_random_binder = random_binder\<rparr>"

text \<open>The pusher for one form of the message.  \<open>random_bytes\<close> is called for what the form hides and for
  the placeholder of the binder; a form for which \<open>ech->cipher\<close> is used needs it to be set.\<close>

definition client_hello_pusher ::
  "allocator \<Rightarrow> encode_ch_mode \<Rightarrow> bool \<Rightarrow> bytes option \<Rightarrow> ch_psk \<Rightarrow> bytes option option \<Rightarrow> nat \<Rightarrow> pusher tls_act" where
  "client_hello_pusher M mode is_second_flight sni_name psk cookie ech_size =
     act_bind (act_deref tls_key_schedule) (\<lambda>sched.
     act_bind (act_deref (\<lambda>tls. ctx_cipher_suites (tls_ctx tls))) (\<lambda>suites.
     act_seq (act_assert (\<lambda>tls. case ctx_decompress_certificate (tls_ctx tls) of
                None \<Rightarrow> True | Some (algos, _) \<Rightarrow> algos \<noteq> []))
     (act_seq (act_assert (\<lambda>tls. mode = ENCODE_CH_MODE_OUTER \<longrightarrow> ech_cipher (tls_ech tls) \<noteq> None))
     (act_bind (act_get (\<lambda>tls. mode = ENCODE_CH_MODE_OUTER \<and> ech_state (tls_ech tls) \<noteq> PTLS_ECH_STATE_GREASE
                                 \<and> psk_secret psk \<noteq> None)) (\<lambda>hide.
      act_bind (if hide then tls_random_bytes (length (psk_identity psk)) else act_return []) (\<lambda>random_identity.
      act_bind (if hide then tls_random_bytes 4 else act_return [0, 0, 0, 0]) (\<lambda>random_age.
      act_bind (if psk_secret psk \<noteq> None then tls_random_bytes (ks_digest_size sched) else act_return [])
        (\<lambda>random_binder.
      act_get (\<lambda>tls. encode_client_hello M (tls_ctx tls) (tls_properties tls) suites
        (ch_arguments mode is_second_flight sni_name psk cookie ech_size random_identity (ntoh32 (rev random_age))
           random_binder tls))))))))))"

text \<open>The octets of the message that the emitter has got since \<open>mess_start\<close>, and their replacement by a
  message of the same size that is filled in.\<close>

definition em_message :: "nat \<Rightarrow> bytes tls_act" where
  "em_message mess_start = act_bind (act_deref tls_emitter) (\<lambda>em. act_return (drop mess_start (buf_data (em_buf em))))"

definition em_fill :: "nat \<Rightarrow> bytes \<Rightarrow> unit tls_act" where
  "em_fill off bs = em_push (\<lambda>b. (0, poke off bs b))"

text \<open>Transcript and binder of the message at \<open>mess_start\<close>.\<close>

definition client_hash_and_binder :: "allocator \<Rightarrow> nat \<Rightarrow> bool \<Rightarrow> bytes \<Rightarrow> unit tls_act" where
  "client_hash_and_binder M mess_start has_psk binder_key =
     act_bind (act_deref tls_key_schedule) (\<lambda>sched.
     act_bind (em_message mess_start) (\<lambda>ch.
     act_bind (act_res (\<lambda>_. update_ch_hash_and_binder M sched ch has_psk binder_key False)) (\<lambda>(sched', ch').
     act_seq (act_put (\<lambda>tls. tls\<lparr>tls_key_schedule := Some sched'\<rparr>)) (em_fill mess_start ch'))))"

text \<open>The encoded inner message with the binder of the real one, padded (section 6.1.3 of the ECH draft).\<close>

definition ech_padding_len :: "bytes option \<Rightarrow> nat \<Rightarrow> nat \<Rightarrow> nat" where
  "ech_padding_len sni_name max_name_length encoded_len =
     (let padding_len = (case sni_name of
            Some name \<Rightarrow> if length name < max_name_length then max_name_length else length name
          | None \<Rightarrow> max_name_length + 9);
          final_len = (encoded_len + padding_len + 31) div 32 * 32 in
      final_len - encoded_len)"

definition client_encoded_inner ::
  "allocator \<Rightarrow> nat \<Rightarrow> bool \<Rightarrow> bytes option \<Rightarrow> ch_psk \<Rightarrow> bytes option option \<Rightarrow> bytes tls_act" where
  "client_encoded_inner M mess_start is_second_flight sni_name psk cookie =
     act_bind (act_deref tls_key_schedule) (\<lambda>sched.
     act_bind (client_hello_pusher M ENCODE_CH_MODE_ENCODED_INNER is_second_flight sni_name psk cookie 0) (\<lambda>push.
     act_bind (em_message mess_start) (\<lambda>ch_inner tls.
       let n = ks_digest_size sched in
       case push (ptls_buffer_init 1 0 True) of (ret, b) \<Rightarrow>
         if ret \<noteq> 0 then Some (Inl ret, tls)
         else
           let b1 = (if psk_secret psk \<noteq> None
                     then poke (buf_off b - n) (drop (length ch_inner - n) ch_inner) b else b);
               padding_len = ech_padding_len sni_name (unat (ech_client_max_name_length (tls_ech tls))) (buf_off b1 - 4) in
           case (if padding_len \<noteq> 0 then reserve_and_write M padding_len 0 (replicate padding_len 0) b1 else (0, b1)) of
             (ret, b2) \<Rightarrow> Some (if ret \<noteq> 0 then Inl ret else Inr (drop 4 (buf_data b2)), tls))))"

text \<open>The outer message: it is written with a payload of zeros, which is the associated data under
  which the inner message is encrypted into the place of the payload.\<close>

definition client_outer_hello ::
  "allocator \<Rightarrow> nat \<Rightarrow> bool \<Rightarrow> bytes option \<Rightarrow> ch_psk \<Rightarrow> bytes option option \<Rightarrow> bytes \<Rightarrow> ptls_aead_context \<Rightarrow> unit tls_act" where
  "client_outer_hello M mess_start is_second_flight sni_name psk cookie inner aead =
     (let ech_payload_size = length inner + aead_tag_size (actx_algo aead) in
      act_seq (em_truncate mess_start)
     (act_bind (client_hello_pusher M ENCODE_CH_MODE_OUTER is_second_flight sni_name psk cookie ech_payload_size) (\<lambda>push.
      act_seq (em_push push)
     (act_bind (em_message mess_start) (\<lambda>ch.
      act_bind (act_deref (\<lambda>tls. ctx_cipher_suites (tls_ctx tls))) (\<lambda>suites.
      act_bind (act_get (\<lambda>tls. length (ech_client_enc (tls_ech tls)))) (\<lambda>enc_len.
      act_bind (act_get (\<lambda>tls. ech_payload_offset mess_start (length (tls_legacy_session_id tls)) (length suites)
                                 (if is_second_flight then 0 else enc_len))) (\<lambda>ech_off.
      act_seq (em_fill ech_off
        (ptls_aead_encrypt aead inner (if is_second_flight then 1 else 0) (drop 4 ch)))
     (act_when (\<lambda>_. \<not> is_second_flight)
       (let header = outer_ech_header_size enc_len; len = header + ech_payload_size in
        act_seq (act_guard (\<lambda>_. c_malloc M len) PTLS_ERROR_NO_MEMORY)
       (act_bind (em_message (ech_off - header)) (\<lambda>ext.
        act_put (\<lambda>tls. tls\<lparr>tls_ech := (tls_ech tls)\<lparr>ech_client_first_ech := take len ext,
          ech_state := (if ech_state (tls_ech tls) \<noteq> PTLS_ECH_STATE_GREASE then PTLS_ECH_STATE_OFFERED
                        else ech_state (tls_ech tls))\<rparr>\<rparr>)))))))))))))"

text \<open>Every transcript becomes the outer one.\<close>

definition adopt_outer :: "ks_hash \<Rightarrow> ks_hash option" where
  "adopt_outer h = map_option (\<lambda>outer. h\<lparr>ksh_ctx := outer, ksh_ctx_outer := None\<rparr>) (ksh_ctx_outer h)"

definition client_settle_ech :: "allocator \<Rightarrow> nat \<Rightarrow> bool \<Rightarrow> bytes \<Rightarrow> unit tls_act" where
  "client_settle_ech M mess_start has_psk binder_key =
     act_bind (act_deref tls_key_schedule) (\<lambda>sched.
     act_bind (act_get (\<lambda>tls. ech_state (tls_ech tls))) (\<lambda>state.
       if state = PTLS_ECH_STATE_GREASE
       then act_bind (act_deref (\<lambda>_. those (map adopt_outer (ks_hashes sched)))) (\<lambda>hashes.
            act_seq (act_put (\<lambda>tls. tls\<lparr>tls_key_schedule := Some (sched\<lparr>ks_hashes := hashes\<rparr>),
                                       tls_ech := (tls_ech tls)\<lparr>ech_aead := None\<rparr>\<rparr>))
              (client_hash_and_binder M mess_start has_psk binder_key))
       else act_bind (em_message mess_start) (\<lambda>ch.
            act_put (\<lambda>tls. tls\<lparr>tls_key_schedule := Some (ptls__key_schedule_update_hash sched ch True)\<rparr>))))"

definition client_apply_ech ::
  "allocator \<Rightarrow> nat \<Rightarrow> bool \<Rightarrow> bytes option \<Rightarrow> ch_psk \<Rightarrow> bytes option option \<Rightarrow> bytes \<Rightarrow> unit tls_act" where
  "client_apply_ech M mess_start is_second_flight sni_name psk cookie binder_key =
     act_bind (act_get (\<lambda>tls. ech_aead (tls_ech tls))) (\<lambda>aead.
       case aead of
         None \<Rightarrow> act_return ()
       | Some aead \<Rightarrow>
           act_bind (client_encoded_inner M mess_start is_second_flight sni_name psk cookie) (\<lambda>inner.
           act_seq (client_outer_hello M mess_start is_second_flight sni_name psk cookie inner aead)
             (client_settle_ech M mess_start (psk_secret psk \<noteq> None) binder_key)))"

definition client_write_hello ::
  "allocator \<Rightarrow> bool \<Rightarrow> bytes option \<Rightarrow> ch_psk \<Rightarrow> bytes option option \<Rightarrow> unit tls_act" where
  "client_write_hello M is_second_flight sni_name psk cookie =
     act_seq (begin_message M)
     (act_bind em_off (\<lambda>mess_start.
      act_bind (client_hello_pusher M ENCODE_CH_MODE_INNER is_second_flight sni_name psk cookie 0) (\<lambda>push.
      act_seq (em_push push)
     (act_bind (act_deref tls_key_schedule) (\<lambda>sched.
      act_bind (if psk_secret psk \<noteq> None
                then act_res (\<lambda>_. derive_secret_with_empty_digest M sched (psk_label psk))
                else act_return []) (\<lambda>binder_key.
      act_seq (client_hash_and_binder M mess_start (psk_secret psk \<noteq> None) binder_key)
     (act_seq (client_apply_ech M mess_start is_second_flight sni_name psk cookie binder_key)
        (commit_message M))))))))"

text \<open>\<open>cookie\<close> is \<open>None\<close> for the first ClientHello and \<open>Some\<close> of the cookie extension, if any, after a
  HelloRetryRequest.\<close>

definition send_client_hello ::
  "allocator \<Rightarrow> (address_family \<Rightarrow> bytes \<Rightarrow> bool) \<Rightarrow> bytes option option \<Rightarrow> unit tls_act" where
  "send_client_hello M inet_pton cookie =
     act_bind (act_get (\<lambda>tls. tls_key_schedule tls \<noteq> None)) (\<lambda>is_second_flight.
     act_bind (act_get (\<lambda>tls. case tls_server_name tls of None \<Rightarrow> None
         | Some name \<Rightarrow> if ptls_server_name_is_ipaddr inet_pton name then None else Some name)) (\<lambda>sni_name.
     act_seq (client_setup_ech_if_asked M inet_pton is_second_flight sni_name)
    (act_bind (client_choose_psk is_second_flight) (\<lambda>psk.
     act_seq client_report_early_data
    (act_seq client_create_key_share
    (act_seq (if is_second_flight then act_return () else client_new_key_schedule M psk)
    (act_seq (client_write_hello M is_second_flight sni_name psk cookie)
    (act_seq (act_when tls_using_early_data
       (act_seq (act_assert (\<lambda>_. \<not> is_second_flight))
       (act_seq (setup_traffic_protection M True (Some ''c e traffic'') 1 0 False) (push_change_cipher_spec M))))
    (act_seq (if psk_secret psk \<noteq> None \<and> \<not> is_second_flight then derive_exporter_secret M True else act_return ())
    (act_seq (set_state (if cookie = None then PTLS_STATE_CLIENT_EXPECT_SERVER_HELLO
                         else PTLS_STATE_CLIENT_EXPECT_SECOND_SERVER_HELLO))
       (act_fail PTLS_ERROR_IN_PROGRESS)))))))))))"

section \<open>ServerHello\<close>

definition ptls_find_cipher_suite :: "ptls_cipher_suite list option \<Rightarrow> 16 word \<Rightarrow> ptls_cipher_suite option" where
  "ptls_find_cipher_suite cipher_suites csid =
     (case cipher_suites of None \<Rightarrow> None | Some css \<Rightarrow> find (\<lambda>cs. cs_id cs = csid) css)"

text \<open>\<open>struct st_ptls_server_hello_t\<close> and the two local variables of its decoder.  \<open>retry_request.ech\<close> points into
  the message; \<open>sh_ech\<close> is the distance of that place from the end of the message.\<close>

record st_ptls_server_hello =
  sh_legacy_session_id :: bytes
  sh_is_retry_request :: bool
  sh_peerkey :: "bytes option"
  sh_selected_group :: "16 word"
  sh_cookie :: "bytes option"
  sh_ech :: "nat option"
  sh_found_version :: "16 word"
  sh_selected_psk_identity :: "16 word"

abbreviation UINT16_MAX :: "16 word" where "UINT16_MAX \<equiv> 0xffff"
abbreviation PTLS_ECH_CONFIRM_LENGTH :: nat where "PTLS_ECH_CONFIRM_LENGTH \<equiv> 8"

definition hello_retry_random :: bytes where
  "hello_retry_random =
     [0xCF, 0x21, 0xAD, 0x74, 0xE5, 0x9A, 0x61, 0x11, 0xBE, 0x1D, 0x8C, 0x02, 0x1E, 0x65, 0xB8, 0x91,
      0xC2, 0xA2, 0x11, 0x16, 0x7A, 0xBB, 0x8C, 0x5E, 0x07, 0x9E, 0x09, 0xE2, 0xC8, 0xA8, 0x33, 0x9C]"

definition sh_key_share_extension ::
  "st_ptls_server_hello \<Rightarrow> bytes \<Rightarrow> (st_ptls_server_hello \<times> bytes) tls_act" where
  "sh_key_share_extension sh src =
     act_seq (act_guard (\<lambda>tls. ctx_key_exchanges (tls_ctx tls) \<noteq> None) PTLS_ALERT_HANDSHAKE_FAILURE)
       (if sh_is_retry_request sh
        then act_bind (act_res (\<lambda>_. ptls_decode16 src)) (\<lambda>(g, src). act_return (sh\<lparr>sh_selected_group := g\<rparr>, src))
        else act_bind (act_res (\<lambda>_. decode_key_share_entry src)) (\<lambda>((g, key), src).
             act_seq (act_guard (\<lambda>_. src = []) PTLS_ALERT_DECODE_ERROR)
            (act_seq (act_guard (\<lambda>tls. case tls_key_share tls of None \<Rightarrow> False | Some kx \<Rightarrow> kx_id kx = g)
                        PTLS_ALERT_ILLEGAL_PARAMETER)
               (act_return (sh\<lparr>sh_peerkey := Some key\<rparr>, src)))))"

definition sh_extension ::
  "16 word \<Rightarrow> st_ptls_server_hello \<Rightarrow> bytes \<Rightarrow> bytes \<Rightarrow> (st_ptls_server_hello \<times> bytes) tls_act" where
  "sh_extension exttype sh src rest =
     act_bind (act_res (\<lambda>tls. call_on_extension (ctx_on_extension (tls_ctx tls)) PTLS_HANDSHAKE_TYPE_SERVER_HELLO
                                exttype src)) (\<lambda>_.
       if exttype = PTLS_EXTENSION_TYPE_SUPPORTED_VERSIONS
       then act_bind (act_res (\<lambda>_. ptls_decode16 src)) (\<lambda>(v, src). act_return (sh\<lparr>sh_found_version := v\<rparr>, src))
       else if exttype = PTLS_EXTENSION_TYPE_KEY_SHARE then sh_key_share_extension sh src
       else if exttype = PTLS_EXTENSION_TYPE_COOKIE
       then act_seq (act_assert (\<lambda>_. sh_is_retry_request sh))
         (act_bind (act_res (\<lambda>_. ptls_decode_block 2
              (\<lambda>src. if src = [] then Inl PTLS_ALERT_DECODE_ERROR else take_rest src) src)) (\<lambda>cookie.
            act_return (sh\<lparr>sh_cookie := Some cookie\<rparr>, [])))
       else if exttype = PTLS_EXTENSION_TYPE_PRE_SHARED_KEY
       then act_seq (act_assert (\<lambda>_. \<not> sh_is_retry_request sh))
         (act_bind (act_res (\<lambda>_. ptls_decode16 src)) (\<lambda>(i, src).
            act_return (sh\<lparr>sh_selected_psk_identity := i\<rparr>, src)))
       else if exttype = PTLS_EXTENSION_TYPE_ENCRYPTED_CLIENT_HELLO
       then act_seq (act_assert (\<lambda>_. sh_is_retry_request sh))
         (act_seq (act_guard (\<lambda>tls. ech_state (tls_ech tls) \<noteq> PTLS_ECH_STATE_NONE) PTLS_ALERT_UNSUPPORTED_EXTENSION)
         (act_seq (act_guard (\<lambda>_. length src = PTLS_ECH_CONFIRM_LENGTH) PTLS_ALERT_DECODE_ERROR)
            (act_return (sh\<lparr>sh_ech := Some (length src + length rest)\<rparr>, []))))
       else act_return (sh, []))"

text \<open>The head of the message: the session identifier, whether it is a retry request, the identifier of the
  cipher suite and what follows it.\<close>

definition decode_server_hello_head :: "bytes \<Rightarrow> ((bytes \<times> bool \<times> 16 word) \<times> bytes) res" where
  "decode_server_hello_head src =
     (if length src < 2 then Inl PTLS_ALERT_DECODE_ERROR
      else let src = drop 2 src in
        if length src < 32 then Inl PTLS_ALERT_DECODE_ERROR
        else let is_retry_request = (take 32 src = hello_retry_random); src = drop 32 src in
          res_bind (ptls_decode_open_block 1
              (\<lambda>src. if length src > 32 then Inl PTLS_ALERT_DECODE_ERROR else take_rest src) src) (\<lambda>(sid, src).
          res_bind (ptls_decode16 src) (\<lambda>(csid, src).
            Inr ((sid, is_retry_request, csid), src))))"

definition decode_server_hello :: "bytes \<Rightarrow> st_ptls_server_hello tls_act" where
  "decode_server_hello src =
     act_bind (act_res (\<lambda>_. decode_server_hello_head src)) (\<lambda>((sid, is_retry_request, csid), src).
     act_seq (act_put (\<lambda>tls. tls\<lparr>tls_cipher_suite := ptls_find_cipher_suite (ctx_cipher_suites (tls_ctx tls)) csid\<rparr>))
    (act_seq (act_guard (\<lambda>tls. tls_cipher_suite tls \<noteq> None) PTLS_ALERT_ILLEGAL_PARAMETER)
    (act_bind (act_res (\<lambda>_. ptls_decode8 src)) (\<lambda>(compression_method, src).
     act_seq (act_guard (\<lambda>_. compression_method = 0) PTLS_ALERT_ILLEGAL_PARAMETER)
    (act_bind (act_decode_extensions
         (if is_retry_request then PTLS_HANDSHAKE_TYPE_PSEUDO_HRR else PTLS_HANDSHAKE_TYPE_SERVER_HELLO) sh_extension
         \<lparr>sh_legacy_session_id = sid, sh_is_retry_request = is_retry_request, sh_peerkey = None,
          sh_selected_group = UINT16_MAX, sh_cookie = None, sh_ech = None, sh_found_version = UINT16_MAX,
          sh_selected_psk_identity = UINT16_MAX\<rparr> src) (\<lambda>sh.
     act_seq (act_guard (\<lambda>_. is_supported_version (sh_found_version sh)) PTLS_ALERT_ILLEGAL_PARAMETER)
    (act_seq
      (if is_retry_request then act_return ()
       else act_seq (if sh_selected_psk_identity sh \<noteq> UINT16_MAX
                     then act_seq (act_guard tls_offered_psk PTLS_ALERT_ILLEGAL_PARAMETER)
                         (act_seq (act_guard (\<lambda>_. sh_selected_psk_identity sh = 0) PTLS_ALERT_ILLEGAL_PARAMETER)
                            (act_put (\<lambda>tls. tls\<lparr>tls_is_psk_handshake := True\<rparr>)))
                     else act_return ())
              (act_guard (\<lambda>tls. sh_peerkey sh \<noteq> None \<or> tls_is_psk_handshake tls) PTLS_ALERT_ILLEGAL_PARAMETER))
      (act_return sh))))))))"

section \<open>HelloRetryRequest\<close>

text \<open>Releasing the key that protects early data: the second ClientHello goes out in the clear.\<close>

definition client_drop_early_data :: "unit tls_act" where
  "client_drop_early_data =
     act_when tls_using_early_data
       (act_seq (act_when (\<lambda>tls. ctx_update_traffic_key (tls_ctx tls) = None)
          (act_seq (act_assert (\<lambda>tls. tp_aead (tls_enc tls) \<noteq> None))
             (act_put (\<lambda>tls. tls\<lparr>tls_enc := (tls_enc tls)\<lparr>tp_aead := None\<rparr>\<rparr>))))
         (act_put (\<lambda>tls. tls\<lparr>tls_using_early_data := False\<rparr>)))"

definition handle_hello_retry_request ::
  "allocator \<Rightarrow> (address_family \<Rightarrow> bytes \<Rightarrow> bool) \<Rightarrow> st_ptls_server_hello \<Rightarrow> unit tls_act" where
  "handle_hello_retry_request M inet_pton sh =
     act_seq (act_put (\<lambda>tls. tls\<lparr>tls_key_share_ctx := None\<rparr>))
    (act_seq client_drop_early_data
    (act_seq
      (if sh_selected_group sh \<noteq> UINT16_MAX
       then act_bind (act_deref (\<lambda>tls. ctx_key_exchanges (tls_ctx tls))) (\<lambda>kxs.
         case find (\<lambda>kx. kx_id kx = sh_selected_group sh) kxs of
           None \<Rightarrow> act_fail PTLS_ALERT_ILLEGAL_PARAMETER
         | Some kx \<Rightarrow> act_put (\<lambda>tls. tls\<lparr>tls_key_share := Some kx\<rparr>))
       else act_guard (\<lambda>tls. tls_key_share tls \<noteq> None) PTLS_ALERT_ILLEGAL_PARAMETER)
      (send_client_hello M inet_pton (Some (sh_cookie sh)))))"

section \<open>Encrypted ClientHello: which message the server answered\<close>

abbreviation ECH_CONFIRMATION_SERVER_HELLO :: string where
  "ECH_CONFIRMATION_SERVER_HELLO \<equiv> ''ech accept confirmation''"
abbreviation ECH_CONFIRMATION_HRR :: string where
  "ECH_CONFIRMATION_HRR \<equiv> ''hrr ech accept confirmation''"

definition client_reject_ech :: "unit tls_act" where
  "client_reject_ech = act_put (\<lambda>tls. tls\<lparr>tls_ech := (tls_ech tls)\<lparr>ech_aead := None\<rparr>,
     tls_key_schedule := map_option key_schedule_select_outer (tls_key_schedule tls)\<rparr>)"

definition client_ech_select_hello :: "allocator \<Rightarrow> bytes \<Rightarrow> nat \<Rightarrow> string \<Rightarrow> unit tls_act" where
  "client_ech_select_hello M message confirm_hash_off label =
     (if confirm_hash_off \<noteq> 0
      then let delivered = take PTLS_ECH_CONFIRM_LENGTH (drop confirm_hash_off message);
               zeroed = take confirm_hash_off message @ replicate PTLS_ECH_CONFIRM_LENGTH 0
                          @ drop (confirm_hash_off + PTLS_ECH_CONFIRM_LENGTH) message in
        act_bind (act_deref tls_key_schedule) (\<lambda>sched.
        act_bind (act_res (\<lambda>tls. ech_calc_confirmation M sched (ech_inner_client_random (tls_ech tls)) label zeroed))
          (\<lambda>expected.
          if delivered = expected
          then act_put (\<lambda>tls. tls\<lparr>tls_ech := (tls_ech tls)\<lparr>ech_state := PTLS_ECH_STATE_ACCEPTED\<rparr>\<rparr>)
          else act_seq (act_guard (\<lambda>tls. ech_state (tls_ech tls) \<noteq> PTLS_ECH_STATE_ACCEPTED) PTLS_ALERT_ILLEGAL_PARAMETER)
                 client_reject_ech))
      else client_reject_ech)"

section \<open>Handling a ServerHello\<close>

definition client_select_cipher :: "allocator \<Rightarrow> (ptls \<Rightarrow> bool) \<Rightarrow> (ptls \<Rightarrow> bytes option) \<Rightarrow> unit tls_act" where
  "client_select_cipher M reset reset_ikm =
     act_bind (act_deref tls_key_schedule) (\<lambda>sched.
     act_bind (act_deref tls_cipher_suite) (\<lambda>cs.
     act_bind (act_deref (\<lambda>tls. key_schedule_select_cipher M sched cs (reset tls) (reset_ikm tls))) (\<lambda>r.
     act_bind (act_res (\<lambda>_. r)) (\<lambda>sched'. act_put (\<lambda>tls. tls\<lparr>tls_key_schedule := Some sched'\<rparr>)))))"

definition on_key_schedule :: "(ptls_key_schedule \<Rightarrow> ptls_key_schedule) \<Rightarrow> unit tls_act" where
  "on_key_schedule f = act_bind (act_deref tls_key_schedule) (\<lambda>sched.
     act_put (\<lambda>tls. tls\<lparr>tls_key_schedule := Some (f sched)\<rparr>))"

definition client_handle_retry ::
  "allocator \<Rightarrow> (address_family \<Rightarrow> bytes \<Rightarrow> bool) \<Rightarrow> bytes \<Rightarrow> st_ptls_server_hello \<Rightarrow> unit tls_act" where
  "client_handle_retry M inet_pton message sh =
     act_seq (client_select_cipher M (\<lambda>_. False) (\<lambda>tls. ctx_psk_secret (tls_ctx tls)))
    (act_seq (on_key_schedule key_schedule_transform_post_ch1hash)
    (act_seq (act_when (\<lambda>tls. ech_aead (tls_ech tls) \<noteq> None)
       (act_bind (act_get (\<lambda>tls.
            if ech_state (tls_ech tls) \<noteq> PTLS_ECH_STATE_GREASE
            then case sh_ech sh of None \<Rightarrow> 0 | Some from_end \<Rightarrow> length message - from_end
            else 0)) (\<lambda>confirm_hash_off.
          client_ech_select_hello M message confirm_hash_off ECH_CONFIRMATION_HRR)))
    (act_seq (update_hash message) (handle_hello_retry_request M inet_pton sh))))"

text \<open>The shared secret; \<open>on_exchange\<close> with \<open>release\<close> set frees the key exchange context.\<close>

definition client_exchange_key :: "bytes option \<Rightarrow> bytes option tls_act" where
  "client_exchange_key peerkey =
     (case peerkey of
        None \<Rightarrow> act_return None
      | Some key \<Rightarrow>
          act_bind (act_deref tls_key_share_ctx) (\<lambda>(kx, pub, priv).
          act_seq (act_put (\<lambda>tls. tls\<lparr>tls_key_share_ctx := None\<rparr>))
         (act_bind (act_res (\<lambda>_. kx_on_exchange kx priv key)) (\<lambda>secret. act_return (Some secret)))))"

text \<open>A client that uses early data keeps the key for it and only derives the handshake secret.\<close>

definition client_derive_handshake_keys :: "allocator \<Rightarrow> unit tls_act" where
  "client_derive_handshake_keys M =
     act_seq (setup_traffic_protection M False (Some ''s hs traffic'') 2 0 False)
    (act_bind (act_get tls_using_early_data) (\<lambda>early.
       if early
       then act_seq (act_guard (\<lambda>_. c_malloc M 64) PTLS_ERROR_NO_MEMORY)
           (act_seq (act_put (\<lambda>tls. tls\<lparr>tls_pending_handshake_secret := Some (replicate 64 0)\<rparr>))
           (act_bind (act_deref tls_key_schedule) (\<lambda>sched.
            act_bind (act_res (\<lambda>_. derive_secret M sched ''c hs traffic'')) (\<lambda>secret.
            let pending = write_secret (ks_digest_size sched) secret (replicate 64 0) in
            act_seq (act_put (\<lambda>tls. tls\<lparr>tls_pending_handshake_secret := Some pending\<rparr>))
              (act_code (\<lambda>tls. case ctx_update_traffic_key (tls_ctx tls) of
                  None \<Rightarrow> 0 | Some cb \<Rightarrow> cb True 2 pending))))))
       else setup_traffic_protection M True (Some ''c hs traffic'') 2 0 False))"

definition client_handle_hello ::
  "allocator \<Rightarrow> (address_family \<Rightarrow> bytes \<Rightarrow> bool) \<Rightarrow> bytes \<Rightarrow> unit tls_act" where
  "client_handle_hello M inet_pton message =
     act_bind (decode_server_hello (drop 4 message)) (\<lambda>sh.
     act_seq (act_guard (\<lambda>tls. sh_legacy_session_id sh = tls_legacy_session_id tls) PTLS_ALERT_ILLEGAL_PARAMETER)
       (if sh_is_retry_request sh then client_handle_retry M inet_pton message sh
        else
          act_seq (client_select_cipher M (\<lambda>tls. tls_offered_psk tls \<and> \<not> tls_is_psk_handshake tls) (\<lambda>_. None))
         (act_seq (act_when (\<lambda>tls. ech_aead (tls_ech tls) \<noteq> None)
            (act_bind (act_get (\<lambda>tls. if ech_state (tls_ech tls) \<noteq> PTLS_ECH_STATE_GREASE
                                       then 4 + 2 + 32 - PTLS_ECH_CONFIRM_LENGTH else 0)) (\<lambda>confirm_hash_off.
               client_ech_select_hello M message confirm_hash_off ECH_CONFIRMATION_SERVER_HELLO)))
         (act_seq (act_put (\<lambda>tls. tls\<lparr>tls_ech := clear_ech (tls_ech tls) False\<rparr>))
         (act_seq (on_key_schedule (on_first_hash (\<lambda>h. h\<lparr>ksh_ctx_outer := None\<rparr>)))
         (act_seq (act_guard (\<lambda>tls. ctx_psk_identity (tls_ctx tls) = None \<or> tls_is_psk_handshake tls)
                     PTLS_ALERT_HANDSHAKE_FAILURE)
         (act_seq (update_hash message)
         (act_bind (client_exchange_key (sh_peerkey sh)) (\<lambda>ecdh_secret.
          act_seq (extract_next_secret M ecdh_secret)
         (act_seq (client_derive_handshake_keys M)
         (act_seq (set_state PTLS_STATE_CLIENT_EXPECT_ENCRYPTED_EXTENSIONS)
            (act_fail PTLS_ERROR_IN_PROGRESS))))))))))))"

section \<open>Extensions the library does not know\<close>

abbreviation MAX_UNKNOWN_EXTENSIONS :: nat where "MAX_UNKNOWN_EXTENSIONS \<equiv> 16"

definition should_collect_unknown_extension :: "ptls_handshake_properties option \<Rightarrow> 16 word \<Rightarrow> bool" where
  "should_collect_unknown_extension properties type =
     (case Option.bind properties prop_collect_extension of None \<Rightarrow> False | Some collect \<Rightarrow> collect type)"

text \<open>The slots up to the terminator, which is a slot of type \<open>UINT16_MAX\<close>: an extension of that type is
  written in place of the terminator.\<close>

definition collect_unknown_extension ::
  "16 word \<Rightarrow> bytes \<Rightarrow> (16 word \<times> bytes) list \<Rightarrow> (16 word \<times> bytes) list res" where
  "collect_unknown_extension type src slots =
     (if type \<in> fst ` set slots then Inl PTLS_ALERT_ILLEGAL_PARAMETER
      else if length slots < MAX_UNKNOWN_EXTENSIONS \<and> type \<noteq> UINT16_MAX then Inr (slots @ [(type, src)])
      else Inr slots)"

definition report_unknown_extensions ::
  "ptls_handshake_properties option \<Rightarrow> (16 word \<times> bytes) list \<Rightarrow> int" where
  "report_unknown_extensions properties slots =
     (case properties of
        None \<Rightarrow> 0
      | Some p \<Rightarrow> if prop_collect_extension p \<noteq> None then prop_collected_extensions p slots else 0)"

text \<open>The slots are allocated when the first extension is collected; each has 24 octets.\<close>

definition collect_if_asked ::
  "allocator \<Rightarrow> 16 word \<Rightarrow> bytes \<Rightarrow> (16 word \<times> bytes) list option \<Rightarrow> (16 word \<times> bytes) list option tls_act" where
  "collect_if_asked M type src slots =
     act_bind (act_get (\<lambda>tls. should_collect_unknown_extension (tls_properties tls) type)) (\<lambda>wanted.
       if wanted
       then act_seq (act_guard (\<lambda>_. slots \<noteq> None \<or> c_malloc M (24 * (MAX_UNKNOWN_EXTENSIONS + 1))) PTLS_ERROR_NO_MEMORY)
           (act_bind (act_res (\<lambda>_. collect_unknown_extension type src (case slots of None \<Rightarrow> [] | Some xs \<Rightarrow> xs))) (\<lambda>xs.
            act_return (Some xs)))
       else act_return slots)"

definition report_collected :: "(16 word \<times> bytes) list option \<Rightarrow> unit tls_act" where
  "report_collected slots =
     act_code (\<lambda>tls. report_unknown_extensions (tls_properties tls) (case slots of None \<Rightarrow> [] | Some xs \<Rightarrow> xs))"

section \<open>EncryptedExtensions\<close>

text \<open>A string that is kept ends at its first zero octet.\<close>

definition c_string :: "bytes \<Rightarrow> bytes" where
  "c_string = takeWhile (\<lambda>b. b \<noteq> 0)"

definition ptls_set_negotiated_protocol :: "allocator \<Rightarrow> bytes option \<Rightarrow> unit tls_act" where
  "ptls_set_negotiated_protocol M protocol =
     act_seq (act_guard (\<lambda>_. dup_str M protocol) PTLS_ERROR_NO_MEMORY)
       (act_put (\<lambda>tls. tls\<lparr>tls_negotiated_protocol := map_option c_string protocol\<rparr>))"

record ee_state =
  ee_skip_early_data :: bool
  ee_server_offered_cert_type :: byte
  ee_unknown :: "(16 word \<times> bytes) list option"

definition ee_alpn :: "allocator \<Rightarrow> bytes \<Rightarrow> bytes tls_act" where
  "ee_alpn M src =
     act_bind (act_res (\<lambda>_. ptls_decode_open_block 2 take_rest src)) (\<lambda>(list, after).
     act_bind (act_res (\<lambda>_. ptls_decode_open_block 1
         (\<lambda>src. if src = [] then Inl PTLS_ALERT_DECODE_ERROR else take_rest src) list)) (\<lambda>(protocol, rest).
     act_seq (ptls_set_negotiated_protocol M (Some protocol))
    (act_seq (act_guard (\<lambda>_. rest = []) PTLS_ALERT_HANDSHAKE_FAILURE)
    (act_seq (act_guard (\<lambda>_. after = []) PTLS_ALERT_DECODE_ERROR) (act_return [])))))"

definition ee_ech :: "allocator \<Rightarrow> (address_family \<Rightarrow> bytes \<Rightarrow> bool) \<Rightarrow> bytes \<Rightarrow> unit tls_act" where
  "ee_ech M inet_pton src =
     act_seq (act_guard (\<lambda>tls. ech_state (tls_ech tls) \<in> {PTLS_ECH_STATE_OFFERED, PTLS_ECH_STATE_GREASE})
                PTLS_ALERT_UNSUPPORTED_EXTENSION)
    (act_bind (act_deref (\<lambda>tls. ctx_ech_ciphers (tls_ctx tls))) (\<lambda>ciphers.
     act_bind (act_get (\<lambda>tls. client_decode_ech_config_list M inet_pton (ctx_ech_kems (tls_ctx tls)) ciphers src))
       (\<lambda>(ret, decoded).
     act_seq (act_code (\<lambda>_. ret))
       (act_when (\<lambda>tls. ech_state (tls_ech tls) \<noteq> PTLS_ECH_STATE_GREASE
            \<and> dec_kem decoded \<noteq> None \<and> dec_cipher decoded \<noteq> None
            \<and> Option.bind (tls_properties tls) prop_ech_retry_configs \<noteq> None)
         (act_seq (act_guard (\<lambda>_. c_malloc M (length src)) PTLS_ERROR_NO_MEMORY)
           (act_put (\<lambda>tls. tls\<lparr>tls_properties :=
              map_option (\<lambda>p. p\<lparr>prop_ech_retry_configs := Some src\<rparr>) (tls_properties tls)\<rparr>)))))))"

definition ee_extension ::
  "allocator \<Rightarrow> (address_family \<Rightarrow> bytes \<Rightarrow> bool) \<Rightarrow> 16 word \<Rightarrow> ee_state \<Rightarrow> bytes \<Rightarrow> bytes
     \<Rightarrow> (ee_state \<times> bytes) tls_act" where
  "ee_extension M inet_pton type ee src rest =
     act_bind (act_res (\<lambda>tls. call_on_extension (ctx_on_extension (tls_ctx tls))
                                PTLS_HANDSHAKE_TYPE_ENCRYPTED_EXTENSIONS type src)) (\<lambda>_.
       if type = PTLS_EXTENSION_TYPE_SERVER_NAME
       then act_seq (act_guard (\<lambda>_. src = []) PTLS_ALERT_DECODE_ERROR)
           (act_seq (act_guard (\<lambda>tls. case tls_server_name tls of None \<Rightarrow> False
                        | Some name \<Rightarrow> \<not> ptls_server_name_is_ipaddr inet_pton name) PTLS_ALERT_ILLEGAL_PARAMETER)
              (act_return (ee, [])))
       else if type = PTLS_EXTENSION_TYPE_ALPN then act_bind (ee_alpn M src) (\<lambda>_. act_return (ee, []))
       else if type = PTLS_EXTENSION_TYPE_EARLY_DATA
       then act_seq (act_guard tls_using_early_data PTLS_ALERT_ILLEGAL_PARAMETER)
              (act_return (ee\<lparr>ee_skip_early_data := False\<rparr>, []))
       else if type = PTLS_EXTENSION_TYPE_SERVER_CERTIFICATE_TYPE
       then act_seq (act_guard (\<lambda>_. length src = 1) PTLS_ALERT_DECODE_ERROR)
              (act_return (ee\<lparr>ee_server_offered_cert_type := src ! 0\<rparr>, []))
       else if type = PTLS_EXTENSION_TYPE_ENCRYPTED_CLIENT_HELLO
       then act_seq (ee_ech M inet_pton src) (act_return (ee, []))
       else act_bind (collect_if_asked M type src (ee_unknown ee)) (\<lambda>xs. act_return (ee\<lparr>ee_unknown := xs\<rparr>, [])))"

definition client_handle_encrypted_extensions ::
  "allocator \<Rightarrow> (address_family \<Rightarrow> bytes \<Rightarrow> bool) \<Rightarrow> bytes \<Rightarrow> unit tls_act" where
  "client_handle_encrypted_extensions M inet_pton message =
     act_bind (act_decode_extensions PTLS_HANDSHAKE_TYPE_ENCRYPTED_EXTENSIONS (ee_extension M inet_pton)
         \<lparr>ee_skip_early_data = True, ee_server_offered_cert_type = PTLS_CERTIFICATE_TYPE_X509, ee_unknown = None\<rparr>
         (drop 4 message)) (\<lambda>ee.
     act_seq (act_guard (\<lambda>tls. ee_server_offered_cert_type ee =
         (if ctx_use_raw_public_keys (tls_ctx tls) then PTLS_CERTIFICATE_TYPE_RAW_PUBLIC_KEY
          else PTLS_CERTIFICATE_TYPE_X509)) PTLS_ALERT_UNSUPPORTED_CERTIFICATE)
    (act_seq (act_when tls_using_early_data
       (act_put (\<lambda>tls. tls\<lparr>tls_using_early_data := \<not> ee_skip_early_data ee,
          tls_properties := map_option (\<lambda>p. p\<lparr>prop_early_data_acceptance :=
            (if ee_skip_early_data ee then PTLS_EARLY_DATA_REJECTED else PTLS_EARLY_DATA_ACCEPTED)\<rparr>)
            (tls_properties tls)\<rparr>)))
    (act_seq (report_collected (ee_unknown ee))
    (act_seq (update_hash message)
    (act_seq (act_put (\<lambda>tls. tls\<lparr>tls_state := (if tls_is_psk_handshake tls then PTLS_STATE_CLIENT_EXPECT_FINISHED
                 else PTLS_STATE_CLIENT_EXPECT_CERTIFICATE_REQUEST_OR_CERTIFICATE)\<rparr>))
       (act_fail PTLS_ERROR_IN_PROGRESS))))))"

end
