(* ===== verification/ServerHandshake.thy ===== *)
theory ServerHandshake
  imports ClientHandshake
begin

text \<open>
  The server's part of the negotiation in \<^verbatim>\<open>lib/picotls.c\<close>: reading a ClientHello
  (\<open>decode_client_hello\<close>, \<open>check_client_hello_constraints\<close>), recovering the inner message of Encrypted
  ClientHello (\<open>rebuild_ch_inner\<close>), looking for a pre-shared key (\<open>try_psk_handshake\<close>), cookies, and
  \<open>server_handle_hello\<close>, which answers with a HelloRetryRequest or with the whole first flight of the server.
  The callback \<open>on_client_hello\<close>, which belongs to the application and may change the connection, is an
  argument.
\<close>

section \<open>Reading a ClientHello\<close>

text \<open>An offered pre-shared key.  \<open>pski_binder_tail\<close> is what the message holds from the start of the binder on.\<close>

record ptls_client_hello_psk_identity =
  pski_identity :: bytes
  pski_obfuscated_ticket_age :: "32 word"
  pski_binder :: bytes
  pski_binder_tail :: bytes

text \<open>\<open>struct st_ptls_client_hello_t\<close>.  Members that point into the message are the octets they point to;
  \<open>ch_psk_hash_end\<close> and \<open>ch_ech_payload_pos\<close> are the distances of \<open>psk.hash_end\<close> and of the ECH payload from the
  end of the message, \<open>ch_extensions_tail\<close> the octets from \<open>first_extension_at\<close> on.\<close>

record st_ptls_client_hello =
  ch_legacy_version :: "16 word"
  ch_random_bytes :: bytes
  ch_legacy_session_id :: bytes
  ch_compression_methods :: bytes
  ch_selected_version :: "16 word"
  ch_cipher_suites :: bytes
  ch_negotiated_groups :: "bytes option"
  ch_key_shares :: "bytes option"
  ch_signature_algorithms :: "16 word list"
  ch_server_name :: "bytes option"
  ch_alpn :: "bytes list"
  ch_cert_compression_algos :: "16 word list"
  ch_cookie_all :: bytes
  ch_cookie_tbs :: bytes
  ch_cookie_ch1_hash :: bytes
  ch_cookie_signature :: bytes
  ch_cookie_sent_key_share :: bool
  ch_server_certificate_types :: "byte list"
  ch_status_request :: bool
  ch_ticket_request :: "byte \<times> byte"
  ch_ech_type :: byte
  ch_ech_config_id :: byte
  ch_ech_cipher_suite :: "16 word \<times> 16 word"
  ch_ech_enc :: bytes
  ch_ech_payload :: "bytes option"
  ch_ech_payload_pos :: nat
  ch_psk_hash_end :: "nat option"
  ch_psk_identities :: "ptls_client_hello_psk_identity list"
  ch_psk_ke_modes :: "32 word"
  ch_psk_early_data_indication :: bool
  ch_psk_is_last_extension :: bool
  ch_unknown_extensions :: "(16 word \<times> bytes) list"
  ch_extensions_tail :: bytes

definition empty_client_hello :: st_ptls_client_hello where
  "empty_client_hello =
     \<lparr>ch_legacy_version = 0, ch_random_bytes = [], ch_legacy_session_id = [], ch_compression_methods = [],
      ch_selected_version = 0, ch_cipher_suites = [], ch_negotiated_groups = None, ch_key_shares = None,
      ch_signature_algorithms = [], ch_server_name = None, ch_alpn = [], ch_cert_compression_algos = [],
      ch_cookie_all = [], ch_cookie_tbs = [], ch_cookie_ch1_hash = [], ch_cookie_signature = [],
      ch_cookie_sent_key_share = False, ch_server_certificate_types = [], ch_status_request = False,
      ch_ticket_request = (0, 0), ch_ech_type = 0, ch_ech_config_id = 0, ch_ech_cipher_suite = (0, 0),
      ch_ech_enc = [], ch_ech_payload = None, ch_ech_payload_pos = 0, ch_psk_hash_end = None,
      ch_psk_identities = [], ch_psk_ke_modes = 0, ch_psk_early_data_indication = False,
      ch_psk_is_last_extension = False, ch_unknown_extensions = [], ch_extensions_tail = []\<rparr>"

text \<open>An element is added while there is room.\<close>

definition push_upto :: "nat \<Rightarrow> 'a list \<Rightarrow> 'a \<Rightarrow> 'a list" where
  "push_upto n xs x = (if length xs < n then xs @ [x] else xs)"

definition ch_decode_alpn :: "bytes \<Rightarrow> bytes list res" where
  "ch_decode_alpn src =
     ptls_decode_block 2 (decode_do_while (\<lambda>alpn src.
       res_bind (ptls_decode_open_block 1
           (\<lambda>src. if src = [] then Inl PTLS_ALERT_DECODE_ERROR else take_rest src) src) (\<lambda>(p, src).
         Inr (push_upto 16 alpn p, src))) []) src"

definition ch_decode_certificate_types :: "bytes \<Rightarrow> byte list res" where
  "ch_decode_certificate_types src =
     ptls_decode_block 1 (\<lambda>src.
       if length src = 0 \<or> length src = 1 \<and> src ! 0 = PTLS_CERTIFICATE_TYPE_X509 then Inl PTLS_ALERT_DECODE_ERROR
       else Inr (foldl (push_upto 8) [] src, [])) src"

definition ch_decode_compress_certificate :: "bytes \<Rightarrow> 16 word list res" where
  "ch_decode_compress_certificate src =
     ptls_decode_block 1 (decode_do_while (\<lambda>ids src.
       res_bind (ptls_decode16 src) (\<lambda>(i, src). Inr (push_upto 16 ids i, src))) []) src"

text \<open>The lowest index of an offered version among the supported ones.\<close>

definition lower_version_index :: "nat \<Rightarrow> 16 word \<Rightarrow> nat" where
  "lower_version_index selected_index v =
     (case find (\<lambda>i. supported_versions ! i = v) [0..<selected_index] of None \<Rightarrow> selected_index | Some i \<Rightarrow> i)"

definition ch_decode_versions :: "16 word \<Rightarrow> bytes \<Rightarrow> 16 word res" where
  "ch_decode_versions old src =
     ptls_decode_block 1 (\<lambda>src.
       res_bind (decode_do_while (\<lambda>selected_index src.
           res_bind (ptls_decode16 src) (\<lambda>(v, src). Inr (lower_version_index selected_index v, src)))
         (length supported_versions) src) (\<lambda>(selected_index, src).
       Inr (if selected_index \<noteq> length supported_versions then supported_versions ! selected_index else old, src))) src"

text \<open>The cookie: what is signed (hash of the first ClientHello, whether a key share was sent) and the
  signature.\<close>

definition ch_decode_cookie :: "st_ptls_client_hello \<Rightarrow> bytes \<Rightarrow> st_ptls_client_hello res" where
  "ch_decode_cookie ch body =
     ptls_decode_block 2 (\<lambda>src0.
       res_bind (ptls_decode_open_block 2 (\<lambda>src.
           res_bind (ptls_decode_open_block 1 take_rest src) (\<lambda>(ch1_hash, src).
           res_bind (ptls_decode8 src) (\<lambda>(sent_key_share, src).
             if sent_key_share > 1 then Inl PTLS_ALERT_DECODE_ERROR
             else Inr ((ch1_hash, sent_key_share = 1), src)))) src0) (\<lambda>((ch1_hash, sent_key_share), src).
       res_bind (ptls_decode_block 1 take_rest src) (\<lambda>signature.
         Inr (ch\<lparr>ch_cookie_all := body, ch_cookie_tbs := take (length src0 - length src) src0,
                  ch_cookie_ch1_hash := ch1_hash, ch_cookie_sent_key_share := sent_key_share,
                  ch_cookie_signature := signature\<rparr>, [])))) body"

definition ch_decode_identity ::
  "ptls_client_hello_psk_identity list \<times> nat \<Rightarrow> bytes \<Rightarrow> ((ptls_client_hello_psk_identity list \<times> nat) \<times> bytes) res" where
  "ch_decode_identity st src =
     res_bind (ptls_decode_open_block 2
         (\<lambda>src. if length src < 1 then Inl PTLS_ALERT_DECODE_ERROR else take_rest src) src) (\<lambda>(identity, src).
     res_bind (ptls_decode32 src) (\<lambda>(age, src).
       Inr ((push_upto 4 (fst st) \<lparr>pski_identity = identity, pski_obfuscated_ticket_age = age, pski_binder = [],
               pski_binder_tail = []\<rparr>, Suc (snd st)), src)))"

definition ch_decode_binder ::
  "bytes \<Rightarrow> ptls_client_hello_psk_identity list \<times> nat \<Rightarrow> bytes
     \<Rightarrow> ((ptls_client_hello_psk_identity list \<times> nat) \<times> bytes) res" where
  "ch_decode_binder rest st src =
     res_bind (ptls_decode_open_block 1 take_rest src) (\<lambda>(binder, after).
       case st of (ids, num_binders) \<Rightarrow>
         Inr ((if num_binders < length ids
               then ids[num_binders := (ids ! num_binders)\<lparr>pski_binder := binder, pski_binder_tail := binder @ after @ rest\<rparr>]
               else ids, Suc num_binders), after))"

definition ch_decode_pre_shared_key :: "st_ptls_client_hello \<Rightarrow> bytes \<Rightarrow> bytes \<Rightarrow> st_ptls_client_hello res" where
  "ch_decode_pre_shared_key ch src rest =
     res_bind (ptls_decode_open_block 2 (decode_do_while ch_decode_identity (ch_psk_identities ch, 0)) src)
       (\<lambda>((ids, num_identities), src).
     res_bind (ptls_decode_block 2 (\<lambda>body.
         res_bind (decode_do_while (ch_decode_binder rest) (ids, 0) body) (\<lambda>((ids, num_binders), body).
           if num_identities \<noteq> num_binders then Inl PTLS_ALERT_ILLEGAL_PARAMETER else Inr (ids, body))) src) (\<lambda>ids.
       Inr (ch\<lparr>ch_psk_identities := ids, ch_psk_hash_end := Some (length src + length rest),
                ch_psk_is_last_extension := True\<rparr>)))"

definition ch_decode_ke_modes :: "32 word \<Rightarrow> bytes \<Rightarrow> 32 word res" where
  "ch_decode_ke_modes ke_modes src =
     ptls_decode_block 1 (decode_do_while (\<lambda>modes src.
       res_bind (ptls_decode8 src) (\<lambda>(mode, src).
         Inr (if unat mode < 32 then modes OR push_bit (unat mode) 1 else modes, src))) ke_modes) src"

definition ch_decode_ech :: "st_ptls_client_hello \<Rightarrow> bytes \<Rightarrow> bytes \<Rightarrow> st_ptls_client_hello res" where
  "ch_decode_ech ch src rest =
     res_bind (ptls_decode8 src) (\<lambda>(type, src).
       if type = PTLS_ECH_CLIENT_HELLO_TYPE_OUTER
       then res_bind (ptls_decode16 src) (\<lambda>(kdf, src).
            res_bind (ptls_decode16 src) (\<lambda>(aead, src).
            res_bind (ptls_decode8 src) (\<lambda>(config_id, src).
            res_bind (ptls_decode_open_block 2 take_rest src) (\<lambda>(enc, src).
            res_bind (ptls_decode_open_block 2
                (\<lambda>src. if src = [] then Inl PTLS_ALERT_DECODE_ERROR else take_rest src) src) (\<lambda>(payload, src).
              Inr (ch\<lparr>ch_ech_type := type, ch_ech_config_id := config_id, ch_ech_cipher_suite := (kdf, aead),
                       ch_ech_enc := enc, ch_ech_payload := Some payload,
                       ch_ech_payload_pos := length payload + length src + length rest\<rparr>))))))
       else if type = PTLS_ECH_CLIENT_HELLO_TYPE_INNER
       then if src \<noteq> [] then Inl PTLS_ALERT_DECODE_ERROR
            else Inr (ch\<lparr>ch_ech_type := type, ch_ech_payload := Some []\<rparr>)
       else Inl PTLS_ALERT_ILLEGAL_PARAMETER)"

definition ch_extension ::
  "16 word \<Rightarrow> st_ptls_client_hello \<Rightarrow> bytes \<Rightarrow> bytes \<Rightarrow> st_ptls_client_hello res tls_act" where
  "ch_extension exttype ch src rest =
     act_get (\<lambda>tls.
       let ch = ch\<lparr>ch_psk_is_last_extension := False\<rparr> in
       res_bind (call_on_extension (ctx_on_extension (tls_ctx tls)) PTLS_HANDSHAKE_TYPE_CLIENT_HELLO exttype src) (\<lambda>_.
         if exttype = PTLS_EXTENSION_TYPE_SERVER_NAME
         then res_bind (client_hello_decode_server_name (ch_server_name ch) src) (\<lambda>(name, src).
                if src \<noteq> [] then Inl PTLS_ALERT_DECODE_ERROR else Inr (ch\<lparr>ch_server_name := name\<rparr>))
         else if exttype = PTLS_EXTENSION_TYPE_ALPN
         then res_bind (ch_decode_alpn src) (\<lambda>alpn. Inr (ch\<lparr>ch_alpn := alpn\<rparr>))
         else if exttype = PTLS_EXTENSION_TYPE_SERVER_CERTIFICATE_TYPE
         then res_bind (ch_decode_certificate_types src) (\<lambda>types. Inr (ch\<lparr>ch_server_certificate_types := types\<rparr>))
         else if exttype = PTLS_EXTENSION_TYPE_COMPRESS_CERTIFICATE
         then res_bind (ch_decode_compress_certificate src) (\<lambda>ids. Inr (ch\<lparr>ch_cert_compression_algos := ids\<rparr>))
         else if exttype = PTLS_EXTENSION_TYPE_SUPPORTED_GROUPS then Inr (ch\<lparr>ch_negotiated_groups := Some src\<rparr>)
         else if exttype = PTLS_EXTENSION_TYPE_SIGNATURE_ALGORITHMS
         then res_bind (decode_signature_algorithms (ch_signature_algorithms ch) src) (\<lambda>sa.
                Inr (ch\<lparr>ch_signature_algorithms := sa\<rparr>))
         else if exttype = PTLS_EXTENSION_TYPE_KEY_SHARE then Inr (ch\<lparr>ch_key_shares := Some src\<rparr>)
         else if exttype = PTLS_EXTENSION_TYPE_SUPPORTED_VERSIONS
         then res_bind (ch_decode_versions (ch_selected_version ch) src) (\<lambda>v. Inr (ch\<lparr>ch_selected_version := v\<rparr>))
         else if exttype = PTLS_EXTENSION_TYPE_COOKIE
         then if Option.bind (tls_properties tls) prop_cookie_key = None then Inl PTLS_ALERT_ILLEGAL_PARAMETER
              else ch_decode_cookie ch src
         else if exttype = PTLS_EXTENSION_TYPE_PRE_SHARED_KEY then ch_decode_pre_shared_key ch src rest
         else if exttype = PTLS_EXTENSION_TYPE_PSK_KEY_EXCHANGE_MODES
         then res_bind (ch_decode_ke_modes (ch_psk_ke_modes ch) src) (\<lambda>modes. Inr (ch\<lparr>ch_psk_ke_modes := modes\<rparr>))
         else if exttype = PTLS_EXTENSION_TYPE_EARLY_DATA then Inr (ch\<lparr>ch_psk_early_data_indication := True\<rparr>)
         else if exttype = PTLS_EXTENSION_TYPE_STATUS_REQUEST then Inr (ch\<lparr>ch_status_request := True\<rparr>)
         else if exttype = PTLS_EXTENSION_TYPE_TICKET_REQUEST
         then if length src \<noteq> 2 then Inl PTLS_ALERT_DECODE_ERROR
              else Inr (ch\<lparr>ch_ticket_request := (src ! 0, src ! 1)\<rparr>)
         else if exttype = PTLS_EXTENSION_TYPE_ENCRYPTED_CLIENT_HELLO then ch_decode_ech ch src rest
         else if should_collect_unknown_extension (tls_properties tls) exttype
         then res_bind (collect_unknown_extension exttype src (ch_unknown_extensions ch)) (\<lambda>slots.
                Inr (ch\<lparr>ch_unknown_extensions := slots\<rparr>))
         else Inr ch))"

text \<open>The part of the message before the extensions, and what follows it.\<close>

definition decode_client_hello_head :: "bytes \<Rightarrow> (st_ptls_client_hello \<times> bytes) res" where
  "decode_client_hello_head src =
     res_bind (ptls_decode16 src) (\<lambda>(legacy_version, src).
       if legacy_version < 0x0301 then Inl PTLS_ALERT_PROTOCOL_VERSION
       else if length src < 32 then Inl PTLS_ALERT_DECODE_ERROR
       else
         let random_bytes = take 32 src; src = drop 32 src in
         res_bind (ptls_decode_open_block 1
             (\<lambda>src. if length src > 32 then Inl PTLS_ALERT_DECODE_ERROR else take_rest src) src) (\<lambda>(sid, src).
         res_bind (ptls_decode_open_block 2
             (\<lambda>src. if length src mod 2 \<noteq> 0 then Inl PTLS_ALERT_DECODE_ERROR else take_rest src) src) (\<lambda>(suites, src).
         res_bind (ptls_decode_open_block 1
             (\<lambda>src. if src = [] then Inl PTLS_ALERT_DECODE_ERROR else take_rest src) src) (\<lambda>(methods, src).
           Inr (empty_client_hello\<lparr>ch_legacy_version := legacy_version, ch_random_bytes := random_bytes,
                  ch_legacy_session_id := sid, ch_cipher_suites := suites, ch_compression_methods := methods\<rparr>, src)))))"

definition decode_client_hello :: "bytes \<Rightarrow> st_ptls_client_hello tls_act" where
  "decode_client_hello src =
     act_bind (act_res (\<lambda>_. decode_client_hello_head src)) (\<lambda>(ch, src).
       if src = [] then act_return ch
       else act_decode_extensions PTLS_HANDSHAKE_TYPE_CLIENT_HELLO
              (\<lambda>exttype ch src rest. act_bind (ch_extension exttype ch src rest) (\<lambda>r.
                 act_bind (act_res (\<lambda>_. r)) (\<lambda>ch. act_return (ch, []))))
              (ch\<lparr>ch_extensions_tail := drop 2 src\<rparr>) src)"

section \<open>Constraints\<close>

text \<open>\<open>ptls_on_client_hello_parameters_t\<close> and the callback.\<close>

record ptls_on_client_hello_parameters =
  och_server_name :: "bytes option"
  och_raw_message :: bytes
  och_cipher_suites :: bytes
  och_negotiated_protocols :: "bytes list"
  och_signature_algorithms :: "16 word list"
  och_certificate_compression_algorithms :: "16 word list"
  och_server_certificate_types :: "byte list"
  och_psk_identities :: "ptls_client_hello_psk_identity list"
  och_incompatible_version :: bool

type_synonym on_client_hello_cb = "(ptls_on_client_hello_parameters \<Rightarrow> unit tls_act) option"

definition call_on_client_hello_cb ::
  "on_client_hello_cb \<Rightarrow> st_ptls_client_hello \<Rightarrow> bytes \<Rightarrow> bool \<Rightarrow> unit tls_act" where
  "call_on_client_hello_cb cb ch raw_message incompatible_version =
     (case cb of
        None \<Rightarrow> act_return ()
      | Some f \<Rightarrow> f \<lparr>och_server_name = ch_server_name ch, och_raw_message = raw_message,
          och_cipher_suites = ch_cipher_suites ch, och_negotiated_protocols = ch_alpn ch,
          och_signature_algorithms = (if incompatible_version then [] else ch_signature_algorithms ch),
          och_certificate_compression_algorithms =
            (if incompatible_version then [] else ch_cert_compression_algos ch),
          och_server_certificate_types = (if incompatible_version then [] else ch_server_certificate_types ch),
          och_psk_identities = (if incompatible_version then [] else ch_psk_identities ch),
          och_incompatible_version = incompatible_version\<rparr>)"

text \<open>The checks that only concern TLS 1.3.\<close>

definition tls13_hello_error :: "st_ptls_client_hello \<Rightarrow> bool \<Rightarrow> int" where
  "tls13_hello_error ch ech_is_inner_ch =
     (if ch_legacy_version ch \<le> 0x0300 then PTLS_ALERT_PROTOCOL_VERSION
      else if ch_compression_methods ch \<noteq> [0] then PTLS_ALERT_ILLEGAL_PARAMETER
      else if ch_psk_hash_end ch \<noteq> None \<and> \<not> ch_psk_is_last_extension ch then PTLS_ALERT_ILLEGAL_PARAMETER
      else if ch_psk_hash_end ch = None \<and> ch_psk_early_data_indication ch then PTLS_ALERT_ILLEGAL_PARAMETER
      else if ech_is_inner_ch \<and> ch_ech_payload ch = None then PTLS_ALERT_ILLEGAL_PARAMETER
      else if ch_ech_payload ch \<noteq> None \<and> ch_ech_type ch \<noteq>
                (if ech_is_inner_ch then PTLS_ECH_CLIENT_HELLO_TYPE_INNER else PTLS_ECH_CLIENT_HELLO_TYPE_OUTER)
      then PTLS_ALERT_ILLEGAL_PARAMETER
      else 0)"

definition check_client_hello_constraints ::
  "on_client_hello_cb \<Rightarrow> st_ptls_client_hello \<Rightarrow> bytes option \<Rightarrow> bool \<Rightarrow> bytes \<Rightarrow> unit tls_act" where
  "check_client_hello_constraints cb ch prev_random ech_is_inner_ch raw_message =
     (let is_second_flight = (prev_random \<noteq> None) in
      act_seq (act_guard (\<lambda>_. case prev_random of None \<Rightarrow> True | Some r \<Rightarrow> ch_random_bytes ch = r)
                 PTLS_ALERT_HANDSHAKE_FAILURE)
        (if \<not> is_supported_version (ch_selected_version ch)
         then if ech_is_inner_ch then act_fail PTLS_ALERT_ILLEGAL_PARAMETER
              else act_seq (if is_second_flight then act_return () else call_on_client_hello_cb cb ch raw_message True)
                     (act_fail PTLS_ALERT_PROTOCOL_VERSION)
         else act_code (\<lambda>_. tls13_hello_error ch ech_is_inner_ch)))"

section \<open>The inner message of Encrypted ClientHello\<close>

text \<open>Writing to a buffer as an action on it.  \<open>buf_block\<close> is \<open>ptls_buffer_push_block\<close> around a block that also
  reads input.\<close>

definition buf_push :: "pusher \<Rightarrow> (ptls_buffer, unit) act" where
  "buf_push f b = (case f b of (ret, b') \<Rightarrow> Some (if ret = 0 then Inr () else Inl ret, b'))"

definition buf_block :: "allocator \<Rightarrow> nat \<Rightarrow> (ptls_buffer, 'a) act \<Rightarrow> (ptls_buffer, 'a) act" where
  "buf_block M capacity m =
     act_seq (buf_push (ptls_buffer__do_pushv M (replicate capacity 0)))
    (act_bind (act_get buf_off) (\<lambda>body_start.
     act_bind m (\<lambda>x.
     act_bind (act_get (\<lambda>b. buf_off b - body_start)) (\<lambda>body_size.
     act_seq (act_guard (\<lambda>_. \<not> (capacity < 8 \<and> body_size \<ge> 2 ^ (capacity * 8))) PTLS_ERROR_BLOCK_OVERFLOW)
    (act_seq (act_put (poke (body_start - capacity) (be_bytes capacity body_size)))
       (act_return x))))))"

text \<open>The next extension of the outer message of the wanted type: its octets and what follows it.\<close>

function find_outer_extension :: "16 word \<Rightarrow> bytes \<Rightarrow> (bytes \<times> bytes) res option" where
  "find_outer_extension reftype outer_ext =
     (case res_bind (ptls_decode16 outer_ext) (\<lambda>(outertype, src).
             res_bind (ptls_decode16 src) (\<lambda>(outersize, src). Inr ((outertype, unat outersize), src))) of
        Inl _ \<Rightarrow> Some (Inl PTLS_ALERT_ILLEGAL_PARAMETER)
      | Inr ((outertype, outersize), src) \<Rightarrow>
          if \<not> length src \<ge> outersize then None
          else if outertype = reftype then Some (Inr (take outersize src, drop outersize src))
          else find_outer_extension reftype (drop outersize src))"
  by pat_completeness auto
termination
  by (relation "measure (\<lambda>(_, outer_ext). length outer_ext)")
    (auto dest!: consumes1_length [OF consumes1_ints(2)])

declare find_outer_extension.simps [simp del]

text \<open>The references of one \<open>ech_outer_extensions\<close>; the result is where the search in the outer extensions stands.\<close>

function rebuild_references :: "allocator \<Rightarrow> bytes \<Rightarrow> bytes \<Rightarrow> (ptls_buffer, bytes) act" where
  "rebuild_references M src outer_ext =
     (case ptls_decode16 src of
        Inl ret \<Rightarrow> act_fail ret
      | Inr (reftype, src') \<Rightarrow>
          act_seq (act_guard (\<lambda>_. reftype \<noteq> PTLS_EXTENSION_TYPE_ENCRYPTED_CLIENT_HELLO) PTLS_ALERT_ILLEGAL_PARAMETER)
         (act_bind (act_deref (\<lambda>_. find_outer_extension reftype outer_ext)) (\<lambda>found.
          act_bind (act_res (\<lambda>_. found)) (\<lambda>(ext, outer_ext').
          act_seq (buf_push (buffer_push_extension M reftype (ptls_buffer__do_pushv M ext)))
            (if src' = [] then act_return outer_ext' else rebuild_references M src' outer_ext')))))"
  by pat_completeness auto
termination
  by (relation "measure (\<lambda>(_, src, _). length src)") (auto dest: consumes1_length [OF consumes1_ints(2)])

declare rebuild_references.simps [simp del]

function rebuild_extension_loop :: "allocator \<Rightarrow> bytes \<Rightarrow> bytes \<Rightarrow> (ptls_buffer, unit) act" where
  "rebuild_extension_loop M src outer_ext =
     (if src = [] then act_return ()
      else case res_bind (ptls_decode16 src) (\<lambda>(exttype, src).
                  res_bind (ptls_decode_open_block 2 take_rest src) (\<lambda>(ext, src). Inr ((exttype, ext), src))) of
        Inl ret \<Rightarrow> act_fail ret
      | Inr ((exttype, ext), rest) \<Rightarrow>
          if exttype = PTLS_EXTENSION_TYPE_ECH_OUTER_EXTENSIONS
          then act_bind (act_res (\<lambda>_. ptls_decode_open_block 1 take_rest ext)) (\<lambda>(refs, left).
               act_bind (rebuild_references M refs outer_ext) (\<lambda>outer_ext'.
               act_seq (act_guard (\<lambda>_. left = []) PTLS_ALERT_DECODE_ERROR)
                 (rebuild_extension_loop M rest outer_ext')))
          else act_seq (buf_push (buffer_push_extension M exttype (ptls_buffer__do_pushv M ext)))
                 (rebuild_extension_loop M rest outer_ext))"
  by pat_completeness auto
termination
  by (relation "measure (\<lambda>(_, src, _). length src)")
    (auto dest!: consumes1_length [OF consumes1_ints(2)] consumes1_length [OF consumes1_open_block, rotated])

declare rebuild_extension_loop.simps [simp del]

text \<open>The result is the input that follows the extensions.\<close>

definition rebuild_ch_inner_extensions :: "allocator \<Rightarrow> bytes \<Rightarrow> bytes \<Rightarrow> (ptls_buffer, bytes) act" where
  "rebuild_ch_inner_extensions M src outer_ext =
     buf_block M 2
       (act_bind (act_res (\<lambda>_. ptls_decode_open_block 2 take_rest src)) (\<lambda>(body, after).
        act_seq (rebuild_extension_loop M body outer_ext) (act_return after)))"

definition COPY_BLOCK :: "allocator \<Rightarrow> nat \<Rightarrow> bytes \<Rightarrow> (ptls_buffer, bytes) act" where
  "COPY_BLOCK M capacity src =
     act_bind (act_res (\<lambda>_. ptls_decode_open_block capacity take_rest src)) (\<lambda>(body, after).
     act_seq (buf_push (ptls_buffer_push_block M capacity (ptls_buffer__do_pushv M body))) (act_return after))"

definition rebuild_ch_inner_body :: "allocator \<Rightarrow> bytes \<Rightarrow> bytes \<Rightarrow> bytes \<Rightarrow> (ptls_buffer, bytes) act" where
  "rebuild_ch_inner_body M legacy_session_id src outer_ext =
     act_bind (act_res (\<lambda>_. ptls_decode16 src)) (\<lambda>(legacy_version, src).
     act_seq (buf_push (ptls_buffer_push16 M legacy_version))
    (act_seq (act_guard (\<lambda>_. length src \<ge> 32) PTLS_ALERT_DECODE_ERROR)
    (act_seq (buf_push (ptls_buffer__do_pushv M (take 32 src)))
    (act_bind (act_res (\<lambda>_. ptls_decode_open_block 1
         (\<lambda>src. if src \<noteq> [] then Inl PTLS_ALERT_ILLEGAL_PARAMETER else Inr ((), [])) (drop 32 src))) (\<lambda>(_, src).
     act_seq (buf_push (ptls_buffer_push_block M 1 (ptls_buffer__do_pushv M legacy_session_id)))
    (act_bind (COPY_BLOCK M 2 src) (\<lambda>src.
     act_bind (COPY_BLOCK M 1 src) (\<lambda>src.
     rebuild_ch_inner_extensions M src outer_ext))))))))"

definition rebuild_ch_inner :: "allocator \<Rightarrow> bytes \<Rightarrow> st_ptls_client_hello \<Rightarrow> (ptls_buffer, unit) act" where
  "rebuild_ch_inner M src outer_ch =
     act_seq (buf_push (ptls_buffer_push M (word_of_int PTLS_HANDSHAKE_TYPE_CLIENT_HELLO)))
    (act_bind (buf_block M 3
        (rebuild_ch_inner_body M (ch_legacy_session_id outer_ch) src (ch_extensions_tail outer_ch))) (\<lambda>padding.
     act_guard (\<lambda>_. list_all (\<lambda>b. b = 0) padding) PTLS_ALERT_ILLEGAL_PARAMETER))"

section \<open>Pre-shared keys\<close>

text \<open>\<open>strncmp(x, y, len) == 0 && y[len] == 0\<close>: when \<open>x\<close> holds a zero octet and \<open>y\<close> is what precedes it,
  \<open>y[len]\<close> is past the end of \<open>y\<close>.\<close>

definition vec_is_string :: "bytes \<Rightarrow> bytes \<Rightarrow> bool option" where
  "vec_is_string x y = (if 0 \<notin> set x then Some (x = y) else if c_string x = y then None else Some False)"

text \<open>Whether the age the client reports is within ten seconds of the age of the ticket.\<close>

definition early_data_fresh :: "64 word \<Rightarrow> 64 word \<Rightarrow> 32 word \<Rightarrow> 32 word \<Rightarrow> bool" where
  "early_data_fresh now issue_at obfuscated_ticket_age age_add =
     (\<bar>sint ((now - issue_at) - ucast (obfuscated_ticket_age - age_add))\<bar> \<le> 10000)"

definition ticket_context_ok :: "session_identifier \<Rightarrow> ptls \<Rightarrow> bool option" where
  "ticket_context_ok si tls =
     (case ctx_ticket_context (tls_ctx tls) of
        Some context \<Rightarrow> Some (si_ticket_ctx si = context)
      | None \<Rightarrow>
          if si_ticket_ctx si \<noteq> []
          then (case tls_server_name tls of None \<Rightarrow> Some False | Some name \<Rightarrow> vec_is_string (si_ticket_ctx si) name)
          else Some (tls_server_name tls = None))"

definition ticket_protocol_ok :: "session_identifier \<Rightarrow> ptls \<Rightarrow> bool option" where
  "ticket_protocol_ok si tls =
     (if si_negotiated_protocol si \<noteq> []
      then (case tls_negotiated_protocol tls of
              None \<Rightarrow> Some False
            | Some protocol \<Rightarrow> vec_is_string (si_negotiated_protocol si) protocol)
      else Some True)"

text \<open>What follows the choice of the key exchange: suite, protocol and lengths.\<close>

definition ticket_parameters_ok ::
  "session_identifier \<Rightarrow> ptls_client_hello_psk_identity \<Rightarrow> bool tls_act" where
  "ticket_parameters_ok si identity =
     act_bind (act_deref tls_cipher_suite) (\<lambda>cs.
       if si_csid si \<noteq> cs_id cs then act_return False
       else act_bind (act_deref (ticket_protocol_ok si)) (\<lambda>protocol_ok.
         if \<not> protocol_ok then act_return False
         else act_bind (act_deref tls_key_schedule) (\<lambda>sched.
           act_return (length (si_psk si) = ks_digest_size sched
             \<and> length (pski_binder identity) = ks_digest_size sched))))"

text \<open>A ticket that was decrypted: whether early data is accepted and the secret, or \<open>None\<close> to try the next
  identity.  The key exchange is set before the last checks.\<close>

definition try_ticket ::
  "st_ptls_client_hello \<Rightarrow> ptls_client_hello_psk_identity \<Rightarrow> bool \<Rightarrow> bytes \<Rightarrow> (bool \<times> bytes option) option tls_act" where
  "try_ticket ch identity can_accept_early_data plain =
     (case decode_session_identifier plain of
        Inl _ \<Rightarrow> act_return None
      | Inr si \<Rightarrow>
          act_bind (act_get tls_ctx) (\<lambda>ctx.
            let now = ctx_get_time ctx; issue_at = si_issued_at si in
            if now < issue_at \<or> now - issue_at > ucast (ctx_ticket_lifetime ctx) * 1000 then act_return None
            else
              let accept_early_data = (ch_psk_early_data_indication ch \<and> can_accept_early_data
                    \<and> ctx_max_early_data_size ctx \<noteq> 0
                    \<and> early_data_fresh now issue_at (pski_obfuscated_ticket_age identity) (si_ticket_age_add si)) in
              act_bind (act_deref (ticket_context_ok si)) (\<lambda>context_ok.
                if \<not> context_ok then act_return None
                else act_bind (act_deref (\<lambda>tls. ctx_key_exchanges (tls_ctx tls))) (\<lambda>kxs.
                  case find (\<lambda>kx. kx_id kx = si_key_exchange_id si) kxs of
                    None \<Rightarrow> act_return None
                  | Some kx \<Rightarrow>
                      act_seq (act_put (\<lambda>tls. tls\<lparr>tls_key_share := Some kx\<rparr>))
                     (act_bind (ticket_parameters_ok si identity) (\<lambda>ok.
                      act_return (if ok then Some (accept_early_data, Some (si_psk si)) else None)))))))"

text \<open>One identity at position \<open>psk_index\<close>; \<open>decbuf\<close> is the buffer tickets are decrypted to.\<close>

definition try_psk_identity ::
  "st_ptls_client_hello \<Rightarrow> nat \<Rightarrow> ptls_client_hello_psk_identity \<Rightarrow> ptls_buffer
     \<Rightarrow> ((bool \<times> bytes option) option \<times> ptls_buffer) tls_act" where
  "try_psk_identity ch psk_index identity decbuf =
     act_bind (act_get tls_ctx) (\<lambda>ctx.
       case ctx_psk_identity ctx of
         Some known \<Rightarrow>
           if pski_identity identity = known
           then act_seq (act_put (\<lambda>tls. tls\<lparr>tls_key_share := None\<rparr>))
                  (act_return (Some (ch_psk_early_data_indication ch \<and> psk_index = 0, ctx_psk_secret ctx), decbuf))
           else act_return (None, decbuf)
       | None \<Rightarrow>
           (case (ctx_encrypt_ticket ctx, ctx_key_exchanges ctx) of
              (Some cb, Some _) \<Rightarrow>
                (case cb False (pski_identity identity) (decbuf\<lparr>buf_data := []\<rparr>) of (ret, decbuf') \<Rightarrow>
                   if ret \<noteq> 0 \<and> ret \<noteq> PTLS_ERROR_REJECT_EARLY_DATA then act_return (None, decbuf')
                   else act_bind (try_ticket ch identity (psk_index = 0 \<and> ret = 0) (buf_data decbuf')) (\<lambda>found.
                          act_return (found, decbuf')))
            | _ \<Rightarrow> act_return (None, decbuf)))"

fun try_psk_identities ::
  "st_ptls_client_hello \<Rightarrow> nat \<Rightarrow> ptls_client_hello_psk_identity list \<Rightarrow> ptls_buffer
     \<Rightarrow> (nat \<times> ptls_client_hello_psk_identity \<times> bool \<times> bytes option) option tls_act" where
  "try_psk_identities ch psk_index [] decbuf = act_return None"
| "try_psk_identities ch psk_index (identity # identities) decbuf =
     act_bind (try_psk_identity ch psk_index identity decbuf) (\<lambda>(found, decbuf').
       case found of
         Some (accept_early_data, secret) \<Rightarrow> act_return (Some (psk_index, identity, accept_early_data, secret))
       | None \<Rightarrow> try_psk_identities ch (Suc psk_index) identities decbuf')"

text \<open>The comparison of the binder reads \<open>digest_size\<close> octets of the message.\<close>

definition check_psk_binder :: "allocator \<Rightarrow> ptls_client_hello_psk_identity \<Rightarrow> bytes \<Rightarrow> unit tls_act" where
  "check_psk_binder M identity ch_trunc =
     act_bind (act_deref tls_key_schedule) (\<lambda>sched.
     act_bind (act_res (\<lambda>tls. derive_secret_with_empty_digest M sched
         (if ctx_psk_secret (tls_ctx tls) \<noteq> None then ''ext binder'' else ''res binder''))) (\<lambda>binder_key.
     let sched' = ptls__key_schedule_update_hash sched ch_trunc False in
     act_seq (act_put (\<lambda>tls. tls\<lparr>tls_key_schedule := Some sched'\<rparr>))
    (act_bind (act_res (\<lambda>_. calc_verify_data M sched' binder_key)) (\<lambda>expected.
     act_seq (act_assert (\<lambda>_. length (pski_binder_tail identity) \<ge> ks_digest_size sched'))
       (act_guard (\<lambda>_. take (ks_digest_size sched') (pski_binder_tail identity) = expected)
          PTLS_ALERT_DECRYPT_ERROR)))))"

text \<open>The result is the position of the chosen identity, the identity, and whether early data is accepted;
  \<open>None\<close> is the value \<open>SIZE_MAX\<close> of \<open>*psk_index\<close>.\<close>

definition try_psk_handshake ::
  "allocator \<Rightarrow> st_ptls_client_hello \<Rightarrow> bytes \<Rightarrow> bool
     \<Rightarrow> (nat \<times> ptls_client_hello_psk_identity \<times> bool) option tls_act" where
  "try_psk_handshake M ch ch_trunc is_second_flight =
     act_bind (try_psk_identities ch 0 (ch_psk_identities ch) (ptls_buffer_init 1 0 False)) (\<lambda>found.
       case found of
         None \<Rightarrow> act_seq (act_put (\<lambda>tls. tls\<lparr>tls_key_share := None\<rparr>)) (act_return None)
       | Some (psk_index, identity, accept_early_data, secret) \<Rightarrow>
           act_seq (if is_second_flight then act_return () else extract_next_secret M secret)
          (act_seq (check_psk_binder M identity ch_trunc)
             (act_return (Some (psk_index, identity, accept_early_data)))))"

section \<open>Cookies\<close>

definition enc_len8 :: "bytes \<Rightarrow> bytes" where
  "enc_len8 bs = of_nat (length bs) # bs"

definition cookie_server_name :: "ptls \<Rightarrow> bytes" where
  "cookie_server_name tls = (case tls_server_name tls of None \<Rightarrow> [] | Some name \<Rightarrow> name)"

text \<open>The assertions of \<open>UPDATE_BLOCK\<close>.\<close>

definition cookie_lengths_ok :: "ptls \<Rightarrow> ptls_handshake_properties \<Rightarrow> nat \<Rightarrow> bool" where
  "cookie_lengths_ok tls properties tbs_len \<longleftrightarrow>
     length (cookie_server_name tls) < 255 \<and> length (prop_cookie_additional_data properties) < 255 \<and> tbs_len < 255"

definition cookie_signature ::
  "ptls_hash_algorithm \<Rightarrow> bytes \<Rightarrow> ptls \<Rightarrow> ptls_handshake_properties \<Rightarrow> 16 word \<Rightarrow> ptls_key_exchange_algorithm option
     \<Rightarrow> bytes \<Rightarrow> bytes res" where
  "cookie_signature algo key tls properties csid negotiated_group tbs =
     (case ptls_hmac_create algo (take (hash_digest_size algo) key) of
        None \<Rightarrow> Inl PTLS_ERROR_NO_MEMORY
      | Some hctx \<Rightarrow>
          Inr (fst (hmac_final (foldl hmac_update hctx
            [enc_len8 (tls_client_random tls), enc_len8 (cookie_server_name tls), enc16 csid,
             enc16 (case negotiated_group of None \<Rightarrow> 0 | Some kx \<Rightarrow> kx_id kx),
             enc_len8 (prop_cookie_additional_data properties), enc_len8 tbs]) PTLS_HASH_FINAL_MODE_FREE)))"

text \<open>The algorithm is that of the first suite of the context.\<close>

definition cookie_algo :: "ptls \<Rightarrow> ptls_hash_algorithm option" where
  "cookie_algo tls = (case ctx_cipher_suites (tls_ctx tls) of Some (cs # _) \<Rightarrow> Some (cs_hash cs) | _ \<Rightarrow> None)"

definition calc_cookie_signature ::
  "ptls_key_exchange_algorithm option \<Rightarrow> bytes \<Rightarrow> bytes tls_act" where
  "calc_cookie_signature negotiated_group tbs =
     act_bind (act_deref cookie_algo) (\<lambda>algo.
     act_bind (act_deref tls_properties) (\<lambda>properties.
     act_bind (act_deref (\<lambda>_. prop_cookie_key properties)) (\<lambda>key.
     act_bind (act_deref tls_cipher_suite) (\<lambda>cs.
     act_seq (act_assert (\<lambda>tls. cookie_lengths_ok tls properties (length tbs)))
       (act_res (\<lambda>tls. cookie_signature algo key tls properties (cs_id cs) negotiated_group tbs))))))"

section \<open>Emitting ServerHello and HelloRetryRequest\<close>

text \<open>The identifier of the configuration, the KEM and the suite, if ECH was accepted.\<close>

definition ptls_is_ech_handshake ::
  "ptls \<Rightarrow> (byte \<times> ptls_hpke_kem option \<times> ptls_hpke_cipher_suite option) option" where
  "ptls_is_ech_handshake tls =
     (if ech_state (tls_ech tls) = PTLS_ECH_STATE_ACCEPTED
      then Some (ech_config_id (tls_ech tls), ech_kem (tls_ech tls), ech_cipher (tls_ech tls)) else None)"

definition server_hello_body :: "allocator \<Rightarrow> st_ptls_client_hello \<Rightarrow> 16 word \<Rightarrow> bytes \<Rightarrow> pusher \<Rightarrow> pusher" where
  "server_hello_body M ch csid random extensions =
     push_then (ptls_buffer_push16 M 0x0303)
    (push_then (reserve_and_write M 32 0 random)
    (push_then (ptls_buffer_push_block M 1 (ptls_buffer__do_pushv M (ch_legacy_session_id ch)))
    (push_then (ptls_buffer_push16 M csid)
    (push_then (ptls_buffer_push M 0)
      (ptls_buffer_push_block M 2
        (push_then (buffer_push_extension M PTLS_EXTENSION_TYPE_SUPPORTED_VERSIONS
            (ptls_buffer_push16 M (ch_selected_version ch)))
          extensions))))))"

text \<open>The action \<open>post_action\<close> gets the offset of the message in the buffer.\<close>

definition EMIT_SERVER_HELLO ::
  "allocator \<Rightarrow> st_ptls_client_hello \<Rightarrow> bytes \<Rightarrow> pusher \<Rightarrow> (nat \<Rightarrow> unit tls_act) \<Rightarrow> unit tls_act" where
  "EMIT_SERVER_HELLO M ch random extensions post_action =
     act_bind (act_deref tls_cipher_suite) (\<lambda>cs.
     act_seq (begin_message M)
    (act_bind em_off (\<lambda>sh_start_off.
     act_seq (ptls_buffer_push_message_body M False PTLS_HANDSHAKE_TYPE_SERVER_HELLO
                (server_hello_body M ch (cs_id cs) random extensions))
    (act_seq (commit_message M)
    (act_seq (post_action sh_start_off)
    (act_bind (em_message sh_start_off) update_hash))))))"

definition EMIT_HELLO_RETRY_REQUEST ::
  "allocator \<Rightarrow> st_ptls_client_hello \<Rightarrow> ptls_key_exchange_algorithm option \<Rightarrow> pusher \<Rightarrow> (nat \<Rightarrow> unit tls_act)
     \<Rightarrow> unit tls_act" where
  "EMIT_HELLO_RETRY_REQUEST M ch negotiated_group additional_extensions post_action =
     EMIT_SERVER_HELLO M ch hello_retry_random
       (push_then (case negotiated_group of
            None \<Rightarrow> push_nothing
          | Some kx \<Rightarrow> buffer_push_extension M PTLS_EXTENSION_TYPE_KEY_SHARE (ptls_buffer_push16 M (kx_id kx)))
         additional_extensions)
       post_action"

text \<open>The confirmation is written into the message at \<open>confirm_off\<close>, where it had zeros.\<close>

definition server_confirm_ech :: "allocator \<Rightarrow> string \<Rightarrow> (nat \<Rightarrow> nat) \<Rightarrow> nat \<Rightarrow> unit tls_act" where
  "server_confirm_ech M label confirm_off sh_start_off =
     act_when (\<lambda>tls. ptls_is_ech_handshake tls \<noteq> None)
       (act_bind (em_message sh_start_off) (\<lambda>msg.
        act_bind (act_deref tls_key_schedule) (\<lambda>sched.
        act_bind (act_res (\<lambda>tls. ech_calc_confirmation M sched (ech_inner_client_random (tls_ech tls)) label msg)) (\<lambda>hash.
        em_fill (sh_start_off + confirm_off (length msg)) hash))))"

section \<open>The server's view of Encrypted ClientHello\<close>

definition server_receive_hello ::
  "on_client_hello_cb \<Rightarrow> bytes option \<Rightarrow> bool \<Rightarrow> bytes \<Rightarrow> st_ptls_client_hello tls_act" where
  "server_receive_hello cb prev_random ech_is_inner_ch message =
     act_bind (decode_client_hello (drop 4 message)) (\<lambda>ch.
     act_seq (check_client_hello_constraints cb ch prev_random ech_is_inner_ch message) (act_return ch))"

text \<open>The ECH extension of a second ClientHello has to agree with the first one.\<close>

definition server_check_second_ech :: "st_ptls_client_hello \<Rightarrow> unit tls_act" where
  "server_check_second_ech ch =
     act_when (\<lambda>tls. ech_aead (tls_ech tls) \<noteq> None)
       (act_seq (act_guard (\<lambda>_. ch_ech_payload ch \<noteq> None) PTLS_ALERT_MISSING_EXTENSION)
       (act_bind (act_deref (\<lambda>tls. ech_cipher (tls_ech tls))) (\<lambda>cipher.
        act_guard (\<lambda>tls. ch_ech_config_id ch = ech_config_id (tls_ech tls)
            \<and> ch_ech_cipher_suite ch = (hcs_kdf cipher, hcs_aead_id cipher) \<and> ch_ech_enc ch = [])
          PTLS_ALERT_ILLEGAL_PARAMETER)))"

definition server_create_opener :: "st_ptls_client_hello \<Rightarrow> unit tls_act" where
  "server_create_opener ch =
     act_bind (act_get (\<lambda>tls. ctx_ech_create_opener (tls_ctx tls))) (\<lambda>create_opener.
       case create_opener of
         None \<Rightarrow> act_return ()
       | Some cb \<Rightarrow>
           (case cb (ch_ech_config_id ch) (ch_ech_cipher_suite ch) (ch_ech_enc ch) ech_info_prefix of
              None \<Rightarrow> act_put (\<lambda>tls. tls\<lparr>tls_ech := (tls_ech tls)\<lparr>ech_aead := None\<rparr>\<rparr>)
            | Some (aead, kem, cipher) \<Rightarrow>
                act_put (\<lambda>tls. tls\<lparr>tls_ech := (tls_ech tls)\<lparr>ech_aead := Some aead, ech_kem := Some kem,
                  ech_cipher := Some cipher, ech_config_id := ch_ech_config_id ch\<rparr>\<rparr>)))"

text \<open>The size that is asked for when the payload is shorter than a tag wraps around.\<close>

definition ech_inner_size :: "nat \<Rightarrow> nat \<Rightarrow> nat" where
  "ech_inner_size payload_len tag_size =
     (if tag_size \<le> payload_len then payload_len - tag_size else payload_len + 2 ^ 64 - tag_size)"

definition ech_outer_aad :: "st_ptls_client_hello \<Rightarrow> bytes \<Rightarrow> bytes \<Rightarrow> bytes" where
  "ech_outer_aad ch payload message =
     (let outer = drop 4 message; pos = length outer - ch_ech_payload_pos ch in
      take pos outer @ replicate (length payload) 0 @ drop (pos + length payload) outer)"

text \<open>The inner message becomes the message that is handled.\<close>

definition server_adopt_inner ::
  "allocator \<Rightarrow> on_client_hello_cb \<Rightarrow> bool \<Rightarrow> st_ptls_client_hello \<Rightarrow> bytes \<Rightarrow> (st_ptls_client_hello \<times> bytes) tls_act" where
  "server_adopt_inner M cb is_second_flight ch encoded_ch_inner =
     act_seq (act_put (\<lambda>tls. tls\<lparr>tls_ech := (tls_ech tls)\<lparr>ech_state := PTLS_ECH_STATE_ACCEPTED\<rparr>\<rparr>))
    (act_bind (\<lambda>tls. case rebuild_ch_inner M encoded_ch_inner ch (ptls_buffer_init 1 0 False) of
         None \<Rightarrow> None
       | Some (Inl ret, _) \<Rightarrow> Some (Inl ret, tls)
       | Some (Inr _, b) \<Rightarrow> Some (Inr (buf_data b), tls)) (\<lambda>inner.
     act_bind (act_get (\<lambda>tls. if is_second_flight then Some (ech_inner_client_random (tls_ech tls)) else None)) (\<lambda>prev.
     act_bind (server_receive_hello cb prev True inner) (\<lambda>ch'.
     act_seq (if is_second_flight then act_return ()
              else act_put (\<lambda>tls. tls\<lparr>tls_ech := (tls_ech tls)\<lparr>ech_inner_client_random := ch_random_bytes ch'\<rparr>\<rparr>))
       (act_return (ch', inner))))))"

definition server_open_inner ::
  "allocator \<Rightarrow> on_client_hello_cb \<Rightarrow> bool \<Rightarrow> st_ptls_client_hello \<Rightarrow> bytes \<Rightarrow> bytes \<Rightarrow> ptls_aead_context
     \<Rightarrow> (st_ptls_client_hello \<times> bytes) tls_act" where
  "server_open_inner M cb is_second_flight ch message payload aead =
     act_seq (act_guard (\<lambda>_. c_malloc M (ech_inner_size (length payload) (aead_tag_size (actx_algo aead)))
                             \<and> c_malloc M (length message - 4)) PTLS_ERROR_NO_MEMORY)
       (case ptls_aead_decrypt aead payload (if is_second_flight then 1 else 0) (ech_outer_aad ch payload message) of
          Some encoded_ch_inner \<Rightarrow> server_adopt_inner M cb is_second_flight ch encoded_ch_inner
        | None \<Rightarrow>
            if is_second_flight then act_fail PTLS_ALERT_DECRYPT_ERROR
            else act_seq (act_put (\<lambda>tls. tls\<lparr>tls_ech := (tls_ech tls)\<lparr>ech_aead := None\<rparr>\<rparr>))
                   (act_return (ch, message)))"

definition server_handle_ech ::
  "allocator \<Rightarrow> on_client_hello_cb \<Rightarrow> bool \<Rightarrow> st_ptls_client_hello \<Rightarrow> bytes \<Rightarrow> (st_ptls_client_hello \<times> bytes) tls_act" where
  "server_handle_ech M cb is_second_flight ch message =
     (case ch_ech_payload ch of
        Some payload \<Rightarrow>
          act_seq (act_guard (\<lambda>_. ch_ech_type ch = PTLS_ECH_CLIENT_HELLO_TYPE_OUTER) PTLS_ALERT_ILLEGAL_PARAMETER)
         (act_seq (if is_second_flight then act_return ()
                   else act_seq (act_put (\<lambda>tls. tls\<lparr>tls_ech := (tls_ech tls)\<lparr>ech_state := PTLS_ECH_STATE_OFFERED\<rparr>\<rparr>))
                          (server_create_opener ch))
         (act_bind (act_get (\<lambda>tls. ech_aead (tls_ech tls))) (\<lambda>aead.
            case aead of
              None \<Rightarrow> act_return (ch, message)
            | Some aead \<Rightarrow> server_open_inner M cb is_second_flight ch message payload aead)))
      | None \<Rightarrow>
          act_seq (act_when (\<lambda>tls. ech_state (tls_ech tls) \<noteq> PTLS_ECH_STATE_NONE)
             (act_seq (act_assert (\<lambda>_. is_second_flight)) (act_fail PTLS_ALERT_ILLEGAL_PARAMETER)))
            (act_return (ch, message)))"

section \<open>Handling a ClientHello\<close>

abbreviation SIZEOF_CLIENT_HELLO :: nat where "SIZEOF_CLIENT_HELLO \<equiv> 1200"
abbreviation PTLS_DEFAULT_MAX_TICKETS_TO_SERVE :: byte where "PTLS_DEFAULT_MAX_TICKETS_TO_SERVE \<equiv> 4"

definition certificate_type_exists :: "byte list \<Rightarrow> byte \<Rightarrow> bool" where
  "certificate_type_exists list desired_type =
     (if desired_type = PTLS_CERTIFICATE_TYPE_X509 \<and> length list = 0 then True
      else list_ex (\<lambda>t. t = desired_type) list)"

text \<open>Decoding and Encrypted ClientHello; the result is the message that counts and what it says.\<close>

definition server_get_hello ::
  "allocator \<Rightarrow> on_client_hello_cb \<Rightarrow> bool \<Rightarrow> bytes \<Rightarrow> (st_ptls_client_hello \<times> bytes) tls_act" where
  "server_get_hello M cb is_second_flight message =
     act_seq (act_guard (\<lambda>_. c_malloc M SIZEOF_CLIENT_HELLO) PTLS_ERROR_NO_MEMORY)
    (act_bind (act_get (\<lambda>tls. if is_second_flight then Some (tls_client_random tls) else None)) (\<lambda>prev_random.
     act_bind (server_receive_hello cb prev_random False message) (\<lambda>ch.
     act_seq (if \<not> is_second_flight then act_put (\<lambda>tls. tls\<lparr>tls_client_random := ch_random_bytes ch\<rparr>)
              else server_check_second_ech ch)
    (act_bind (server_handle_ech M cb is_second_flight ch message) (\<lambda>(ch, message).
     act_bind (act_get (\<lambda>tls. ctx_require_dhe_on_psk (tls_ctx tls))) (\<lambda>require_dhe.
     act_return (if require_dhe
                 then ch\<lparr>ch_psk_ke_modes := ch_psk_ke_modes ch AND NOT (push_bit (unat PTLS_PSK_KE_MODE_PSK) 1)\<rparr> else ch,
                 message)))))))"

definition server_consult_application ::
  "on_client_hello_cb \<Rightarrow> bool \<Rightarrow> st_ptls_client_hello \<Rightarrow> bytes \<Rightarrow> unit tls_act" where
  "server_consult_application cb is_second_flight ch message =
     (if \<not> is_second_flight
      then act_seq (if ch_legacy_session_id ch \<noteq> []
                    then act_put (\<lambda>tls. tls\<lparr>tls_send_change_cipher_spec := True\<rparr>) else act_return ())
          (act_seq (call_on_client_hello_cb cb ch message False)
             (act_guard (\<lambda>tls. certificate_type_exists (ch_server_certificate_types ch)
                (if ctx_use_raw_public_keys (tls_ctx tls) then PTLS_CERTIFICATE_TYPE_RAW_PUBLIC_KEY
                 else PTLS_CERTIFICATE_TYPE_X509)) PTLS_ALERT_UNSUPPORTED_CERTIFICATE))
      else act_seq (act_guard (\<lambda>_. \<not> ch_psk_early_data_indication ch) PTLS_ALERT_DECODE_ERROR)
             (act_guard (\<lambda>tls. tls_server_name tls = None \<or> ch_server_name ch = tls_server_name tls
                            \<or> tls_server_name tls = Some [] \<and> ch_server_name ch = None)
                PTLS_ALERT_HANDSHAKE_FAILURE))"

text \<open>Suites of a context are told apart by their identifiers.\<close>

definition server_select_cipher :: "allocator \<Rightarrow> bool \<Rightarrow> st_ptls_client_hello \<Rightarrow> unit tls_act" where
  "server_select_cipher M is_second_flight ch =
     act_bind (act_deref (\<lambda>tls. ctx_cipher_suites (tls_ctx tls))) (\<lambda>suites.
     act_bind (act_res (\<lambda>tls. select_cipher suites (ch_cipher_suites ch)
         (ctx_server_cipher_preference (tls_ctx tls)) (ctx_server_cipher_chacha_priority (tls_ctx tls))
         (ctx_psk_hash (tls_ctx tls)))) (\<lambda>cs.
       if \<not> is_second_flight
       then act_seq (act_put (\<lambda>tls. tls\<lparr>tls_cipher_suite := Some cs, tls_key_schedule := key_schedule_new M (Some cs) None False\<rparr>))
              (act_guard (\<lambda>tls. tls_key_schedule tls \<noteq> None) PTLS_ERROR_NO_MEMORY)
       else act_guard (\<lambda>tls. map_option cs_id (tls_cipher_suite tls) = Some (cs_id cs)) PTLS_ALERT_HANDSHAKE_FAILURE))"

definition server_select_key_share ::
  "st_ptls_client_hello \<Rightarrow> (ptls_key_exchange_algorithm \<times> bytes) option tls_act" where
  "server_select_key_share ch =
     act_res (\<lambda>tls. case (ch_key_shares ch, ctx_key_exchanges (tls_ctx tls)) of
         (Some src, Some kxs) \<Rightarrow> ptls_decode_block 2 (select_key_share kxs False) src
       | _ \<Rightarrow> Inr None)"

text \<open>A first ClientHello with a cookie stands for the second one of a handshake whose first part is forgotten:
  the transcript is rebuilt from the cookie.\<close>

definition server_use_cookie :: "allocator \<Rightarrow> st_ptls_client_hello \<Rightarrow> ptls_key_exchange_algorithm \<Rightarrow> unit tls_act" where
  "server_use_cookie M ch algorithm =
     act_bind (act_deref cookie_algo) (\<lambda>algo.
     act_bind (calc_cookie_signature (Some algorithm) (ch_cookie_tbs ch)) (\<lambda>sig.
     act_seq (act_guard (\<lambda>_. length (ch_cookie_signature ch) = hash_digest_size algo \<and> ch_cookie_signature ch = sig)
                PTLS_ALERT_HANDSHAKE_FAILURE)
    (act_seq (on_key_schedule key_schedule_update_ch1hash_prefix)
    (act_seq (update_hash (ch_cookie_ch1_hash ch))
    (act_bind (act_get (\<lambda>tls. ctx_psk_secret (tls_ctx tls))) (\<lambda>psk_secret.
     act_seq (act_ignore (extract_next_secret M psk_secret))
    (act_bind em_off (\<lambda>hrr_start.
     act_seq (EMIT_HELLO_RETRY_REQUEST M ch (if ch_cookie_sent_key_share ch then Some algorithm else None)
                (buffer_push_extension M PTLS_EXTENSION_TYPE_COOKIE (ptls_buffer__do_pushv M (ch_cookie_all ch)))
                (\<lambda>_. act_return ()))
       (em_truncate hrr_start)))))))))"

text \<open>The cookie extension of a HelloRetryRequest; the signature covers the octets written before it.\<close>

definition push_cookie :: "allocator \<Rightarrow> bytes \<Rightarrow> bool \<Rightarrow> nat \<Rightarrow> (bytes \<Rightarrow> bytes res) \<Rightarrow> pusher" where
  "push_cookie M ch1_hash sends_key_share sig_size sign =
     buffer_push_extension M PTLS_EXTENSION_TYPE_COOKIE
       (ptls_buffer_push_block M 2 (\<lambda>b.
         let tbs_start = buf_off b in
         push_then (ptls_buffer_push_block M 2
             (push_then (ptls_buffer_push_block M 1 (reserve_and_write M (length ch1_hash) 0 ch1_hash))
               (ptls_buffer_push M (if sends_key_share then 1 else 0))))
           (\<lambda>b1. ptls_buffer_push_block M 1
              (push_derived M sig_size True (sign (drop tbs_start (buf_data b1)))) b1) b))"

definition server_push_cookie ::
  "allocator \<Rightarrow> bool \<Rightarrow> ptls_key_exchange_algorithm \<Rightarrow> bool \<Rightarrow> pusher tls_act" where
  "server_push_cookie M retry_uses_cookie negotiated_group sends_key_share =
     (if \<not> retry_uses_cookie then act_return push_nothing
      else
        act_bind (act_deref tls_key_schedule) (\<lambda>sched.
        act_bind (act_deref tls_cipher_suite) (\<lambda>cs.
        act_bind (act_deref cookie_algo) (\<lambda>algo.
        act_bind (act_deref tls_properties) (\<lambda>properties.
        act_bind (act_deref (\<lambda>_. prop_cookie_key properties)) (\<lambda>key.
        case key_schedule_extract_ch1hash sched of (ch1_hash, sched') \<Rightarrow>
          act_seq (act_assert (\<lambda>tls. cookie_lengths_ok tls properties (2 + 1 + length ch1_hash + 1)))
         (act_seq (act_put (\<lambda>tls. tls\<lparr>tls_key_schedule := Some sched'\<rparr>))
           (act_get (\<lambda>tls. push_cookie M ch1_hash sends_key_share (hash_digest_size algo)
              (cookie_signature algo key tls properties (cs_id cs) (Some negotiated_group)))))))))))"

text \<open>Asking for another ClientHello.  \<open>selected\<close> is whether a key share was selected.\<close>

definition server_send_retry :: "allocator \<Rightarrow> st_ptls_client_hello \<Rightarrow> bytes \<Rightarrow> bool \<Rightarrow> unit tls_act" where
  "server_send_retry M ch message selected =
     act_bind (act_deref (\<lambda>tls. ctx_key_exchanges (tls_ctx tls))) (\<lambda>kxs.
     act_bind (act_res (\<lambda>_. case ch_negotiated_groups ch of
         None \<Rightarrow> Inl PTLS_ALERT_MISSING_EXTENSION
       | Some groups \<Rightarrow> select_negotiated_group kxs groups)) (\<lambda>negotiated_group.
     act_seq (update_hash message)
    (act_seq (act_assert (\<lambda>tls. map_option ks_generation (tls_key_schedule tls) = Some 0))
    (act_bind (act_get (\<lambda>tls. (case tls_properties tls of None \<Rightarrow> False | Some p \<Rightarrow> prop_retry_uses_cookie p)
                                \<and> ptls_is_ech_handshake tls = None)) (\<lambda>retry_uses_cookie.
     act_seq (if retry_uses_cookie then act_return ()
       else act_seq (on_key_schedule key_schedule_transform_post_ch1hash)
           (act_bind (act_get (\<lambda>tls. ctx_psk_secret (tls_ctx tls))) (\<lambda>psk_secret.
              act_ignore (extract_next_secret M psk_secret))))
    (act_bind (server_push_cookie M retry_uses_cookie negotiated_group (\<not> selected)) (\<lambda>cookie.
     act_bind (act_get (\<lambda>tls. ptls_is_ech_handshake tls \<noteq> None)) (\<lambda>is_ech.
     act_seq (EMIT_HELLO_RETRY_REQUEST M ch (if selected then None else Some negotiated_group)
        (push_then (push_ext_when M is_ech PTLS_EXTENSION_TYPE_ENCRYPTED_CLIENT_HELLO
             (reserve_and_write M PTLS_ECH_CONFIRM_LENGTH 0 (replicate PTLS_ECH_CONFIRM_LENGTH 0)))
           cookie)
        (server_confirm_ech M ECH_CONFIRMATION_HRR (\<lambda>len. len - PTLS_ECH_CONFIRM_LENGTH)))
       (if retry_uses_cookie
        then act_seq (push_change_cipher_spec M) (act_fail PTLS_ERROR_STATELESS_RETRY)
        else act_seq (set_state PTLS_STATE_SERVER_EXPECT_SECOND_CLIENT_HELLO)
            (act_seq (if ch_psk_early_data_indication ch
                      then act_put (\<lambda>tls. tls\<lparr>tls_early_data_skipped_bytes := 0\<rparr>) else act_return ())
               (act_fail PTLS_ERROR_IN_PROGRESS)))))))))))"

datatype handshake_mode = HANDSHAKE_MODE_FULL | HANDSHAKE_MODE_PSK | HANDSHAKE_MODE_PSK_DHE

text \<open>The retry decision: whether this is a second flight from here on.\<close>

definition server_retry_or_continue ::
  "allocator \<Rightarrow> bool \<Rightarrow> st_ptls_client_hello \<Rightarrow> bytes \<Rightarrow> (ptls_key_exchange_algorithm \<times> bytes) option \<Rightarrow> bool tls_act" where
  "server_retry_or_continue M is_second_flight ch message key_share =
     (if is_second_flight then act_return True
      else case key_share of
          Some (algorithm, _) \<Rightarrow>
            if ch_cookie_all ch \<noteq> [] then act_seq (server_use_cookie M ch algorithm) (act_return True)
            else act_bind (act_get (\<lambda>tls. case tls_properties tls of None \<Rightarrow> False | Some p \<Rightarrow> prop_enforce_retry p))
                   (\<lambda>enforce. act_seq (if enforce then server_send_retry M ch message True else act_return ())
                                (act_return False))
        | None \<Rightarrow>
            act_bind (act_get (\<lambda>tls. ch_key_shares ch \<noteq> None \<and> ctx_key_exchanges (tls_ctx tls) \<noteq> None)) (\<lambda>mismatch.
            act_seq (if mismatch then server_send_retry M ch message False else act_return ()) (act_return False)))"

definition server_try_psk ::
  "allocator \<Rightarrow> bool \<Rightarrow> st_ptls_client_hello \<Rightarrow> bytes \<Rightarrow> (nat \<times> ptls_client_hello_psk_identity \<times> bool) option tls_act" where
  "server_try_psk M is_second_flight ch message =
     act_bind (act_get tls_ctx) (\<lambda>ctx.
     act_bind
       (case ch_psk_hash_end ch of
          Some hash_end \<Rightarrow>
            if ch_psk_ke_modes ch AND 3 \<noteq> 0 \<and> \<not> ctx_require_client_authentication ctx
               \<and> (\<not> is_second_flight \<and> ctx_encrypt_ticket ctx \<noteq> None \<or> ctx_psk_identity ctx \<noteq> None)
            then try_psk_handshake M ch (take (length message - hash_end) message) is_second_flight
            else act_return None
        | None \<Rightarrow> act_return None) (\<lambda>psk.
     act_seq (act_guard (\<lambda>_. ctx_psk_identity ctx = None \<or> psk \<noteq> None) PTLS_ALERT_UNKNOWN_PSK_IDENTITY)
       (act_return psk)))"

text \<open>The binder is copied to an array of 64 octets.\<close>

definition set_selected_psk_binder :: "bytes \<Rightarrow> unit tls_act" where
  "set_selected_psk_binder binder =
     act_seq (act_assert (\<lambda>tls. tls_properties tls = None \<or> length binder \<le> 64))
       (act_put (\<lambda>tls. tls\<lparr>tls_properties :=
          map_option (\<lambda>p. p\<lparr>prop_selected_psk_binder := binder\<rparr>) (tls_properties tls)\<rparr>))"

definition server_full_mode :: "allocator \<Rightarrow> bool \<Rightarrow> bytes \<Rightarrow> handshake_mode tls_act" where
  "server_full_mode M is_second_flight message =
     act_seq (update_hash message)
    (act_seq (if is_second_flight then act_return ()
              else act_seq (act_assert (\<lambda>tls. map_option ks_generation (tls_key_schedule tls) = Some 0))
                     (act_ignore (extract_next_secret M None)))
    (act_seq (set_selected_psk_binder []) (act_return HANDSHAKE_MODE_FULL)))"

definition server_choose_mode ::
  "allocator \<Rightarrow> bool \<Rightarrow> st_ptls_client_hello \<Rightarrow> bytes \<Rightarrow> (nat \<times> ptls_client_hello_psk_identity \<times> bool) option
     \<Rightarrow> handshake_mode tls_act" where
  "server_choose_mode M is_second_flight ch message psk =
     act_bind (act_get (\<lambda>tls. ctx_require_client_authentication (tls_ctx tls))) (\<lambda>require_client_authentication.
       case psk of
         Some (psk_index, identity, _) \<Rightarrow>
           if require_client_authentication then server_full_mode M is_second_flight message
           else
             act_bind (act_deref (\<lambda>_. ch_psk_hash_end ch)) (\<lambda>hash_end.
             act_seq (update_hash (drop (length message - hash_end) message))
            (act_bind (if ch_psk_ke_modes ch AND 1 \<noteq> 0 then act_return HANDSHAKE_MODE_PSK
                       else act_seq (act_assert (\<lambda>_. ch_psk_ke_modes ch AND 2 \<noteq> 0)) (act_return HANDSHAKE_MODE_PSK_DHE))
               (\<lambda>mode.
             act_seq (act_put (\<lambda>tls. tls\<lparr>tls_is_psk_handshake := True\<rparr>))
            (act_seq (set_selected_psk_binder (pski_binder identity)) (act_return mode)))))
       | None \<Rightarrow> server_full_mode M is_second_flight message)"

definition tickets_to_send :: "st_ptls_client_hello \<Rightarrow> ptls \<Rightarrow> byte" where
  "tickets_to_send ch tls =
     (if ch_psk_ke_modes ch \<noteq> 0 \<and> ctx_ticket_lifetime (tls_ctx tls) \<noteq> 0
      then let n = (if fst (ch_ticket_request ch) \<noteq> 0
                    then if tls_is_psk_handshake tls then snd (ch_ticket_request ch) else fst (ch_ticket_request ch)
                    else 1);
               max_tickets = (if ctx_ticket_requests_server_max (tls_ctx tls) = 0
                    then PTLS_DEFAULT_MAX_TICKETS_TO_SERVE else ctx_ticket_requests_server_max (tls_ctx tls)) in
        if n > max_tickets then max_tickets else n
      else 0)"

definition server_accept_early_data ::
  "allocator \<Rightarrow> (nat \<times> ptls_client_hello_psk_identity \<times> bool) option \<Rightarrow> unit tls_act" where
  "server_accept_early_data M psk =
     act_when (\<lambda>tls. (case psk of None \<Rightarrow> False | Some (psk_index, _, accept) \<Rightarrow> accept \<and> psk_index = 0)
                       \<and> ctx_max_early_data_size (tls_ctx tls) \<noteq> 0)
       (act_seq (act_guard (\<lambda>_. c_malloc M 64) PTLS_ERROR_NO_MEMORY)
       (act_seq (act_put (\<lambda>tls. tls\<lparr>tls_pending_handshake_secret := Some (replicate 64 0)\<rparr>))
       (act_seq (derive_exporter_secret M True)
          (setup_traffic_protection M False (Some ''c e traffic'') 1 0 False))))"

text \<open>The public key and the shared secret; a handshake by pre-shared key alone has none.\<close>

definition server_exchange_key ::
  "st_ptls_client_hello \<Rightarrow> handshake_mode \<Rightarrow> (ptls_key_exchange_algorithm \<times> bytes) option
     \<Rightarrow> (ptls_key_exchange_algorithm \<times> bytes \<times> bytes) option tls_act" where
  "server_exchange_key ch mode key_share =
     (if mode = HANDSHAKE_MODE_PSK then act_return None
      else case key_share of
          None \<Rightarrow> act_fail (if ch_key_shares ch \<noteq> None then PTLS_ALERT_HANDSHAKE_FAILURE else PTLS_ALERT_MISSING_EXTENSION)
        | Some (algorithm, peer_key) \<Rightarrow>
            act_bind (tls_random_bytes 32) (\<lambda>seed.
            act_bind (act_res (\<lambda>_. kx_exchange algorithm seed peer_key)) (\<lambda>(pubkey, ecdh_secret).
            act_seq (act_put (\<lambda>tls. tls\<lparr>tls_key_share := Some algorithm\<rparr>))
              (act_return (Some (algorithm, pubkey, ecdh_secret))))))"

definition server_send_hello ::
  "allocator \<Rightarrow> st_ptls_client_hello \<Rightarrow> handshake_mode \<Rightarrow> (ptls_key_exchange_algorithm \<times> bytes \<times> bytes) option
     \<Rightarrow> (nat \<times> ptls_client_hello_psk_identity \<times> bool) option \<Rightarrow> unit tls_act" where
  "server_send_hello M ch mode exchanged psk =
     act_bind (tls_random_bytes 32) (\<lambda>random.
     act_bind (act_get (\<lambda>tls. ptls_is_ech_handshake tls \<noteq> None)) (\<lambda>is_ech.
     EMIT_SERVER_HELLO M ch (if is_ech then take 24 random @ replicate PTLS_ECH_CONFIRM_LENGTH 0 else random)
       (push_then (case exchanged of
            None \<Rightarrow> push_nothing
          | Some (algorithm, pubkey, _) \<Rightarrow> buffer_push_extension M PTLS_EXTENSION_TYPE_KEY_SHARE
              (push_then (ptls_buffer_push16 M (kx_id algorithm))
                (ptls_buffer_push_block M 2 (ptls_buffer__do_pushv M pubkey))))
         (push_ext_when M (mode \<noteq> HANDSHAKE_MODE_FULL) PTLS_EXTENSION_TYPE_PRE_SHARED_KEY
            (ptls_buffer_push16 M (case psk of None \<Rightarrow> UINT16_MAX | Some (psk_index, _) \<Rightarrow> of_nat psk_index))))
       (server_confirm_ech M ECH_CONFIRMATION_SERVER_HELLO (\<lambda>_. 4 + 2 + 32 - PTLS_ECH_CONFIRM_LENGTH))))"

definition server_derive_handshake_keys ::
  "allocator \<Rightarrow> st_ptls_client_hello \<Rightarrow> bytes option \<Rightarrow> unit tls_act" where
  "server_derive_handshake_keys M ch ecdh_secret =
     act_seq (act_assert (\<lambda>tls. map_option ks_generation (tls_key_schedule tls) = Some 1))
    (act_seq (act_ignore (extract_next_secret M ecdh_secret))
    (act_seq (setup_traffic_protection M True (Some ''s hs traffic'') 2 0 False)
    (act_bind (act_get tls_pending_handshake_secret) (\<lambda>pending.
       case pending of
         Some old \<Rightarrow>
           act_bind (act_deref tls_key_schedule) (\<lambda>sched.
           act_bind (act_res (\<lambda>_. derive_secret M sched ''c hs traffic'')) (\<lambda>secret.
           let new = write_secret (ks_digest_size sched) secret old in
           act_seq (act_put (\<lambda>tls. tls\<lparr>tls_pending_handshake_secret := Some new\<rparr>))
             (act_code (\<lambda>tls. case ctx_update_traffic_key (tls_ctx tls) of None \<Rightarrow> 0 | Some cb \<Rightarrow> cb False 2 new))))
       | None \<Rightarrow>
           act_seq (setup_traffic_protection M False (Some ''c hs traffic'') 2 0 False)
             (if ch_psk_early_data_indication ch
              then act_put (\<lambda>tls. tls\<lparr>tls_early_data_skipped_bytes := 0\<rparr>) else act_return ())))))"

definition encrypted_extensions_body :: "allocator \<Rightarrow> st_ptls_client_hello \<Rightarrow> ptls \<Rightarrow> pusher" where
  "encrypted_extensions_body M ch tls =
     ptls_buffer_push_block M 2
       (push_then (push_ext_when M (tls_server_name tls \<noteq> None) PTLS_EXTENSION_TYPE_SERVER_NAME push_nothing)
       (push_then (push_ext_when M (ctx_use_raw_public_keys (tls_ctx tls)) PTLS_EXTENSION_TYPE_SERVER_CERTIFICATE_TYPE
          (ptls_buffer_push M PTLS_CERTIFICATE_TYPE_RAW_PUBLIC_KEY))
       (push_then (case tls_negotiated_protocol tls of
            None \<Rightarrow> push_nothing
          | Some protocol \<Rightarrow> buffer_push_extension M PTLS_EXTENSION_TYPE_ALPN
              (ptls_buffer_push_block M 2 (ptls_buffer_push_block M 1 (ptls_buffer__do_pushv M protocol))))
       (push_then (push_ext_when M (tls_pending_handshake_secret tls \<noteq> None) PTLS_EXTENSION_TYPE_EARLY_DATA push_nothing)
       (push_then (push_ext_when M (ech_state (tls_ech tls) = PTLS_ECH_STATE_OFFERED
            \<and> ctx_ech_create_opener (tls_ctx tls) \<noteq> None \<and> ctx_ech_retry_configs (tls_ctx tls) \<noteq> [])
          PTLS_EXTENSION_TYPE_ENCRYPTED_CLIENT_HELLO (ptls_buffer__do_pushv M (ctx_ech_retry_configs (tls_ctx tls))))
       (push_then (push_ext_when M (fst (ch_ticket_request ch) \<noteq> 0 \<and> tls_num_tickets_to_send tls \<noteq> 0)
          PTLS_EXTENSION_TYPE_TICKET_REQUEST (ptls_buffer_push M (tls_num_tickets_to_send tls)))
         (push_additional_extensions M (ch_extra_extensions (tls_properties tls)))))))))"

definition certificate_request_body :: "allocator \<Rightarrow> ptls_context \<Rightarrow> pusher" where
  "certificate_request_body M ctx =
     push_then (ptls_buffer_push M 0)
       (ptls_buffer_push_block M 2
         (push_then (buffer_push_extension M PTLS_EXTENSION_TYPE_SIGNATURE_ALGORITHMS
             (push_signature_algorithms M (ctx_verify_algos ctx)))
           (push_ext_when M (ctx_client_ca_names ctx \<noteq> []) PTLS_EXTENSION_TYPE_CERTIFICATE_AUTHORITIES
             (ptls_buffer_push_block M 2
               (push_list (\<lambda>name. ptls_buffer_push_block M 2 (ptls_buffer__do_pushv M name)) (ctx_client_ca_names ctx))))))"

definition server_send_flight :: "allocator \<Rightarrow> st_ptls_client_hello \<Rightarrow> handshake_mode \<Rightarrow> unit tls_act" where
  "server_send_flight M ch mode =
     act_bind (act_get id) (\<lambda>tls.
     act_seq (ptls_push_message M True PTLS_HANDSHAKE_TYPE_ENCRYPTED_EXTENSIONS (encrypted_extensions_body M ch tls))
       (if mode = HANDSHAKE_MODE_FULL
        then act_seq (act_when (\<lambda>tls. ctx_require_client_authentication (tls_ctx tls))
               (ptls_push_message M True PTLS_HANDSHAKE_TYPE_CERTIFICATE_REQUEST
                  (certificate_request_body M (tls_ctx tls))))
            (act_seq (send_certificate M (ch_signature_algorithms ch) [] (ch_status_request ch)
                        (ch_cert_compression_algos ch))
               (server_finish_handshake M True (ch_signature_algorithms ch)))
        else server_finish_handshake M False []))"

text \<open>What follows the negotiation: the whole first flight of the server.\<close>

definition server_answer_hello ::
  "allocator \<Rightarrow> bool \<Rightarrow> st_ptls_client_hello \<Rightarrow> bytes \<Rightarrow> (ptls_key_exchange_algorithm \<times> bytes) option \<Rightarrow> unit tls_act" where
  "server_answer_hello M is_second_flight ch message key_share =
     act_seq (act_code (\<lambda>tls. report_unknown_extensions (tls_properties tls) (ch_unknown_extensions ch)))
    (act_bind (server_try_psk M is_second_flight ch message) (\<lambda>psk.
     act_bind (server_choose_mode M is_second_flight ch message psk) (\<lambda>mode.
     act_seq (act_put (\<lambda>tls. tls\<lparr>tls_num_tickets_to_send := tickets_to_send ch tls\<rparr>))
    (act_seq (server_accept_early_data M psk)
    (act_bind (server_exchange_key ch mode key_share) (\<lambda>exchanged.
     act_seq (server_send_hello M ch mode exchanged psk)
    (act_seq (act_put (\<lambda>tls. tls\<lparr>tls_ech := clear_ech (tls_ech tls) True\<rparr>))
    (act_seq (push_change_cipher_spec M)
    (act_seq (server_derive_handshake_keys M ch (map_option (\<lambda>(_, _, secret). secret) exchanged))
       (server_send_flight M ch mode))))))))))"

definition server_handle_hello :: "allocator \<Rightarrow> on_client_hello_cb \<Rightarrow> bytes \<Rightarrow> unit tls_act" where
  "server_handle_hello M cb message =
     act_bind (act_get (\<lambda>tls. tls_state tls = PTLS_STATE_SERVER_EXPECT_SECOND_CLIENT_HELLO)) (\<lambda>is_second_flight.
     act_bind (server_get_hello M cb is_second_flight message) (\<lambda>(ch, message).
     act_seq (server_consult_application cb is_second_flight ch message)
    (act_seq (server_select_cipher M is_second_flight ch)
    (act_bind (server_select_key_share ch) (\<lambda>key_share.
     act_bind (server_retry_or_continue M is_second_flight ch message key_share) (\<lambda>is_second_flight.
     server_answer_hello M is_second_flight ch message key_share))))))"

end
