(* ===== verification/Dispatch.thy ===== *)
theory Dispatch
  imports ServerHandshake
begin

text \<open>
  The state machine of a connection in \<^verbatim>\<open>lib/picotls.c\<close>: which handler takes a handshake message
  (\<open>handle_client_handshake_message\<close>, \<open>handle_server_handshake_message\<close>), how a record is taken apart and
  dispatched (\<open>handle_input\<close>, \<open>handle_input_tls12\<close>), the loops of \<open>ptls_handshake\<close> and \<open>ptls_receive\<close>, and the
  message interface that QUIC uses (\<open>ptls_handle_message\<close>).
\<close>

section \<open>Handshake messages\<close>

text \<open>A ticket that arrives after the handshake.  Saving it follows the pointers to the key exchange, the suite
  and the key schedule.\<close>

definition client_save_session_ticket :: "allocator \<Rightarrow> bytes \<Rightarrow> unit tls_act" where
  "client_save_session_ticket M message =
     act_bind (act_get tls_ctx) (\<lambda>ctx.
     act_bind (act_res (\<lambda>_. decode_new_session_ticket (ctx_on_extension ctx) (drop 4 message))) (\<lambda>_.
       case ctx_save_ticket ctx of
         None \<Rightarrow> act_return ()
       | Some save \<Rightarrow>
           act_bind (act_deref tls_key_share) (\<lambda>kx.
           act_bind (act_deref tls_cipher_suite) (\<lambda>cs.
           act_bind (act_deref tls_key_schedule) (\<lambda>sched.
             case client_handle_new_session_ticket M (ctx_on_extension ctx) (Some save) (ctx_get_time ctx) kx cs sched
                    message of
               (ret, saved) \<Rightarrow>
                 act_seq (act_put (\<lambda>tls. tls\<lparr>tls_saved_ticket :=
                            (case saved of None \<Rightarrow> tls_saved_ticket tls | Some t \<Rightarrow> Some t)\<rparr>))
                   (act_code (\<lambda>_. ret)))))))"

definition handle_client_handshake_message ::
  "allocator \<Rightarrow> (address_family \<Rightarrow> bytes \<Rightarrow> bool) \<Rightarrow> bytes \<Rightarrow> bool \<Rightarrow> unit tls_act" where
  "handle_client_handshake_message M inet_pton message is_end_of_record =
     act_bind (act_get tls_state) (\<lambda>state.
       let type = uint (message ! 0);
           certificate =
             (if type = PTLS_HANDSHAKE_TYPE_CERTIFICATE then client_handle_certificate message
              else if type = PTLS_HANDSHAKE_TYPE_COMPRESSED_CERTIFICATE
              then client_handle_compressed_certificate M message
              else act_fail PTLS_ALERT_UNEXPECTED_MESSAGE) in
       case state of
         PTLS_STATE_CLIENT_EXPECT_SERVER_HELLO \<Rightarrow>
           if type = PTLS_HANDSHAKE_TYPE_SERVER_HELLO \<and> is_end_of_record
           then client_handle_hello M inet_pton message else act_fail PTLS_ALERT_UNEXPECTED_MESSAGE
       | PTLS_STATE_CLIENT_EXPECT_SECOND_SERVER_HELLO \<Rightarrow>
           if type = PTLS_HANDSHAKE_TYPE_SERVER_HELLO \<and> is_end_of_record
           then client_handle_hello M inet_pton message else act_fail PTLS_ALERT_UNEXPECTED_MESSAGE
       | PTLS_STATE_CLIENT_EXPECT_ENCRYPTED_EXTENSIONS \<Rightarrow>
           if type = PTLS_HANDSHAKE_TYPE_ENCRYPTED_EXTENSIONS
           then client_handle_encrypted_extensions M inet_pton message else act_fail PTLS_ALERT_UNEXPECTED_MESSAGE
       | PTLS_STATE_CLIENT_EXPECT_CERTIFICATE_REQUEST_OR_CERTIFICATE \<Rightarrow>
           if type = PTLS_HANDSHAKE_TYPE_CERTIFICATE_REQUEST
           then client_handle_certificate_request M message else certificate
       | PTLS_STATE_CLIENT_EXPECT_CERTIFICATE \<Rightarrow> certificate
       | PTLS_STATE_CLIENT_EXPECT_CERTIFICATE_VERIFY \<Rightarrow>
           if type = PTLS_HANDSHAKE_TYPE_CERTIFICATE_VERIFY
           then client_handle_certificate_verify message else act_fail PTLS_ALERT_UNEXPECTED_MESSAGE
       | PTLS_STATE_CLIENT_EXPECT_FINISHED \<Rightarrow>
           if type = PTLS_HANDSHAKE_TYPE_FINISHED \<and> is_end_of_record
           then client_handle_finished M message else act_fail PTLS_ALERT_UNEXPECTED_MESSAGE
       | PTLS_STATE_CLIENT_POST_HANDSHAKE \<Rightarrow>
           if type = PTLS_HANDSHAKE_TYPE_NEW_SESSION_TICKET then client_save_session_ticket M message
           else if type = PTLS_HANDSHAKE_TYPE_KEY_UPDATE then handle_key_update M message
           else act_fail PTLS_ALERT_UNEXPECTED_MESSAGE
       | _ \<Rightarrow> (\<lambda>_. None))"

definition handle_server_handshake_message ::
  "allocator \<Rightarrow> on_client_hello_cb \<Rightarrow> bytes \<Rightarrow> bool \<Rightarrow> unit tls_act" where
  "handle_server_handshake_message M cb message is_end_of_record =
     act_bind (act_get tls_state) (\<lambda>state.
       let type = uint (message ! 0) in
       case state of
         PTLS_STATE_SERVER_EXPECT_CLIENT_HELLO \<Rightarrow>
           if type = PTLS_HANDSHAKE_TYPE_CLIENT_HELLO \<and> is_end_of_record
           then server_handle_hello M cb message else act_fail PTLS_ALERT_HANDSHAKE_FAILURE
       | PTLS_STATE_SERVER_EXPECT_SECOND_CLIENT_HELLO \<Rightarrow>
           if type = PTLS_HANDSHAKE_TYPE_CLIENT_HELLO \<and> is_end_of_record
           then server_handle_hello M cb message else act_fail PTLS_ALERT_HANDSHAKE_FAILURE
       | PTLS_STATE_SERVER_EXPECT_CERTIFICATE \<Rightarrow>
           if type = PTLS_HANDSHAKE_TYPE_CERTIFICATE
           then server_handle_certificate message else act_fail PTLS_ALERT_UNEXPECTED_MESSAGE
       | PTLS_STATE_SERVER_EXPECT_CERTIFICATE_VERIFY \<Rightarrow>
           if type = PTLS_HANDSHAKE_TYPE_CERTIFICATE_VERIFY
           then server_handle_certificate_verify message else act_fail PTLS_ALERT_UNEXPECTED_MESSAGE
       | PTLS_STATE_SERVER_EXPECT_END_OF_EARLY_DATA \<Rightarrow>
           act_seq (act_assert (\<lambda>tls. \<not> ctx_omit_end_of_early_data (tls_ctx tls)))
             (if type = PTLS_HANDSHAKE_TYPE_END_OF_EARLY_DATA
              then server_handle_end_of_early_data M message else act_fail PTLS_ALERT_UNEXPECTED_MESSAGE)
       | PTLS_STATE_SERVER_EXPECT_FINISHED \<Rightarrow>
           if type = PTLS_HANDSHAKE_TYPE_FINISHED \<and> is_end_of_record
           then server_handle_finished M message else act_fail PTLS_ALERT_HANDSHAKE_FAILURE
       | PTLS_STATE_SERVER_POST_HANDSHAKE \<Rightarrow>
           if type = PTLS_HANDSHAKE_TYPE_KEY_UPDATE then handle_key_update M message
           else act_fail PTLS_ALERT_UNEXPECTED_MESSAGE
       | _ \<Rightarrow> (\<lambda>_. None))"

text \<open>The environment of a connection: \<open>inet_pton\<close> and the callback \<open>on_client_hello\<close>.\<close>

record tls_env =
  env_alloc :: allocator
  env_inet_pton :: "address_family \<Rightarrow> bytes \<Rightarrow> bool"
  env_on_client_hello :: on_client_hello_cb

definition handle_handshake_message :: "tls_env \<Rightarrow> bool \<Rightarrow> bytes \<Rightarrow> bool \<Rightarrow> unit tls_act" where
  "handle_handshake_message E is_server =
     (if is_server then handle_server_handshake_message (env_alloc E) (env_on_client_hello E)
      else handle_client_handshake_message (env_alloc E) (env_inet_pton E))"

text \<open>A handler as the callback of the reassembly; a run that has failed an assertion stops it.\<close>

fun handler_callback :: "(bytes \<Rightarrow> bool \<Rightarrow> unit tls_act) \<Rightarrow> ptls option \<Rightarrow> bytes \<Rightarrow> bool \<Rightarrow> int \<times> ptls option" where
  "handler_callback h None message is_end_of_record = (PTLS_ALERT_INTERNAL_ERROR, None)"
| "handler_callback h (Some tls) message is_end_of_record =
     (case run_act (h message is_end_of_record) tls of
        None \<Rightarrow> (PTLS_ALERT_INTERNAL_ERROR, None)
      | Some (ret, tls') \<Rightarrow> (ret, Some tls'))"

definition handle_handshake_fragment ::
  "tls_env \<Rightarrow> bool \<Rightarrow> byte \<Rightarrow> bytes \<Rightarrow> ptls \<Rightarrow> (int \<times> ptls) option" where
  "handle_handshake_fragment E is_server type fragment tls =
     (case handle_handshake_record (env_alloc E) (ctx_max_buffer_size (tls_ctx tls))
             (handler_callback (handle_handshake_message E is_server)) (Some tls) (tls_recvbuf_mess tls) type fragment of
        (ret, s, mess) \<Rightarrow> map_option (\<lambda>tls'. (ret, tls'\<lparr>tls_recvbuf_mess := mess\<rparr>)) s)"

section \<open>Records\<close>

abbreviation PTLS_MAX_EARLY_DATA_SKIP_SIZE :: "32 word" where "PTLS_MAX_EARLY_DATA_SKIP_SIZE \<equiv> 65536"
abbreviation UINT32_MAX :: "32 word" where "UINT32_MAX \<equiv> - 1"

definition PTLS_ALERT_TO_PEER_ERROR :: "byte \<Rightarrow> int" where
  "PTLS_ALERT_TO_PEER_ERROR desc = uint desc + 0x100"

definition handle_alert :: "bytes \<Rightarrow> int" where
  "handle_alert src = (if length src \<noteq> 2 then PTLS_ALERT_DECODE_ERROR else PTLS_ALERT_TO_PEER_ERROR (src ! 1))"

text \<open>The outcome of a record: the return code, the connection, the buffer of the application, and whether the record
  is done with (the label \<open>NextRecord\<close>) or the function returned before.\<close>

type_synonym record_outcome = "int \<times> ptls \<times> ptls_buffer \<times> bool"

definition skip_early_data :: "nat \<Rightarrow> ptls \<Rightarrow> ptls_buffer \<Rightarrow> record_outcome" where
  "skip_early_data len tls decryptbuf =
     (let tls1 = tls\<lparr>tls_early_data_skipped_bytes := tls_early_data_skipped_bytes tls + of_nat len\<rparr> in
      if tls_early_data_skipped_bytes tls1 > PTLS_MAX_EARLY_DATA_SKIP_SIZE
      then (PTLS_ALERT_HANDSHAKE_FAILURE, tls1, decryptbuf, False)
      else (PTLS_ERROR_IN_PROGRESS, tls1, decryptbuf, True))"

text \<open>Application data.  Without a key nothing was written behind the end of the buffer that could be delivered.\<close>

definition deliver_data :: "bytes \<Rightarrow> ptls \<Rightarrow> ptls_buffer \<Rightarrow> record_outcome option" where
  "deliver_data text tls decryptbuf =
     (let delivered = decryptbuf\<lparr>buf_data := buf_data decryptbuf @ text\<rparr> in
      if tls_state tls \<ge> PTLS_STATE_POST_HANDSHAKE_MIN
      then if tp_aead (tls_dec tls) = None \<and> text \<noteq> [] then None else Some (0, tls, delivered, True)
      else if tls_state tls = PTLS_STATE_SERVER_EXPECT_END_OF_EARLY_DATA
      then Some (0, tls, if tp_aead (tls_dec tls) \<noteq> None then delivered else decryptbuf, True)
      else Some (PTLS_ALERT_UNEXPECTED_MESSAGE, tls, decryptbuf, True))"

definition dispatch_record :: "tls_env \<Rightarrow> byte \<Rightarrow> bytes \<Rightarrow> ptls \<Rightarrow> ptls_buffer \<Rightarrow> record_outcome option" where
  "dispatch_record E type fragment tls decryptbuf =
     (if buf_base (tls_recvbuf_mess tls) \<noteq> None \<or> type = PTLS_CONTENT_TYPE_HANDSHAKE
      then map_option (\<lambda>(ret, tls'). (ret, tls', decryptbuf, True))
             (handle_handshake_fragment E (tls_is_server tls) type fragment tls)
      else if type = PTLS_CONTENT_TYPE_APPDATA then deliver_data fragment tls decryptbuf
      else if type = PTLS_CONTENT_TYPE_ALERT then Some (handle_alert fragment, tls, decryptbuf, True)
      else Some (PTLS_ALERT_UNEXPECTED_MESSAGE, tls, decryptbuf, True))"

definition skips_early_data :: "ptls \<Rightarrow> bool" where
  "skips_early_data tls \<longleftrightarrow> tls_is_server tls \<and> tls_early_data_skipped_bytes tls \<noteq> UINT32_MAX"

definition open_record ::
  "tls_env \<Rightarrow> ptls_aead_context \<Rightarrow> bytes \<Rightarrow> ptls \<Rightarrow> ptls_buffer \<Rightarrow> record_outcome option" where
  "open_record E aead fragment tls decryptbuf =
     (case ptls_buffer_reserve (env_alloc E) (length fragment) False decryptbuf of (ret, db) \<Rightarrow>
        if ret \<noteq> 0 then Some (ret, tls, db, False)
        else case aead_decrypt aead (tls_dec tls) fragment of
            Inl ret \<Rightarrow>
              Some (if skips_early_data tls then skip_early_data (length fragment) tls db else (ret, tls, db, False))
          | Inr (text, tp) \<Rightarrow>
              (case split_inner_plaintext text of
                 Inl ret \<Rightarrow> Some (ret, tls\<lparr>tls_dec := tp\<rparr>, db, False)
               | Inr (type, body) \<Rightarrow> dispatch_record E type body (tls\<lparr>tls_dec := tp\<rparr>) db))"

definition handle_record ::
  "tls_env \<Rightarrow> byte \<Rightarrow> bytes \<Rightarrow> ptls \<Rightarrow> ptls_buffer \<Rightarrow> record_outcome option" where
  "handle_record E type fragment tls decryptbuf =
     (if type = PTLS_CONTENT_TYPE_CHANGE_CIPHER_SPEC
      then if tls_state tls < PTLS_STATE_POST_HANDSHAKE_MIN \<and> fragment = [1]
           then Some (PTLS_ERROR_IN_PROGRESS, tls, decryptbuf, True)
           else Some (PTLS_ALERT_UNEXPECTED_MESSAGE, tls, decryptbuf, False)
      else case (if type = PTLS_CONTENT_TYPE_ALERT then None else tp_aead (tls_dec tls)) of
          Some aead \<Rightarrow>
            if type \<noteq> PTLS_CONTENT_TYPE_APPDATA then Some (PTLS_ALERT_HANDSHAKE_FAILURE, tls, decryptbuf, False)
            else open_record E aead fragment tls decryptbuf
        | None \<Rightarrow>
            if type = PTLS_CONTENT_TYPE_APPDATA \<and> skips_early_data tls
            then Some (skip_early_data (length fragment) tls decryptbuf)
            else dispatch_record E type fragment tls decryptbuf)"

definition dispose_record :: "ptls \<Rightarrow> ptls" where
  "dispose_record tls = tls\<lparr>tls_recvbuf_rec := ptls_buffer_dispose (tls_recvbuf_rec tls)\<rparr>"

text \<open>The last component is the new value of \<open>*inlen\<close>.\<close>

definition handle_input ::
  "tls_env \<Rightarrow> ptls \<Rightarrow> ptls_buffer \<Rightarrow> bytes \<Rightarrow> (int \<times> ptls \<times> ptls_buffer \<times> nat) option" where
  "handle_input E tls decryptbuf input =
     (case parse_record (env_alloc E) (tls_recvbuf_rec tls) input of (ret, rec, rb, consumed) \<Rightarrow>
        let tls1 = tls\<lparr>tls_recvbuf_rec := rb\<rparr> in
        if ret \<noteq> 0 then Some (ret, tls1, decryptbuf, consumed)
        else case rec_fragment rec of
            None \<Rightarrow> None
          | Some fragment \<Rightarrow>
              map_option (\<lambda>(ret, tls', db, next). (ret, if next then dispose_record tls' else tls', db, consumed))
                (handle_record E (rec_type rec) fragment tls1 decryptbuf))"

section \<open>TLS 1.2 records\<close>

definition tls12_text_length :: "ptls_aead_context \<Rightarrow> bytes \<Rightarrow> nat res" where
  "tls12_text_length aead fragment =
     res_bind (if aead_tls12_record_iv_size (actx_algo aead) \<noteq> 0 then ptls_decode64 fragment
               else Inr (0, fragment)) (\<lambda>(_, src).
       if length src < aead_tag_size (actx_algo aead) then Inl PTLS_ALERT_BAD_RECORD_MAC
       else Inr (length src - aead_tag_size (actx_algo aead)))"

definition handle_record_tls12 ::
  "tls_env \<Rightarrow> byte \<Rightarrow> bytes \<Rightarrow> ptls \<Rightarrow> ptls_buffer \<Rightarrow> (int \<times> ptls \<times> ptls_buffer) option" where
  "handle_record_tls12 E type fragment tls decryptbuf =
     (case tp_aead (tls_dec tls) of
        None \<Rightarrow> None
      | Some aead \<Rightarrow>
          if aead_tls12_record_iv_size (actx_algo aead) \<notin> {0, 8} then None
          else case tls12_text_length aead fragment of
              Inl ret \<Rightarrow> Some (ret, tls, decryptbuf)
            | Inr textlen \<Rightarrow>
                (case ptls_buffer_reserve (env_alloc E) textlen False decryptbuf of (ret, db) \<Rightarrow>
                   if ret \<noteq> 0 then Some (ret, tls, db)
                   else case tls12_open_record aead (tls_dec tls) type fragment of
                       Inl ret \<Rightarrow> Some (ret, tls, db)
                     | Inr (text, tp) \<Rightarrow>
                         let tls' = tls\<lparr>tls_dec := tp\<rparr> in
                         Some (if type = PTLS_CONTENT_TYPE_APPDATA then (0, tls', db\<lparr>buf_data := buf_data db @ text\<rparr>)
                               else if type = PTLS_CONTENT_TYPE_ALERT then (handle_alert text, tls', db)
                               else (PTLS_ALERT_UNEXPECTED_MESSAGE, tls', db))))"

definition handle_input_tls12 ::
  "tls_env \<Rightarrow> ptls \<Rightarrow> ptls_buffer \<Rightarrow> bytes \<Rightarrow> (int \<times> ptls \<times> ptls_buffer \<times> nat) option" where
  "handle_input_tls12 E tls decryptbuf input =
     (case parse_record (env_alloc E) (tls_recvbuf_rec tls) input of (ret, rec, rb, consumed) \<Rightarrow>
        let tls1 = tls\<lparr>tls_recvbuf_rec := rb\<rparr> in
        if ret \<noteq> 0 then Some (ret, tls1, decryptbuf, consumed)
        else case rec_fragment rec of
            None \<Rightarrow> None
          | Some fragment \<Rightarrow>
              map_option (\<lambda>(ret, tls', db). (ret, dispose_record tls', db, consumed))
                (handle_record_tls12 E (rec_type rec) fragment tls1 decryptbuf))"

section \<open>The handshake loop\<close>

text \<open>The loop of \<open>ptls_handshake\<close>: the return code, the connection and the input that is left.  A round that takes
  nothing of its input and is in progress would be repeated for ever.\<close>

function handshake_loop ::
  "tls_env \<Rightarrow> int \<Rightarrow> ptls \<Rightarrow> ptls_buffer \<Rightarrow> bytes \<Rightarrow> (int \<times> ptls \<times> bytes) option" where
  "handshake_loop E ret tls decryptbuf src =
     (if ret = PTLS_ERROR_IN_PROGRESS \<and> src \<noteq> []
      then case handle_input E tls decryptbuf src of
          None \<Rightarrow> None
        | Some (ret', tls', db, consumed) \<Rightarrow>
            if buf_data db \<noteq> [] \<or> consumed = 0 then None
            else handshake_loop E ret' tls' db (drop consumed src)
      else Some (ret, tls, src))"
  by pat_completeness auto
termination
  by (relation "measure (\<lambda>(_, _, _, _, src). length src)") auto

declare handshake_loop.simps [simp del]

definition PTLS_ERROR_GET_CLASS :: "int \<Rightarrow> int" where
  "PTLS_ERROR_GET_CLASS e = e AND NOT 0xff"

abbreviation PTLS_ERROR_CLASS_SELF_ALERT :: int where "PTLS_ERROR_CLASS_SELF_ALERT \<equiv> 0"
abbreviation PTLS_ERROR_CLASS_PEER_ALERT :: int where "PTLS_ERROR_CLASS_PEER_ALERT \<equiv> 0x100"
abbreviation PTLS_ALERT_LEVEL_FATAL :: byte where "PTLS_ALERT_LEVEL_FATAL \<equiv> 2"

text \<open>What is sent when the handshake fails: the messages written so far are taken back and an alert is sent.\<close>

definition handshake_failed :: "tls_env \<Rightarrow> int \<Rightarrow> nat \<Rightarrow> ptls \<Rightarrow> ptls_buffer \<Rightarrow> ptls \<times> ptls_buffer" where
  "handshake_failed E ret orig_off tls sendbuf =
     (let b = (if ret \<noteq> PTLS_ALERT_ECH_REQUIRED then sendbuf\<lparr>buf_data := take orig_off (buf_data sendbuf)\<rparr> else sendbuf) in
      if PTLS_ERROR_GET_CLASS ret \<noteq> PTLS_ERROR_CLASS_PEER_ALERT
      then case ptls_send_alert (env_alloc E) tls b PTLS_ALERT_LEVEL_FATAL
             (word_of_int (if PTLS_ERROR_GET_CLASS ret = PTLS_ERROR_CLASS_SELF_ALERT then ret
                           else PTLS_ALERT_INTERNAL_ERROR)) of
          (r, tls', b') \<Rightarrow> (tls', if r \<noteq> 0 then b'\<lparr>buf_data := take orig_off (buf_data b')\<rparr> else b')
      else (tls, b))"

text \<open>The result of \<open>ptls_handshake\<close>: the return code, the connection with the updated properties, the buffer of what
  is to be sent, and how much of the input was taken.\<close>

type_synonym handshake_result = "(int \<times> ptls \<times> ptls_buffer \<times> nat) option"

definition handshake_step :: "unit tls_act \<Rightarrow> ptls_message_emitter \<Rightarrow> nat \<Rightarrow> ptls \<Rightarrow> handshake_result" where
  "handshake_step m em inlen tls =
     map_option (\<lambda>(ret, tls', em'). (ret, tls', em_buf em', inlen)) (with_emitter em m tls)"

definition handshake_input :: "tls_env \<Rightarrow> ptls \<Rightarrow> ptls_buffer \<Rightarrow> bytes \<Rightarrow> handshake_result" where
  "handshake_input E tls sendbuf input =
     (case handshake_loop E PTLS_ERROR_IN_PROGRESS (tls\<lparr>tls_emitter := Some (record_emitter sendbuf)\<rparr>)
             (ptls_buffer_init 1 0 False) input of
        None \<Rightarrow> None
      | Some (ret, tls', left) \<Rightarrow>
          (case tls_emitter tls' of
             None \<Rightarrow> None
           | Some em \<Rightarrow>
               let tls1 = tls'\<lparr>tls_emitter := tls_emitter tls\<rparr>; consumed = length input - length left in
               if ret \<in> {0, PTLS_ERROR_IN_PROGRESS, PTLS_ERROR_STATELESS_RETRY, PTLS_ERROR_ASYNC_OPERATION}
               then Some (ret, tls1, em_buf em, consumed)
               else case handshake_failed E ret (buf_off sendbuf) tls1 (em_buf em) of
                   (tls2, b) \<Rightarrow> Some (ret, tls2, b, consumed)))"

definition ptls_handshake ::
  "tls_env \<Rightarrow> ptls \<Rightarrow> ptls_buffer \<Rightarrow> bytes \<Rightarrow> ptls_handshake_properties option \<Rightarrow> handshake_result" where
  "ptls_handshake E tls sendbuf input properties =
     (let tls0 = tls\<lparr>tls_properties := properties\<rparr> in
      if \<not> tls_state tls < PTLS_STATE_POST_HANDSHAKE_MIN then None
      else if buffer_require_direction sendbuf True \<noteq> 0
      then Some (buffer_require_direction sendbuf True, tls0, sendbuf, length input)
      else if tls_state tls = PTLS_STATE_CLIENT_HANDSHAKE_START
      then if input \<noteq> [] then None
           else handshake_step (send_client_hello (env_alloc E) (env_inet_pton E) None) (record_emitter sendbuf) (length input) tls0
      else if tls_state tls = PTLS_STATE_SERVER_GENERATING_CERTIFICATE_VERIFY
      then handshake_step (server_finish_handshake (env_alloc E) True []) (record_emitter sendbuf) (length input) tls0
      else handshake_input E tls0 sendbuf input)"

section \<open>Receiving application data\<close>

definition receive_code :: "int \<Rightarrow> int" where
  "receive_code ret = (if ret = PTLS_ERROR_IN_PROGRESS then 0 else ret)"

definition handle_any_input ::
  "tls_env \<Rightarrow> ptls \<Rightarrow> ptls_buffer \<Rightarrow> bytes \<Rightarrow> (int \<times> ptls \<times> ptls_buffer \<times> nat) option" where
  "handle_any_input E tls decryptbuf input =
     (if tp_tls12 (tls_dec tls) then handle_input_tls12 E tls decryptbuf input
      else handle_input E tls decryptbuf input)"

function receive_loop ::
  "tls_env \<Rightarrow> nat \<Rightarrow> int \<Rightarrow> ptls \<Rightarrow> ptls_buffer \<Rightarrow> bytes \<Rightarrow> (int \<times> ptls \<times> ptls_buffer \<times> bytes) option" where
  "receive_loop E orig_size ret tls decryptbuf input =
     (if ret = 0 \<and> input \<noteq> [] \<and> orig_size = buf_off decryptbuf
      then case handle_any_input E tls decryptbuf input of
          None \<Rightarrow> None
        | Some (ret', tls', db, consumed) \<Rightarrow>
            if consumed = 0 then None
            else receive_loop E orig_size (receive_code ret') tls' db (drop consumed input)
      else Some (ret, tls, decryptbuf, input))"
  by pat_completeness auto
termination
  by (relation "measure (\<lambda>(_, _, _, _, _, input). length input)") auto

declare receive_loop.simps [simp del]

definition ptls_receive ::
  "tls_env \<Rightarrow> ptls \<Rightarrow> ptls_buffer \<Rightarrow> bytes \<Rightarrow> (int \<times> ptls \<times> ptls_buffer \<times> nat) option" where
  "ptls_receive E tls decryptbuf input =
     (if \<not> tls_state tls \<ge> PTLS_STATE_SERVER_EXPECT_END_OF_EARLY_DATA then None
      else if buffer_require_direction decryptbuf False \<noteq> 0
      then Some (buffer_require_direction decryptbuf False, tls, decryptbuf, length input)
      else map_option (\<lambda>(ret, tls', db, left). (ret, tls', db, length input - length left))
             (receive_loop E (buf_off decryptbuf) 0 (tls\<lparr>tls_emitter := None, tls_properties := None\<rparr>) decryptbuf input))"

section \<open>Messages without records\<close>

fun read_epoch :: "ptls_state \<Rightarrow> nat" where
  "read_epoch PTLS_STATE_CLIENT_HANDSHAKE_START = 0"
| "read_epoch PTLS_STATE_CLIENT_EXPECT_SERVER_HELLO = 0"
| "read_epoch PTLS_STATE_CLIENT_EXPECT_SECOND_SERVER_HELLO = 0"
| "read_epoch PTLS_STATE_SERVER_EXPECT_CLIENT_HELLO = 0"
| "read_epoch PTLS_STATE_SERVER_EXPECT_SECOND_CLIENT_HELLO = 0"
| "read_epoch PTLS_STATE_SERVER_EXPECT_END_OF_EARLY_DATA = 1"
| "read_epoch PTLS_STATE_CLIENT_EXPECT_ENCRYPTED_EXTENSIONS = 2"
| "read_epoch PTLS_STATE_CLIENT_EXPECT_CERTIFICATE_REQUEST_OR_CERTIFICATE = 2"
| "read_epoch PTLS_STATE_CLIENT_EXPECT_CERTIFICATE = 2"
| "read_epoch PTLS_STATE_CLIENT_EXPECT_CERTIFICATE_VERIFY = 2"
| "read_epoch PTLS_STATE_CLIENT_EXPECT_FINISHED = 2"
| "read_epoch PTLS_STATE_SERVER_GENERATING_CERTIFICATE_VERIFY = 2"
| "read_epoch PTLS_STATE_SERVER_EXPECT_CERTIFICATE = 2"
| "read_epoch PTLS_STATE_SERVER_EXPECT_CERTIFICATE_VERIFY = 2"
| "read_epoch PTLS_STATE_SERVER_EXPECT_FINISHED = 2"
| "read_epoch PTLS_STATE_CLIENT_POST_HANDSHAKE = 3"
| "read_epoch PTLS_STATE_SERVER_POST_HANDSHAKE = 3"

definition ptls_get_read_epoch :: "ptls \<Rightarrow> nat option" where
  "ptls_get_read_epoch tls =
     (if tls_state tls = PTLS_STATE_SERVER_EXPECT_END_OF_EARLY_DATA \<and> ctx_omit_end_of_early_data (tls_ctx tls)
      then None else Some (read_epoch (tls_state tls)))"

definition raw_emitter :: "ptls_buffer \<Rightarrow> nat list \<Rightarrow> ptls_message_emitter" where
  "raw_emitter sendbuf epoch_offsets =
     \<lparr>em_buf = sendbuf, em_is_raw = True, em_start = SIZE_MAX, em_epoch_offsets = epoch_offsets\<rparr>"

definition handle_fragment_act :: "tls_env \<Rightarrow> bool \<Rightarrow> bytes \<Rightarrow> unit tls_act" where
  "handle_fragment_act E is_server input tls =
     map_option (\<lambda>(ret, tls'). (if ret = 0 then Inr () else Inl ret, tls'))
       (handle_handshake_fragment E is_server PTLS_CONTENT_TYPE_HANDSHAKE input tls)"

text \<open>The results are the return code, the connection and the emitter with the buffer and the offsets of the epochs.
  \<open>input\<close> is \<open>None\<close> for \<open>NULL\<close>.\<close>

type_synonym message_result = "(int \<times> ptls \<times> ptls_message_emitter) option"

definition ptls_client_handle_message ::
  "tls_env \<Rightarrow> ptls \<Rightarrow> ptls_buffer \<Rightarrow> nat list \<Rightarrow> nat \<Rightarrow> bytes option \<Rightarrow> ptls_handshake_properties option
     \<Rightarrow> message_result" where
  "ptls_client_handle_message E tls sendbuf epoch_offsets in_epoch input properties =
     (let tls0 = tls\<lparr>tls_properties := properties\<rparr>; em = raw_emitter sendbuf epoch_offsets in
      if tls_is_server tls then None
      else if buffer_require_direction sendbuf True \<noteq> 0 then Some (buffer_require_direction sendbuf True, tls0, em)
      else case input of
          None \<Rightarrow> with_emitter em (send_client_hello (env_alloc E) (env_inet_pton E) None) tls0
        | Some octets \<Rightarrow>
            (case ptls_get_read_epoch tls of
               None \<Rightarrow> None
             | Some epoch \<Rightarrow>
                 if epoch \<noteq> in_epoch then Some (PTLS_ALERT_UNEXPECTED_MESSAGE, tls0, em)
                 else with_emitter em (handle_fragment_act E False octets) tls0))"

definition ptls_server_handle_message ::
  "tls_env \<Rightarrow> ptls \<Rightarrow> ptls_buffer \<Rightarrow> nat list \<Rightarrow> nat \<Rightarrow> bytes option \<Rightarrow> ptls_handshake_properties option
     \<Rightarrow> message_result" where
  "ptls_server_handle_message E tls sendbuf epoch_offsets in_epoch input properties =
     (let tls0 = tls\<lparr>tls_properties := properties\<rparr>; em = raw_emitter sendbuf epoch_offsets in
      if \<not> tls_is_server tls then None
      else if buffer_require_direction sendbuf True \<noteq> 0 then Some (buffer_require_direction sendbuf True, tls0, em)
      else if tls_state tls = PTLS_STATE_SERVER_GENERATING_CERTIFICATE_VERIFY
      then if input \<noteq> None \<and> input \<noteq> Some [] then None
           else with_emitter em (server_finish_handshake (env_alloc E) True []) tls0
      else case input of
          None \<Rightarrow> None
        | Some octets \<Rightarrow>
            (case ptls_get_read_epoch tls of
               None \<Rightarrow> None
             | Some epoch \<Rightarrow>
                 if epoch \<noteq> in_epoch then Some (PTLS_ALERT_UNEXPECTED_MESSAGE, tls0, em)
                 else with_emitter em (handle_fragment_act E True octets) tls0))"

definition ptls_handle_message ::
  "tls_env \<Rightarrow> ptls \<Rightarrow> ptls_buffer \<Rightarrow> nat list \<Rightarrow> nat \<Rightarrow> bytes option \<Rightarrow> ptls_handshake_properties option
     \<Rightarrow> message_result" where
  "ptls_handle_message E tls sendbuf epoch_offsets in_epoch input properties =
     (if tls_is_server tls then ptls_server_handle_message E tls sendbuf epoch_offsets in_epoch input properties
      else ptls_client_handle_message E tls sendbuf epoch_offsets in_epoch input properties)"

end
