(* ===== verification/ExportImport.thy ===== *)
theory ExportImport
  imports Dispatch
begin

text \<open>
  The life of a connection object in \<^verbatim>\<open>lib/picotls.c\<close>: creating one (\<open>new_instance\<close>,
  \<open>ptls_client_new\<close>, \<open>ptls_server_new\<close>), the accessors that change it, and moving an established connection to another
  process (\<open>ptls_export\<close>, \<open>ptls_build_tls12_export_params\<close>, \<open>ptls_import\<close>).  Also the text utilities
  \<open>ptls_hexdump\<close> and \<open>ptls_jsonescape\<close>.
\<close>

section \<open>Creating a connection\<close>

definition zero_tls :: "ptls_context \<Rightarrow> nat \<Rightarrow> ptls" where
  "zero_tls ctx rng =
     \<lparr>tls_ctx = ctx, tls_state = PTLS_STATE_CLIENT_HANDSHAKE_START, tls_recvbuf_rec = zero_buffer,
      tls_recvbuf_mess = zero_buffer, tls_key_schedule = None, tls_dec = empty_prot, tls_enc = empty_prot,
      tls_server_name = None, tls_negotiated_protocol = None, tls_key_share = None, tls_cipher_suite = None,
      tls_client_random = replicate 32 0, tls_exporter_early = None, tls_exporter_one_rtt = None,
      tls_ech = empty_ech, tls_is_server = False, tls_is_psk_handshake = False, tls_send_change_cipher_spec = False,
      tls_needs_key_update = False, tls_key_update_send_request = False, tls_tx_detached = False,
      tls_detached_tx_protocol_version = 0, tls_key_update_requests = 0, tls_legacy_session_id = [],
      tls_key_share_ctx = None, tls_offered_psk = False, tls_using_early_data = False, tls_cr_context = None,
      tls_cr_signature_algorithms = [], tls_pending_traffic_secret = replicate 64 0,
      tls_early_data_skipped_bytes = 0, tls_num_tickets_to_send = 0, tls_async_job = False,
      tls_certificate_verify = None, tls_pending_handshake_secret = None, tls_saved_ticket = None, tls_rng = rng,
      tls_emitter = None, tls_properties = None\<rparr>"

text \<open>The assertions about \<open>pre_shared_key\<close>.\<close>

definition psk_consistent :: "ptls_context \<Rightarrow> bool" where
  "psk_consistent ctx =
     (case ctx_psk_identity ctx of
        Some identity \<Rightarrow> identity \<noteq> [] \<and> ctx_psk_secret ctx \<noteq> None \<and> ctx_psk_secret ctx \<noteq> Some []
          \<and> ctx_psk_hash ctx \<noteq> None
      | None \<Rightarrow> ctx_psk_secret ctx = None \<and> ctx_psk_hash ctx = None)"

text \<open>\<open>sz\<close> is \<open>sizeof(ptls_t)\<close> and \<open>rng\<close> the number of requests for random octets so far.  \<open>Some None\<close> is the return value
  \<open>NULL\<close>.\<close>

definition new_instance :: "allocator \<Rightarrow> nat \<Rightarrow> nat \<Rightarrow> ptls_context \<Rightarrow> bool \<Rightarrow> ptls option option" where
  "new_instance M sz rng ctx is_server =
     (if \<not> psk_consistent ctx then None
      else if \<not> c_malloc M sz then Some None
      else Some (Some ((zero_tls ctx rng)\<lparr>tls_is_server := is_server,
             tls_send_change_cipher_spec := ctx_send_change_cipher_spec ctx\<rparr>)))"

text \<open>Neither function looks whether there is an instance.\<close>

definition ptls_client_new :: "allocator \<Rightarrow> nat \<Rightarrow> nat \<Rightarrow> ptls_context \<Rightarrow> ptls option" where
  "ptls_client_new M sz rng ctx =
     Option.bind (Option.bind (new_instance M sz rng ctx False) id) (\<lambda>tls.
       map_option snd
         (act_bind (tls_random_bytes 32) (\<lambda>random.
          act_seq (act_put (\<lambda>tls. tls\<lparr>tls_client_random := random\<rparr>))
            (act_when tls_send_change_cipher_spec
              (act_bind (tls_random_bytes 32) (\<lambda>sid. act_put (\<lambda>tls. tls\<lparr>tls_legacy_session_id := sid\<rparr>)))))
          (tls\<lparr>tls_state := PTLS_STATE_CLIENT_HANDSHAKE_START\<rparr>)))"

definition ptls_server_new :: "allocator \<Rightarrow> nat \<Rightarrow> nat \<Rightarrow> ptls_context \<Rightarrow> ptls option" where
  "ptls_server_new M sz rng ctx =
     map_option (\<lambda>tls. tls\<lparr>tls_state := PTLS_STATE_SERVER_EXPECT_CLIENT_HELLO,
                          tls_early_data_skipped_bytes := UINT32_MAX\<rparr>)
       (Option.bind (new_instance M sz rng ctx True) id)"

section \<open>Accessors\<close>

definition ptls_set_context :: "ptls_context \<Rightarrow> unit tls_act" where
  "ptls_set_context ctx = act_put (\<lambda>tls. tls\<lparr>tls_ctx := ctx\<rparr>)"

definition ptls_set_server_name :: "allocator \<Rightarrow> bytes option \<Rightarrow> unit tls_act" where
  "ptls_set_server_name M server_name =
     act_seq (act_guard (\<lambda>_. dup_str M server_name) PTLS_ERROR_NO_MEMORY)
       (act_put (\<lambda>tls. tls\<lparr>tls_server_name := map_option c_string server_name\<rparr>))"

definition ptls_handshake_is_complete :: "ptls \<Rightarrow> bool" where
  "ptls_handshake_is_complete tls \<longleftrightarrow> tls_state tls \<ge> PTLS_STATE_POST_HANDSHAKE_MIN"

section \<open>Exporting a connection\<close>

definition opt_octets :: "bytes option \<Rightarrow> bytes" where
  "opt_octets s = (case s of None \<Rightarrow> [] | Some bs \<Rightarrow> bs)"

definition flag_octet :: "bool \<Rightarrow> byte" where
  "flag_octet b = (if b then 1 else 0)"

definition export_tls_params ::
  "allocator \<Rightarrow> bool \<Rightarrow> bool \<Rightarrow> 16 word \<Rightarrow> 16 word \<Rightarrow> bytes \<Rightarrow> bytes option \<Rightarrow> bytes \<Rightarrow> pusher \<Rightarrow> pusher" where
  "export_tls_params M is_server session_reused protocol_version csid client_random server_name negotiated_protocol
     ver_block =
     ptls_buffer_push_block M 2
       (push_then (ptls_buffer_push M (flag_octet is_server))
       (push_then (ptls_buffer_push M (flag_octet session_reused))
       (push_then (ptls_buffer_push16 M protocol_version)
       (push_then (ptls_buffer_push16 M csid)
       (push_then (ptls_buffer__do_pushv M (take 32 client_random))
       (push_then (ptls_buffer_push_block M 2 (ptls_buffer__do_pushv M (opt_octets server_name)))
       (push_then (ptls_buffer_push_block M 2 (ptls_buffer__do_pushv M negotiated_protocol))
       (push_then (ptls_buffer_push_block M 2 ver_block)
         (ptls_buffer_push_block M 2 push_nothing)))))))))"

definition export_tls12_params ::
  "allocator \<Rightarrow> bool \<Rightarrow> bool \<Rightarrow> ptls_cipher_suite \<Rightarrow> bytes \<Rightarrow> bytes option \<Rightarrow> bytes
     \<Rightarrow> bytes \<Rightarrow> bytes \<Rightarrow> 64 word \<Rightarrow> 64 word \<Rightarrow> bytes \<Rightarrow> bytes \<Rightarrow> 64 word \<Rightarrow> pusher" where
  "export_tls12_params M is_server session_reused cipher client_random server_name negotiated_protocol
     enc_key enc_iv enc_seq enc_record_iv dec_key dec_iv dec_seq =
     (let aead = cs_aead cipher;
          key = (\<lambda>k. ptls_buffer__do_pushv M (take (aead_key_size aead) k));
          iv = (\<lambda>v. ptls_buffer__do_pushv M (take (aead_tls12_fixed_iv_size aead) v)) in
      export_tls_params M is_server session_reused 0x0303 (cs_id cipher) client_random server_name negotiated_protocol
        (push_then (key enc_key)
        (push_then (iv enc_iv)
        (push_then (ptls_buffer_push64 M enc_seq)
        (push_then (if aead_tls12_record_iv_size aead \<noteq> 0 then ptls_buffer_push64 M enc_record_iv else push_nothing)
        (push_then (key dec_key)
        (push_then (iv dec_iv)
          (ptls_buffer_push64 M dec_seq))))))))"

text \<open>\<open>hello_randoms\<close> is the random of the server followed by that of the client.\<close>

definition ptls_build_tls12_export_params ::
  "allocator \<Rightarrow> bool \<Rightarrow> bool \<Rightarrow> ptls_cipher_suite \<Rightarrow> bytes \<Rightarrow> bytes \<Rightarrow> 64 word \<Rightarrow> bytes option \<Rightarrow> bytes
     \<Rightarrow> ptls_buffer \<Rightarrow> (int \<times> ptls_buffer) option" where
  "ptls_build_tls12_export_params M is_server session_reused cipher master_secret hello_randoms next_send_record_iv
     server_name negotiated_protocol b =
     (let aead = cs_aead cipher; ks = aead_key_size aead; vs = aead_tls12_fixed_iv_size aead;
          key_block_len = (ks + vs) * 2 in
      if vs + aead_tls12_record_iv_size aead = 0 \<or> key_block_len > 128 then None
      else if buffer_require_direction b True \<noteq> 0 then Some (buffer_require_direction b True, b)
      else case ptls_tls12_phash (cs_hash cipher) key_block_len (take 48 master_secret) (Some ''key expansion'')
                  (take 64 hello_randoms) of
          Inl ret \<Rightarrow> Some (ret, b)
        | Inr key_block \<Rightarrow>
            let client = (key_block, drop (ks * 2) key_block);
                server = (drop ks key_block, drop (ks * 2 + vs) key_block);
                (enc, dec) = (if is_server then (server, client) else (client, server)) in
            Some (export_tls12_params M is_server session_reused cipher (drop 32 hello_randoms) server_name
              negotiated_protocol (fst enc) (snd enc) 1 next_send_record_iv (fst dec) (snd dec) 1 b))"

definition export_tls13_params :: "allocator \<Rightarrow> ptls_cipher_suite \<Rightarrow> ptls \<Rightarrow> pusher" where
  "export_tls13_params M cs tls =
     export_tls_params M (tls_is_server tls) (tls_is_psk_handshake tls) 0x0304 (cs_id cs) (tls_client_random tls)
       (tls_server_name tls) (opt_octets (tls_negotiated_protocol tls))
       (push_then (ptls_buffer__do_pushv M (take (hash_digest_size (cs_hash cs)) (tp_secret (tls_enc tls))))
       (push_then (ptls_buffer_push64 M (tp_seq (tls_enc tls)))
       (push_then (ptls_buffer__do_pushv M (take (hash_digest_size (cs_hash cs)) (tp_secret (tls_dec tls))))
         (ptls_buffer_push64 M (tp_seq (tls_dec tls))))))"

definition ptls_export :: "allocator \<Rightarrow> ptls \<Rightarrow> ptls_buffer \<Rightarrow> (int \<times> ptls_buffer) option" where
  "ptls_export M tls b =
     (if buffer_require_direction b True \<noteq> 0 then Some (buffer_require_direction b True, b)
      else if tls_tx_detached tls then Some (PTLS_ERROR_NOT_AVAILABLE, b)
      else if tls_state tls \<noteq> PTLS_STATE_SERVER_POST_HANDSHAKE then Some (PTLS_ERROR_LIBRARY, b)
      else case tls_cipher_suite tls of
          None \<Rightarrow> None
        | Some cs \<Rightarrow>
            Some (if ptls_get_protocol_version tls = 0x0304 then export_tls13_params M cs tls b
              else export_tls12_params M (tls_is_server tls) (tls_is_psk_handshake tls) cs (tls_client_random tls)
                (tls_server_name tls) (opt_octets (tls_negotiated_protocol tls))
                (tp_secret (tls_enc tls)) (drop 32 (tp_secret (tls_enc tls))) (tp_seq (tls_enc tls))
                (tp_tls12_enc_record_iv (tls_enc tls))
                (tp_secret (tls_dec tls)) (drop 32 (tp_secret (tls_dec tls))) (tp_seq (tls_dec tls)) b))"

section \<open>Importing a connection\<close>

text \<open>A decoder around a block that works on the connection; the block returns the octets it leaves.\<close>

definition act_open_block :: "nat \<Rightarrow> bytes \<Rightarrow> (bytes \<Rightarrow> ('s, bytes) act) \<Rightarrow> ('s, bytes) act" where
  "act_open_block capacity src block =
     act_bind (act_res (\<lambda>_. ptls_decode_open_block capacity take_rest src)) (\<lambda>(body, after).
     act_bind (block body) (\<lambda>left.
     act_seq (act_guard (\<lambda>_. left = []) PTLS_ALERT_DECODE_ERROR) (act_return after)))"

definition import_tls12_traffic_protection :: "bool \<Rightarrow> bytes \<Rightarrow> bytes tls_act" where
  "import_tls12_traffic_protection is_enc src =
     act_bind (act_deref tls_cipher_suite) (\<lambda>cs.
       let aead = cs_aead cs; ks = aead_key_size aead; vs = aead_tls12_fixed_iv_size aead in
       act_seq (act_guard (\<lambda>_. length src \<ge> ks + vs + 8) PTLS_ALERT_DECODE_ERROR)
      (act_seq (act_put (\<lambda>tls. let tp = tls_prot is_enc tls in
          set_prot is_enc (tp\<lparr>tp_secret := write_secret ks src (take 32 (tp_secret tp))
                                  @ write_secret vs (drop ks src) (drop 32 (tp_secret tp))\<rparr>) tls))
      (act_bind (act_res (\<lambda>_. ptls_decode64 (drop (ks + vs) src))) (\<lambda>(seq, src).
       act_seq (act_put (\<lambda>tls. set_prot is_enc ((tls_prot is_enc tls)\<lparr>tp_seq := seq\<rparr>) tls))
      (act_bind (if is_enc \<and> aead_tls12_record_iv_size aead \<noteq> 0
          then act_bind (act_res (\<lambda>_. ptls_decode64 src)) (\<lambda>(iv, src).
                 act_seq (act_put (\<lambda>tls. set_prot is_enc ((tls_prot is_enc tls)\<lparr>tp_tls12_enc_record_iv := iv\<rparr>) tls))
                   (act_return src))
          else act_return src) (\<lambda>src.
       act_seq (act_put (\<lambda>tls. let tp = tls_prot is_enc tls in
          set_prot is_enc (tp\<lparr>tp_tls12 := True, tp_aead := ptls_aead_new_direct aead is_enc
            (take ks (tp_secret tp)) (take (aead_iv_size aead) (drop 32 (tp_secret tp)))\<rparr>) tls))
      (act_seq (act_guard (\<lambda>tls. tp_aead (tls_prot is_enc tls) \<noteq> None) PTLS_ERROR_NO_MEMORY)
         (act_return src))))))))"

text \<open>The secret is copied without a look at how much input there is; \<open>None\<close> stands for reading past the end of
  the block.\<close>

definition import_tls13_traffic_protection :: "allocator \<Rightarrow> bool \<Rightarrow> bytes \<Rightarrow> bytes tls_act" where
  "import_tls13_traffic_protection M is_enc src =
     act_bind (act_deref tls_cipher_suite) (\<lambda>cs.
       let n = hash_digest_size (cs_hash cs) in
       act_seq (act_assert (\<lambda>_. length src \<ge> n))
      (act_seq (act_put (\<lambda>tls. let tp = tls_prot is_enc tls in
          set_prot is_enc (tp\<lparr>tp_secret := write_secret n src (tp_secret tp)\<rparr>) tls))
      (act_bind (act_res (\<lambda>_. ptls_decode64 (drop n src))) (\<lambda>(seq, src).
       act_seq (act_put (\<lambda>tls. set_prot is_enc ((tls_prot is_enc tls)\<lparr>tp_seq := seq\<rparr>) tls))
         (\<lambda>tls. case setup_traffic_protection M is_enc None 3 seq False tls of
            None \<Rightarrow> None
          | Some (Inl _, tls') \<Rightarrow> Some (Inl PTLS_ERROR_INCOMPATIBLE_KEY, tls')
          | Some (Inr _, tls') \<Rightarrow> Some (Inr src, tls'))))))"

definition import_suite :: "(ptls_context \<Rightarrow> ptls_cipher_suite list option) \<Rightarrow> 16 word \<Rightarrow> unit tls_act" where
  "import_suite suites csid =
     act_seq (act_put (\<lambda>tls. tls\<lparr>tls_cipher_suite := ptls_find_cipher_suite (suites (tls_ctx tls)) csid\<rparr>))
       (act_guard (\<lambda>tls. tls_cipher_suite tls \<noteq> None) PTLS_ALERT_HANDSHAKE_FAILURE)"

definition import_keys :: "allocator \<Rightarrow> 16 word \<Rightarrow> 16 word \<Rightarrow> bytes \<Rightarrow> bytes tls_act" where
  "import_keys M protocol_version csid src =
     (if protocol_version = 0x0303
      then act_seq (import_suite ctx_tls12_cipher_suites csid)
          (act_bind (import_tls12_traffic_protection True src) (import_tls12_traffic_protection False))
      else if protocol_version = 0x0304
      then act_seq (import_suite ctx_cipher_suites csid)
          (act_seq (act_put (\<lambda>tls. tls\<lparr>tls_key_schedule :=
                      key_schedule_new M (tls_cipher_suite tls) None (ech_aead (tls_ech tls) \<noteq> None)\<rparr>))
          (act_seq (act_guard (\<lambda>tls. tls_key_schedule tls \<noteq> None) PTLS_ERROR_NO_MEMORY)
          (act_bind (import_tls13_traffic_protection M True src) (import_tls13_traffic_protection M False))))
      else act_fail PTLS_ALERT_ILLEGAL_PARAMETER)"

definition import_string :: "(bytes option \<Rightarrow> unit tls_act) \<Rightarrow> bytes \<Rightarrow> bytes tls_act" where
  "import_string setter src = (if src = [] then act_return [] else act_seq (setter (Some src)) (act_return []))"

definition import_params :: "allocator \<Rightarrow> bytes \<Rightarrow> bytes tls_act" where
  "import_params M src =
     act_bind (act_res (\<lambda>_. ptls_decode16 src)) (\<lambda>(protocol_version, src).
     act_bind (act_res (\<lambda>_. ptls_decode16 src)) (\<lambda>(csid, src).
     act_seq (act_guard (\<lambda>_. length src \<ge> 32) PTLS_ALERT_DECODE_ERROR)
    (act_seq (act_put (\<lambda>tls. tls\<lparr>tls_client_random := take 32 src\<rparr>))
    (act_bind (act_open_block 2 (drop 32 src) (import_string (ptls_set_server_name M))) (\<lambda>src.
     act_bind (act_open_block 2 src (import_string (ptls_set_negotiated_protocol M))) (\<lambda>src.
     act_bind (act_open_block 2 src (import_keys M protocol_version csid)) (\<lambda>src.
     act_open_block 2 src (\<lambda>_. act_return []))))))))"

text \<open>The two flags are stored in fields of one bit.\<close>

definition ptls_import ::
  "allocator \<Rightarrow> nat \<Rightarrow> nat \<Rightarrow> ptls_context \<Rightarrow> bytes \<Rightarrow> (int \<times> ptls option) option" where
  "ptls_import M sz rng ctx params =
     (case ptls_decode_open_block 2 take_rest params of
        Inl ret \<Rightarrow> Some (ret, None)
      | Inr (body, after) \<Rightarrow>
          if length body < 2 then Some (PTLS_ALERT_DECODE_ERROR, None)
          else (case new_instance M sz rng ctx (odd (unat (body ! 0))) of
              None \<Rightarrow> None
            | Some None \<Rightarrow> Some (PTLS_ERROR_NO_MEMORY, None)
            | Some (Some tls) \<Rightarrow>
                (case import_params M (drop 2 body) (tls\<lparr>tls_is_psk_handshake := odd (unat (body ! 1))\<rparr>) of
                   None \<Rightarrow> None
                 | Some (Inl ret, _) \<Rightarrow> Some (ret, None)
                 | Some (Inr left, tls') \<Rightarrow>
                     if left \<noteq> [] \<or> after \<noteq> [] then Some (PTLS_ALERT_DECODE_ERROR, None)
                     else Some (0, Some (tls'\<lparr>tls_state := (if tls_is_server tls' then PTLS_STATE_SERVER_POST_HANDSHAKE
                            else PTLS_STATE_CLIENT_POST_HANDSHAKE)\<rparr>)))))"

section \<open>Text\<close>

text \<open>Texts are written with the terminating zero in the buffer of the caller; the functions give the characters before
  it.\<close>

definition byte_to_hex :: "byte \<Rightarrow> string" where
  "byte_to_hex v = [''0123456789abcdef'' ! (unat v div 16), ''0123456789abcdef'' ! (unat v mod 16)]"

primrec ptls_hexdump :: "bytes \<Rightarrow> string" where
  "ptls_hexdump [] = []"
| "ptls_hexdump (v # src) = byte_to_hex v @ ptls_hexdump src"

definition json_escape_char :: "byte \<Rightarrow> string" where
  "json_escape_char v =
     (case map_of [(34, CHR 0x22), (92, CHR 0x5C), (47, CHR ''/''), (8, CHR ''b''), (12, CHR ''f''), (10, CHR ''n''),
                   (13, CHR ''r''), (9, CHR ''t'')] v of
        Some c \<Rightarrow> [CHR 0x5C, c]
      | None \<Rightarrow>
          if v < 0x20 \<or> v = 0x7f then [CHR 0x5C, CHR ''u'', CHR ''0'', CHR ''0''] @ byte_to_hex v
          else [char_of (unat v)])"

primrec ptls_jsonescape :: "bytes \<Rightarrow> string" where
  "ptls_jsonescape [] = []"
| "ptls_jsonescape (v # src) = json_escape_char v @ ptls_jsonescape src"

definition ptls_build_v4_mapped_v6_address :: "bytes \<Rightarrow> bytes" where
  "ptls_build_v4_mapped_v6_address v4 = replicate 10 0 @ replicate 2 0xff @ take 4 v4"

end
