(* ===== verification/Frames.thy ===== *)
theory Frames
  imports ExportImport
begin

text \<open>
  What the handlers do to the state of a connection.  \<open>moves R m\<close> says that an action relates the state it
  finds to the state it leaves by \<open>R\<close>, whatever it returns; its rules follow the structure of actions.  With the
  relation \<open>moved\<close>, which keeps the role of the endpoint and lets the state change to given values only, every
  function of the handshake is classified.  From this follow the state machine that the client and the server
  implement and what a completed handshake has verified.
\<close>

section \<open>Relations that hold across an action\<close>

named_theorems moves_intros

definition moves :: "('s \<Rightarrow> 's \<Rightarrow> bool) \<Rightarrow> ('s, 'a) act \<Rightarrow> bool" where
  "moves R m \<longleftrightarrow> (\<forall>s r s'. m s = Some (r, s') \<longrightarrow> R s s')"

lemma movesI: "(\<And>s r s'. m s = Some (r, s') \<Longrightarrow> R s s') \<Longrightarrow> moves R m"
  by (auto simp: moves_def)

lemma movesD: "moves R m \<Longrightarrow> m s = Some (r, s') \<Longrightarrow> R s s'"
  by (auto simp: moves_def)

locale run_relation =
  fixes R :: "'s \<Rightarrow> 's \<Rightarrow> bool"
  assumes refl: "R s s"
    and trans: "R s t \<Longrightarrow> R t u \<Longrightarrow> R s u"
begin

lemma moves_basic:
  "moves R (act_return x)" "moves R (act_fail e)" "moves R (act_get f)" "moves R (act_deref g)"
  "moves R (act_assert q)" "moves R (act_res h)" "moves R (act_code k)" "moves R (act_guard q e)" "moves R (\<lambda>_. None)"
  by (auto simp: moves_def act_defs refl split: option.splits if_splits)

lemma moves_put: "(\<And>s. R s (f s)) \<Longrightarrow> moves R (act_put f)"
  by (auto simp: moves_def act_put_def)

lemma moves_bind: "moves R m \<Longrightarrow> (\<And>x. moves R (f x)) \<Longrightarrow> moves R (act_bind m f)"
  by (auto simp: moves_def act_bind_def split: option.splits prod.splits sum.splits) (blast intro: trans)+

lemma moves_seq: "moves R m \<Longrightarrow> moves R m' \<Longrightarrow> moves R (act_seq m m')"
  unfolding act_seq_def by (rule moves_bind)

lemma moves_when: "moves R m \<Longrightarrow> moves R (act_when q m)"
  by (auto simp: moves_def act_when_def refl)

lemma moves_ignore: "moves R m \<Longrightarrow> moves R (act_ignore m)"
  by (auto simp: moves_def act_ignore_def split: option.splits)

lemma moves_after:
  "moves R m \<Longrightarrow> (\<And>s r t. R s t \<Longrightarrow> R s (f r t)) \<Longrightarrow>
     moves R (\<lambda>s. case m s of None \<Rightarrow> None | Some (r, t) \<Rightarrow> Some (g r, f r t))"
  by (auto simp: moves_def split: option.splits)

lemma moves_extension_loop:
  assumes "\<And>t l body rest. moves R (block t l body rest)"
  shows "moves R (act_extension_loop hs block bits l src)"
proof (rule movesI)
  fix s r s' assume "act_extension_loop hs block bits l src s = Some (r, s')"
  then show "R s s'"
    using assms
  proof (induction hs block bits l src s rule: act_extension_loop.induct)
    case (1 hs block bits l src s)
    have blk: "block t l body rest s = Some (r', t') \<Longrightarrow> R s t'" for t l body rest s r' t'
      using movesD [OF 1(3)] .
    have ih: "R t s'" if "src \<noteq> []" "ptls_decode16 src = Inr (e, src1)"
      "extension_bitmap_testandset bits hs e = Some bits'" "ptls_decode_open_block 2 take_rest src1 = Inr (body, rest)"
      "block e l body rest s = Some (Inr (l', []), t)" "act_extension_loop hs block bits' l' rest t = Some (r, s')"
      for e src1 bits' body rest l' t
      using 1(1) [OF that(1,2) HOL.refl that(3,4) HOL.refl that(5) HOL.refl HOL.refl HOL.refl _ that(6)] 1(3) by blast
    show ?case
      using 1(2) by (subst (asm) act_extension_loop.simps)
        (auto simp: refl split: if_splits sum.splits option.splits prod.splits dest: blk intro: trans [OF blk ih])
  qed
qed

lemma moves_extensions:
  assumes "\<And>t l body rest. moves R (block t l body rest)"
  shows "moves R (act_decode_open_extensions hs block l src)" "moves R (act_decode_extensions hs block l src)"
proof -
  show "moves R (act_decode_open_extensions hs block l src)"
    unfolding act_decode_open_extensions_def
    by (rule moves_bind [OF moves_basic(6)])
      (auto split: prod.splits intro!: moves_bind moves_basic moves_extension_loop assms)
  then show "moves R (act_decode_extensions hs block l src)"
    unfolding act_decode_extensions_def
    by (rule moves_bind) (auto split: prod.splits intro: moves_basic)
qed

end

lemma moves_if [moves_intros]:
  "(b \<Longrightarrow> moves R m) \<Longrightarrow> (\<not> b \<Longrightarrow> moves R m') \<Longrightarrow> moves R (if b then m else m')"
  by simp

lemma moves_case_option [moves_intros]:
  "(x = None \<Longrightarrow> moves R m) \<Longrightarrow> (\<And>y. x = Some y \<Longrightarrow> moves R (f y)) \<Longrightarrow> moves R (case x of None \<Rightarrow> m | Some y \<Rightarrow> f y)"
  by (cases x) auto

lemma moves_case_sum [moves_intros]:
  "(\<And>y. moves R (f y)) \<Longrightarrow> (\<And>y. moves R (g y)) \<Longrightarrow> moves R (case x of Inl y \<Rightarrow> f y | Inr y \<Rightarrow> g y)"
  by (cases x) auto

lemma moves_case_prod [moves_intros]:
  "(\<And>a b. moves R (f a b)) \<Longrightarrow> moves R (case x of (a, b) \<Rightarrow> f a b)"
  by (cases x) auto

lemma moves_case_list [moves_intros]:
  "moves R m \<Longrightarrow> (\<And>y ys. moves R (f y ys)) \<Longrightarrow> moves R (case x of [] \<Rightarrow> m | y # ys \<Rightarrow> f y ys)"
  by (cases x) auto

lemma moves_let [moves_intros]: "(\<And>x. moves R (f x)) \<Longrightarrow> moves R (let x = t in f x)"
  by simp

section \<open>The role and the state of a connection\<close>

text \<open>The role stays; \<open>c\<close>, \<open>v\<close> and \<open>p\<close> tell whether the context, the pending verification of a signature and the flag
  \<open>is_psk_handshake\<close> stay too (the flag is at most set); with \<open>h\<close> no handshake secret is put aside for the end of early
  data; records are not received under TLS 1.2 unless they were before; the state stays or becomes one of \<open>X\<close>.\<close>

definition moved :: "bool \<Rightarrow> bool \<Rightarrow> bool \<Rightarrow> bool \<Rightarrow> ptls_state set \<Rightarrow> ptls \<Rightarrow> ptls \<Rightarrow> bool" where
  "moved c v p h X s s' \<longleftrightarrow> tls_is_server s' = tls_is_server s \<and> (c \<longrightarrow> tls_ctx s' = tls_ctx s)
     \<and> (v \<longrightarrow> tls_certificate_verify s' = tls_certificate_verify s)
     \<and> (tls_is_psk_handshake s \<longrightarrow> tls_is_psk_handshake s') \<and> (p \<longrightarrow> tls_is_psk_handshake s' = tls_is_psk_handshake s)
     \<and> (h \<longrightarrow> tls_pending_handshake_secret s = None \<longrightarrow> tls_pending_handshake_secret s' = None)
     \<and> (tp_tls12 (tls_dec s') \<longrightarrow> tp_tls12 (tls_dec s))
     \<and> (tls_state s' = tls_state s \<or> tls_state s' \<in> X)"

interpretation moved: run_relation "moved c v p h X" for c v p h X
proof
  fix s t u :: ptls
  show "moved c v p h X s s"
    by (simp add: moved_def)
  assume "moved c v p h X s t" "moved c v p h X t u"
  then show "moved c v p h X s u"
    unfolding moved_def by (elim conjE disjE) simp_all
qed

lemmas [moves_intros] = moved.moves_basic moved.moves_put moved.moves_bind moved.moves_seq moved.moves_when
  moved.moves_ignore moved.moves_extensions

lemma moved_set_prot [simp]:
  "tp_tls12 tp = tp_tls12 (tls_prot e t) \<Longrightarrow> moved c v p h X s (set_prot e tp t) \<longleftrightarrow> moved c v p h X s t"
  by (auto simp: moved_def set_prot_def tls_prot_def)

lemma moved_refl [simp]: "moved c v p h X s s"
  by (simp add: moved_def)

lemmas moves_simps = moves_def moved_def set_prot_def tls_prot_def

lemma moves_case_prod2 [moves_intros]:
  "(\<And>a b. moves R (f a b y)) \<Longrightarrow> moves R ((case x of (a, b) \<Rightarrow> f a b) y)"
  by (cases x) auto

lemmas [moves_intros] = moved.moves_after

lemma moved_if [moves_intros]:
  "(b \<Longrightarrow> moved c v p h X s t) \<Longrightarrow> (\<not> b \<Longrightarrow> moved c v p h X s t') \<Longrightarrow> moved c v p h X s (if b then t else t')"
  by simp

lemma moved_case_option [moves_intros]:
  "(x = None \<Longrightarrow> moved c v p h X s t) \<Longrightarrow> (\<And>y. x = Some y \<Longrightarrow> moved c v p h X s (f y)) \<Longrightarrow>
     moved c v p h X s (case x of None \<Rightarrow> t | Some y \<Rightarrow> f y)"
  by (cases x) auto

lemma moved_case_list [moves_intros]:
  "moved c v p h X s t \<Longrightarrow> (\<And>y ys. moved c v p h X s (f y ys)) \<Longrightarrow>
     moved c v p h X s (case x of [] \<Rightarrow> t | y # ys \<Rightarrow> f y ys)"
  by (cases x) auto

text \<open>What is asked of the callback \<open>on_client_hello\<close>: it changes the connection no more than this.\<close>

definition hello_cb_moves :: "bool \<Rightarrow> bool \<Rightarrow> bool \<Rightarrow> bool \<Rightarrow> ptls_state set \<Rightarrow> on_client_hello_cb \<Rightarrow> bool" where
  "hello_cb_moves c v p h X cb \<longleftrightarrow> (\<forall>f. cb = Some f \<longrightarrow> (\<forall>params. moves (moved c v p h X) (f params)))"

section \<open>Installing keys and emitting messages\<close>

lemma tls_random_bytes_moves [moves_intros]: "moves (moved c v p h X) (tls_random_bytes n)"
  by (auto simp: moves_simps tls_random_bytes_def)

lemma connection_moves1 [moves_intros]:
  "moves (moved c v p h X) (install_aead M is_enc seq)"
  "moves (moved c v p h X) (derive_exporter_secret M is_early)"
  "moves (moved c v p h X) (em_push f)"
  "moves (moved c v p h X) em_off"
  "moves (moved c v p h X) (set_em_start n)"
  "moves (moved c v p h X) commit_raw_message"
  "moves (moved c v p h X) (commit_record M)"
  "moves (moved c v p h X) (session_id_octets M age_add)"
  unfolding install_aead_def derive_exporter_secret_def em_push_def em_off_def set_em_start_def
    commit_raw_message_def commit_record_def session_id_octets_def Let_def
  by (intro moves_intros; auto simp: moves_simps split: prod.splits option.splits sum.splits if_splits)+

lemma connection_moves2 [moves_intros]:
  "moves (moved c v p h X) (setup_traffic_protection M is_enc secret_label epoch seq skip_notify)"
  "moves (moved c v p h X) (begin_message M)"
  "moves (moved c v p h X) (commit_message M)"
  "moves (moved c v p h X) (ptls_buffer_push_message_body M use_sched type block)"
  "moves (moved c v p h X) (push_change_cipher_spec M)"
  "moves (moved c v p h X) (em_truncate n)"
  unfolding setup_traffic_protection_def begin_message_def commit_message_def ptls_buffer_push_message_body_def
    push_change_cipher_spec_def em_truncate_def Let_def
  by (intro moves_intros; auto simp: moves_simps split: prod.splits option.splits sum.splits if_splits)+

lemma connection_moves3 [moves_intros]:
  "moves (moved c v p h X) (commission_handshake_secret M)"
  "moves (moved c v p h X) (update_traffic_key M is_enc)"
  "moves (moved c v p h X) (ptls_push_message M use_sched type block)"
  "moves (moved c v p h X) (push_finished_ahead M)"
  unfolding commission_handshake_secret_def update_traffic_key_def ptls_push_message_def push_finished_ahead_def
    Let_def
  by (intro moves_intros; auto simp: moves_simps split: prod.splits option.splits sum.splits if_splits)+

lemma connection_moves4 [moves_intros]:
  "moves (moved c v p h X) (handle_key_update M message)"
  "moves (moved c v p h X) (send_finished M)"
  "moves (moved c v p h X) (send_ticket_message M)"
  unfolding handle_key_update_def send_finished_def send_ticket_message_def Let_def
  by (intro moves_intros; auto simp: moves_simps split: prod.splits option.splits sum.splits if_splits)+

lemma connection_moves5 [moves_intros]:
  "moves (moved c v p h X) (send_session_ticket M)"
  unfolding send_session_ticket_def Let_def
  by (intro moves_intros; auto simp: moves_simps split: prod.splits option.splits sum.splits if_splits)+

section \<open>Certificates, CertificateVerify and Finished\<close>

lemma send_certificate_verify_moves [moves_intros]:
  "moves (moved c v p h X) (send_certificate_verify M signature_algorithms context_string)"
proof -
  have "moves (moved c v p h X) (act_seq (em_truncate n) (act_fail e))" for n e
    by (intro moves_intros)
  note trunc = movesD [OF this]
  have push_message: "moves (moved c v p h X) (ptls_push_message M b t f)" for b t f
    by (intro moves_intros)
  have push: "moved c v p h X t t'"
    if "ptls_push_message M True PTLS_HANDSHAKE_TYPE_CERTIFICATE_VERIFY f (t\<lparr>tls_async_job := b\<rparr>) = Some (r, t')" for f t b r t'
    using movesD [OF push_message that] by (simp add: moved_def)
  show ?thesis
    unfolding send_certificate_verify_def Let_def
    by (intro moves_intros movesI)
      (auto split: option.splits prod.splits sum.splits if_splits dest!: push intro: moved.trans [OF _ trunc])
qed

lemma authentication_moves1 [moves_intros]:
  "moves (moved c v p h X) (default_emit_certificate_cb M context)"
  "moves (moved c v p h X) (update_hash message)"
  "st \<in> X \<Longrightarrow> moves (moved c v p h X) (set_state st)"
  "moves (moved c v p h X) (decode_certificate_request M src)"
  "\<not> v \<Longrightarrow> moves (moved c v p h X) (handle_certificate src)"
  "moves (moved c v p h X) (extract_next_secret M ikm)"
  "moves (moved c v p h X) (check_finished M message)"
  "moves (moved c v p h X) (client_end_early_data M)"
  unfolding default_emit_certificate_cb_def update_hash_def set_state_def decode_certificate_request_def
    handle_certificate_def extract_next_secret_def check_finished_def client_end_early_data_def Let_def
  by (intro moves_intros; auto simp: moves_simps split: prod.splits option.splits sum.splits if_splits)+

lemma send_tickets_moves [moves_intros]: "moves (moved c v p h X) (send_tickets M n)"
  by (induction n) (auto intro!: moves_intros)

lemma server_certificate_verify_moves [moves_intros]:
  "PTLS_STATE_SERVER_GENERATING_CERTIFICATE_VERIFY \<in> X \<Longrightarrow>
     moves (moved c v p h X) (server_certificate_verify M signature_algorithms)"
  by (rule movesI) (auto simp: server_certificate_verify_def moved_def split: option.splits prod.splits sum.splits
      dest!: movesD [OF send_certificate_verify_moves, of _ _ _ _ _ _ c v p h X])

lemma authentication_moves2 [moves_intros]:
  "moves (moved c v p h X) (send_certificate M signature_algorithms context push_status_request compress_algos)"
  "PTLS_STATE_CLIENT_EXPECT_CERTIFICATE \<in> X \<Longrightarrow> moves (moved c v p h X)
     (client_handle_certificate_request M message)"
  "\<not> v \<Longrightarrow> moves (moved c v p h X) (client_do_handle_certificate src)"
  "{PTLS_STATE_SERVER_EXPECT_CERTIFICATE_VERIFY, PTLS_STATE_SERVER_EXPECT_FINISHED} \<subseteq> X
     \<Longrightarrow> \<not> v \<Longrightarrow> moves (moved c v p h X) (server_handle_certificate message)"
  "\<not> v \<Longrightarrow> moves (moved c v p h X) (handle_certificate_verify message context_string)"
  "PTLS_STATE_SERVER_EXPECT_FINISHED \<in> X \<Longrightarrow> moves (moved c v p h X)
     (server_handle_end_of_early_data M message)"
  "PTLS_STATE_SERVER_POST_HANDSHAKE \<in> X \<Longrightarrow> moves (moved c v p h X) (server_handle_finished M
     message)"
  "{PTLS_STATE_SERVER_EXPECT_CERTIFICATE, PTLS_STATE_SERVER_EXPECT_END_OF_EARLY_DATA,
     PTLS_STATE_SERVER_EXPECT_FINISHED} \<subseteq> X \<Longrightarrow> moves (moved c v p h X) (server_next_state
     M)"
  unfolding send_certificate_def client_handle_certificate_request_def client_do_handle_certificate_def
    server_handle_certificate_def handle_certificate_verify_def server_handle_end_of_early_data_def
    server_handle_finished_def server_next_state_def Let_def
  by (intro moves_intros; auto simp: moves_simps split: prod.splits option.splits sum.splits if_splits)+

lemma authentication_moves3 [moves_intros]:
  "PTLS_STATE_CLIENT_EXPECT_CERTIFICATE_VERIFY \<in> X \<Longrightarrow> \<not> v \<Longrightarrow> moves (moved c
     v p h X) (client_handle_certificate message)"
  "PTLS_STATE_CLIENT_EXPECT_CERTIFICATE_VERIFY \<in> X \<Longrightarrow> \<not> v \<Longrightarrow> moves (moved c
     v p h X) (client_handle_compressed_certificate M message)"
  "PTLS_STATE_CLIENT_EXPECT_FINISHED \<in> X \<Longrightarrow> \<not> v \<Longrightarrow> moves (moved c v p h X)
     (client_handle_certificate_verify message)"
  "PTLS_STATE_SERVER_EXPECT_FINISHED \<in> X \<Longrightarrow> \<not> v \<Longrightarrow> moves (moved c v p h X)
     (server_handle_certificate_verify message)"
  "moves (moved c v p h X) (client_send_certificate M)"
  "{PTLS_STATE_SERVER_EXPECT_CERTIFICATE, PTLS_STATE_SERVER_EXPECT_END_OF_EARLY_DATA,
     PTLS_STATE_SERVER_EXPECT_FINISHED, PTLS_STATE_SERVER_GENERATING_CERTIFICATE_VERIFY} \<subseteq> X
     \<Longrightarrow> moves (moved c v p h X) (server_finish_handshake M send_cert_verify signature_algorithms)"
  unfolding client_handle_certificate_def client_handle_compressed_certificate_def
    client_handle_certificate_verify_def server_handle_certificate_verify_def client_send_certificate_def
    server_finish_handshake_def Let_def
  by (intro moves_intros; auto simp: moves_simps split: prod.splits option.splits sum.splits if_splits)+

lemma authentication_moves4 [moves_intros]:
  "PTLS_STATE_CLIENT_POST_HANDSHAKE \<in> X \<Longrightarrow> moves (moved c v p h X) (client_handle_finished M
     message)"
  unfolding client_handle_finished_def Let_def
  by (intro moves_intros; auto simp: moves_simps split: prod.splits option.splits sum.splits if_splits)+

section \<open>The messages of the client\<close>

lemma client_moves1 [moves_intros]:
  "moves (moved c v p h X) (set_ech ech)"
  "moves (moved c v p h X) (set_early_data_size n)"
  "moves (moved c v p h X) client_create_key_share"
  "moves (moved c v p h X) (client_new_key_schedule M psk)"
  "moves (moved c v p h X) (client_hello_pusher M mode is_second_flight sni_name psk cookie ech_size)"
  "moves (moved c v p h X) (em_message mess_start)"
  "moves (moved c v p h X) (em_fill off bs)"
  "moves (moved c v p h X) (sh_key_share_extension sh src)"
  "moves (moved c v p h X) client_drop_early_data"
  "moves (moved c v p h X) client_reject_ech"
  "moves (moved c v p h X) (client_select_cipher M reset reset_ikm)"
  "moves (moved c v p h X) (on_key_schedule f)"
  "moves (moved c v p h X) (client_exchange_key peerkey)"
  "\<not> h \<Longrightarrow> moves (moved c v p h X) (client_derive_handshake_keys M)"
  "moves (moved c v p h X) (collect_if_asked M type src slots)"
  "moves (moved c v p h X) (report_collected slots)"
  "moves (moved c v p h X) (ptls_set_negotiated_protocol M protocol)"
  "moves (moved c v p h X) (ee_ech M inet_pton src)"
  unfolding set_ech_def set_early_data_size_def client_create_key_share_def client_new_key_schedule_def
    client_hello_pusher_def em_message_def em_fill_def sh_key_share_extension_def client_drop_early_data_def
    client_reject_ech_def client_select_cipher_def on_key_schedule_def client_exchange_key_def
    client_derive_handshake_keys_def collect_if_asked_def report_collected_def ptls_set_negotiated_protocol_def
    ee_ech_def Let_def
  by (intro moves_intros; auto simp: moves_simps split: prod.splits option.splits sum.splits if_splits)+

lemma client_moves2 [moves_intros]:
  "moves (moved c v p h X) (client_try_ech M inet_pton sni_name ciphers configs)"
  "moves (moved c v p h X) (client_external_psk is_second_flight identity)"
  "moves (moved c v p h X) (client_resumption_psk is_second_flight ticket kxs)"
  "moves (moved c v p h X) client_report_early_data"
  "moves (moved c v p h X) (client_hash_and_binder M mess_start has_psk binder_key)"
  "moves (moved c v p h X) (client_encoded_inner M mess_start is_second_flight sni_name' psk cookie)"
  "moves (moved c v p h X) (client_outer_hello M mess_start is_second_flight sni_name' psk cookie inner aead)"
  "moves (moved c v p h X) (sh_extension exttype sh src rest)"
  "moves (moved c v p h X) (client_ech_select_hello M message confirm_hash_off label)"
  "moves (moved c v p h X) (ee_alpn M src)"
  unfolding client_try_ech_def client_external_psk_def client_resumption_psk_def client_report_early_data_def
    client_hash_and_binder_def client_encoded_inner_def client_outer_hello_def sh_extension_def
    client_ech_select_hello_def ee_alpn_def Let_def
  by (intro moves_intros; auto simp: moves_simps split: prod.splits option.splits sum.splits if_splits)+

lemma client_moves3 [moves_intros]:
  "moves (moved c v p h X) (client_setup_ech_if_asked M inet_pton is_second_flight sni_name)"
  "moves (moved c v p h X) (client_choose_psk is_second_flight)"
  "moves (moved c v p h X) (client_settle_ech M mess_start has_psk binder_key)"
  "\<not> p \<Longrightarrow> moves (moved c v p h X) (decode_server_hello src)"
  "moves (moved c v p h X) (ee_extension M inet_pton type ee src rest)"
  unfolding client_setup_ech_if_asked_def client_choose_psk_def client_settle_ech_def decode_server_hello_def
    ee_extension_def Let_def
  by (intro moves_intros; auto simp: moves_simps split: prod.splits option.splits sum.splits if_splits)+

lemma client_moves4 [moves_intros]:
  "moves (moved c v p h X) (client_apply_ech M mess_start is_second_flight sni_name psk cookie binder_key)"
  "{PTLS_STATE_CLIENT_EXPECT_CERTIFICATE_REQUEST_OR_CERTIFICATE, PTLS_STATE_CLIENT_EXPECT_FINISHED} \<subseteq> X
     \<Longrightarrow> moves (moved c v p h X) (client_handle_encrypted_extensions M inet_pton message)"
  unfolding client_apply_ech_def client_handle_encrypted_extensions_def Let_def
  by (intro moves_intros; auto simp: moves_simps split: prod.splits option.splits sum.splits if_splits)+

lemma client_moves5 [moves_intros]:
  "moves (moved c v p h X) (client_write_hello M is_second_flight sni_name psk cookie)"
  unfolding client_write_hello_def Let_def
  by (intro moves_intros; auto simp: moves_simps split: prod.splits option.splits sum.splits if_splits)+

lemma send_client_hello_moves [moves_intros]:
  "(if cookie = None then PTLS_STATE_CLIENT_EXPECT_SERVER_HELLO else PTLS_STATE_CLIENT_EXPECT_SECOND_SERVER_HELLO) \<in> X \<Longrightarrow>
     moves (moved c v p h X) (send_client_hello M inet_pton cookie)"
  unfolding send_client_hello_def Let_def by (intro moves_intros; auto simp: moves_simps)

lemma client_moves6 [moves_intros]:
  "PTLS_STATE_CLIENT_EXPECT_SECOND_SERVER_HELLO \<in> X \<Longrightarrow> moves (moved c v p h X)
     (handle_hello_retry_request M inet_pton sh)"
  unfolding handle_hello_retry_request_def Let_def
  by (intro moves_intros; auto simp: moves_simps split: prod.splits option.splits sum.splits if_splits)+

lemma client_moves7 [moves_intros]:
  "PTLS_STATE_CLIENT_EXPECT_SECOND_SERVER_HELLO \<in> X \<Longrightarrow> moves (moved c v p h X)
     (client_handle_retry M inet_pton message sh)"
  unfolding client_handle_retry_def Let_def
  by (intro moves_intros; auto simp: moves_simps split: prod.splits option.splits sum.splits if_splits)+

lemma client_moves8 [moves_intros]:
  "{PTLS_STATE_CLIENT_EXPECT_ENCRYPTED_EXTENSIONS, PTLS_STATE_CLIENT_EXPECT_SECOND_SERVER_HELLO} \<subseteq> X
     \<Longrightarrow> \<not> p \<Longrightarrow> \<not> h \<Longrightarrow> moves (moved c v p h X)
     (client_handle_hello M inet_pton message)"
  unfolding client_handle_hello_def Let_def
  by (intro moves_intros; auto simp: moves_simps split: prod.splits option.splits sum.splits if_splits)+

section \<open>The answer of the server\<close>

lemma call_on_client_hello_cb_moves [moves_intros]:
  "hello_cb_moves c v p h X cb \<Longrightarrow> moves (moved c v p h X) (call_on_client_hello_cb cb ch raw_message incompatible_version)"
  by (auto simp: call_on_client_hello_cb_def hello_cb_moves_def split: option.split intro!: moves_intros)

lemma EMIT_SERVER_HELLO_moves [moves_intros]:
  "(\<And>n. moves (moved c v p h X) (post_action n)) \<Longrightarrow>
     moves (moved c v p h X) (EMIT_SERVER_HELLO M ch random extensions post_action)"
  unfolding EMIT_SERVER_HELLO_def by (intro moves_intros)

lemma server_moves1 [moves_intros]:
  "moves (moved c v p h X) (ch_extension exttype ch src rest)"
  "moves (moved c v p h X) (ticket_parameters_ok si identity)"
  "moves (moved c v p h X) (check_psk_binder M identity ch_trunc)"
  "moves (moved c v p h X) (calc_cookie_signature negotiated_group tbs)"
  "moves (moved c v p h X) (server_confirm_ech M label confirm_off sh_start_off)"
  "moves (moved c v p h X) (server_check_second_ech ch)"
  "moves (moved c v p h X) (server_create_opener ch)"
  "moves (moved c v p h X) (server_select_cipher M is_second_flight ch)"
  "moves (moved c v p h X) (server_select_key_share ch)"
  "moves (moved c v p h X) (server_push_cookie M retry_uses_cookie negotiated_group' sends_key_share)"
  "moves (moved c v p h X) (set_selected_psk_binder binder)"
  "\<not> h \<Longrightarrow> moves (moved c v p h X) (server_accept_early_data M psk)"
  "moves (moved c v p h X) (server_exchange_key ch mode key_share)"
  "\<not> h \<Longrightarrow> moves (moved c v p h X) (server_derive_handshake_keys M ch ecdh_secret)"
  "{PTLS_STATE_SERVER_EXPECT_CERTIFICATE, PTLS_STATE_SERVER_EXPECT_END_OF_EARLY_DATA,
     PTLS_STATE_SERVER_EXPECT_FINISHED, PTLS_STATE_SERVER_GENERATING_CERTIFICATE_VERIFY} \<subseteq> X
     \<Longrightarrow> moves (moved c v p h X) (server_send_flight M ch mode)"
  "moves (moved c v p h X) (client_save_session_ticket M message)"
  unfolding ch_extension_def ticket_parameters_ok_def check_psk_binder_def calc_cookie_signature_def
    server_confirm_ech_def server_check_second_ech_def server_create_opener_def server_select_cipher_def
    server_select_key_share_def server_push_cookie_def set_selected_psk_binder_def server_accept_early_data_def
    server_exchange_key_def server_derive_handshake_keys_def server_send_flight_def client_save_session_ticket_def
    Let_def
  by (intro moves_intros; auto simp: moves_simps split: prod.splits option.splits sum.splits if_splits)+

lemma EMIT_HELLO_RETRY_REQUEST_moves [moves_intros]:
  "(\<And>n. moves (moved c v p h X) (post_action n)) \<Longrightarrow>
     moves (moved c v p h X) (EMIT_HELLO_RETRY_REQUEST M ch negotiated_group additional_extensions post_action)"
  unfolding EMIT_HELLO_RETRY_REQUEST_def by (intro moves_intros)

lemma server_moves2 [moves_intros]:
  "moves (moved c v p h X) (decode_client_hello src)"
  "hello_cb_moves c v p h X cb \<Longrightarrow> moves (moved c v p h X) (check_client_hello_constraints cb ch
     prev_random ech_is_inner_ch raw_message)"
  "moves (moved c v p h X) (try_ticket ch identity can_accept_early_data plain)"
  "hello_cb_moves c v p h X cb \<Longrightarrow> moves (moved c v p h X) (server_consult_application cb
     is_second_flight ch message)"
  "moves (moved c v p h X) (server_full_mode M is_second_flight message)"
  "moves (moved c v p h X) (server_send_hello M ch mode exchanged psk)"
  unfolding decode_client_hello_def check_client_hello_constraints_def try_ticket_def server_consult_application_def
    server_full_mode_def server_send_hello_def Let_def
  by (intro moves_intros; auto simp: moves_simps split: prod.splits option.splits sum.splits if_splits)+

lemma server_moves3 [moves_intros]:
  "moves (moved c v p h X) (try_psk_identity ch psk_index identity decbuf)"
  "hello_cb_moves c v p h X cb \<Longrightarrow> moves (moved c v p h X) (server_receive_hello cb prev_random
     ech_is_inner_ch message)"
  "moves (moved c v p h X) (server_use_cookie M ch algorithm)"
  "PTLS_STATE_SERVER_EXPECT_SECOND_CLIENT_HELLO \<in> X \<Longrightarrow> moves (moved c v p h X)
     (server_send_retry M ch message selected)"
  "\<not> p \<Longrightarrow> moves (moved c v p h X) (server_choose_mode M is_second_flight ch message psk)"
  unfolding try_psk_identity_def server_receive_hello_def server_use_cookie_def server_send_retry_def
    server_choose_mode_def Let_def
  by (intro moves_intros; auto simp: moves_simps split: prod.splits option.splits sum.splits if_splits)+

lemma try_psk_identities_moves [moves_intros]:
  "moves (moved c v p h X) (try_psk_identities ch psk_index identities decbuf)"
  by (induction identities arbitrary: psk_index decbuf) (auto intro!: moves_intros)

lemma try_psk_handshake_moves [moves_intros]: "moves (moved c v p h X) (try_psk_handshake M ch ch_trunc is_second_flight)"
  unfolding try_psk_handshake_def by (intro moves_intros; simp add: moved_def)

lemma server_moves4 [moves_intros]:
  "hello_cb_moves c v p h X cb \<Longrightarrow> moves (moved c v p h X) (server_adopt_inner M cb is_second_flight
     ch encoded_ch_inner)"
  "PTLS_STATE_SERVER_EXPECT_SECOND_CLIENT_HELLO \<in> X \<Longrightarrow> moves (moved c v p h X)
     (server_retry_or_continue M is_second_flight ch message key_share)"
  unfolding server_adopt_inner_def server_retry_or_continue_def Let_def
  by (intro moves_intros; auto simp: moves_simps split: prod.splits option.splits sum.splits if_splits)+

lemma server_moves5 [moves_intros]:
  "hello_cb_moves c v p h X cb \<Longrightarrow> moves (moved c v p h X) (server_open_inner M cb is_second_flight
     ch message payload aead)"
  "moves (moved c v p h X) (server_try_psk M is_second_flight ch message)"
  unfolding server_open_inner_def server_try_psk_def Let_def
  by (intro moves_intros; auto simp: moves_simps split: prod.splits option.splits sum.splits if_splits)+

lemma server_moves6 [moves_intros]:
  "hello_cb_moves c v p h X cb \<Longrightarrow> moves (moved c v p h X) (server_handle_ech M cb is_second_flight
     ch message)"
  "{PTLS_STATE_SERVER_EXPECT_CERTIFICATE, PTLS_STATE_SERVER_EXPECT_END_OF_EARLY_DATA,
     PTLS_STATE_SERVER_EXPECT_FINISHED, PTLS_STATE_SERVER_GENERATING_CERTIFICATE_VERIFY} \<subseteq> X
     \<Longrightarrow> \<not> p \<Longrightarrow> \<not> h \<Longrightarrow> moves (moved c v p h X)
     (server_answer_hello M is_second_flight ch message key_share)"
  unfolding server_handle_ech_def server_answer_hello_def Let_def
  by (intro moves_intros; auto simp: moves_simps split: prod.splits option.splits sum.splits if_splits)+

lemma server_moves7 [moves_intros]:
  "hello_cb_moves c v p h X cb \<Longrightarrow> moves (moved c v p h X) (server_get_hello M cb is_second_flight
     message)"
  unfolding server_get_hello_def Let_def
  by (intro moves_intros; auto simp: moves_simps split: prod.splits option.splits sum.splits if_splits)+

lemma server_moves8 [moves_intros]:
  "{PTLS_STATE_SERVER_EXPECT_CERTIFICATE, PTLS_STATE_SERVER_EXPECT_END_OF_EARLY_DATA,
     PTLS_STATE_SERVER_EXPECT_FINISHED, PTLS_STATE_SERVER_EXPECT_SECOND_CLIENT_HELLO,
     PTLS_STATE_SERVER_GENERATING_CERTIFICATE_VERIFY} \<subseteq> X \<Longrightarrow> \<not> p \<Longrightarrow>
     \<not> h \<Longrightarrow> hello_cb_moves c v p h X cb \<Longrightarrow> moves (moved c v p h X)
     (server_handle_hello M cb message)"
  unfolding server_handle_hello_def Let_def
  by (intro moves_intros; auto simp: moves_simps split: prod.splits option.splits sum.splits if_splits)+

end
