(* ===== verification/StateMachine.thy ===== *)
theory StateMachine
  imports Frames
begin

text \<open>
  The state machine of the handshake.  \<open>message_run\<close> is what happens to a connection while messages are handled;
  every interface function of \<open>Dispatch\<close> that takes input is such a run.  On it rest the state machine of the client
  and what has been verified when the handshake is complete.
\<close>

section \<open>One message\<close>

text \<open>EncryptedExtensions: with a pre-shared key the certificate is left out.\<close>

definition ee_moved :: "ptls \<Rightarrow> ptls \<Rightarrow> bool" where
  "ee_moved s s' \<longleftrightarrow> moved True True True True UNIV s s'
     \<and> (tls_state s' = tls_state s
        \<or> tls_state s' = (if tls_is_psk_handshake s' then PTLS_STATE_CLIENT_EXPECT_FINISHED
                          else PTLS_STATE_CLIENT_EXPECT_CERTIFICATE_REQUEST_OR_CERTIFICATE))"

interpretation ee: run_relation ee_moved
  by unfold_locales (auto simp: ee_moved_def moved_def)

lemma ee_moved_if_moved: "moves (moved True True True True {}) m \<Longrightarrow> moves ee_moved m"
  unfolding moves_def ee_moved_def moved_def by (meson UNIV_I empty_iff)

lemma client_handle_encrypted_extensions_moves_ee: "moves ee_moved (client_handle_encrypted_extensions M inet_pton message)"
  unfolding client_handle_encrypted_extensions_def
  apply (intro ee.moves_bind ee.moves_seq ee.moves_put ee.moves_basic)
       apply (rule ee_moved_if_moved, intro moves_intros; simp add: moved_def)+
  by (simp add: ee_moved_def moved_def)

text \<open>How an action came to its result.\<close>

lemma act_bind_Some:
  "act_bind m f s = Some (r, u) \<longleftrightarrow>
     (\<exists>e. m s = Some (Inl e, u) \<and> r = Inl e) \<or> (\<exists>x t. m s = Some (Inr x, t) \<and> f x t = Some (r, u))"
  by (auto simp: act_bind_def split: option.splits prod.splits sum.splits)

lemma act_seq_Some:
  "act_seq m m' s = Some (r, u) \<longleftrightarrow>
     (\<exists>e. m s = Some (Inl e, u) \<and> r = Inl e) \<or> (\<exists>t. m s = Some (Inr (), t) \<and> m' t = Some (r, u))"
  by (auto simp: act_seq_def act_bind_Some)

lemma act_basic_Some:
  "act_return x s = Some (r, u) \<longleftrightarrow> r = Inr x \<and> u = s"
  "act_fail e s = Some (r', u) \<longleftrightarrow> r' = Inl e \<and> u = s"
  "act_get g s = Some (r'', u) \<longleftrightarrow> r'' = Inr (g s) \<and> u = s"
  "act_put f s = Some (q, u) \<longleftrightarrow> q = Inr () \<and> u = f s"
  "act_deref h s = Some (q', u) \<longleftrightarrow> (\<exists>y. h s = Some y \<and> q' = Inr y) \<and> u = s"
  "act_assert b s = Some (q, u) \<longleftrightarrow> b s \<and> q = Inr () \<and> u = s"
  "act_res k s = Some (q'', u) \<longleftrightarrow> k s = q'' \<and> u = s"
  "act_code c s = Some (q, u) \<longleftrightarrow> q = (if c s = 0 then Inr () else Inl (c s)) \<and> u = s"
  "act_guard b e s = Some (q, u) \<longleftrightarrow> q = (if b s then Inr () else Inl e) \<and> u = s"
  by (auto simp: act_defs split: option.splits)

lemmas act_runs = act_bind_Some act_seq_Some act_basic_Some

section \<open>What a message has to show\<close>

text \<open>The codes after which the source goes on to the next message.\<close>

definition carries_on :: "int \<Rightarrow> bool" where
  "carries_on ret \<longleftrightarrow> ret \<in> {0, PTLS_ERROR_IN_PROGRESS, PTLS_ERROR_ASYNC_OPERATION}"

text \<open>The body of a Certificate message, compressed or not.\<close>

definition certificate_body :: "allocator \<Rightarrow> ptls \<Rightarrow> bytes \<Rightarrow> bytes res" where
  "certificate_body M tls message =
     (if uint (message ! 0) = PTLS_HANDSHAKE_TYPE_CERTIFICATE then Inr (drop 4 message)
      else case ctx_decompress_certificate (tls_ctx tls) of
          None \<Rightarrow> Inl PTLS_ALERT_UNEXPECTED_MESSAGE
        | Some (_, cb) \<Rightarrow>
            res_bind (ptls_decode16 (drop 4 message)) (\<lambda>(algo, src).
            res_bind (ptls_decode24 src) (\<lambda>(uncompressed_size, src).
              if uncompressed_size > 65536 then Inl PTLS_ALERT_BAD_CERTIFICATE
              else if \<not> c_malloc M (unat uncompressed_size) then Inl PTLS_ERROR_NO_MEMORY
              else ptls_decode_block 3
                     (\<lambda>src. res_bind (cb algo (unat uncompressed_size) src) (\<lambda>out. Inr (out, []))) src)))"

text \<open>The name the certificate of the server is checked against.\<close>

definition peer_name :: "ptls \<Rightarrow> bytes option" where
  "peer_name tls = (if tls_is_server tls then None
     else if ech_state (tls_ech tls) = PTLS_ECH_STATE_OFFERED then ech_client_public_name (tls_ech tls)
     else tls_server_name tls)"

text \<open>The certificates of a message were accepted by \<open>verify_certificate\<close>, which gave \<open>vs\<close> to check the signature.\<close>

definition certificate_accepted :: "allocator \<Rightarrow> ptls \<Rightarrow> bytes \<Rightarrow> verify_sign option \<Rightarrow> bool" where
  "certificate_accepted M tls message vs \<longleftrightarrow>
     (\<exists>body certs verify. certificate_body M tls message = Inr body
        \<and> decode_certificate (ctx_on_extension (tls_ctx tls)) body = Inr certs \<and> certs \<noteq> []
        \<and> ctx_verify_certificate (tls_ctx tls) = Some verify \<and> verify (peer_name tls) certs = Inr vs)"

text \<open>The signature of a CertificateVerify message is one over the transcript so far that \<open>vs\<close> accepts.\<close>

definition signature_accepted :: "string \<Rightarrow> ptls \<Rightarrow> bytes \<Rightarrow> verify_sign option \<Rightarrow> bool" where
  "signature_accepted context_string tls message vs \<longleftrightarrow>
     (\<exists>algo signature sched. decode_certificate_verify (drop 4 message) = Inr (algo, signature)
        \<and> tls_key_schedule tls = Some sched
        \<and> (\<forall>f. vs = Some f \<longrightarrow> f algo (build_certificate_verify_signdata sched context_string) signature = 0))"

text \<open>A Finished message is the MAC of the transcript so far.\<close>

definition finished_accepted :: "allocator \<Rightarrow> ptls \<Rightarrow> bytes \<Rightarrow> bool" where
  "finished_accepted M tls message \<longleftrightarrow>
     (\<exists>sched. tls_key_schedule tls = Some sched \<and> verify_finished M sched (tp_secret (tls_dec tls)) message = 0)"

lemma update_hash_run:
  "update_hash message s = Some (r, u) \<Longrightarrow> r = Inr () \<and> (\<exists>sched. u = s\<lparr>tls_key_schedule := Some sched\<rparr>)"
  by (auto simp: update_hash_def act_runs)

lemma handle_certificate_run:
  assumes "handle_certificate src s = Some (r, u)" "ctx_verify_certificate (tls_ctx s) = Some verify"
  shows "(\<exists>e. r = Inl e \<and> u = s)
    \<or> (\<exists>certs vs. decode_certificate (ctx_on_extension (tls_ctx s)) src = Inr certs \<and> verify (peer_name s) certs = Inr vs
         \<and> r = Inr (certs \<noteq> []) \<and> u = s\<lparr>tls_certificate_verify := vs\<rparr>)"
  using assms by (auto simp: handle_certificate_def act_runs Let_def peer_name_def)

lemma client_do_handle_certificate_run:
  assumes "client_do_handle_certificate body s = Some (r, u)" "ctx_verify_certificate (tls_ctx s) = Some verify"
    and "certificate_body M s message = Inr body" "carries_on (ret_code r)"
  shows "(\<exists>e. r = Inl e) \<and> u = s
    \<or> r = Inr () \<and> (\<exists>vs. u = s\<lparr>tls_certificate_verify := vs\<rparr> \<and> certificate_accepted M s message vs)"
proof -
  consider e where "handle_certificate body s = Some (Inl e, u)" "r = Inl e"
    | got where "handle_certificate body s = Some (Inr got, u)" "r = (if got then Inr () else Inl PTLS_ALERT_ILLEGAL_PARAMETER)"
    using assms(1) unfolding client_do_handle_certificate_def by (auto simp: act_runs)
  then show ?thesis
  proof cases
    case 1
    then show ?thesis
      using handle_certificate_run [OF 1(1) assms(2)] by simp
  next
    case 2
    then have got
      using assms(4) by (simp add: carries_on_def split: if_splits)
    then show ?thesis
      using 2 handle_certificate_run [OF 2(1) assms(2)] assms(2,3) unfolding certificate_accepted_def by auto
  qed
qed

lemma client_certificate_step:
  assumes "act_seq (client_do_handle_certificate body)
       (act_seq (update_hash message)
       (act_seq (set_state PTLS_STATE_CLIENT_EXPECT_CERTIFICATE_VERIFY) (act_fail PTLS_ERROR_IN_PROGRESS))) s = Some (r, u)"
    and "ctx_verify_certificate (tls_ctx s) = Some verify" "certificate_body M s message = Inr body"
    and "carries_on (ret_code r)"
  shows "u = s \<or> tls_state u = PTLS_STATE_CLIENT_EXPECT_CERTIFICATE_VERIFY
           \<and> certificate_accepted M s message (tls_certificate_verify u)"
proof -
  consider e where "client_do_handle_certificate body s = Some (Inl e, u)" "r = Inl e"
    | t t' where "client_do_handle_certificate body s = Some (Inr (), t)" "update_hash message t = Some (Inr (), t')"
        "u = t'\<lparr>tls_state := PTLS_STATE_CLIENT_EXPECT_CERTIFICATE_VERIFY\<rparr>"
    using assms(1) by (auto simp: act_runs set_state_def dest: update_hash_run)
  then show ?thesis
  proof cases
    case 1
    then show ?thesis
      using client_do_handle_certificate_run [OF 1(1) assms(2,3)] assms(4) by auto
  next
    case 2
    then show ?thesis
      using client_do_handle_certificate_run [OF 2(1) assms(2,3)] update_hash_run [OF 2(2)] by (auto simp: carries_on_def)
  qed
qed

text \<open>A function that checks signatures gives zero or an alert, not one of the codes that let the caller go on.\<close>

definition definite_verdict :: "verify_sign option \<Rightarrow> bool" where
  "definite_verdict vs \<longleftrightarrow> (\<forall>f algo input signature. vs = Some f \<longrightarrow> carries_on (f algo input signature) \<longrightarrow> f algo input signature = 0)"

lemma handle_certificate_verify_run:
  assumes "handle_certificate_verify message context_string s = Some (r, u)" "carries_on (ret_code r)"
    and "definite_verdict (tls_certificate_verify s)"
  shows "(\<exists>e. r = Inl e) \<and> u = s \<or> r = Inr () \<and> signature_accepted context_string s message (tls_certificate_verify s)"
proof (cases "decode_certificate_verify (drop 4 message)")
  case (Inl e)
  then show ?thesis
    using assms(1) by (auto simp: handle_certificate_verify_def act_runs)
next
  case (Inr p)
  obtain algo signature where p: "p = (algo, signature)"
    by (cases p)
  define code where "code sched = (case tls_certificate_verify s of None \<Rightarrow> 0
     | Some f \<Rightarrow> f algo (build_certificate_verify_signdata sched context_string) signature)" for sched
  obtain sched where sched: "tls_key_schedule s = Some sched" "code sched = 0 \<and> r = Inr () \<or> code sched \<noteq> 0 \<and> r = Inl (code sched)"
    using assms(1) Inr p unfolding handle_certificate_verify_def
    by (auto simp: act_runs code_def split: if_splits dest: update_hash_run)
  then have "code sched = 0 \<and> r = Inr ()"
    using assms(2,3) by (auto simp: code_def definite_verdict_def split: option.splits)
  then show ?thesis
    using Inr p sched(1) by (auto simp: code_def signature_accepted_def)
qed

lemma client_handle_certificate_verify_run:
  assumes "client_handle_certificate_verify message s = Some (r, u)" "carries_on (ret_code r)"
    and "definite_verdict (tls_certificate_verify s)"
  shows "u = s \<or> tls_state u = PTLS_STATE_CLIENT_EXPECT_FINISHED
     \<and> signature_accepted PTLS_SERVER_CERTIFICATE_VERIFY_CONTEXT_STRING s message (tls_certificate_verify s)"
  using assms(1,2) unfolding client_handle_certificate_verify_def
  by (auto simp: act_runs set_state_def dest!: handle_certificate_verify_run [OF _ _ assms(3)])
    (auto simp: carries_on_def)

lemma check_finished_run:
  "check_finished M message s = Some (r, u) \<Longrightarrow> u = s \<and> (r = Inr () \<longrightarrow> finished_accepted M s message)"
  by (auto simp: check_finished_def act_runs finished_accepted_def split: if_splits)

lemma client_handle_finished_run:
  assumes "client_handle_finished M message s = Some (r, u)"
  shows "moved True True True True {PTLS_STATE_CLIENT_POST_HANDSHAKE} s u"
    and "tls_state u = tls_state s \<or> finished_accepted M s message"
proof -
  have "moves (moved True True True True {PTLS_STATE_CLIENT_POST_HANDSHAKE}) (client_handle_finished M message)"
    by (intro moves_intros) simp
  from movesD [OF this assms] show "moved True True True True {PTLS_STATE_CLIENT_POST_HANDSHAKE} s u" .
  show "tls_state u = tls_state s \<or> finished_accepted M s message"
    using assms unfolding client_handle_finished_def
    by (subst (asm) act_bind_Some, subst (asm) act_seq_Some) (auto simp: act_basic_Some dest!: check_finished_run)
qed

section \<open>The state machine of the client\<close>

text \<open>The client of RFC 8446, Appendix A.1, on the states of the source: what a message may do to the state and what it
  has to show.  A message that does not complete a step leaves the state.\<close>

inductive client_step :: "allocator \<Rightarrow> ptls \<Rightarrow> bytes \<Rightarrow> ptls \<Rightarrow> bool" for M where
  stay: "\<lbrakk>tls_state u = tls_state s; tls_certificate_verify u = tls_certificate_verify s\<rbrakk> \<Longrightarrow> client_step M s message u"
| hello: "\<lbrakk>tls_state s \<in> {PTLS_STATE_CLIENT_EXPECT_SERVER_HELLO, PTLS_STATE_CLIENT_EXPECT_SECOND_SERVER_HELLO};
           uint (message ! 0) = PTLS_HANDSHAKE_TYPE_SERVER_HELLO;
           tls_state u \<in> {PTLS_STATE_CLIENT_EXPECT_SECOND_SERVER_HELLO, PTLS_STATE_CLIENT_EXPECT_ENCRYPTED_EXTENSIONS}\<rbrakk>
         \<Longrightarrow> client_step M s message u"
| extensions: "\<lbrakk>tls_state s = PTLS_STATE_CLIENT_EXPECT_ENCRYPTED_EXTENSIONS;
           uint (message ! 0) = PTLS_HANDSHAKE_TYPE_ENCRYPTED_EXTENSIONS;
           tls_state u = (if tls_is_psk_handshake u then PTLS_STATE_CLIENT_EXPECT_FINISHED
                          else PTLS_STATE_CLIENT_EXPECT_CERTIFICATE_REQUEST_OR_CERTIFICATE)\<rbrakk>
         \<Longrightarrow> client_step M s message u"
| certificate_request: "\<lbrakk>tls_state s = PTLS_STATE_CLIENT_EXPECT_CERTIFICATE_REQUEST_OR_CERTIFICATE;
           uint (message ! 0) = PTLS_HANDSHAKE_TYPE_CERTIFICATE_REQUEST; tls_state u = PTLS_STATE_CLIENT_EXPECT_CERTIFICATE\<rbrakk>
         \<Longrightarrow> client_step M s message u"
| certificate: "\<lbrakk>tls_state s \<in> {PTLS_STATE_CLIENT_EXPECT_CERTIFICATE_REQUEST_OR_CERTIFICATE, PTLS_STATE_CLIENT_EXPECT_CERTIFICATE};
           certificate_accepted M s message (tls_certificate_verify u);
           tls_state u = PTLS_STATE_CLIENT_EXPECT_CERTIFICATE_VERIFY\<rbrakk> \<Longrightarrow> client_step M s message u"
| certificate_verify: "\<lbrakk>tls_state s = PTLS_STATE_CLIENT_EXPECT_CERTIFICATE_VERIFY;
           uint (message ! 0) = PTLS_HANDSHAKE_TYPE_CERTIFICATE_VERIFY;
           signature_accepted PTLS_SERVER_CERTIFICATE_VERIFY_CONTEXT_STRING s message (tls_certificate_verify s);
           tls_state u = PTLS_STATE_CLIENT_EXPECT_FINISHED\<rbrakk> \<Longrightarrow> client_step M s message u"
| finished: "\<lbrakk>tls_state s = PTLS_STATE_CLIENT_EXPECT_FINISHED; uint (message ! 0) = PTLS_HANDSHAKE_TYPE_FINISHED;
           finished_accepted M s message; tls_state u = PTLS_STATE_CLIENT_POST_HANDSHAKE\<rbrakk> \<Longrightarrow> client_step M s message u"

inductive_cases client_stepE: "client_step M s message u"

lemma client_step_if_same: "client_step M s message s"
  by (rule client_step.stay) simp_all

lemma client_certificate_message_step:
  assumes "(if uint (message ! 0) = PTLS_HANDSHAKE_TYPE_CERTIFICATE then client_handle_certificate message
            else if uint (message ! 0) = PTLS_HANDSHAKE_TYPE_COMPRESSED_CERTIFICATE
            then client_handle_compressed_certificate M message else act_fail PTLS_ALERT_UNEXPECTED_MESSAGE) s = Some (r, u)"
    and "ctx_verify_certificate (tls_ctx s) = Some verify" "carries_on (ret_code r)"
    and "tls_state s \<in> {PTLS_STATE_CLIENT_EXPECT_CERTIFICATE_REQUEST_OR_CERTIFICATE, PTLS_STATE_CLIENT_EXPECT_CERTIFICATE}"
  shows "client_step M s message u"
proof -
  have step: "client_step M s message u"
    if "act_seq (client_do_handle_certificate body)
       (act_seq (update_hash message)
       (act_seq (set_state PTLS_STATE_CLIENT_EXPECT_CERTIFICATE_VERIFY) (act_fail PTLS_ERROR_IN_PROGRESS))) s = Some (r, u)"
      "certificate_body M s message = Inr body" for body
    using client_certificate_step [OF that(1) assms(2) that(2) assms(3)] assms(4)
    by (auto intro: client_step_if_same client_step.certificate)
  show ?thesis
  proof (cases "uint (message ! 0) = PTLS_HANDSHAKE_TYPE_CERTIFICATE")
    case True
    then show ?thesis
      using assms(1) by (intro step [of "drop 4 message"]) (auto simp: client_handle_certificate_def certificate_body_def)
  next
    case False
    note body = certificate_body_def [of M s message, unfolded if_not_P [OF False]]
    show ?thesis
    proof (cases "uint (message ! 0) = PTLS_HANDSHAKE_TYPE_COMPRESSED_CERTIFICATE \<and> ctx_decompress_certificate (tls_ctx s) \<noteq> None")
      case True
      then show ?thesis
        using assms(1) False step [of "projr (certificate_body M s message)"] client_step_if_same
        unfolding client_handle_compressed_certificate_def body
        by (auto simp: act_bind_Some act_basic_Some)
    next
      case no: False
      then have "u = s"
        using assms(1) False
        by (auto simp: client_handle_compressed_certificate_def act_bind_Some act_basic_Some split: if_splits option.splits)
      then show ?thesis
        using client_step_if_same by blast
    qed
  qed
qed

text \<open>What the handlers of the client keep.\<close>

definition client_states :: "ptls_state set" where
  "client_states = {st. st \<le> PTLS_STATE_CLIENT_EXPECT_FINISHED} \<union> {PTLS_STATE_CLIENT_POST_HANDSHAKE}"

lemma client_states_simps [simp]:
  "PTLS_STATE_CLIENT_HANDSHAKE_START \<in> client_states" "PTLS_STATE_CLIENT_EXPECT_SERVER_HELLO \<in> client_states"
  "PTLS_STATE_CLIENT_EXPECT_SECOND_SERVER_HELLO \<in> client_states"
  "PTLS_STATE_CLIENT_EXPECT_ENCRYPTED_EXTENSIONS \<in> client_states"
  "PTLS_STATE_CLIENT_EXPECT_CERTIFICATE_REQUEST_OR_CERTIFICATE \<in> client_states"
  "PTLS_STATE_CLIENT_EXPECT_CERTIFICATE \<in> client_states" "PTLS_STATE_CLIENT_EXPECT_CERTIFICATE_VERIFY \<in> client_states"
  "PTLS_STATE_CLIENT_EXPECT_FINISHED \<in> client_states" "PTLS_STATE_CLIENT_POST_HANDSHAKE \<in> client_states"
  by (simp_all add: client_states_def state_le_defs)

lemma client_message_moves: "moves (moved True False False False client_states)
    (handle_client_handshake_message M inet_pton message is_end_of_record)"
proof -
  have "moves (moved True False False False client_states) (if b then client_handle_certificate message
     else if b' then client_handle_compressed_certificate M message else act_fail e)" for b b' e
    by (intro moves_intros) simp_all
  then show ?thesis
    unfolding handle_client_handshake_message_def Let_def
    by (intro moves_intros) (split ptls_state.split, intro conjI impI moves_intros; simp)
qed

lemma client_handle_hello_step:
  assumes "client_handle_hello M inet_pton message s = Some (r, u)" "uint (message ! 0) = PTLS_HANDSHAKE_TYPE_SERVER_HELLO"
    and "tls_state s \<in> {PTLS_STATE_CLIENT_EXPECT_SERVER_HELLO, PTLS_STATE_CLIENT_EXPECT_SECOND_SERVER_HELLO}"
  shows "client_step M s message u"
proof -
  have "moves (moved True True False False {PTLS_STATE_CLIENT_EXPECT_SECOND_SERVER_HELLO,
      PTLS_STATE_CLIENT_EXPECT_ENCRYPTED_EXTENSIONS}) (client_handle_hello M inet_pton message)"
    by (intro moves_intros) simp_all
  from movesD [OF this assms(1)] show ?thesis
    using client_step.hello [OF assms(3,2)] client_step.stay by (auto simp: moved_def)
qed

lemma client_handle_encrypted_extensions_step:
  assumes "client_handle_encrypted_extensions M inet_pton message s = Some (r, u)"
    and "uint (message ! 0) = PTLS_HANDSHAKE_TYPE_ENCRYPTED_EXTENSIONS"
    and "tls_state s = PTLS_STATE_CLIENT_EXPECT_ENCRYPTED_EXTENSIONS"
  shows "client_step M s message u"
  using movesD [OF client_handle_encrypted_extensions_moves_ee assms(1)] client_step.extensions [OF assms(3,2)]
    client_step.stay by (auto simp: ee_moved_def moved_def)

lemma client_handle_certificate_request_step:
  assumes "client_handle_certificate_request M message s = Some (r, u)"
    and "uint (message ! 0) = PTLS_HANDSHAKE_TYPE_CERTIFICATE_REQUEST"
    and "tls_state s = PTLS_STATE_CLIENT_EXPECT_CERTIFICATE_REQUEST_OR_CERTIFICATE"
  shows "client_step M s message u"
proof -
  have "moves (moved True True True True {PTLS_STATE_CLIENT_EXPECT_CERTIFICATE}) (client_handle_certificate_request M message)"
    by (intro moves_intros) simp
  from movesD [OF this assms(1)] show ?thesis
    using client_step.certificate_request [OF assms(3,2)] client_step.stay by (auto simp: moved_def)
qed

lemma client_handle_finished_step:
  assumes "client_handle_finished M message s = Some (r, u)" "uint (message ! 0) = PTLS_HANDSHAKE_TYPE_FINISHED"
    and "tls_state s = PTLS_STATE_CLIENT_EXPECT_FINISHED"
  shows "client_step M s message u"
  using client_handle_finished_run [OF assms(1)] client_step.finished [OF assms(3,2)] client_step.stay
  by (auto simp: moved_def)

lemma client_post_handshake_step:
  assumes "(if b then client_save_session_ticket M message else if b' then handle_key_update M message else act_fail e) s
      = Some (r, u)"
  shows "client_step M s message u"
proof -
  have "moves (moved True True True True {}) (if b then client_save_session_ticket M message
     else if b' then handle_key_update M message else act_fail e)"
    by (intro moves_intros)
  from movesD [OF this assms] show ?thesis
    using client_step.stay by (auto simp: moved_def)
qed

lemma client_message_step:
  assumes "handle_client_handshake_message M inet_pton message is_end_of_record s = Some (r, u)"
    and "ctx_verify_certificate (tls_ctx s) = Some verify" "carries_on (ret_code r)"
    and "tls_state s = PTLS_STATE_CLIENT_EXPECT_CERTIFICATE_VERIFY \<Longrightarrow> definite_verdict (tls_certificate_verify s)"
  shows "client_step M s message u"
proof (cases "tls_state s")
  case PTLS_STATE_CLIENT_EXPECT_CERTIFICATE_REQUEST_OR_CERTIFICATE
  with assms show ?thesis
    by (cases "uint (message ! 0) = PTLS_HANDSHAKE_TYPE_CERTIFICATE_REQUEST")
      (auto simp: handle_client_handshake_message_def Let_def act_bind_Some act_basic_Some
        intro: client_handle_certificate_request_step client_certificate_message_step)
next
  case PTLS_STATE_CLIENT_EXPECT_CERTIFICATE
  with assms show ?thesis
    by (auto simp: handle_client_handshake_message_def Let_def act_bind_Some act_basic_Some
        intro: client_certificate_message_step)
next
  case PTLS_STATE_CLIENT_EXPECT_CERTIFICATE_VERIFY
  with assms show ?thesis
    by (auto simp: handle_client_handshake_message_def Let_def act_bind_Some act_basic_Some split: if_splits
        intro!: client_step_if_same intro: client_step.certificate_verify dest!: client_handle_certificate_verify_run)
next
  case PTLS_STATE_CLIENT_POST_HANDSHAKE
  with assms show ?thesis
    by (auto simp: handle_client_handshake_message_def Let_def act_bind_Some act_basic_Some
        intro: client_post_handshake_step)
qed (use assms in \<open>auto simp: handle_client_handshake_message_def Let_def act_bind_Some act_basic_Some split: if_splits
    intro: client_handle_hello_step client_handle_encrypted_extensions_step client_handle_finished_step
      client_step_if_same\<close>)

section \<open>Runs\<close>

text \<open>The life of a connection: it handles messages, a client sends its first message, a server goes on when a signature
  has been computed, and everything else leaves the role, the state and the context alone.  The list holds the messages
  and the states they were handled in.  With \<open>k\<close> no call has failed.\<close>

inductive message_run :: "tls_env \<Rightarrow> bool \<Rightarrow> bool \<Rightarrow> ptls \<Rightarrow> (ptls \<times> bytes) list \<Rightarrow> ptls \<Rightarrow> bool" for E k b s where
  start: "message_run E k b s [] s"
| message: "\<lbrakk>message_run E k b s tr t; handle_handshake_message E b message is_end_of_record t = Some (r, u);
     k \<longrightarrow> carries_on (ret_code r)\<rbrakk> \<Longrightarrow> message_run E k b s (tr @ [(t, message)]) u"
| hello: "\<lbrakk>message_run E k b s tr t; \<not> b; send_client_hello (env_alloc E) (env_inet_pton E) None t = Some (r, u)\<rbrakk>
     \<Longrightarrow> message_run E k b s tr u"
| finish: "\<lbrakk>message_run E k b s tr t; b; tls_state t = PTLS_STATE_SERVER_GENERATING_CERTIFICATE_VERIFY;
     server_finish_handshake (env_alloc E) True [] t = Some (r, u); k \<longrightarrow> carries_on (ret_code r)\<rbrakk> \<Longrightarrow> message_run E k b s tr u"
| other: "\<lbrakk>message_run E k b s tr t; moved True True True True {} t u\<rbrakk> \<Longrightarrow> message_run E k b s tr u"

text \<open>A certificate was accepted, and later a signature by its key over the transcript.\<close>

definition authenticated :: "allocator \<Rightarrow> string \<Rightarrow> (ptls \<times> bytes) list \<Rightarrow> bool" where
  "authenticated M context_string tr \<longleftrightarrow>
     (\<exists>a t m b t' m' c vs. tr = a @ (t, m) # b @ (t', m') # c \<and> certificate_accepted M t m vs
        \<and> signature_accepted context_string t' m' vs)"

abbreviation server_authenticated :: "tls_env \<Rightarrow> (ptls \<times> bytes) list \<Rightarrow> bool" where
  "server_authenticated E \<equiv> authenticated (env_alloc E) PTLS_SERVER_CERTIFICATE_VERIFY_CONTEXT_STRING"

text \<open>The peer has confirmed the handshake, after \<open>ok\<close> held of what had been received before.\<close>

definition confirmed :: "allocator \<Rightarrow> ((ptls \<times> bytes) list \<Rightarrow> bool) \<Rightarrow> (ptls \<times> bytes) list \<Rightarrow> bool" where
  "confirmed M ok tr \<longleftrightarrow> (\<exists>a t m b. tr = a @ (t, m) # b \<and> ok a \<and> finished_accepted M t m)"

lemma authenticated_append: "authenticated M str tr \<Longrightarrow> authenticated M str (tr @ tr')"
  unfolding authenticated_def by (metis append.assoc append_Cons)

lemma authenticated_snoc:
  "certificate_accepted M t m vs \<Longrightarrow> signature_accepted str t' m' vs \<Longrightarrow> authenticated M str ((a @ (t, m) # b) @ [(t', m')])"
  unfolding authenticated_def by fastforce

lemma confirmed_append: "confirmed M ok tr \<Longrightarrow> confirmed M ok (tr @ tr')"
  unfolding confirmed_def by (metis append.assoc append_Cons)

lemma confirmed_mono: "confirmed M ok tr \<Longrightarrow> (\<And>tr. ok tr \<Longrightarrow> ok' tr) \<Longrightarrow> confirmed M ok' tr"
  unfolding confirmed_def by blast

definition definite_verifier :: "ptls_context \<Rightarrow> bool" where
  "definite_verifier ctx \<longleftrightarrow> (\<exists>verify. ctx_verify_certificate ctx = Some verify
     \<and> (\<forall>name certs vs. verify name certs = Inr vs \<longrightarrow> definite_verdict vs))"

definition client_inv :: "tls_env \<Rightarrow> ptls_context \<Rightarrow> (ptls \<times> bytes) list \<Rightarrow> ptls \<Rightarrow> bool" where
  "client_inv E ctx tr s \<longleftrightarrow> tls_ctx s = ctx
     \<and> (tls_state s = PTLS_STATE_CLIENT_EXPECT_CERTIFICATE_VERIFY \<longrightarrow> definite_verdict (tls_certificate_verify s)
          \<and> (\<exists>a t m b. tr = a @ (t, m) # b \<and> certificate_accepted (env_alloc E) t m (tls_certificate_verify s)))
     \<and> (tls_state s = PTLS_STATE_CLIENT_EXPECT_FINISHED \<longrightarrow> tls_is_psk_handshake s \<or> server_authenticated E tr)
     \<and> (tls_state s = PTLS_STATE_CLIENT_POST_HANDSHAKE \<longrightarrow>
          confirmed (env_alloc E) (\<lambda>a. tls_is_psk_handshake s \<or> server_authenticated E a) tr)"

lemma client_inv_message:
  assumes inv: "client_inv E ctx tr s" and ctx: "definite_verifier ctx"
    and run: "handle_client_handshake_message (env_alloc E) (env_inet_pton E) message is_end_of_record s = Some (r, u)"
    and ret: "carries_on (ret_code r)"
  shows "client_inv E ctx (tr @ [(s, message)]) u"
proof -
  have m: "moved True False False False client_states s u"
    using movesD [OF client_message_moves run] .
  obtain verify where verify: "ctx_verify_certificate (tls_ctx s) = Some verify"
    "\<And>name certs vs. verify name certs = Inr vs \<Longrightarrow> definite_verdict vs"
    using ctx inv by (auto simp: definite_verifier_def client_inv_def)
  have "client_step (env_alloc E) s message u"
    using inv by (intro client_message_step [OF run verify(1) ret]) (simp add: client_inv_def)
  moreover have keep: "tls_ctx u = ctx" "tls_is_psk_handshake s \<Longrightarrow> tls_is_psk_handshake u"
    using inv m by (auto simp: client_inv_def moved_def)
  ultimately show ?thesis
  proof cases
    case stay
    have psk: "confirmed (env_alloc E) (\<lambda>a. tls_is_psk_handshake u \<or> server_authenticated E a) (tr @ [(s, message)])"
      if "confirmed (env_alloc E) (\<lambda>a. tls_is_psk_handshake s \<or> server_authenticated E a) tr"
      by (rule confirmed_append, rule confirmed_mono [OF that]) (use keep(2) in blast)
    show ?thesis
      unfolding client_inv_def stay
      using inv [unfolded client_inv_def] keep psk authenticated_append by (intro conjI impI) (simp, simp, metis append.assoc append_Cons, blast+)
  next
    case certificate
    then have "definite_verdict (tls_certificate_verify u)"
      using verify by (auto simp: certificate_accepted_def)
    then show ?thesis
      using certificate keep unfolding client_inv_def by auto
  next
    case certificate_verify
    then obtain a t m b where "tr = a @ (t, m) # b" "certificate_accepted (env_alloc E) t m (tls_certificate_verify s)"
      using inv by (auto simp: client_inv_def)
    then have "server_authenticated E (tr @ [(s, message)])"
      using authenticated_snoc certificate_verify by metis
    then show ?thesis
      using certificate_verify(4) keep by (simp add: client_inv_def)
  next
    case finished
    then have "confirmed (env_alloc E) (\<lambda>a. tls_is_psk_handshake u \<or> server_authenticated E a) (tr @ [(s, message)])"
      using inv keep(2) unfolding client_inv_def confirmed_def by blast
    then show ?thesis
      using finished keep by (simp add: client_inv_def)
  qed (use keep in \<open>auto simp: client_inv_def\<close>)
qed

lemma client_inv_moved:
  assumes "client_inv E ctx tr s" "moved True True True True {} s u"
  shows "client_inv E ctx tr u"
  using assms by (simp add: client_inv_def moved_def)

lemma client_inv_hello:
  assumes "client_inv E ctx tr s" "send_client_hello M inet_pton None s = Some (r, u)"
  shows "client_inv E ctx tr u"
proof -
  have "moves (moved True True True True {PTLS_STATE_CLIENT_EXPECT_SERVER_HELLO}) (send_client_hello M inet_pton None)"
    by (intro moves_intros) simp
  from movesD [OF this assms(2)] show ?thesis
    using assms(1) by (auto simp: client_inv_def moved_def)
qed

lemma client_run_inv:
  assumes "message_run E True False s tr u" "definite_verifier (tls_ctx s)" "tls_state s = PTLS_STATE_CLIENT_HANDSHAKE_START"
  shows "client_inv E (tls_ctx s) tr u"
  using assms
proof (induction rule: message_run.induct)
  case start
  then show ?case
    by (simp add: client_inv_def)
qed (auto simp: handle_handshake_message_def intro: client_inv_message client_inv_hello client_inv_moved)

section \<open>The interface functions are runs\<close>

lemma handle_messages_invariant:
  assumes "handle_messages cb ret s src = (ret', s', rest)" "P s"
    and "\<And>s m e r s'. P s \<Longrightarrow> cb s m e = (r, s') \<Longrightarrow> (k \<longrightarrow> carries_on r) \<Longrightarrow> P s'"
  shows "(rest = None \<longrightarrow> \<not> carries_on ret') \<and> (k \<and> rest = None \<or> P s')"
  using assms
proof (induction cb ret s src rule: handle_messages.induct)
  case (1 cb ret s src)
  define n where "n = 4 + unat (ntoh24 (drop 1 src))"
  show ?case
  proof (cases "length src \<ge> 4 \<and> \<not> length src < n")
    case True
    obtain r t where cb: "cb s (take n src) (length src = n) = (r, t)"
      by fastforce
    have eq: "handle_messages cb ret s src
       = (if carries_on r then handle_messages cb r t (drop n src) else (r, t, None))"
      using True cb by (subst handle_messages.simps) (auto simp: carries_on_def n_def Let_def)
    show ?thesis
    proof (cases "carries_on r")
      case c: True
      then have "P t"
        using 1(4) [OF 1(3) cb] by simp
      moreover have "r = 0 \<or> r = PTLS_ERROR_ASYNC_OPERATION \<or> r = PTLS_ERROR_IN_PROGRESS"
        using c by (auto simp: carries_on_def)
      note ih = 1(1) [OF conjunct1 [OF True] n_def conjunct2 [OF True] cb [symmetric] this]
      ultimately show ?thesis
        using 1(2) eq c by (intro ih [OF _ _ 1(4)]) auto
    qed (use 1(2) eq 1(4) [OF 1(3) cb] in auto)
  next
    case False
    then show ?thesis
      using 1(2,3) by (subst (asm) handle_messages.simps) (auto simp: Let_def n_def split: if_splits)
  qed
qed

lemma handle_handshake_record_invariant:
  assumes "handle_handshake_record M sz cb s mess type fragment = (ret, s', mess')" "P s" "k \<longrightarrow> carries_on ret"
    and "\<And>s m e r s'. P s \<Longrightarrow> cb s m e = (r, s') \<Longrightarrow> (k \<longrightarrow> carries_on r) \<Longrightarrow> P s'"
  shows "P s'"
proof -
  have inv: "(rest = None \<longrightarrow> \<not> carries_on ret') \<and> (k \<and> rest = None \<or> P s1)"
    if "handle_messages cb PTLS_ERROR_IN_PROGRESS s src = (ret', s1, rest)" for src ret' s1 rest
    using handle_messages_invariant [OF that, of P k] assms(2,4) by blast
  show ?thesis
    using assms(1-3) unfolding handle_handshake_record_def Let_def
    by (auto split: if_splits prod.splits option.splits dest!: inv)
qed

text \<open>The callback \<open>on_client_hello\<close> may replace the context; it leaves the role and the state of the handshake.\<close>

definition env_ok :: "tls_env \<Rightarrow> bool" where
  "env_ok E \<longleftrightarrow> hello_cb_moves False True True True {} (env_on_client_hello E)"

definition server_states :: "ptls_state set" where
  "server_states = - client_states"

lemma server_states_simps [simp]:
  "PTLS_STATE_SERVER_EXPECT_CLIENT_HELLO \<in> server_states" "PTLS_STATE_SERVER_EXPECT_SECOND_CLIENT_HELLO \<in> server_states"
  "PTLS_STATE_SERVER_GENERATING_CERTIFICATE_VERIFY \<in> server_states" "PTLS_STATE_SERVER_EXPECT_CERTIFICATE \<in> server_states"
  "PTLS_STATE_SERVER_EXPECT_CERTIFICATE_VERIFY \<in> server_states"
  "PTLS_STATE_SERVER_EXPECT_END_OF_EARLY_DATA \<in> server_states" "PTLS_STATE_SERVER_EXPECT_FINISHED \<in> server_states"
  "PTLS_STATE_SERVER_POST_HANDSHAKE \<in> server_states"
  by (simp_all add: server_states_def client_states_def state_le_defs)

lemma moves_moved_weaken: "moves (moved False True True True {}) m \<Longrightarrow> moves (moved False v p h X) m"
  unfolding moves_def moved_def by (meson empty_iff)

lemma env_ok_moves: "env_ok E \<Longrightarrow> hello_cb_moves False v p h X (env_on_client_hello E)"
  by (simp add: env_ok_def hello_cb_moves_def moves_moved_weaken)

lemma server_message_moves:
  assumes "env_ok E"
  shows "moves (moved False False False False server_states)
    (handle_server_handshake_message M (env_on_client_hello E) message is_end_of_record)"
  unfolding handle_server_handshake_message_def Let_def
  by (intro moves_intros) (split ptls_state.split, intro conjI impI moves_intros env_ok_moves assms; simp)

text \<open>The role of an endpoint and its state belong together.\<close>

definition role_states :: "bool \<Rightarrow> ptls_state set" where
  "role_states b = (if b then server_states else client_states)"

lemma message_moves:
  assumes "env_ok E"
  shows "moves (moved False False False False (role_states b)) (handle_handshake_message E b message is_end_of_record)"
proof (cases b)
  case True
  then show ?thesis
    using server_message_moves [OF assms] by (simp add: handle_handshake_message_def role_states_def)
next
  case False
  then show ?thesis
    using client_message_moves unfolding handle_handshake_message_def role_states_def moves_def moved_def by simp
qed

lemma message_run_moved:
  assumes "message_run E k b s tr u" "env_ok E"
  shows "moved False False False False (role_states b) s u"
  using assms
proof (induction rule: message_run.induct)
  case (message tr t m e r u)
  then show ?case
    using movesD [OF message_moves message.hyps(2)] by (blast intro: moved.trans)
next
  case (hello tr t r u)
  have "moves (moved False False False False (role_states b)) (send_client_hello (env_alloc E) (env_inet_pton E) None)"
    using hello(2) by (intro moves_intros) (simp add: role_states_def)
  from movesD [OF this hello(3)] show ?case
    using hello.IH hello.prems by (blast intro: moved.trans)
next
  case (finish tr t r u)
  have "moves (moved False False False False (role_states b)) (server_finish_handshake (env_alloc E) True [])"
    using finish(2) by (intro moves_intros) (simp add: role_states_def)
  from movesD [OF this finish(4)] show ?case
    using finish.IH finish.prems by (blast intro: moved.trans)
next
  case (other tr t u)
  have "moved False False False False (role_states b) t u"
    using other.hyps(2) by (simp add: moved_def)
  then show ?case
    using other.IH other.prems by (blast intro: moved.trans)
qed simp

lemma message_run_trans:
  assumes "message_run E k b t tr' u" "message_run E k b s tr t"
  shows "message_run E k b s (tr @ tr') u"
  using assms
proof (induction rule: message_run.induct)
  case (message tr' t' m e r u)
  then show ?case
    using message_run.message [of E k b s "tr @ tr'"] by simp
qed (auto intro: message_run.intros)

end
