(* ===== verification/ClientAuth.thy ===== *)
theory ClientAuth
  imports StateMachine
begin

text \<open>
  A server that requires a certificate from its clients.  Such a server accepts no pre-shared key and no early data, so
  its handshake passes through the Certificate message of the client; when it is complete, the certificate and the
  signature of the client have been accepted.
\<close>

section \<open>The answer to a ClientHello\<close>

definition auth_pending :: "ptls \<Rightarrow> bool" where
  "auth_pending s \<longleftrightarrow> ctx_require_client_authentication (tls_ctx s) \<and> tls_pending_handshake_secret s = None"

definition auth_moved :: "ptls \<Rightarrow> ptls \<Rightarrow> bool" where
  "auth_moved s s' \<longleftrightarrow> (auth_pending s \<longrightarrow> tls_ctx s' = tls_ctx s \<and> tls_pending_handshake_secret s' = None
     \<and> tls_certificate_verify s' = tls_certificate_verify s
     \<and> tls_state s' \<in> {tls_state s, PTLS_STATE_SERVER_EXPECT_SECOND_CLIENT_HELLO,
         PTLS_STATE_SERVER_GENERATING_CERTIFICATE_VERIFY, PTLS_STATE_SERVER_EXPECT_CERTIFICATE})"

interpretation auth: run_relation auth_moved
  by unfold_locales (auto simp: auth_moved_def auth_pending_def)

lemma auth_moved_if_moved:
  assumes "moves (moved True True p True {PTLS_STATE_SERVER_EXPECT_SECOND_CLIENT_HELLO,
      PTLS_STATE_SERVER_GENERATING_CERTIFICATE_VERIFY, PTLS_STATE_SERVER_EXPECT_CERTIFICATE}) m"
  shows "moves auth_moved m"
  using assms unfolding moves_def auth_moved_def moved_def auth_pending_def by simp

lemma auth_moves_bind:
  assumes "moves auth_moved m" "\<And>s x t. m s = Some (Inr x, t) \<Longrightarrow> auth_pending s \<Longrightarrow> Q x"
    and "\<And>x. Q x \<Longrightarrow> moves auth_moved (f x)"
  shows "moves auth_moved (act_bind m f)"
proof (rule movesI)
  fix s r u assume run: "act_bind m f s = Some (r, u)"
  show "auth_moved s u"
  proof (cases "auth_pending s")
    case True
    with run assms show ?thesis
      by (auto simp: act_bind_Some dest: movesD) (meson auth.trans movesD)
  qed (simp add: auth_moved_def)
qed

lemma server_next_state_auth: "moves auth_moved (server_next_state M)"
proof (rule movesI)
  fix s r u assume "server_next_state M s = Some (r, u)"
  then show "auth_moved s u"
    unfolding server_next_state_def
    by (auto simp: act_runs set_state_def auth_moved_def auth_pending_def split: if_splits)
qed

lemma server_finish_handshake_auth: "moves auth_moved (server_finish_handshake M b algos)"
  unfolding server_finish_handshake_def
  by (intro auth.moves_bind auth.moves_seq auth.moves_basic auth.moves_when auth.moves_put server_next_state_auth;
      (rule auth_moved_if_moved, intro moves_intros; simp add: moved_def)?; simp add: auth_moved_def auth_pending_def)

lemma server_accept_early_data_auth: "moves auth_moved (server_accept_early_data M None)"
  by (rule movesI) (simp add: server_accept_early_data_def act_when_def auth_moved_def auth_pending_def)

lemma auth_get_pending:
  assumes "moves auth_moved (f None)"
  shows "moves auth_moved (act_bind (act_get tls_pending_handshake_secret) f)"
  using assms by (intro auth_moves_bind [where Q = "\<lambda>x. x = None"] auth.moves_basic) (auto simp: act_runs auth_pending_def)

lemma server_derive_handshake_keys_auth: "moves auth_moved (server_derive_handshake_keys M ch secret)"
  unfolding server_derive_handshake_keys_def
  by (intro auth.moves_seq auth_get_pending;
      rule auth_moved_if_moved [where p = True]; intro moves_intros; simp add: moved_def)

lemma server_try_psk_none:
  assumes "server_try_psk M b ch message s = Some (Inr psk, t)" "auth_pending s"
  shows "psk = None"
  using assms unfolding server_try_psk_def auth_pending_def by (auto simp: act_runs split: option.splits if_splits)

lemma server_answer_hello_auth: "moves auth_moved (server_answer_hello M b ch message key_share)"
proof -
  have "moves auth_moved (server_choose_mode M b ch message None)"
    unfolding server_choose_mode_def
    by (rule auth_moved_if_moved [where p = True]) (simp, intro moves_intros)
  moreover have "moves auth_moved (server_send_flight M ch mode)" for mode
    unfolding server_send_flight_def
    by (intro auth.moves_bind auth.moves_seq auth.moves_basic auth.moves_when moves_if server_finish_handshake_auth;
        rule auth_moved_if_moved [where p = True]; intro moves_intros)
  ultimately have rest: "moves auth_moved (act_bind (server_choose_mode M b ch message None) (\<lambda>mode.
     act_seq (act_put (\<lambda>tls. tls\<lparr>tls_num_tickets_to_send := tickets_to_send ch tls\<rparr>))
    (act_seq (server_accept_early_data M None)
    (act_bind (server_exchange_key ch mode key_share) (\<lambda>exchanged.
     act_seq (server_send_hello M ch mode exchanged None)
    (act_seq (act_put (\<lambda>tls. tls\<lparr>tls_ech := clear_ech (tls_ech tls) True\<rparr>))
    (act_seq (push_change_cipher_spec M)
    (act_seq (server_derive_handshake_keys M ch (map_option (\<lambda>(_, _, secret). secret) exchanged))
       (server_send_flight M ch mode)))))))))"
    by (intro auth.moves_bind auth.moves_seq server_derive_handshake_keys_auth server_accept_early_data_auth)
      (assumption | rule auth_moved_if_moved [where p = True]; intro moves_intros; simp add: moved_def)+
  have "moves auth_moved (server_try_psk M b ch message)"
    by (rule auth_moved_if_moved [where p = True], intro moves_intros)
  then show ?thesis
    unfolding server_answer_hello_def
    by (intro auth.moves_seq auth.moves_basic auth_moves_bind [where Q = "\<lambda>psk. psk = None"])
      (auto intro: rest dest: server_try_psk_none)
qed

text \<open>The callback does not touch the context here.\<close>

definition auth_env :: "tls_env \<Rightarrow> bool" where
  "auth_env E \<longleftrightarrow> hello_cb_moves True True True True {} (env_on_client_hello E)"

lemma server_handle_hello_auth:
  assumes "auth_env E"
  shows "moves auth_moved (server_handle_hello M (env_on_client_hello E) message)"
proof -
  have "moves (moved True True True True {}) m \<Longrightarrow> moves (moved True True True True X) m" for X and m :: "unit tls_act"
    unfolding moves_def moved_def by blast
  then have cb: "hello_cb_moves True True True True X (env_on_client_hello E)" for X
    using assms by (simp add: auth_env_def hello_cb_moves_def)
  show ?thesis
    unfolding server_handle_hello_def
    by (intro auth.moves_bind auth.moves_seq auth.moves_basic moves_case_prod server_answer_hello_auth;
        rule auth_moved_if_moved [where p = True]; intro moves_intros cb; simp)
qed

section \<open>The certificate of the client\<close>

abbreviation client_authenticated :: "tls_env \<Rightarrow> (ptls \<times> bytes) list \<Rightarrow> bool" where
  "client_authenticated E \<equiv> authenticated (env_alloc E) PTLS_CLIENT_CERTIFICATE_VERIFY_CONTEXT_STRING"

text \<open>A server that requires certificates: its verifier rejects a client that sends none.\<close>

definition requires_certificate :: "ptls_context \<Rightarrow> bool" where
  "requires_certificate ctx \<longleftrightarrow> ctx_require_client_authentication ctx \<and> definite_verifier ctx
     \<and> (\<forall>verify name vs. ctx_verify_certificate ctx = Some verify \<longrightarrow> verify name [] \<noteq> Inr vs)"

definition server_auth_inv :: "tls_env \<Rightarrow> ptls_context \<Rightarrow> (ptls \<times> bytes) list \<Rightarrow> ptls \<Rightarrow> bool" where
  "server_auth_inv E ctx tr s \<longleftrightarrow> tls_ctx s = ctx \<and> tls_pending_handshake_secret s = None
     \<and> (tls_state s \<in> {PTLS_STATE_SERVER_EXPECT_CLIENT_HELLO, PTLS_STATE_SERVER_EXPECT_SECOND_CLIENT_HELLO,
            PTLS_STATE_SERVER_GENERATING_CERTIFICATE_VERIFY, PTLS_STATE_SERVER_EXPECT_CERTIFICATE}
        \<or> tls_state s = PTLS_STATE_SERVER_EXPECT_CERTIFICATE_VERIFY \<and> definite_verdict (tls_certificate_verify s)
            \<and> (\<exists>a t m b. tr = a @ (t, m) # b \<and> certificate_accepted (env_alloc E) t m (tls_certificate_verify s))
        \<or> tls_state s = PTLS_STATE_SERVER_EXPECT_FINISHED \<and> client_authenticated E tr
        \<or> tls_state s = PTLS_STATE_SERVER_POST_HANDSHAKE \<and> confirmed (env_alloc E) (client_authenticated E) tr)"

lemma server_auth_inv_append:
  assumes "server_auth_inv E ctx tr s" "tls_ctx u = tls_ctx s" "tls_pending_handshake_secret u = None"
    and "tls_state u = tls_state s" "tls_certificate_verify u = tls_certificate_verify s"
  shows "server_auth_inv E ctx (tr @ tr') u"
proof -
  have "\<exists>a t m b. tr @ tr' = a @ (t, m) # b \<and> certificate_accepted M t m vs"
    if "\<exists>a t m b. tr = a @ (t, m) # b \<and> certificate_accepted M t m vs" for M vs
    using that by (metis append.assoc append_Cons)
  then show ?thesis
    using assms authenticated_append confirmed_append unfolding server_auth_inv_def by (elim conjE disjE) simp_all
qed

lemma server_auth_inv_moved:
  assumes "server_auth_inv E ctx tr s" "moved True True p True {} s u"
  shows "server_auth_inv E ctx (tr @ tr') u"
  using assms by (intro server_auth_inv_append [OF assms(1)]) (auto simp: server_auth_inv_def moved_def)

lemma server_auth_inv_hello:
  assumes "server_auth_inv E ctx tr s" "auth_moved s u" "requires_certificate ctx"
    and "tls_state s \<in> {PTLS_STATE_SERVER_EXPECT_CLIENT_HELLO, PTLS_STATE_SERVER_EXPECT_SECOND_CLIENT_HELLO,
            PTLS_STATE_SERVER_GENERATING_CERTIFICATE_VERIFY}"
  shows "server_auth_inv E ctx tr' u"
  using assms by (auto simp: server_auth_inv_def auth_moved_def auth_pending_def requires_certificate_def)

lemma server_auth_inv_certificate:
  assumes "server_auth_inv E ctx tr s" "server_handle_certificate message s = Some (r, u)" "requires_certificate ctx"
    and "uint (message ! 0) = PTLS_HANDSHAKE_TYPE_CERTIFICATE"
  shows "server_auth_inv E ctx (tr @ [(s, message)]) u"
proof -
  obtain verify where verify: "ctx_verify_certificate (tls_ctx s) = Some verify"
    "\<And>name certs vs. verify name certs = Inr vs \<Longrightarrow> definite_verdict vs \<and> certs \<noteq> []"
    using assms(1,3) unfolding server_auth_inv_def requires_certificate_def definite_verifier_def by metis
  consider e where "handle_certificate (drop 4 message) s = Some (Inl e, u)"
    | got t t' where "handle_certificate (drop 4 message) s = Some (Inr got, t)" "update_hash message t = Some (Inr (), t')"
      "u = t'\<lparr>tls_state := (if got then PTLS_STATE_SERVER_EXPECT_CERTIFICATE_VERIFY else PTLS_STATE_SERVER_EXPECT_FINISHED)\<rparr>"
    using assms(2) unfolding server_handle_certificate_def by (auto simp: act_runs set_state_def dest: update_hash_run)
  then show ?thesis
  proof cases
    case 1
    then have "u = s"
      using handle_certificate_run [OF 1 verify(1)] by simp
    then show ?thesis
      using assms(1) by (intro server_auth_inv_append [OF assms(1)]) (auto simp: server_auth_inv_def)
  next
    case 2
    obtain certs vs where certs: "decode_certificate (ctx_on_extension (tls_ctx s)) (drop 4 message) = Inr certs"
      "verify (peer_name s) certs = Inr vs" "got = (certs \<noteq> [])" "t = s\<lparr>tls_certificate_verify := vs\<rparr>"
      using handle_certificate_run [OF 2(1) verify(1)] by auto
    then have acc: "definite_verdict vs" got "certificate_accepted (env_alloc E) s message vs"
      using verify assms(4) by (auto simp: certificate_accepted_def certificate_body_def)
    then have "\<exists>a t m b. tr @ [(s, message)] = a @ (t, m) # b \<and> certificate_accepted (env_alloc E) t m vs"
      by blast
    moreover have "tls_ctx u = ctx" "tls_pending_handshake_secret u = None" "tls_certificate_verify u = vs"
      "tls_state u = PTLS_STATE_SERVER_EXPECT_CERTIFICATE_VERIFY"
      using 2(3) update_hash_run [OF 2(2)] certs(4) assms(1) acc(2) unfolding server_auth_inv_def by auto
    ultimately show ?thesis
      using acc(1) unfolding server_auth_inv_def by simp
  qed
qed

lemma server_auth_inv_certificate_verify:
  assumes inv: "server_auth_inv E ctx tr s" and run: "server_handle_certificate_verify message s = Some (r, u)"
    and ret: "carries_on (ret_code r)" and state: "tls_state s = PTLS_STATE_SERVER_EXPECT_CERTIFICATE_VERIFY"
  shows "server_auth_inv E ctx (tr @ [(s, message)]) u"
proof -
  have definite: "definite_verdict (tls_certificate_verify s)"
    using inv state by (auto simp: server_auth_inv_def)
  have "moves (moved True False True True {PTLS_STATE_SERVER_EXPECT_FINISHED}) (server_handle_certificate_verify message)"
    by (intro moves_intros) simp_all
  from movesD [OF this run] have keep: "tls_ctx u = ctx" "tls_pending_handshake_secret u = None"
    using inv by (auto simp: server_auth_inv_def moved_def)
  consider e where "handle_certificate_verify message PTLS_CLIENT_CERTIFICATE_VERIFY_CONTEXT_STRING s = Some (Inl e, u)" "r = Inl e"
    | t where "handle_certificate_verify message PTLS_CLIENT_CERTIFICATE_VERIFY_CONTEXT_STRING s = Some (Inr (), t)"
      "tls_state u = PTLS_STATE_SERVER_EXPECT_FINISHED"
    using run unfolding server_handle_certificate_verify_def by (auto simp: act_runs set_state_def)
  then show ?thesis
  proof cases
    case 1
    then have "u = s"
      using handle_certificate_verify_run [OF 1(1) _ definite] ret by simp
    then show ?thesis
      using inv by (intro server_auth_inv_append [OF inv]) (auto simp: server_auth_inv_def)
  next
    case 2
    have "signature_accepted PTLS_CLIENT_CERTIFICATE_VERIFY_CONTEXT_STRING s message (tls_certificate_verify s)"
      using handle_certificate_verify_run [OF 2(1) _ definite] by (simp add: carries_on_def)
    then have "client_authenticated E (tr @ [(s, message)])"
      using inv state authenticated_snoc unfolding server_auth_inv_def by fastforce
    then show ?thesis
      using 2(2) keep unfolding server_auth_inv_def by simp
  qed
qed

lemma server_auth_inv_finished:
  assumes inv: "server_auth_inv E ctx tr s" and run: "server_handle_finished (env_alloc E) message s = Some (r, u)"
    and state: "tls_state s = PTLS_STATE_SERVER_EXPECT_FINISHED"
  shows "server_auth_inv E ctx (tr @ [(s, message)]) u"
proof -
  have "moves (moved True True True True {PTLS_STATE_SERVER_POST_HANDSHAKE}) (server_handle_finished (env_alloc E) message)"
    by (intro moves_intros) simp
  from movesD [OF this run] have m: "moved True True True True {PTLS_STATE_SERVER_POST_HANDSHAKE} s u" .
  have fin: "tls_state u = tls_state s \<or> finished_accepted (env_alloc E) s message"
    using run unfolding server_handle_finished_def
    by (subst (asm) act_seq_Some) (auto dest!: check_finished_run)
  show ?thesis
  proof (cases "tls_state u = tls_state s")
    case True
    then show ?thesis
      using inv m by (intro server_auth_inv_append [OF inv]) (auto simp: server_auth_inv_def moved_def)
  next
    case False
    then have "confirmed (env_alloc E) (client_authenticated E) (tr @ [(s, message)])"
      using fin inv state unfolding server_auth_inv_def confirmed_def by auto
    then show ?thesis
      using False m inv unfolding server_auth_inv_def moved_def by auto
  qed
qed

lemma server_auth_inv_message:
  assumes inv: "server_auth_inv E ctx tr s" and ctx: "requires_certificate ctx" and env: "auth_env E"
    and run: "handle_server_handshake_message (env_alloc E) (env_on_client_hello E) message is_end_of_record s = Some (r, u)"
    and ret: "carries_on (ret_code r)"
  shows "server_auth_inv E ctx (tr @ [(s, message)]) u"
proof -
  have hello: "auth_moved s u" if "server_handle_hello (env_alloc E) (env_on_client_hello E) message s = Some (r, u)"
    using movesD [OF server_handle_hello_auth [OF env] that] .
  have same: "server_auth_inv E ctx (tr @ [(s, message)]) s"
    using inv by (intro server_auth_inv_append [OF inv]) (auto simp: server_auth_inv_def)
  have "moves (moved True True True True {}) (handle_key_update (env_alloc E) message)"
    by (intro moves_intros)
  note update = movesD [OF this]
  have "tls_state s \<in> {PTLS_STATE_SERVER_EXPECT_CLIENT_HELLO, PTLS_STATE_SERVER_EXPECT_SECOND_CLIENT_HELLO,
      PTLS_STATE_SERVER_GENERATING_CERTIFICATE_VERIFY, PTLS_STATE_SERVER_EXPECT_CERTIFICATE,
      PTLS_STATE_SERVER_EXPECT_CERTIFICATE_VERIFY, PTLS_STATE_SERVER_EXPECT_FINISHED, PTLS_STATE_SERVER_POST_HANDSHAKE}"
    using inv by (auto simp: server_auth_inv_def)
  with run same ret show ?thesis
    unfolding handle_server_handshake_message_def
    by (auto simp: act_bind_Some act_basic_Some Let_def split: if_splits
        intro: server_auth_inv_hello [OF inv hello ctx] server_auth_inv_certificate [OF inv _ ctx]
          server_auth_inv_certificate_verify [OF inv] server_auth_inv_finished [OF inv] server_auth_inv_moved [OF inv update])
qed

lemma server_run_inv:
  assumes "message_run E True True s tr u" "requires_certificate (tls_ctx s)" "auth_env E"
    and "tls_state s = PTLS_STATE_SERVER_EXPECT_CLIENT_HELLO" "tls_pending_handshake_secret s = None"
  shows "server_auth_inv E (tls_ctx s) tr u"
  using assms
proof (induction rule: message_run.induct)
  case start
  then show ?case
    by (simp add: server_auth_inv_def)
next
  case (finish tr t r u)
  then show ?case
    using movesD [OF server_finish_handshake_auth finish(4)] by (auto intro: server_auth_inv_hello)
next
  case (other tr t u)
  then show ?case
    using server_auth_inv_moved [of E "tls_ctx s" tr t True u "[]"] by simp
qed (auto simp: handle_handshake_message_def intro: server_auth_inv_message)

end
