(* ===== verification/Lifecycle.thy ===== *)
theory Lifecycle
  imports ClientAuth
begin

text \<open>
  The functions an application calls, as runs of the state machine: \<open>ptls_handshake\<close>, \<open>ptls_receive\<close> and
  \<open>ptls_handle_message\<close> with all their layers between the input and the handlers, and \<open>ptls_send\<close> and
  \<open>ptls_update_key\<close>, which leave the handshake alone.
\<close>

section \<open>Input\<close>

definition runs :: "tls_env \<Rightarrow> bool \<Rightarrow> bool \<Rightarrow> ptls \<Rightarrow> ptls \<Rightarrow> bool" where
  "runs E k b s u \<longleftrightarrow> (\<exists>tr. message_run E k b s tr u)"

interpretation runs: run_relation "runs E k b" for E k b
  by unfold_locales (auto simp: runs_def intro: message_run.start dest: message_run_trans)

lemma runs_moved: "moved True True True True {} s u \<Longrightarrow> runs E k b s u"
  unfolding runs_def using message_run.other [OF message_run.start] by blast

lemma runs_message:
  "handle_handshake_message E b message is_end_of_record s = Some (r, u) \<Longrightarrow> k \<longrightarrow> carries_on (ret_code r) \<Longrightarrow> runs E k b s u"
  unfolding runs_def using message_run.message [OF message_run.start] by blast

lemma runs_fields [simp]:
  "runs E k b s (u\<lparr>tls_recvbuf_rec := rb\<rparr>) \<longleftrightarrow> runs E k b s u"
  "runs E k b s (u\<lparr>tls_recvbuf_mess := rb\<rparr>) \<longleftrightarrow> runs E k b s u"
  "tp_tls12 tp = tp_tls12 (tls_dec u) \<Longrightarrow> runs E k b s (u\<lparr>tls_dec := tp\<rparr>) \<longleftrightarrow> runs E k b s u"
  "runs E k b s (u\<lparr>tls_enc := tp\<rparr>) \<longleftrightarrow> runs E k b s u"
  "runs E k b s (u\<lparr>tls_emitter := em\<rparr>) \<longleftrightarrow> runs E k b s u"
  "runs E k b s (u\<lparr>tls_properties := props\<rparr>) \<longleftrightarrow> runs E k b s u"
  "runs E k b s (u\<lparr>tls_early_data_skipped_bytes := n\<rparr>) \<longleftrightarrow> runs E k b s u"
proof -
  have *: "moved True True True True {} u u' \<Longrightarrow> moved True True True True {} u' u \<Longrightarrow> runs E k b s u' \<longleftrightarrow> runs E k b s u" for u'
    using runs.trans runs_moved by blast
  show "runs E k b s (u\<lparr>tls_recvbuf_rec := rb\<rparr>) \<longleftrightarrow> runs E k b s u" "runs E k b s (u\<lparr>tls_recvbuf_mess := rb\<rparr>) \<longleftrightarrow> runs E k b s u"
    "tp_tls12 tp = tp_tls12 (tls_dec u) \<Longrightarrow> runs E k b s (u\<lparr>tls_dec := tp\<rparr>) \<longleftrightarrow> runs E k b s u"
    "runs E k b s (u\<lparr>tls_enc := tp\<rparr>) \<longleftrightarrow> runs E k b s u"
    "runs E k b s (u\<lparr>tls_emitter := em\<rparr>) \<longleftrightarrow> runs E k b s u" "runs E k b s (u\<lparr>tls_properties := props\<rparr>) \<longleftrightarrow> runs E k b s u"
    "runs E k b s (u\<lparr>tls_early_data_skipped_bytes := n\<rparr>) \<longleftrightarrow> runs E k b s u"
    by (rule *; simp add: moved_def)+
qed

lemma handle_handshake_fragment_runs:
  assumes "handle_handshake_fragment E b type fragment s = Some (ret, u)" "k \<longrightarrow> carries_on ret"
  shows "runs E k b s u"
proof -
  obtain t mess where t: "handle_handshake_record (env_alloc E) (ctx_max_buffer_size (tls_ctx s))
      (handler_callback (handle_handshake_message E b)) (Some s) (tls_recvbuf_mess s) type fragment = (ret, Some t, mess)"
    "u = t\<lparr>tls_recvbuf_mess := mess\<rparr>"
    using assms(1) unfolding handle_handshake_fragment_def by (auto split: prod.splits)
  have "\<forall>v. Some t = Some v \<longrightarrow> runs E k b s v"
  proof (rule handle_handshake_record_invariant [OF t(1) _ assms(2)])
    fix x m e r x'
    assume *: "\<forall>v. x = Some v \<longrightarrow> runs E k b s v" "handler_callback (handle_handshake_message E b) x m e = (r, x')"
      "k \<longrightarrow> carries_on r"
    show "\<forall>v. x' = Some v \<longrightarrow> runs E k b s v"
    proof (intro allI impI)
      fix w assume "x' = Some w"
      then obtain v a where "x = Some v" "handle_handshake_message E b m e v = Some (a, w)" "ret_code a = r"
        using *(2) by (cases x) (auto simp: run_act_def split: option.splits)
      then show "runs E k b s w"
        using * runs_message runs.trans by blast
    qed
  qed (simp add: runs.refl)
  then show ?thesis
    using t(2) by simp
qed

lemma dispatch_record_runs:
  assumes "dispatch_record E type fragment s db = Some (ret, u, db', done)" "k \<longrightarrow> carries_on ret"
  shows "runs E k (tls_is_server s) s u"
  using assms unfolding dispatch_record_def deliver_data_def Let_def
  by (auto simp: runs.refl intro: handle_handshake_fragment_runs split: if_splits)

lemma skip_early_data_runs: "skip_early_data len s db = (ret, u, db', done) \<Longrightarrow> runs E k b s u"
  unfolding skip_early_data_def Let_def by (auto simp: runs.refl split: if_splits)

lemma runs_from_fields:
  "runs E k b (s\<lparr>tls_dec := tp\<rparr>) u \<Longrightarrow> tp_tls12 tp = tp_tls12 (tls_dec s) \<Longrightarrow> runs E k b s u"
  "runs E k b (s\<lparr>tls_recvbuf_rec := rb\<rparr>) u \<Longrightarrow> runs E k b s u"
  "runs E k b (s\<lparr>tls_emitter := em\<rparr>) u \<Longrightarrow> runs E k b s u" "runs E k b (s\<lparr>tls_properties := props\<rparr>) u \<Longrightarrow> runs E k b s u"
  by (erule runs.trans [OF runs_moved, rotated], simp add: moved_def)+

lemma open_record_version:
  "aead_decrypt aead tp f = Inr (data, tp') \<Longrightarrow> tp_tls12 tp' = tp_tls12 tp"
  "tls12_open_record aead tp type f = Inr (data, tp') \<Longrightarrow> tp_tls12 tp' = tp_tls12 tp"
  by (auto simp: tls12_open_record_def aead_decrypt_def Let_def
      split: if_splits option.splits prod.splits sum.splits)

lemma open_record_runs:
  assumes "open_record E aead fragment s db = Some (ret, u, db', done)" "k \<longrightarrow> carries_on ret"
  shows "runs E k (tls_is_server s) s u"
  using assms unfolding open_record_def
  by (auto simp: runs.refl split: prod.splits if_splits sum.splits intro: skip_early_data_runs
      dest!: dispatch_record_runs [OF _ assms(2)] runs_from_fields dest: open_record_version)

lemma handle_record_runs:
  assumes "handle_record E type fragment s db = Some (ret, u, db', done)" "k \<longrightarrow> carries_on ret"
  shows "runs E k (tls_is_server s) s u"
  using assms unfolding handle_record_def
  by (auto simp: runs.refl split: if_splits option.splits intro: skip_early_data_runs open_record_runs dispatch_record_runs)

lemma handle_input_runs:
  assumes "handle_input E s db input = Some (ret, u, db', consumed)" "k \<longrightarrow> carries_on ret"
  shows "runs E k (tls_is_server s) s u"
  using assms unfolding handle_input_def dispose_record_def Let_def
  by (auto simp: runs.refl split: prod.splits if_splits option.splits dest!: handle_record_runs [OF _ assms(2)] runs_from_fields)

lemma handle_input_tls12_runs:
  assumes "handle_input_tls12 E s db input = Some (ret, u, db', consumed)"
  shows "runs E k b s u"
  using assms unfolding handle_input_tls12_def handle_record_tls12_def dispose_record_def Let_def
  by (auto simp: runs.refl split: prod.splits if_splits option.splits sum.splits dest: open_record_version)

lemma runs_role: "runs E k b s u \<Longrightarrow> env_ok E \<Longrightarrow> tls_is_server u = tls_is_server s"
  unfolding runs_def using message_run_moved by (fastforce simp: moved_def)

lemma runs_not_tls12: "runs E k b s u \<Longrightarrow> env_ok E \<Longrightarrow> \<not> tp_tls12 (tls_dec s) \<Longrightarrow> \<not> tp_tls12 (tls_dec u)"
  unfolding runs_def using message_run_moved by (fastforce simp: moved_def)

lemma handshake_loop_runs:
  assumes "handshake_loop E r s db src = Some (ret, u, left)" "k \<longrightarrow> carries_on ret" "env_ok E"
  shows "runs E k (tls_is_server s) s u"
  using assms
proof (induction E r s db src rule: handshake_loop.induct)
  case (1 E r s db src)
  show ?case
  proof (cases "r = PTLS_ERROR_IN_PROGRESS \<and> src \<noteq> []")
    case True
    with 1(2) obtain r' s' db' consumed where step: "handle_input E s db src = Some (r', s', db', consumed)"
      "\<not> (buf_data db' \<noteq> [] \<or> consumed = 0)" "handshake_loop E r' s' db' (drop consumed src) = Some (ret, u, left)"
      by (subst (asm) handshake_loop.simps) (auto split: option.splits if_splits)
    have "carries_on ret \<Longrightarrow> carries_on r'"
      using step(3) by (subst (asm) handshake_loop.simps) (auto simp: carries_on_def split: if_splits)
    then have s': "runs E k (tls_is_server s) s s'"
      using handle_input_runs [OF step(1)] 1(3) by simp
    show ?thesis
      using 1(1) [OF True step(1) HOL.refl HOL.refl HOL.refl step(2,3) 1(3,4)] runs_role [OF s' 1(4)] runs.trans [OF s'] by simp
  next
    case False
    then show ?thesis
      using 1(2) by (subst (asm) handshake_loop.simps) (auto simp: runs.refl)
  qed
qed

lemma handle_any_input_runs:
  assumes "handle_any_input E s db input = Some (ret, u, db', consumed)" "k \<longrightarrow> carries_on ret"
  shows "runs E k (tls_is_server s) s u"
  using assms handle_input_runs [OF _ assms(2)] handle_input_tls12_runs
  by (auto simp: handle_any_input_def split: if_splits)

lemma receive_loop_runs:
  assumes "receive_loop E n r s db input = Some (ret, u, db', left)" "k \<longrightarrow> carries_on ret" "env_ok E"
  shows "runs E k (tls_is_server s) s u"
  using assms
proof (induction E n r s db input rule: receive_loop.induct)
  case (1 E n r s db input)
  show ?case
  proof (cases "r = 0 \<and> input \<noteq> [] \<and> n = buf_off db")
    case True
    with 1(2) obtain r' s' db1 consumed where step: "handle_any_input E s db input = Some (r', s', db1, consumed)"
      "\<not> consumed = 0" "receive_loop E n (receive_code r') s' db1 (drop consumed input) = Some (ret, u, db', left)"
      by (subst (asm) receive_loop.simps) (auto split: option.splits if_splits)
    have "carries_on ret \<Longrightarrow> carries_on r'"
      using step(3) by (subst (asm) receive_loop.simps) (auto simp: carries_on_def receive_code_def split: if_splits)
    then have s': "runs E k (tls_is_server s) s s'"
      using handle_any_input_runs [OF step(1)] 1(3) by simp
    show ?thesis
      using 1(1) [OF True step(1) HOL.refl HOL.refl HOL.refl step(2,3) 1(3,4)] runs_role [OF s' 1(4)] runs.trans [OF s'] by simp
  next
    case False
    then show ?thesis
      using 1(2) by (subst (asm) receive_loop.simps) (auto simp: runs.refl)
  qed
qed

section \<open>The calls of an application\<close>

lemma with_emitter_runs:
  assumes "with_emitter em m s = Some (ret, u, em')" "k \<longrightarrow> carries_on ret"
    and "\<And>r v. m (s\<lparr>tls_emitter := Some em\<rparr>) = Some (r, v) \<Longrightarrow> k \<longrightarrow> carries_on (ret_code r) \<Longrightarrow>
           runs E k b (s\<lparr>tls_emitter := Some em\<rparr>) v"
  shows "runs E k b s u"
proof -
  obtain r v where "m (s\<lparr>tls_emitter := Some em\<rparr>) = Some (r, v)" "ret = ret_code r" "u = v\<lparr>tls_emitter := tls_emitter s\<rparr>"
    using assms(1) unfolding with_emitter_def by (auto split: option.splits)
  then show ?thesis
    using assms(2,3) runs_from_fields(3) by fastforce
qed

lemma runs_hello: "send_client_hello (env_alloc E) (env_inet_pton E) None s = Some (r, u) \<Longrightarrow> runs E k False s u"
  unfolding runs_def using message_run.hello [OF message_run.start] by blast

lemma runs_finish:
  "server_finish_handshake (env_alloc E) True [] s = Some (r, u) \<Longrightarrow>
     tls_state s = PTLS_STATE_SERVER_GENERATING_CERTIFICATE_VERIFY \<Longrightarrow> k \<longrightarrow> carries_on (ret_code r) \<Longrightarrow> runs E k True s u"
  unfolding runs_def by (rule exI, rule message_run.finish [OF message_run.start]) simp_all

lemma ptls_receive_runs:
  assumes "ptls_receive E s db input = Some (ret, u, db', consumed)" "k \<longrightarrow> carries_on ret" "env_ok E"
  shows "runs E k (tls_is_server s) s u"
  using assms(1) unfolding ptls_receive_def
  by (auto simp: runs.refl split: if_splits dest!: receive_loop_runs [OF _ assms(2,3)] runs_from_fields)

text \<open>The state tells the role.\<close>

definition role_ok :: "ptls \<Rightarrow> bool" where
  "role_ok s \<longleftrightarrow> tls_state s \<in> role_states (tls_is_server s)"

lemma role_ok_client_states:
  "role_ok s \<Longrightarrow> tls_state s = PTLS_STATE_CLIENT_HANDSHAKE_START \<Longrightarrow> \<not> tls_is_server s"
  "role_ok s \<Longrightarrow> tls_state s = PTLS_STATE_SERVER_GENERATING_CERTIFICATE_VERIFY \<Longrightarrow> tls_is_server s"
  by (auto simp: role_ok_def role_states_def server_states_def client_states_def state_le_defs split: if_splits)

lemma runs_role_ok: "runs E k (tls_is_server s) s u \<Longrightarrow> env_ok E \<Longrightarrow> role_ok s \<Longrightarrow> role_ok u"
  unfolding runs_def role_ok_def using message_run_moved by (fastforce simp: moved_def)

lemma ptls_send_alert_runs: "ptls_send_alert M s b level desc = (ret, u, b') \<Longrightarrow> runs E k r s u"
  unfolding ptls_send_alert_def Let_def by (auto simp: runs.refl split: if_splits prod.splits option.splits)

lemma handshake_failed_runs: "handshake_failed E ret n s b = (u, b') \<Longrightarrow> runs E k r s u"
  unfolding handshake_failed_def Let_def
  by (auto simp: runs.refl split: if_splits prod.splits dest: ptls_send_alert_runs)

lemma handshake_input_runs:
  assumes "handshake_input E s sendbuf input = Some (ret, u, b, consumed)" "k \<longrightarrow> carries_on ret" "env_ok E"
  shows "runs E k (tls_is_server s) s u"
proof -
  obtain r t left em where loop: "handshake_loop E PTLS_ERROR_IN_PROGRESS (s\<lparr>tls_emitter := Some (record_emitter sendbuf)\<rparr>)
      (ptls_buffer_init 1 0 False) input = Some (ret, t, left)" "tls_emitter t = Some em"
    and u: "u = t\<lparr>tls_emitter := tls_emitter s\<rparr>
      \<or> (\<exists>b'. handshake_failed E ret (buf_off sendbuf) (t\<lparr>tls_emitter := tls_emitter s\<rparr>) (em_buf em) = (u, b'))"
    using assms(1) unfolding handshake_input_def Let_def by (auto split: option.splits prod.splits if_splits)
  have "runs E k (tls_is_server s) s t"
    using handshake_loop_runs [OF loop(1) assms(2,3)] by (auto dest: runs_from_fields)
  then have t: "runs E k (tls_is_server s) s (t\<lparr>tls_emitter := tls_emitter s\<rparr>)"
    by simp
  with u show ?thesis
    using runs.trans [OF t handshake_failed_runs] by auto
qed

lemma ptls_handshake_runs:
  assumes "ptls_handshake E s sendbuf input props = Some (ret, u, b, consumed)" "k \<longrightarrow> carries_on ret" "env_ok E" "role_ok s"
  shows "runs E k (tls_is_server s) s u"
proof -
  let ?s = "s\<lparr>tls_properties := props\<rparr>"
  have start: "runs E k False ?s u" if "handshake_step (send_client_hello (env_alloc E) (env_inet_pton E) None) em n ?s
      = Some (ret, u, b, m)" for em n m
    using that unfolding handshake_step_def by (auto elim!: with_emitter_runs [OF _ assms(2)] intro: runs_hello)
  have finish: "runs E k True ?s u" if "handshake_step (server_finish_handshake (env_alloc E) True []) em n ?s
      = Some (ret, u, b, m)" "tls_state s = PTLS_STATE_SERVER_GENERATING_CERTIFICATE_VERIFY" for em n m
    using that unfolding handshake_step_def by (auto elim!: with_emitter_runs [OF _ assms(2)] intro: runs_finish)
  consider "u = ?s" | "tls_state s = PTLS_STATE_CLIENT_HANDSHAKE_START"
      "handshake_step (send_client_hello (env_alloc E) (env_inet_pton E) None) (record_emitter sendbuf) (length input) ?s
         = Some (ret, u, b, consumed)"
    | "tls_state s = PTLS_STATE_SERVER_GENERATING_CERTIFICATE_VERIFY"
      "handshake_step (server_finish_handshake (env_alloc E) True []) (record_emitter sendbuf) (length input) ?s
         = Some (ret, u, b, consumed)"
    | "handshake_input E ?s sendbuf input = Some (ret, u, b, consumed)"
    using assms(1) unfolding ptls_handshake_def Let_def by (auto split: if_splits)
  then show ?thesis
  proof cases
    case 1
    then show ?thesis
      by (simp add: runs.refl)
  next
    case 2
    then show ?thesis
      using start [OF 2(2)] role_ok_client_states(1) [OF assms(4)] by (auto dest: runs_from_fields)
  next
    case 3
    then show ?thesis
      using finish [OF 3(2,1)] role_ok_client_states(2) [OF assms(4)] by (auto dest: runs_from_fields)
  next
    case 4
    then show ?thesis
      using handshake_input_runs [OF 4 assms(2,3)] by (auto dest: runs_from_fields)
  qed
qed

lemma handle_fragment_act_runs:
  assumes "handle_fragment_act E b input s = Some (r, u)" "k \<longrightarrow> carries_on (ret_code r)"
  shows "runs E k b s u"
  using assms unfolding handle_fragment_act_def
  by (auto split: if_splits intro!: handle_handshake_fragment_runs [where k = k])

lemma ptls_handle_message_runs:
  assumes "ptls_handle_message E s sendbuf offsets epoch input props = Some (ret, u, em)" "k \<longrightarrow> carries_on ret"
  shows "runs E k (tls_is_server s) s u"
proof -
  let ?s = "s\<lparr>tls_properties := props\<rparr>"
  let ?em = "raw_emitter sendbuf offsets"
  have "runs E k (tls_is_server s) ?s u" if "with_emitter ?em m ?s = Some (ret, u, em)"
    "m = (if tls_is_server s then server_finish_handshake (env_alloc E) True [] else
          send_client_hello (env_alloc E) (env_inet_pton E) None)
       \<and> (tls_is_server s \<longrightarrow> tls_state s = PTLS_STATE_SERVER_GENERATING_CERTIFICATE_VERIFY)
     \<or> m = handle_fragment_act E (tls_is_server s) octets" for m octets
    using that(2) runs_hello runs_finish handle_fragment_act_runs
    by (intro with_emitter_runs [OF that(1) assms(2)]) (auto split: if_splits)
  then have "runs E k (tls_is_server s) ?s u"
    using assms(1) unfolding ptls_handle_message_def ptls_server_handle_message_def ptls_client_handle_message_def Let_def
    by (simp split: if_splits option.splits) (auto simp: runs.refl)
  then show ?thesis
    by (rule runs_from_fields)
qed

lemma with_emitter_moved:
  assumes "with_emitter em m s = Some (ret, u, em')" "moves (moved True True True True {}) m"
  shows "runs E k b s u"
proof -
  obtain r v where v: "m (s\<lparr>tls_emitter := Some em\<rparr>) = Some (r, v)" "u = v\<lparr>tls_emitter := tls_emitter s\<rparr>"
    using assms(1) unfolding with_emitter_def by (auto split: option.splits)
  have "runs E k b s v"
    using movesD [OF assms(2) v(1)] by (rule runs_from_fields(3) [OF runs_moved])
  then show ?thesis
    using v(2) by simp
qed

lemma update_send_key_runs:
  assumes "update_send_key M request s sendbuf = Some (ret, u, b)"
  shows "runs E k r s u"
proof -
  obtain em where "with_emitter (record_emitter sendbuf)
      (act_seq (ptls_push_message M False PTLS_HANDSHAKE_TYPE_KEY_UPDATE (ptls_buffer_push M (if request then 1 else 0)))
         (update_traffic_key M True)) s = Some (ret, u, em)"
    using assms unfolding update_send_key_def by (auto split: option.splits)
  then show ?thesis
    by (rule with_emitter_moved) (intro moves_intros)
qed

lemma runs_key_update_flags [simp]:
  "runs E k b s (u\<lparr>tls_needs_key_update := x, tls_key_update_send_request := y\<rparr>) \<longleftrightarrow> runs E k b s u"
  "runs E k b s (u\<lparr>tls_needs_key_update := x\<rparr>) \<longleftrightarrow> runs E k b s u"
proof -
  have *: "moved True True True True {} u u' \<Longrightarrow> moved True True True True {} u' u \<Longrightarrow> runs E k b s u' \<longleftrightarrow> runs E k b s u" for u'
    using runs.trans runs_moved by blast
  show "runs E k b s (u\<lparr>tls_needs_key_update := x, tls_key_update_send_request := y\<rparr>) \<longleftrightarrow> runs E k b s u"
    "runs E k b s (u\<lparr>tls_needs_key_update := x\<rparr>) \<longleftrightarrow> runs E k b s u"
    by (rule *; simp add: moved_def)+
qed

lemma ptls_send_runs:
  assumes "ptls_send M s sendbuf input = Some (ret, u, b)"
  shows "runs E k r s u"
proof -
  define s1 where "s1 = (if tp_seq (tls_enc s) \<ge> 16777216 \<and> tls_key_schedule s \<noteq> None
     then s\<lparr>tls_needs_key_update := True\<rparr> else s)"
  have s1: "runs E k r s s1"
    by (simp add: s1_def runs.refl)
  have "runs E k r s v" if "update_key_if_needed M s sendbuf = Some (ret', v, b')" for ret' v b'
    using that s1 runs.trans [OF s1 update_send_key_runs] unfolding update_key_if_needed_def s1_def [symmetric] Let_def
    by (auto split: if_splits option.splits)
  then show ?thesis
    using assms unfolding ptls_send_def by (auto simp: runs.refl split: if_splits option.splits prod.splits)
qed

lemma ptls_update_key_runs: "ptls_update_key s request = Some (ret, u) \<Longrightarrow> runs E k b s u"
  unfolding ptls_update_key_def by (auto simp: runs.refl split: if_splits)

lemma ptls_set_server_name_runs:
  assumes "run_act (ptls_set_server_name M name) s = Some (ret, u)"
  shows "runs E k b s u"
proof -
  have "moved True True True True {} s u"
    using assms by (auto simp: run_act_def ptls_set_server_name_def act_runs moved_def split: if_splits)
  then show ?thesis
    by (rule runs_moved)
qed

text \<open>A call, with the code it returns, and the states an application can bring a connection to.  With \<open>k\<close> the
  application stops using a connection when a call has failed.\<close>

inductive api_call :: "tls_env \<Rightarrow> ptls \<Rightarrow> int \<Rightarrow> ptls \<Rightarrow> bool" for E s where
  handshake: "ptls_handshake E s sendbuf input props = Some (ret, u, sendbuf', consumed) \<Longrightarrow> api_call E s ret u"
| receive: "ptls_receive E s decryptbuf input = Some (ret, u, decryptbuf', consumed) \<Longrightarrow> api_call E s ret u"
| handle_message: "ptls_handle_message E s sendbuf offsets epoch input' props = Some (ret, u, em) \<Longrightarrow> api_call E s ret u"
| send: "ptls_send M s sendbuf input = Some (ret, u, sendbuf') \<Longrightarrow> api_call E s ret u"
| send_alert: "ptls_send_alert M s sendbuf level desc = (ret, u, sendbuf') \<Longrightarrow> api_call E s ret u"
| update_key: "ptls_update_key s request = Some (ret, u) \<Longrightarrow> api_call E s ret u"
| set_server_name: "run_act (ptls_set_server_name M name) s = Some (ret, u) \<Longrightarrow> api_call E s ret u"

inductive life :: "tls_env \<Rightarrow> bool \<Rightarrow> ptls \<Rightarrow> ptls \<Rightarrow> bool" for E k s where
  created: "life E k s s"
| call: "\<lbrakk>life E k s t; api_call E t ret u; k \<longrightarrow> carries_on ret\<rbrakk> \<Longrightarrow> life E k s u"

lemma api_call_runs:
  assumes "api_call E s ret u" "k \<longrightarrow> carries_on ret" "env_ok E" "role_ok s"
  shows "runs E k (tls_is_server s) s u"
  using assms
  by (cases rule: api_call.cases) (auto intro: ptls_handshake_runs ptls_receive_runs ptls_handle_message_runs
      ptls_send_runs ptls_send_alert_runs ptls_update_key_runs ptls_set_server_name_runs)

lemma life_runs:
  assumes "life E k s u" "env_ok E" "role_ok s"
  shows "runs E k (tls_is_server s) s u \<and> role_ok u"
  using assms
proof (induction rule: life.induct)
  case (call t ret u)
  then have t: "runs E k (tls_is_server s) s t" "role_ok t"
    by auto
  have u: "runs E k (tls_is_server s) t u"
    using api_call_runs [OF call.hyps(2,3) call.prems(1) t(2)] runs_role [OF t(1) call.prems(1)] by simp
  then show ?case
    using runs.trans [OF t(1) u] runs_role_ok call.prems by blast
qed (simp add: runs.refl)

lemma ptls_client_new_state:
  assumes "ptls_client_new M sz rng ctx = Some s"
  shows "tls_state s = PTLS_STATE_CLIENT_HANDSHAKE_START" "tls_ctx s = ctx" "\<not> tls_is_server s" "role_ok s"
    "\<not> tp_tls12 (tls_dec s)"
  using assms unfolding ptls_client_new_def new_instance_def
  by (auto simp: act_runs act_when_def tls_random_bytes_def zero_tls_def empty_prot_def role_ok_def role_states_def
      split: if_splits)

lemma ptls_server_new_state:
  assumes "ptls_server_new M sz rng ctx = Some s"
  shows "tls_state s = PTLS_STATE_SERVER_EXPECT_CLIENT_HELLO" "tls_ctx s = ctx" "tls_is_server s" "role_ok s"
    "tls_pending_handshake_secret s = None" "\<not> tp_tls12 (tls_dec s)"
  using assms unfolding ptls_server_new_def new_instance_def
  by (auto simp: zero_tls_def empty_prot_def role_ok_def role_states_def split: if_splits)

lemma role_ok_complete:
  "role_ok s \<Longrightarrow> ptls_handshake_is_complete s \<Longrightarrow>
     tls_state s = (if tls_is_server s then PTLS_STATE_SERVER_POST_HANDSHAKE else PTLS_STATE_CLIENT_POST_HANDSHAKE)"
  by (cases "tls_state s") (auto simp: role_ok_def role_states_def server_states_def client_states_def state_le_defs
      ptls_handshake_is_complete_def split: if_splits)

section \<open>What a completed handshake shows\<close>

lemma client_confirmed:
  assumes "ptls_client_new M sz rng ctx = Some s" "definite_verifier ctx" "runs E True False s u"
    and "tls_state u = PTLS_STATE_CLIENT_POST_HANDSHAKE"
  shows "\<exists>tr. message_run E True False s tr u
    \<and> confirmed (env_alloc E) (\<lambda>a. tls_is_psk_handshake u \<or> server_authenticated E a) tr"
proof -
  obtain tr where tr: "message_run E True False s tr u"
    using assms(3) by (auto simp: runs_def)
  then have "client_inv E (tls_ctx s) tr u"
    using assms(2) ptls_client_new_state [OF assms(1)] by (intro client_run_inv) simp_all
  then show ?thesis
    using tr assms(4) by (auto simp: client_inv_def)
qed

lemma server_confirmed:
  assumes "ptls_server_new M sz rng ctx = Some s" "requires_certificate ctx" "auth_env E" "runs E True True s u"
    and "tls_state u \<in> {PTLS_STATE_SERVER_POST_HANDSHAKE, PTLS_STATE_SERVER_EXPECT_END_OF_EARLY_DATA}"
  shows "\<exists>tr. message_run E True True s tr u \<and> confirmed (env_alloc E) (client_authenticated E) tr"
proof -
  obtain tr where tr: "message_run E True True s tr u"
    using assms(4) by (auto simp: runs_def)
  then have "server_auth_inv E (tls_ctx s) tr u"
    using assms(2,3) ptls_server_new_state [OF assms(1)] by (intro server_run_inv) simp_all
  then show ?thesis
    using tr assms(5) by (auto simp: server_auth_inv_def)
qed

end
