(* ===== verification/Delivery.thy ===== *)
theory Delivery
  imports Lifecycle
begin

text \<open>
  Application data from one end to the other: what \<open>ptls_send\<close> writes, an application that calls \<open>ptls_receive\<close> until
  its input is used up gets back, and what \<open>ptls_receive\<close> delivers has been opened with the key of the connection.
\<close>

section \<open>Receiving one record\<close>

text \<open>An established connection between two records: no part of a record or a message is waiting.\<close>

definition between_records :: "ptls \<Rightarrow> bool" where
  "between_records r \<longleftrightarrow> tls_state r \<ge> PTLS_STATE_POST_HANDSHAKE_MIN \<and> \<not> tp_tls12 (tls_dec r)
     \<and> buf_base (tls_recvbuf_rec r) = None \<and> buf_base (tls_recvbuf_mess r) = None"

text \<open>A buffer that data of \<open>n\<close> octets can still be received in.\<close>

definition room_for :: "ptls_buffer \<Rightarrow> nat \<Rightarrow> bool" where
  "room_for db n \<longleftrightarrow> buf_ok db \<and> \<not> buf_tx db \<and> buf_base db \<noteq> None \<and> buf_off db + n \<le> SIZE_MAX"

lemma enc_record_front: "enc_record t v f @ rest \<noteq> []" "drop (5 + length f) (enc_record t v f @ rest) = rest"
  by (simp add: enc_record_def, simp)

lemma handle_input_appdata:
  assumes alloc: "alloc_ok (env_alloc E)" and r: "between_records r" and db: "room_for db (length f + n)"
    and aead: "tp_aead (tls_dec r) = Some aead"
    and rec: "record_ok PTLS_CONTENT_TYPE_APPDATA f"
      "tls13_unprotect (aead, tls_dec r) (PTLS_CONTENT_TYPE_APPDATA, f) = Inr (PTLS_CONTENT_TYPE_APPDATA, p, (aead, tp))"
    and p: "length p \<le> length f"
  shows "\<exists>db'. handle_input E r db (enc_record PTLS_CONTENT_TYPE_APPDATA v f @ rest)
      = Some (0, dispose_record (r\<lparr>tls_dec := tp\<rparr>), db', 5 + length f)
    \<and> buf_data db' = buf_data db @ p \<and> room_for db' n"
proof -
  obtain db1 where db1: "ptls_buffer_reserve (env_alloc E) (length f) False db = (0, db1)" "buf_base db1 \<noteq> None"
    "buf_data db1 = buf_data db" "\<not> buf_tx db1" "buf_capacity db1 \<le> SIZE_MAX" "buf_off db + length f \<le> buf_capacity db1"
    using rx_reserve_ok [OF alloc, of db "length f"] db by (auto simp: room_for_def)
  obtain pt where pt: "aead_decrypt aead (tls_dec r) f = Inr (pt, tp)"
    "split_inner_plaintext pt = Inr (PTLS_CONTENT_TYPE_APPDATA, p)"
    using rec(2) by (auto simp: tls13_unprotect_def tls13_open_record_def split: prod.splits)
  have tp: "tp_aead tp = tp_aead (tls_dec r)"
    using pt(1) by (auto simp: aead_decrypt_def split: option.splits)
  let ?db = "db1\<lparr>buf_data := buf_data db1 @ p\<rparr>"
  have "room_for ?db n"
    using db db1 p by (auto simp: room_for_def buf_ok_def)
  moreover have "handle_input E r db (enc_record PTLS_CONTENT_TYPE_APPDATA v f @ rest)
      = Some (0, dispose_record (r\<lparr>tls_dec := tp\<rparr>), ?db, 5 + length f)"
    using r aead db1 pt tp parse_record_front [OF rec(1), of "tls_recvbuf_rec r" "env_alloc E" v rest]
    by (simp add: handle_input_def between_records_def handle_record_def open_record_def dispatch_record_def deliver_data_def
        Let_def)
  ultimately show ?thesis
    using db1(3) by auto
qed

lemma ptls_receive_appdata:
  assumes "alloc_ok (env_alloc E)" "between_records r" "room_for db (length f + n)" "tp_aead (tls_dec r) = Some aead"
    and "record_ok PTLS_CONTENT_TYPE_APPDATA f"
      "tls13_unprotect (aead, tls_dec r) (PTLS_CONTENT_TYPE_APPDATA, f) = Inr (PTLS_CONTENT_TYPE_APPDATA, p, (aead, tp))"
    and "length p \<le> length f" "p \<noteq> []"
  shows "\<exists>r' db'. ptls_receive E r db (enc_record PTLS_CONTENT_TYPE_APPDATA v f @ rest) = Some (0, r', db', 5 + length f)
    \<and> buf_data db' = buf_data db @ p \<and> room_for db' n \<and> between_records r' \<and> tls_dec r' = tp"
proof -
  define s where "s = r\<lparr>tls_emitter := None, tls_properties := None\<rparr>"
  let ?input = "enc_record PTLS_CONTENT_TYPE_APPDATA v f @ rest"
  have s: "between_records s" "tls_dec s = tls_dec r" "tls_state s \<ge> PTLS_STATE_SERVER_EXPECT_END_OF_EARLY_DATA"
    using assms(2) by (auto simp: s_def between_records_def state_le_defs)
  obtain db' where db': "handle_input E s db ?input = Some (0, dispose_record (s\<lparr>tls_dec := tp\<rparr>), db', 5 + length f)"
    "buf_data db' = buf_data db @ p" "room_for db' n"
    using handle_input_appdata [OF assms(1) s(1) assms(3), of aead p tp v rest] assms s(2) by auto
  have "tp_tls12 tp = tp_tls12 (tls_dec r)"
    using assms(6) by (auto simp: tls13_unprotect_def tls13_open_record_def aead_decrypt_def split: option.splits prod.splits)
  then have "between_records (dispose_record (s\<lparr>tls_dec := tp\<rparr>))"
    using s(1) assms(2) by (simp add: between_records_def dispose_record_def ptls_buffer_dispose_def)
  moreover have "receive_loop E (buf_off db) 0 s db ?input = Some (0, dispose_record (s\<lparr>tls_dec := tp\<rparr>), db', rest)"
    using db' s assms(2,8)
    by (subst receive_loop.simps, subst receive_loop.simps)
      (simp add: handle_any_input_def between_records_def receive_code_def enc_record_front del: append_is_Nil_conv drop_append)
  moreover have "buffer_require_direction db False = 0"
    using assms(3) by (simp add: room_for_def buffer_require_direction_def)
  ultimately have "ptls_receive E r db ?input = Some (0, dispose_record (s\<lparr>tls_dec := tp\<rparr>), db', 5 + length f)"
    using s(3) by (simp add: ptls_receive_def s_def)
  then show ?thesis
    using \<open>between_records (dispose_record (s\<lparr>tls_dec := tp\<rparr>))\<close> db'(2,3) by (auto simp: dispose_record_def)
qed

section \<open>Receiving all that was sent\<close>

text \<open>An application calls \<open>ptls_receive\<close> again with the octets that were not taken.\<close>

function receive_all :: "tls_env \<Rightarrow> ptls \<Rightarrow> ptls_buffer \<Rightarrow> bytes \<Rightarrow> (int \<times> ptls \<times> ptls_buffer) option" where
  "receive_all E r db input =
     (if input = [] then Some (0, r, db)
      else case ptls_receive E r db input of
          None \<Rightarrow> None
        | Some (ret, r', db', consumed) \<Rightarrow>
            if ret \<noteq> 0 then Some (ret, r', db')
            else if consumed = 0 then None
            else receive_all E r' db' (drop consumed input))"
  by pat_completeness auto
termination
  by (relation "measure (\<lambda>(_, _, _, input). length input)") auto

declare receive_all.simps [simp del]

text \<open>The keys of a sender and a receiver agree, and so do their sequence numbers.\<close>

definition linked :: "ptls \<Rightarrow> ptls \<Rightarrow> bool" where
  "linked s r \<longleftrightarrow> (\<exists>ae ad. tp_aead (tls_enc s) = Some ae \<and> tp_aead (tls_dec r) = Some ad
     \<and> prot_sync False (ae, tls_enc s) (ad, tls_dec r)) \<and> between_records r"

lemma data_chunks_nonempty: "c \<in> set (data_chunks src) \<Longrightarrow> c \<noteq> []"
  by (induction src rule: data_chunks.induct) (subst (asm) data_chunks.simps, auto split: if_splits)

lemma protect_list_aead: "tp_aead (snd (snd (protect_list chunk_protect e t cs))) = tp_aead (snd e)"
proof (induction cs arbitrary: e)
  case (Cons c cs)
  have "tp_aead (snd (snd (chunk_protect e t c))) = tp_aead (snd e)"
    by (auto simp: chunk_protect_def protect_chunk_def tls12_encrypt_fragment_def aead_encrypt_def Let_def split: prod.splits if_splits)
  then show ?case
    using Cons by (simp add: case_prod_unfold)
qed simp

lemma receive_all_chunks:
  assumes "alloc_ok (env_alloc E)" "between_records r" "tp_aead (tls_dec r) = Some ad" "prot_sync False e (ad, tls_dec r)"
    and "room_for db (length (enc_records (fst (protect_list chunk_protect e PTLS_CONTENT_TYPE_APPDATA cs))))"
    and "\<forall>c \<in> set cs. c \<noteq> [] \<and> length c \<le> 16384"
  shows "\<exists>r' db'. receive_all E r db (enc_records (fst (protect_list chunk_protect e PTLS_CONTENT_TYPE_APPDATA cs)))
      = Some (0, r', db') \<and> buf_data db' = buf_data db @ concat cs \<and> between_records r' \<and> tp_aead (tls_dec r') = Some ad
    \<and> prot_sync False (snd (protect_list chunk_protect e PTLS_CONTENT_TYPE_APPDATA cs)) (ad, tls_dec r')"
  using assms(2-)
proof (induction cs arbitrary: e r db)
  case Nil
  then show ?case
    by (simp add: enc_records_def receive_all.simps)
next
  case (Cons c cs)
  let ?t = PTLS_CONTENT_TYPE_APPDATA
  obtain outer room f tp1 where pc: "protect_chunk (fst e) (snd e) ?t c = (outer, room, f, tp1)"
    by (metis prod_cases4)
  have ok: "aead_ok (actx_algo (fst e))" "\<not> tp_tls12 (snd e)"
    using Cons.prems(3) by (auto simp: prot_sync_def)
  note L = protect_chunk_room [OF ok(1) pc]
  have f: "outer = ?t" "record_ok ?t f" "length c \<le> length f"
    using L(3) [OF ok(2)] Cons.prems(5) pc L(1) ok(2)
    by (auto simp: record_ok_def record_types_def record_limit_def protect_chunk_def Let_def split: prod.splits)
  have e': "chunk_protect e ?t c = ((?t, f), (fst e, tp1))"
    using pc f(1) by (simp add: chunk_protect_def)
  obtain d' where d': "tls13_unprotect (ad, tls_dec r) (?t, f) = Inr (?t, c, (ad, d'))"
    "prot_sync False (fst e, tp1) (ad, d')" "tp_aead d' = tp_aead (tls_dec r)"
    using tls13.unprotect_protect [OF Cons.prems(3), of ?t c] e'
    by (auto simp: tls13_unprotect_def tls13_open_record_def aead_decrypt_def split: option.splits prod.splits)
  let ?rest = "enc_records (fst (protect_list chunk_protect (fst e, tp1) ?t cs))"
  have out: "enc_records (fst (protect_list chunk_protect e ?t (c # cs))) = enc_record ?t 0x0303 f @ ?rest"
    by (simp add: e' enc_records_def case_prod_unfold)
  have room: "room_for db (length f + length ?rest)"
    using Cons.prems(4) unfolding out by (simp add: room_for_def)
  obtain r1 db1 where rcv: "ptls_receive E r db (enc_record ?t 0x0303 f @ ?rest) = Some (0, r1, db1, 5 + length f)"
    "buf_data db1 = buf_data db @ c" "room_for db1 (length ?rest)" "between_records r1" "tls_dec r1 = d'"
    using ptls_receive_appdata [OF assms(1) Cons.prems(1) room Cons.prems(2) f(2) d'(1) f(3), where v = "0x0303" and rest = ?rest] Cons.prems(5)
    by auto
  obtain r2 db2 where ih: "receive_all E r1 db1 ?rest = Some (0, r2, db2)" "buf_data db2 = buf_data db1 @ concat cs"
    "between_records r2" "tp_aead (tls_dec r2) = Some ad"
    "prot_sync False (snd (protect_list chunk_protect (fst e, tp1) ?t cs)) (ad, tls_dec r2)"
    using Cons.IH [OF rcv(4), of "(fst e, tp1)" db1] rcv d' Cons.prems by auto
  have "receive_all E r db (enc_record ?t 0x0303 f @ ?rest) = Some (0, r2, db2)"
    using rcv(1) ih(1) by (subst receive_all.simps) (simp add: enc_record_front del: append_is_Nil_conv drop_append)
  then show ?case
    using ih rcv(2) unfolding out by (auto simp: e' case_prod_unfold)
qed

text \<open>Sending succeeds when memory can be had and the sizes stay within a \<open>size_t\<close>: a record is at most 268 octets longer
  than its part of the data.\<close>

lemma enc_records_length:
  assumes "aead_ok (actx_algo (fst e))"
  shows "length (enc_records (fst (protect_list chunk_protect e t cs))) \<le> length (concat cs) + 268 * length cs"
  using assms
proof (induction cs arbitrary: e)
  case (Cons c cs)
  obtain outer room data tp where pc: "protect_chunk (fst e) (snd e) t c = (outer, room, data, tp)"
    by (metis prod_cases4)
  then have "chunk_protect e t c = ((outer, data), (fst e, tp))"
    by (simp add: chunk_protect_def)
  then show ?case
    using Cons.IH [of "(fst e, tp)"] Cons.prems protect_chunk_room(2) [OF Cons.prems pc]
    by (simp add: enc_records_def case_prod_unfold)
qed (simp add: enc_records_def)

lemma data_chunks_count: "length (data_chunks src) \<le> length src"
proof (induction src rule: data_chunks.induct)
  case (1 src)
  then show ?case
    by (cases src; subst data_chunks.simps) (auto simp: le_Suc_eq)
qed

lemma push_encrypted_records_succeeds:
  assumes "aead_ok (actx_algo aead)" "alloc_ok M" "buf_ok b"
    and "push_ready b (length (enc_records (fst (protect_list chunk_protect (aead, tp) type (data_chunks src)))))"
  shows "fst (buffer_push_encrypted_records M type src aead tp b) = 0"
  using assms(3,4)
proof (induction src arbitrary: tp b rule: data_chunks.induct)
  case (1 src)
  show ?case
  proof (cases "src = []")
    case False
    let ?c = "take 16384 src"
    obtain outer room data tp1 where pc: "protect_chunk aead tp type ?c = (outer, room, data, tp1)"
      by (metis prod_cases4)
    let ?rest = "enc_records (fst (protect_list chunk_protect (aead, tp1) type (data_chunks (drop 16384 src))))"
    have "chunk_protect (aead, tp) type ?c = ((outer, data), (aead, tp1))"
      by (simp add: chunk_protect_def pc)
    then have ready: "push_ready b (length (enc_record outer 0x0303 data) + length ?rest)"
      using "1.prems"(2) False by (subst (asm) data_chunks.simps) (simp add: enc_records_def case_prod_unfold)
    note L = protect_chunk_room [OF assms(1) pc]
    have p: "pushes M (buffer_push_record M outer (reserve_and_write M room (aead_align_bits (actx_algo aead)) data))
        (enc_record outer 0x0303 data)"
      using L(1,2) by (intro push_intros) simp_all
    obtain r1 b1 where run: "buffer_push_record M outer
        (reserve_and_write M room (aead_align_bits (actx_algo aead)) data) b = (r1, b1)"
      by fastforce
    note D = pushesD [OF p "1.prems"(1) run]
    have r1: "r1 = 0"
      using D(3) [OF assms(2)] ready by (simp add: push_ready_def)
    then have "push_ready b1 (length ?rest)"
      using D(1,2) ready by (auto simp: push_ready_def grew_def push_failure_def)
    then show ?thesis
      using "1.IH" [OF False grew_ok [OF D(1)]] False pc run r1
      by (subst buffer_push_encrypted_records.simps) simp
  qed (simp add: buffer_push_encrypted_records.simps)
qed

lemma sent_data_received:
  assumes link: "linked s r" and alloc: "alloc_ok M" "alloc_ok (env_alloc E)" and b: "buf_ok b"
    and attached: "\<not> tls_tx_detached s" and keep: "\<not> tls_needs_key_update s" "tp_seq (tls_enc s) < 16777216"
    and room: "push_ready b (269 * length input)" "room_for db (269 * length input)"
  shows "\<exists>s' b' out r' db'. ptls_send M s b input = Some (0, s', b') \<and> buf_data b' = buf_data b @ out
    \<and> receive_all E r db out = Some (0, r', db') \<and> buf_data db' = buf_data db @ input \<and> linked s' r'"
proof -
  let ?t = PTLS_CONTENT_TYPE_APPDATA
  obtain ae ad where aead: "tp_aead (tls_enc s) = Some ae" "tp_aead (tls_dec r) = Some ad"
    and sync: "prot_sync False (ae, tls_enc s) (ad, tls_dec r)" and r: "between_records r"
    using link by (auto simp: linked_def)
  let ?out = "protect_list chunk_protect (ae, tls_enc s) ?t (data_chunks input)"
  have ok: "aead_ok (actx_algo ae)"
    using sync by (simp add: prot_sync_def)
  then have len: "length (enc_records (fst ?out)) \<le> 269 * length input"
    using enc_records_length [of "(ae, tls_enc s)" ?t "data_chunks input"] data_chunks_count [of input]
    by (simp add: concat_data_chunks)
  then have "push_ready b (length (enc_records (fst ?out)))"
    using room(1) by (simp add: push_ready_def)
  then obtain tp b' where push: "buffer_push_encrypted_records M ?t input ae (tls_enc s) b = (0, tp, b')"
    using push_encrypted_records_succeeds [OF ok alloc(1) b, of "tls_enc s" ?t input] by (metis prod_cases3 fst_conv)
  have "update_key_if_needed M s b = Some (0, s, b)"
    using keep by (simp add: update_key_if_needed_def Let_def word_less_nat_alt word_le_nat_alt)
  then have send: "ptls_send M s b input = Some (0, s\<lparr>tls_enc := tp\<rparr>, b')"
    using push aead(1) attached room(1) by (simp add: ptls_send_def buffer_require_direction_def push_ready_def)
  have out: "buf_data b' = buf_data b @ enc_records (fst ?out)" "snd ?out = (ae, tp)"
    using push_encrypted_records_spec [OF ok b push] by auto
  have "\<forall>c \<in> set (data_chunks input). c \<noteq> [] \<and> length c \<le> 16384"
    using data_chunks_length data_chunks_nonempty by blast
  moreover have "room_for db (length (enc_records (fst ?out)))"
    using room(2) len by (auto simp: room_for_def)
  ultimately obtain r' db' where rcv: "receive_all E r db (enc_records (fst ?out)) = Some (0, r', db')"
    "buf_data db' = buf_data db @ concat (data_chunks input)" "between_records r'" "tp_aead (tls_dec r') = Some ad"
    "prot_sync False (snd ?out) (ad, tls_dec r')"
    using receive_all_chunks [OF alloc(2) r aead(2) sync] by blast
  have "tp_aead tp = Some ae"
    using protect_list_aead [of "(ae, tls_enc s)" ?t "data_chunks input"] out(2) aead(1) by simp
  then have "linked (s\<lparr>tls_enc := tp\<rparr>) r'"
    using rcv out(2) by (auto simp: linked_def)
  then show ?thesis
    using send rcv(1,2) out(1) concat_data_chunks by auto
qed

section \<open>Only what has been opened is delivered\<close>

text \<open>Data that a record of the peer holds under the current key, in a state in which data is accepted: after the handshake
  or, on a server, as early data.\<close>

definition authentic :: "ptls \<Rightarrow> bytes \<Rightarrow> bool" where
  "authentic s data \<longleftrightarrow> (\<exists>aead fragment tp. tp_aead (tls_dec s) = Some aead
     \<and> (if tp_tls12 (tls_dec s) then tls12_open_record aead (tls_dec s) PTLS_CONTENT_TYPE_APPDATA fragment = Inr (data, tp)
        else tls13_open_record aead (tls_dec s) fragment = Inr (PTLS_CONTENT_TYPE_APPDATA, data, tp)
          \<and> tls_state s \<in> {PTLS_STATE_CLIENT_POST_HANDSHAKE, PTLS_STATE_SERVER_POST_HANDSHAKE,
                              PTLS_STATE_SERVER_EXPECT_END_OF_EARLY_DATA}))"

definition delivers :: "ptls \<Rightarrow> ptls_buffer \<Rightarrow> ptls_buffer \<Rightarrow> bool" where
  "delivers s db db' \<longleftrightarrow> (\<exists>data. buf_data db' = buf_data db @ data \<and> (data = [] \<or> authentic s data))"

lemma delivers_same: "buf_data db' = buf_data db \<Longrightarrow> delivers s db db'"
  by (simp add: delivers_def)

lemma reserve_buf_data: "ptls_buffer_reserve M n tx b = (r, b') \<Longrightarrow> buf_data b' = buf_data b"
  by (auto simp: ptls_buffer_reserve_def ptls_buffer_reserve_aligned_def buffer_alloc_def Let_def
      split: option.splits if_splits)

lemma post_handshake_states:
  "PTLS_STATE_POST_HANDSHAKE_MIN \<le> st \<longleftrightarrow> st \<in> {PTLS_STATE_CLIENT_POST_HANDSHAKE, PTLS_STATE_SERVER_POST_HANDSHAKE}"
  by (cases st) (simp_all add: state_le_defs)

text \<open>Without the check of a key only data of a connection without one could be delivered, and that is empty.\<close>

lemma dispatch_record_delivers:
  assumes "dispatch_record E type body s db = Some (ret, u, db', done)"
  shows "buf_data db' = buf_data db \<or> type = PTLS_CONTENT_TYPE_APPDATA \<and> buf_data db' = buf_data db @ body
    \<and> tp_aead (tls_dec s) \<noteq> None \<and> tls_state s \<in> {PTLS_STATE_CLIENT_POST_HANDSHAKE, PTLS_STATE_SERVER_POST_HANDSHAKE,
        PTLS_STATE_SERVER_EXPECT_END_OF_EARLY_DATA}"
  using assms unfolding dispatch_record_def deliver_data_def Let_def post_handshake_states
  by (auto split: if_splits)

lemma skip_early_data_buf: "skip_early_data n s db = (ret, u, db', done) \<Longrightarrow> db' = db"
  by (auto simp: skip_early_data_def Let_def split: if_splits)

lemma open_record_delivers:
  assumes "open_record E aead fragment s db = Some (ret, u, db', done)" "tp_aead (tls_dec s) = Some aead"
    and "\<not> tp_tls12 (tls_dec s)"
  shows "delivers s db db'"
proof -
  obtain r db1 where db1: "ptls_buffer_reserve (env_alloc E) (length fragment) False db = (r, db1)"
    by fastforce
  note same = reserve_buf_data [OF db1]
  show ?thesis
  proof (cases "db' = db1")
    case False
    then obtain pt tp type body where pt: "aead_decrypt aead (tls_dec s) fragment = Inr (pt, tp)"
      "split_inner_plaintext pt = Inr (type, body)" "dispatch_record E type body (s\<lparr>tls_dec := tp\<rparr>) db1 = Some (ret, u, db', done)"
      using assms(1) db1 unfolding open_record_def
      by (auto split: sum.splits prod.splits if_splits dest: skip_early_data_buf)
    have "tls13_open_record aead (tls_dec s) fragment = Inr (type, body, tp)"
      using pt(1,2) by (simp add: tls13_open_record_def)
    then show ?thesis
      using dispatch_record_delivers [OF pt(3)] same assms(2,3) by (auto simp: delivers_def authentic_def)
  qed (use same in \<open>simp add: delivers_def\<close>)
qed

lemma handle_record_delivers:
  assumes "handle_record E type fragment s db = Some (ret, u, db', done)" "\<not> tp_tls12 (tls_dec s)"
  shows "delivers s db db'"
proof (cases "(if type = PTLS_CONTENT_TYPE_ALERT then None else tp_aead (tls_dec s))")
  case None
  then have "buf_data db' = buf_data db"
    using assms unfolding handle_record_def
    by (auto split: if_splits dest: skip_early_data_buf dest!: dispatch_record_delivers)
  then show ?thesis
    by (rule delivers_same)
next
  case (Some aead)
  then show ?thesis
    using assms unfolding handle_record_def
    by (auto split: if_splits intro: delivers_same open_record_delivers)
qed

lemma authentic_fields: "authentic (s\<lparr>tls_recvbuf_rec := rb\<rparr>) data = authentic s data"
  "authentic (s\<lparr>tls_emitter := em, tls_properties := props\<rparr>) data = authentic s data"
  by (simp_all add: authentic_def)

lemma handle_input_delivers:
  assumes "handle_input E s db input = Some (ret, u, db', consumed)" "\<not> tp_tls12 (tls_dec s)"
  shows "delivers s db db'"
  using assms unfolding handle_input_def Let_def
  by (auto simp: delivers_same split: prod.splits if_splits option.splits dest!: handle_record_delivers)
    (simp_all add: delivers_def authentic_fields)

lemma handle_input_tls12_delivers:
  assumes "handle_input_tls12 E s db input = Some (ret, u, db', consumed)" "tp_tls12 (tls_dec s)"
  shows "delivers s db db'"
proof -
  have "delivers s db db'" if "handle_record_tls12 E type fragment (s\<lparr>tls_recvbuf_rec := rb\<rparr>) db = Some (ret, u, db')"
    for type fragment u rb
    using that assms(2) unfolding handle_record_tls12_def Let_def
    by (auto simp: delivers_def authentic_def split: option.splits if_splits sum.splits prod.splits dest!: reserve_buf_data)
  then show ?thesis
    using assms unfolding handle_input_tls12_def Let_def
    by (auto simp: delivers_same split: prod.splits if_splits option.splits)
qed

lemma handle_any_input_delivers:
  "handle_any_input E s db input = Some (ret, u, db', consumed) \<Longrightarrow> delivers s db db'"
  unfolding handle_any_input_def by (auto split: if_splits intro: handle_input_delivers handle_input_tls12_delivers)

lemma receive_loop_delivers:
  assumes "receive_loop E n r s db input = Some (ret, u, db', left)" "env_ok E" "n = buf_off db"
  shows "\<exists>t. runs E True (tls_is_server s) s t \<and> delivers t db db'"
  using assms
proof (induction E n r s db input rule: receive_loop.induct)
  case (1 E n r s db input)
  show ?case
  proof (cases "r = 0 \<and> input \<noteq> [] \<and> n = buf_off db")
    case True
    with 1(2) obtain r' s' db1 consumed where step: "handle_any_input E s db input = Some (r', s', db1, consumed)"
      "\<not> consumed = 0" "receive_loop E n (receive_code r') s' db1 (drop consumed input) = Some (ret, u, db', left)"
      by (subst (asm) receive_loop.simps) (auto split: option.splits if_splits)
    show ?thesis
    proof (cases "receive_code r' = 0 \<and> n = buf_off db1")
      case same: True
      then have "carries_on r'"
        by (simp add: receive_code_def carries_on_def split: if_splits)
      then have s': "runs E True (tls_is_server s) s s'"
        using handle_any_input_runs [OF step(1)] by simp
      have "buf_data db1 = buf_data db"
        using handle_any_input_delivers [OF step(1)] same [THEN conjunct2] 1(4) by (auto simp: delivers_def)
      then have "delivers t db1 db' = delivers t db db'" for t
        by (simp add: delivers_def)
      then show ?thesis
        using 1(1) [OF True step(1) HOL.refl HOL.refl HOL.refl step(2,3) 1(3) same [THEN conjunct2]]
          runs_role [OF s' 1(3)] runs.trans [OF s'] by auto
    next
      case False
      then have "db' = db1"
        using step(3) by (subst (asm) receive_loop.simps) auto
      then show ?thesis
        using handle_any_input_delivers [OF step(1)] runs.refl by blast
    qed
  next
    case False
    then have "db' = db"
      using 1(2) by (subst (asm) receive_loop.simps) (auto split: if_splits)
    then show ?thesis
      using delivers_same runs.refl by blast
  qed
qed

lemma ptls_receive_delivers:
  assumes "ptls_receive E s db input = Some (ret, u, db', consumed)" "env_ok E"
  shows "\<exists>t. runs E True (tls_is_server s) s t \<and> delivers t db db'"
proof (cases "db' = db")
  case False
  then obtain left where "receive_loop E (buf_off db) 0 (s\<lparr>tls_emitter := None, tls_properties := None\<rparr>) db input
      = Some (ret, u, db', left)"
    using assms(1) unfolding ptls_receive_def by (auto split: if_splits)
  from receive_loop_delivers [OF this assms(2) HOL.refl] show ?thesis
    by (auto dest!: runs_from_fields)
qed (use delivers_same runs.refl in blast)

section \<open>Data and the handshake before it\<close>

text \<open>What \<open>ptls_receive\<close> appended to the buffer was opened with the traffic key of a state that the connection went
  through.\<close>

definition opened_data :: "ptls \<Rightarrow> bytes \<Rightarrow> bool" where
  "opened_data s data \<longleftrightarrow> (\<exists>aead fragment tp. tp_aead (tls_dec s) = Some aead
     \<and> tls13_open_record aead (tls_dec s) fragment = Inr (PTLS_CONTENT_TYPE_APPDATA, data, tp))"

lemma life_receive:
  assumes "life E True s t" "env_ok E" "role_ok s" "\<not> tp_tls12 (tls_dec s)"
    and "ptls_receive E t db input = Some (ret, u, db', consumed)"
  obtains data v where "buf_data db' = buf_data db @ data" "runs E True (tls_is_server s) s v" "role_ok v"
    "data = [] \<or> opened_data v data \<and> tls_state v \<in> {PTLS_STATE_CLIENT_POST_HANDSHAKE, PTLS_STATE_SERVER_POST_HANDSHAKE,
                                                      PTLS_STATE_SERVER_EXPECT_END_OF_EARLY_DATA}"
proof -
  have t: "runs E True (tls_is_server s) s t"
    using life_runs [OF assms(1-3)] by simp
  obtain v where v: "runs E True (tls_is_server t) t v" "delivers v db db'"
    using ptls_receive_delivers [OF assms(5,2)] by blast
  then have sv: "runs E True (tls_is_server s) s v"
    using runs.trans [OF t] runs_role [OF t assms(2)] by simp
  then have "role_ok v" "\<not> tp_tls12 (tls_dec v)"
    using runs_role_ok runs_not_tls12 assms(2-4) by blast+
  then show ?thesis
    using that v(2) sv unfolding delivers_def authentic_def opened_data_def by metis
qed

end
