(* ===== verification/SampleRun.thy ===== *)
theory SampleRun
  imports Delivery
begin

text \<open>
  A handshake that is run.  The parameters of the model (hash function, cipher, key exchange, certificate callbacks) are
  instantiated by small concrete functions, and the definitions of \<^emph>\<open>Dispatch\<close> and of everything below
  them are evaluated on the messages of a complete handshake, once as the client and once as a server that asks for a
  client certificate.  The properties whose hypotheses are whole connections are applied to these runs.
\<close>

section \<open>Concrete parameters\<close>

text \<open>A hash of one octet, a cipher that appends a one-octet tag, a key exchange with fixed shares, a certificate of one
  octet, signed by the signature \<open>[3]\<close>.  A peer that sends no certificate is refused.\<close>

definition toy_alloc :: allocator where
  "toy_alloc b c a = Some 4096"

definition toy_hash :: ptls_hash_algorithm where
  "toy_hash = \<lparr>hash_addr = 1, hash_name = ''sum'', hash_block_size = 1, hash_digest_size = 1,
     hash_empty_digest = [0], hash_fn = (\<lambda>bs. [0]), hash_can_create = True\<rparr>"

definition toy_aead :: ptls_aead_algorithm where
  "toy_aead = \<lparr>aead_name = ''tag'', aead_key_size = 1, aead_iv_size = 8, aead_tag_size = 1,
     aead_tls12_fixed_iv_size = 4, aead_tls12_record_iv_size = 8, aead_align_bits = 0,
     aead_seal = (\<lambda>k iv aad p. p @ [7]),
     aead_open = (\<lambda>k iv aad c. if c \<noteq> [] \<and> last c = 7 then Some (butlast c) else None), aead_can_create = True\<rparr>"

definition toy_kx :: ptls_key_exchange_algorithm where
  "toy_kx = \<lparr>kx_id = 29, kx_name = ''kx'', kx_create = (\<lambda>seed. Inr ([5], [6])), kx_on_exchange = (\<lambda>priv peer. Inr [9]),
     kx_exchange = (\<lambda>seed peer. Inr ([5], [9]))\<rparr>"

definition toy_suite :: ptls_cipher_suite where
  "toy_suite = \<lparr>cs_id = 0x1301, cs_aead = toy_aead, cs_hash = toy_hash, cs_name = ''suite''\<rparr>"

definition toy_ctx :: ptls_context where
  "toy_ctx = \<lparr>ctx_random_bytes = (\<lambda>i n. replicate n 1),
  ctx_get_time = 0,
  ctx_key_exchanges = Some [toy_kx],
  ctx_cipher_suites = Some [toy_suite],
  ctx_tls12_cipher_suites = None,
  ctx_certificates = [[1]],
  ctx_psk_identity = None,
  ctx_psk_secret = None,
  ctx_psk_hash = None,
  ctx_ech_ciphers = None,
  ctx_ech_kems = [],
  ctx_ech_create_opener = None,
  ctx_ech_retry_configs = [],
  ctx_emit_certificate = None,
  ctx_sign_certificate = Some (\<lambda>dat algos. Inr (0x0804, ptls_buffer__do_pushv toy_alloc [3])),
  ctx_verify_certificate = Some (\<lambda>name certs. if certs = [] then Inl PTLS_ALERT_CERTIFICATE_REQUIRED else Inr (Some (\<lambda>algo dat sig. if sig = [3] then 0 else 51))),
  ctx_verify_algos = Some [0x0804],
  ctx_ticket_lifetime = 0,
  ctx_max_early_data_size = 0,
  ctx_max_buffer_size = 0,
  ctx_hkdf_label_prefix = None,
  ctx_require_dhe_on_psk = False,
  ctx_use_exporter = False,
  ctx_send_change_cipher_spec = False,
  ctx_require_client_authentication = False,
  ctx_omit_end_of_early_data = False,
  ctx_use_raw_public_keys = False,
  ctx_server_cipher_preference = False,
  ctx_server_cipher_chacha_priority = False,
  ctx_encrypt_ticket = None,
  ctx_save_ticket = None,
  ctx_update_traffic_key = None,
  ctx_decompress_certificate = None,
  ctx_on_extension = None,
  ctx_ticket_context = None,
  ctx_client_ca_names = [],
  ctx_ticket_requests_client = (0, 0),
  ctx_ticket_requests_server_max = 0\<rparr>"

definition toy_env :: tls_env where
  "toy_env = \<lparr>env_alloc = toy_alloc, env_inet_pton = (\<lambda>f b. False), env_on_client_hello = None\<rparr>"

definition toy_server_ctx :: ptls_context where
  "toy_server_ctx = toy_ctx\<lparr>ctx_require_client_authentication := True\<rparr>"

text \<open>The two endpoints, as they are created, and the messages.\<close>

definition toy_client :: ptls where
  "toy_client = the (ptls_client_new toy_alloc 0 0 toy_ctx)"

definition toy_server :: ptls where
  "toy_server = the (ptls_server_new toy_alloc 0 0 toy_server_ctx)"

definition toy_buf :: ptls_buffer where
  "toy_buf = ptls_buffer_init 1 0 True"

definition toy_offsets :: "nat list" where
  "toy_offsets = [0, 0, 0, 0, 0]"

definition toy_client_hello :: bytes where
  "toy_client_hello = [1, 0, 0, 77, 3, 3] @ replicate 32 1 @ [0, 0, 2, 19, 1, 1, 0, 0, 34, 0, 51, 0, 7, 0, 5, 0, 29, 0, 1, 5,
     0, 43, 0, 3, 2, 3, 4, 0, 13, 0, 4, 0, 2, 8, 4, 0, 10, 0, 4, 0, 2, 0, 29]"

definition toy_server_hello :: bytes where
  "toy_server_hello = [2, 0, 0, 55, 3, 3] @ replicate 32 1 @ [0, 19, 1, 0, 0, 15, 0, 43, 0, 2, 3, 4, 0, 51, 0, 5, 0, 29, 0, 1, 5]"

text \<open>Certificate, CertificateVerify and Finished, which are the same in the two directions.\<close>

definition toy_proof :: bytes where
  "toy_proof = [11, 0, 0, 10, 0, 0, 0, 6, 0, 0, 1, 1, 0, 0, 15, 0, 0, 5, 8, 4, 0, 1, 3, 20, 0, 0, 1, 0]"

definition toy_server_flight :: bytes where
  "toy_server_flight = [8, 0, 0, 2, 0, 0] @ toy_proof"

text \<open>What an endpoint is after one call of \<open>ptls_handle_message\<close>, when the call returns \<open>ret\<close>.\<close>

definition toy_step :: "int \<Rightarrow> nat \<Rightarrow> bytes option \<Rightarrow> ptls option \<Rightarrow> ptls option" where
  "toy_step ret epoch input s = (case s of None \<Rightarrow> None | Some tls \<Rightarrow>
     (case ptls_handle_message toy_env tls toy_buf toy_offsets epoch input None of None \<Rightarrow> None
      | Some q \<Rightarrow> if fst q = ret then Some (fst (snd q)) else None))"

definition toy_client_run :: "ptls option" where
  "toy_client_run = toy_step 0 2 (Some toy_server_flight) (toy_step PTLS_ERROR_IN_PROGRESS 0 (Some toy_server_hello)
     (toy_step PTLS_ERROR_IN_PROGRESS 0 None (Some toy_client)))"

definition toy_server_run :: "ptls option" where
  "toy_server_run = toy_step 0 2 (Some toy_proof) (toy_step PTLS_ERROR_IN_PROGRESS 0 (Some toy_client_hello) (Some toy_server))"

text \<open>A record of application data, and whether it is received.\<close>

definition toy_record :: bytes where
  "toy_record = [23, 3, 3, 0, 4, 104, 105, 23, 7]"

definition toy_inbuf :: ptls_buffer where
  "toy_inbuf = ptls_buffer_init 1 0 False"

definition toy_receives :: "ptls \<Rightarrow> bool" where
  "toy_receives s = (case ptls_receive toy_env s toy_inbuf toy_record of None \<Rightarrow> False
     | Some q \<Rightarrow> buf_data (fst (snd (snd q))) = [104, 105])"

text \<open>Two ends after the handshake: what one sends the other opens.\<close>

definition toy_protection :: "bool \<Rightarrow> st_ptls_traffic_protection" where
  "toy_protection is_enc = \<lparr>tp_secret = [], tp_epoch = 3, tp_aead = Some \<lparr>actx_algo = toy_aead, actx_is_enc = is_enc,
     actx_key = [1], actx_iv = [0, 0, 0, 0, 0, 0, 0, 9]\<rparr>, tp_seq = 7, tp_tls12 = False, tp_tls12_enc_record_iv = 0\<rparr>"

definition toy_writer :: ptls where
  "toy_writer = toy_client\<lparr>tls_state := PTLS_STATE_CLIENT_POST_HANDSHAKE, tls_enc := toy_protection True\<rparr>"

definition toy_reader :: ptls where
  "toy_reader = toy_server\<lparr>tls_state := PTLS_STATE_SERVER_POST_HANDSHAKE, tls_dec := toy_protection False\<rparr>"

section \<open>Evaluation by rewriting\<close>

text \<open>The records stay folded and are read through their selectors; a bind is opened only once its first action has been
  evaluated, which the weak congruence rules see to.\<close>

lemma toy_hash_sel:
  "hash_addr toy_hash = (1)"
  "hash_name toy_hash = (''sum'')"
  "hash_block_size toy_hash = (1)"
  "hash_digest_size toy_hash = (1)"
  "hash_empty_digest toy_hash = ([0])"
  "hash_fn toy_hash = ((\<lambda>bs. [0]))"
  "hash_can_create toy_hash = (True)"
  by (simp_all add: toy_hash_def)

lemma toy_aead_sel:
  "aead_name toy_aead = (''tag'')"
  "aead_key_size toy_aead = (1)"
  "aead_iv_size toy_aead = (8)"
  "aead_tag_size toy_aead = (1)"
  "aead_tls12_fixed_iv_size toy_aead = (4)"
  "aead_tls12_record_iv_size toy_aead = (8)"
  "aead_align_bits toy_aead = (0)"
  "aead_seal toy_aead = ((\<lambda>k iv aad p. p @ [7]))"
  "aead_open toy_aead = ((\<lambda>k iv aad c. if c \<noteq> [] \<and> last c = 7 then Some (butlast c) else None))"
  "aead_can_create toy_aead = (True)"
  by (simp_all add: toy_aead_def)

lemma toy_kx_sel:
  "kx_id toy_kx = (29)"
  "kx_name toy_kx = (''kx'')"
  "kx_create toy_kx = ((\<lambda>seed. Inr ([5], [6])))"
  "kx_on_exchange toy_kx = ((\<lambda>priv peer. Inr [9]))"
  "kx_exchange toy_kx = ((\<lambda>seed peer. Inr ([5], [9])))"
  by (simp_all add: toy_kx_def)

lemma toy_suite_sel:
  "cs_id toy_suite = (0x1301)"
  "cs_aead toy_suite = (toy_aead)"
  "cs_hash toy_suite = (toy_hash)"
  "cs_name toy_suite = (''suite'')"
  by (simp_all add: toy_suite_def)

lemma toy_ctx_sel:
  "ctx_random_bytes toy_ctx = ((\<lambda>i n. replicate n 1))"
  "ctx_get_time toy_ctx = (0)"
  "ctx_key_exchanges toy_ctx = (Some [toy_kx])"
  "ctx_cipher_suites toy_ctx = (Some [toy_suite])"
  "ctx_tls12_cipher_suites toy_ctx = (None)"
  "ctx_certificates toy_ctx = ([[1]])"
  "ctx_psk_identity toy_ctx = (None)"
  "ctx_psk_secret toy_ctx = (None)"
  "ctx_psk_hash toy_ctx = (None)"
  "ctx_ech_ciphers toy_ctx = (None)"
  "ctx_ech_kems toy_ctx = ([])"
  "ctx_ech_create_opener toy_ctx = (None)"
  "ctx_ech_retry_configs toy_ctx = ([])"
  "ctx_emit_certificate toy_ctx = (None)"
  "ctx_sign_certificate toy_ctx = (Some (\<lambda>dat algos. Inr (0x0804, ptls_buffer__do_pushv toy_alloc [3])))"
  "ctx_verify_certificate toy_ctx = (Some (\<lambda>name certs. if certs = [] then Inl PTLS_ALERT_CERTIFICATE_REQUIRED else Inr (Some (\<lambda>algo dat sig. if sig = [3] then 0 else 51))))"
  "ctx_verify_algos toy_ctx = (Some [0x0804])"
  "ctx_ticket_lifetime toy_ctx = (0)"
  "ctx_max_early_data_size toy_ctx = (0)"
  "ctx_max_buffer_size toy_ctx = (0)"
  "ctx_hkdf_label_prefix toy_ctx = (None)"
  "ctx_require_dhe_on_psk toy_ctx = (False)"
  "ctx_use_exporter toy_ctx = (False)"
  "ctx_send_change_cipher_spec toy_ctx = (False)"
  "ctx_require_client_authentication toy_ctx = (False)"
  "ctx_omit_end_of_early_data toy_ctx = (False)"
  "ctx_use_raw_public_keys toy_ctx = (False)"
  "ctx_server_cipher_preference toy_ctx = (False)"
  "ctx_server_cipher_chacha_priority toy_ctx = (False)"
  "ctx_encrypt_ticket toy_ctx = (None)"
  "ctx_save_ticket toy_ctx = (None)"
  "ctx_update_traffic_key toy_ctx = (None)"
  "ctx_decompress_certificate toy_ctx = (None)"
  "ctx_on_extension toy_ctx = (None)"
  "ctx_ticket_context toy_ctx = (None)"
  "ctx_client_ca_names toy_ctx = ([])"
  "ctx_ticket_requests_client toy_ctx = ((0, 0))"
  "ctx_ticket_requests_server_max toy_ctx = (0)"
  by (simp_all add: toy_ctx_def)

lemma toy_env_sel:
  "env_alloc toy_env = (toy_alloc)"
  "env_inet_pton toy_env = ((\<lambda>f b. False))"
  "env_on_client_hello toy_env = (None)"
  by (simp_all add: toy_env_def)

lemma toy_server_ctx_sel: "toy_server_ctx = toy_ctx\<lparr>ctx_require_client_authentication := True\<rparr>"
  by (rule toy_server_ctx_def)

lemma act_bind_weak: "m = m' \<Longrightarrow> act_bind m f = act_bind m' f"
  by simp

lemma act_seq_weak: "m = m' \<Longrightarrow> act_seq m f = act_seq m' f"
  by simp

lemma push_then_weak: "m = m' \<Longrightarrow> push_then m f = push_then m' f"
  by simp

lemma res_bind_weak: "m = m' \<Longrightarrow> res_bind m f = res_bind m' f"
  by simp

lemma act_bind_eval:
  "act_bind m f s = (case m s of None \<Rightarrow> None | Some p \<Rightarrow>
     (case fst p of Inl ret \<Rightarrow> Some (Inl ret, snd p) | Inr x \<Rightarrow> f x (snd p)))"
  by (simp add: act_bind_def split: option.splits prod.splits sum.splits)

lemma act_seq_eval:
  "act_seq m f s = (case m s of None \<Rightarrow> None | Some p \<Rightarrow>
     (case fst p of Inl ret \<Rightarrow> Some (Inl ret, snd p) | Inr x \<Rightarrow> f (snd p)))"
  by (simp add: act_seq_def act_bind_eval)

lemma push_then_eval: "push_then f g b = (case f b of (ret, b') \<Rightarrow> if ret \<noteq> 0 then (ret, b') else g b')"
  by (simp add: push_then_def)

lemma upt_eval: "[i..<numeral k] = (if i < numeral k then i # [Suc i..<numeral k] else [])"
  by (rule upt_rec)

lemma replicate_eq_Cons:
  "replicate (numeral k) x = y # ys \<longleftrightarrow> x = y \<and> replicate (pred_numeral k) x = ys"
  by (simp add: numeral_eq_Suc)

lemmas weak_congs =
  act_bind_weak act_seq_weak push_then_weak res_bind_weak let_weak_cong option.case_cong_weak prod.case_cong_weak
  sum.case_cong_weak list.case_cong_weak ptls_state.case_cong_weak

lemmas toy_eval =
  toy_hash_sel toy_aead_sel toy_kx_sel toy_suite_sel toy_ctx_sel toy_env_sel toy_server_ctx_sel toy_alloc_def
  toy_client_def toy_server_def toy_buf_def toy_offsets_def toy_client_hello_def toy_server_hello_def toy_proof_def
  toy_server_flight_def toy_step_def toy_record_def toy_inbuf_def toy_receives_def

lemmas model_eval =
  act_bind_eval act_seq_eval push_then_eval upt_eval replicate_eq_Cons Let_def
  be_nat_def ptls_buffer_init_def ptls_buffer_dispose_def buffer_require_direction_def buffer_alloc_def
  ptls_buffer_reserve_aligned_def ptls_buffer_reserve_def ptls_buffer__do_pushv_def push_nothing_def
  reserve_and_write_def enc8_def enc16_def enc32_def enc64_def ptls_buffer_push_def ptls_buffer_push16_def
  ptls_buffer_push32_def ptls_buffer_push64_def encode64_def poke_def ptls_buffer_push_block_def
  buffer_push_extension_def ntoh16_def ntoh24_def ntoh32_def ntoh64_def ptls_decode8_def ptls_decode16_def
  ptls_decode24_def ptls_decode32_def ptls_decode64_def ptls_decode_open_block_def ptls_decode_assert_block_close_def
  ptls_decode_block_def take_rest_def decode_do_while_def HSTYPE_TO_BIT_def extension_table_def
  extension_bitmap_testandset_def decode_one_extension_def decode_open_extensions_def decode_extensions_def ascii_def
  hash_create_def hash_update_def hash_final_def hmac_update_def hmac_xor_key_def hmac_apply_key_def
  ptls_hmac_create_def hmac_final_def zeroes_of_max_digest_size_def ptls_hkdf_extract_def hkdf_expand_round_def
  ptls_hkdf_expand_def run_pusher_def push_hkdf_label_def ptls_hkdf_expand_label_def hash_ctx_digest_def
  hash_ctx_reset_def ptls_aead__build_iv_def ptls_aead_new_direct_def ptls_aead_encrypt_def ptls_aead_encrypt_v_def
  ptls_aead_decrypt_def mem_equal_def get_traffic_key_def get_traffic_keys_def new_aead_def ptls_aead_new_def
  build_aad_def build_tls12_aad_def aead_encrypt_def aead_decrypt_def tls12_encrypt_fragment_def
  buffer_push_record_def protect_chunk_def c_malloc_def buffer_encrypt_record_def begin_record_message_def
  commit_record_message_def empty_record_def parse_record_header_def record_types_def parse_record_slow_def
  parse_record_start_def parse_record_def strip_padding_def split_inner_plaintext_def tls12_open_record_def
  message_buffer_is_overflow_def handle_handshake_record_def same_hash_def foreach_hash_def key_schedule_new_def
  key_schedule_extract_def key_schedule_select_cipher_def ks_hash_map_def ptls__key_schedule_update_hash_def
  on_first_hash_def key_schedule_select_outer_def ch1hash_prefix_def key_schedule_update_ch1hash_prefix_def
  key_schedule_extract_ch1hash_def post_ch1hash_def key_schedule_transform_post_ch1hash_def
  derive_secret_with_hash_def derive_secret_def derive_secret_with_empty_digest_def derive_resumption_secret_def
  ech_calc_confirmation_def call_on_extension_def nst_extension_def decode_new_session_ticket_def
  push_new_session_ticket_def push_derived_def push_resumption_secret_def push_stored_ticket_def
  client_handle_new_session_ticket_def decode_stored_session_ticket_def SESSION_IDENTIFIER_MAGIC_def
  encode_session_identifier_def decode_session_identifier_def build_certificate_verify_signdata_def
  calc_verify_data_def verify_finished_def supported_versions_def is_supported_version_def certificate_type_exists_def
  vec_is_string_def default_algos_def push_signature_algorithms_def PTLS_MAX_SIGNATURE_ALGORITHMS_def
  add_signature_algorithm_def decode_signature_algorithms_def push_additional_extensions_def suite_matches_def
  select_cipher_end_def select_cipher_def push_key_share_entry_def decode_key_share_entry_def note_key_share_def
  select_key_share_def select_negotiated_group_def emit_server_name_extension_def decode_server_name_entry_def
  client_hello_decode_server_name_def ptls_server_name_is_ipaddr_def empty_ech_config_def cipher_has_ids_def
  decode_ech_cipher_def skip_decoded_def decode_ech_public_name_def decode_ech_extension_def decode_one_ech_config_def
  decode_ech_list_entry_def client_decode_ech_config_list_def clear_ech_def ech_info_prefix_def client_setup_ech_def
  client_setup_ech_grease_def act_return_def act_fail_def act_get_def act_put_def act_deref_def act_assert_def
  act_res_def act_code_def act_when_def act_guard_def run_act_def act_decode_open_extensions_def
  act_decode_extensions_def tls_prot_def set_prot_def empty_prot_def tls_random_bytes_def write_secret_def
  install_aead_def setup_traffic_protection_def commission_handshake_secret_def derive_exporter_secret_def
  update_traffic_key_def handle_key_update_def em_push_def em_off_def set_em_start_def begin_message_def
  commit_raw_message_def commit_record_def commit_message_def ptls_buffer_push_message_body_def ptls_push_message_def
  push_verify_data_def send_finished_def push_change_cipher_spec_def em_truncate_def push_finished_ahead_def
  str_of_def session_id_octets_def send_ticket_message_def send_session_ticket_def with_emitter_def zero_buffer_def
  empty_ech_def dup_str_def push_ocsp_status_def ptls_build_certificate_message_def default_emit_certificate_cb_def
  send_certificate_def push_certificate_verify_def send_certificate_verify_def update_hash_def set_state_def
  cr_extension_def decode_certificate_request_def client_handle_certificate_request_def decode_certificate_entry_def
  decode_certificate_def handle_certificate_def client_do_handle_certificate_def client_handle_certificate_def
  client_handle_compressed_certificate_def server_handle_certificate_def decode_certificate_verify_def
  handle_certificate_verify_def client_handle_certificate_verify_def server_handle_certificate_verify_def
  extract_next_secret_def check_finished_def act_ignore_def client_end_early_data_def client_send_certificate_def
  client_handle_finished_def server_handle_end_of_early_data_def server_handle_finished_def
  server_certificate_verify_def server_next_state_def server_finish_handshake_def push_ext_when_def
  ch_ech_extension_def ch_key_share_extension_def ch_psk_extensions_def ch_protocols_def ch_extra_extensions_def
  ch_extensions_def encode_client_hello_def outer_ech_header_size_def ech_payload_offset_def
  update_ch_hash_and_binder_def no_psk_def set_ech_def set_early_data_size_def wants_early_data_def client_try_ech_def
  client_setup_ech_if_asked_def suite_has_hash_def client_external_psk_def client_resumption_psk_def
  client_choose_psk_def client_report_early_data_def client_create_key_share_def client_new_key_schedule_def
  ch_arguments_def client_hello_pusher_def em_message_def em_fill_def client_hash_and_binder_def ech_padding_len_def
  client_encoded_inner_def client_outer_hello_def adopt_outer_def client_settle_ech_def client_apply_ech_def
  client_write_hello_def send_client_hello_def ptls_find_cipher_suite_def hello_retry_random_def
  sh_key_share_extension_def sh_extension_def decode_server_hello_head_def decode_server_hello_def
  client_drop_early_data_def handle_hello_retry_request_def client_reject_ech_def client_ech_select_hello_def
  client_select_cipher_def on_key_schedule_def client_handle_retry_def client_exchange_key_def
  client_derive_handshake_keys_def client_handle_hello_def should_collect_unknown_extension_def
  collect_unknown_extension_def report_unknown_extensions_def collect_if_asked_def report_collected_def c_string_def
  ptls_set_negotiated_protocol_def ee_alpn_def ee_ech_def ee_extension_def client_handle_encrypted_extensions_def
  empty_client_hello_def push_upto_def ch_decode_alpn_def ch_decode_certificate_types_def
  ch_decode_compress_certificate_def lower_version_index_def ch_decode_versions_def ch_decode_cookie_def
  ch_decode_identity_def ch_decode_binder_def ch_decode_pre_shared_key_def ch_decode_ke_modes_def ch_decode_ech_def
  ch_extension_def decode_client_hello_head_def decode_client_hello_def call_on_client_hello_cb_def
  tls13_hello_error_def check_client_hello_constraints_def buf_push_def buf_block_def rebuild_ch_inner_extensions_def
  COPY_BLOCK_def rebuild_ch_inner_body_def rebuild_ch_inner_def vec_is_string_def early_data_fresh_def
  ticket_context_ok_def ticket_protocol_ok_def ticket_parameters_ok_def try_ticket_def try_psk_identity_def
  check_psk_binder_def try_psk_handshake_def enc_len8_def cookie_server_name_def cookie_lengths_ok_def
  cookie_signature_def cookie_algo_def calc_cookie_signature_def ptls_is_ech_handshake_def server_hello_body_def
  EMIT_SERVER_HELLO_def EMIT_HELLO_RETRY_REQUEST_def server_confirm_ech_def server_receive_hello_def
  server_check_second_ech_def server_create_opener_def ech_inner_size_def ech_outer_aad_def server_adopt_inner_def
  server_open_inner_def server_handle_ech_def certificate_type_exists_def server_get_hello_def
  server_consult_application_def server_select_cipher_def server_select_key_share_def server_use_cookie_def
  push_cookie_def server_push_cookie_def server_send_retry_def server_retry_or_continue_def server_try_psk_def
  set_selected_psk_binder_def server_full_mode_def server_choose_mode_def tickets_to_send_def
  server_accept_early_data_def server_exchange_key_def server_send_hello_def server_derive_handshake_keys_def
  encrypted_extensions_body_def certificate_request_body_def server_send_flight_def server_answer_hello_def
  server_handle_hello_def client_save_session_ticket_def handle_client_handshake_message_def
  handle_server_handshake_message_def handle_handshake_message_def handle_handshake_fragment_def
  PTLS_ALERT_TO_PEER_ERROR_def handle_alert_def skip_early_data_def deliver_data_def dispatch_record_def
  skips_early_data_def open_record_def handle_record_def dispose_record_def handle_input_def tls12_text_length_def
  handle_record_tls12_def handle_input_tls12_def receive_code_def handle_any_input_def ptls_receive_def
  ptls_get_read_epoch_def raw_emitter_def handle_fragment_act_def ptls_client_handle_message_def
  ptls_server_handle_message_def ptls_handle_message_def zero_tls_def psk_consistent_def new_instance_def
  ptls_client_new_def ptls_server_new_def ptls_handshake_is_complete_def
  grow_capacity.simps decode_while.simps hkdf_expand_loop.simps buffer_push_encrypted_records.simps
  handle_messages.simps select_cipher_loop.simps negotiated_group_loop.simps act_extension_loop.simps
  find_outer_extension.simps rebuild_references.simps rebuild_extension_loop.simps receive_loop.simps

lemma toy_client_completes:
  "case toy_client_run of None \<Rightarrow> False | Some u \<Rightarrow>
     ptls_handshake_is_complete u \<and> \<not> tls_is_psk_handshake u \<and> toy_receives u"
  by (simp add: toy_client_run_def toy_eval model_eval state_le_defs cong: weak_congs)

lemma toy_server_completes:
  "case toy_server_run of None \<Rightarrow> False | Some u \<Rightarrow> ptls_handshake_is_complete u \<and> toy_receives u"
  by (simp add: toy_server_run_def toy_eval model_eval state_le_defs cong: weak_congs)

section \<open>The runs as lives of a connection\<close>

lemma toy_client_created: "ptls_client_new toy_alloc 0 0 toy_ctx = Some toy_client"
  by (simp add: toy_eval model_eval cong: weak_congs)

lemma toy_server_created: "ptls_server_new toy_alloc 0 0 toy_server_ctx = Some toy_server"
  by (simp add: toy_eval model_eval cong: weak_congs)

lemma toy_step_life:
  assumes "toy_step ret epoch input x = Some u" "carries_on ret" "\<And>t. x = Some t \<Longrightarrow> life toy_env True s t"
  shows "life toy_env True s u"
proof -
  obtain t em where t: "x = Some t"
    and run: "ptls_handle_message toy_env t toy_buf toy_offsets epoch input None = Some (ret, u, em)"
    using assms(1) by (auto simp: toy_step_def split: option.splits if_splits)
  from run have "api_call toy_env t ret u"
    by (rule api_call.handle_message)
  then show ?thesis
    using assms(2,3) t by (blast intro: life.call)
qed

lemma toy_client_life:
  "\<exists>u. life toy_env True toy_client u \<and> ptls_handshake_is_complete u \<and> \<not> tls_is_psk_handshake u \<and> toy_receives u"
proof (cases toy_client_run)
  case (Some u)
  then have "life toy_env True toy_client u"
    unfolding toy_client_run_def by (auto elim!: toy_step_life simp: carries_on_def intro: life.created)
  then show ?thesis
    using toy_client_completes unfolding Some option.case by blast
qed (use toy_client_completes in simp)

lemma toy_server_life: "\<exists>u. life toy_env True toy_server u \<and> ptls_handshake_is_complete u \<and> toy_receives u"
proof (cases toy_server_run)
  case (Some u)
  then have "life toy_env True toy_server u"
    unfolding toy_server_run_def by (auto elim!: toy_step_life simp: carries_on_def intro: life.created)
  then show ?thesis
    using toy_server_completes unfolding Some option.case by blast
qed (use toy_server_completes in simp)

text \<open>What the properties ask of the parameters holds of these.\<close>

lemma toy_env_ok: "env_ok toy_env" "auth_env toy_env"
  by (simp_all add: env_ok_def auth_env_def hello_cb_moves_def toy_env_sel)

lemma toy_verifiers: "definite_verifier toy_ctx" "requires_certificate toy_server_ctx"
  by (auto simp: definite_verifier_def requires_certificate_def definite_verdict_def carries_on_def
      toy_ctx_sel toy_server_ctx_def)

lemma toy_alloc_ok: "alloc_ok toy_alloc" "alloc_ok (env_alloc toy_env)"
  by (simp_all add: alloc_ok_def toy_env_sel toy_alloc_def)

lemma toy_aead_ok: "aead_ok toy_aead"
  by (auto simp: aead_ok_def toy_aead_sel split: if_splits)

lemma toy_ends:
  "linked toy_writer toy_reader" "\<not> tls_tx_detached toy_writer" "\<not> tls_needs_key_update toy_writer"
  "tp_seq (tls_enc toy_writer) < 16777216"
  using toy_aead_ok
  by (simp_all add: linked_def prot_sync_def same_key_def between_records_def toy_writer_def toy_reader_def
      toy_protection_def toy_eval model_eval state_le_defs cong: weak_congs)

end
