(* ===== verification/Spec2Isabelle.thy ===== *)
theory Spec2Isabelle
  imports Records Ech Base64 Ciphers Asn1 SampleRun
begin

text \<open>
  zpicotls is an implementation of TLS 1.3 (with a TLS 1.2 record layer for connections that
  were imported) in C.  This development models the protocol core \<^verbatim>\<open>src/lib/picotls.c\<close> with its
  header \<^verbatim>\<open>src/include/zpicotls.h\<close>, and the components around it that are written in the same
  repository: HPKE, Base64 and PEM, the ASN.1 reader with the private key loader, certificate
  compression, and the ciphers composed of other ciphers.

  \<^bold>\<open>Conventions.\<close>  Octets are \<open>8 word\<close>, an octet string is a list of them, and every C integer has its
  width where it can wrap around.  A return code is an \<open>int\<close>; a fallible function returns
  \<open>'a res = int + 'a\<close>.  An encoder is a \<open>pusher\<close>, a function from a buffer to a code and the buffer
  left behind, with the allocator \<open>M\<close> as a parameter so that every allocation can fail.  A decoder maps
  the octets up to \<open>end\<close> to a value and the rest.  A function on a connection is an action
  (\<open>Connection.act\<close>): it maps the state to a code or result and the state left behind, and is \<open>None\<close>
  when the source would dereference \<open>NULL\<close> or fail an assertion.  Callbacks and cryptographic backends are
  fields of the records that hold them in the source (\<open>ptls_hash_algorithm\<close>, \<open>ptls_aead_algorithm\<close>,
  \<open>ptls_key_exchange_algorithm\<close>, \<open>ptls_context\<close>); what is asked of a backend is a named hypothesis
  (\<open>hash_ok\<close>, \<open>aead_ok\<close>, \<open>kx_agree\<close>, \<open>stream_cipher\<close>), and the witnesses instantiate it by concrete functions.

  \<^bold>\<open>The theories and the code.\<close>
  \<^item> \<open>Prelude\<close>: return codes, \<open>res\<close>, big-endian numbers.
  \<^item> \<open>Buffer\<close>: \<open>ptls_buffer_t\<close>, \<open>ptls_buffer_reserve_aligned\<close>, the push macros and blocks.  The contract
    \<open>pushes\<close> says which octets an encoder appends and how it may fail; encoders are composed by its
    introduction rules.
  \<^item> \<open>Decode\<close>, \<open>Extensions\<close>: integer decoders, blocks, loops over a block, \<open>extension_bitmap_testandset\<close> and
    \<open>decode_extensions\<close>; round trips and exactly which extension lists are accepted.
  \<^item> \<open>Hash\<close>: hash contexts, HMAC, HKDF, \<open>ptls_hkdf_expand_label\<close>, \<open>ptls_tls12_phash\<close>, against the
    definitions of RFC 2104, 5869, 8446 and 5246.
  \<^item> \<open>Aead\<close>, \<open>Records\<close>: nonces, record protection (\<open>buffer_push_encrypted_records\<close>,
    \<open>buffer_encrypt_record\<close>), the incremental parser \<open>parse_record\<close>, the removal of the protection and the
    reassembly of handshake messages (\<open>handle_handshake_record\<close>); the locale \<open>protection\<close> is
    interpreted for both protocol versions.
  \<^item> \<open>KeySchedule\<close>: \<open>st_ptls_key_schedule_t\<close> and its functions; extracted secrets, selection of one hash,
    transcripts across a HelloRetryRequest.
  \<^item> \<open>Tickets\<close>: session identifiers, NewSessionTicket and stored tickets, Finished and CertificateVerify data.
  \<^item> \<open>Negotiate\<close>: versions, signature algorithms, \<open>select_cipher\<close>, key shares and groups, server names.
  \<^item> \<open>Hpke\<close>, \<open>Ech\<close>: \<^verbatim>\<open>lib/hpke.c\<close>; ECHConfig writing and choice, \<open>client_setup_ech\<close>.
  \<^item> \<open>Connection\<close>: \<open>struct st_ptls_t\<close> as a record, installing and updating keys, the two message emitters,
    tickets, sending, alerts, the detached sending half \<open>ptls_tx_t\<close>, exporters.
  \<^item> \<open>Authentication\<close>: CertificateRequest, Certificate, CertificateVerify, EndOfEarlyData and Finished, their
    emission and their handlers; \<^verbatim>\<open>lib/certificate_compression.c\<close>.
  \<^item> \<open>Base64\<close>, \<open>Asn1\<close>: \<^verbatim>\<open>lib/pembase64.c\<close>, \<^verbatim>\<open>lib/asn1.c\<close>, \<^verbatim>\<open>lib/minicrypto-pem.c\<close>.
  \<^item> \<open>Ciphers\<close>: \<^verbatim>\<open>lib/ffx.c\<close>, \<^verbatim>\<open>lib/quiclb-impl.h\<close>, \<^verbatim>\<open>lib/chacha20poly1305.h\<close>.

  \<^bold>\<open>What is shown.\<close>  Records and messages: what the sender protects the receiver recovers, whatever the
  fragmentation; a nonce is never used twice.  Keys: the secrets are those of RFC 8446, on both sides of a
  retry; a Finished message is accepted exactly when it is the expected one.  Negotiation: the selected
  suite and share are those of a declarative policy.  Tickets, HPKE, ECH, PEM files, QUIC-LB, FFX and
  ChaCha20-Poly1305: the inverse operation gives back the input.  Errors: the places where the
  code reads out of bounds, reports success without a result, or accepts what its documentation
  excludes are theorems as well.

  \<^bold>\<open>Bounds and fuel.\<close>  Loops that consume input recurse on its length; a round that would consume nothing
  is the value \<open>loop_stuck\<close>, and the decoders are shown not to reach it.  The ASN.1 reader carries the depth
  limit of the source and, for the loop over siblings, as much fuel as there are octets, which is
  enough because every element takes at least one.  Everything else is structurally recursive or has a measure.

  \<^bold>\<open>Not modelled.\<close>
  \<^item> ClientHello, ServerHello, EncryptedExtensions and the functions that connect them into the
    handshake state machine (\<open>send_client_hello\<close>, \<open>client_handle_hello\<close>, \<open>server_handle_hello\<close>,
    \<open>handle_input\<close>, \<open>ptls_handshake\<close>, \<open>ptls_receive\<close>), and \<open>ptls_export\<close> and \<open>ptls_import\<close>.
  \<^item> The cryptographic backends (\<^verbatim>\<open>lib/openssl.c\<close>, \<^verbatim>\<open>lib/mbedtls.c\<close>, \<^verbatim>\<open>lib/mbedtls_sign.c\<close>,
    \<^verbatim>\<open>lib/ptlsbcrypt.c\<close>, \<^verbatim>\<open>lib/cifra\<close>, \<^verbatim>\<open>lib/uecc.c\<close>, \<^verbatim>\<open>lib/libaegis.h\<close>): they adapt third-party libraries,
    which are not read here; \<^verbatim>\<open>lib/fusion.c\<close> is written in vector intrinsics.  They are the parameters
    described above.
  \<^item> Logging and probes (\<open>ptls_log_*\<close>, \<open>PTLS_PROBE\<close>): output only.  Clearing of memory before it is freed
    has no counterpart in a model without addresses.
  \<^item> \<^verbatim>\<open>deps\<close> (cifra, micro-ecc: third-party sources), \<^verbatim>\<open>t\<close> and \<^verbatim>\<open>fuzz\<close> (tests and drivers), build files.
\<close>

unbundle bit_operations_syntax

section \<open>Concrete instances for the witnesses\<close>

text \<open>An allocator that always succeeds, a four-octet checksum in the place of a hash
  function, and a cipher that appends a two-octet tag computed from the nonce.\<close>

definition sample_alloc :: allocator where
  "sample_alloc b c a = Some 4096"

definition sample_hash :: ptls_hash_algorithm where
  "sample_hash = \<lparr>hash_addr = 1, hash_name = ''sum'', hash_block_size = 8, hash_digest_size = 4,
     hash_empty_digest = [1, 0, 1, 0],
     hash_fn = (\<lambda>x. let s = foldl (\<lambda>s b. s * 3 + b) 1 x in [s, of_nat (length x), s, 0]),
     hash_can_create = True\<rparr>"

definition sample_aead :: ptls_aead_algorithm where
  "sample_aead = \<lparr>aead_name = ''tag'', aead_key_size = 4, aead_iv_size = 8, aead_tag_size = 2,
     aead_tls12_fixed_iv_size = 0, aead_tls12_record_iv_size = 0, aead_align_bits = 0,
     aead_seal = (\<lambda>k n a p. p @ [foldl (+) 0 (k @ n), of_nat (length a)]),
     aead_open = (\<lambda>k n a c. if length c < 2 then None
        else if drop (length c - 2) c = [foldl (+) 0 (k @ n), of_nat (length a)]
        then Some (take (length c - 2) c) else None),
     aead_can_create = True\<rparr>"

lemma sample_alloc_ok: "alloc_ok sample_alloc"
  by (simp add: alloc_ok_def sample_alloc_def)

lemma sample_hash_ok: "hash_ok sample_hash"
  by (simp add: hash_ok_def sample_hash_def Let_def)

lemma sample_aead_ok: "aead_ok sample_aead"
  by (auto simp: aead_ok_def sample_aead_def split: if_splits)

section \<open>Whole connections\<close>









text \<open>C5. Data that is sent arrives: between two ends with the same traffic key, as long as no key update is due and memory can
  be had, \<open>ptls_send\<close> returns 0 for data of any length, and an application that calls \<open>ptls_receive\<close> until the octets it
  wrote are consumed gets exactly that data, after which the two ends still agree.\<close>

theorem data_arrives:
  assumes "linked s r" "alloc_ok M" "alloc_ok (env_alloc E)" "buf_ok b"
    and "\<not> tls_tx_detached s" "\<not> tls_needs_key_update s" "tp_seq (tls_enc s) < 16777216"
    and "push_ready b (269 * length input)" "room_for db (269 * length input)"
  shows "\<exists>s' b' out r' db'. ptls_send M s b input = Some (0, s', b') \<and> buf_data b' = buf_data b @ out
    \<and> receive_all E r db out = Some (0, r', db') \<and> buf_data db' = buf_data db @ input \<and> linked s' r'"
  using assms by (rule sent_data_received)

lemma data_arrives_witness:
  "\<exists>s' b' r' db'. ptls_send toy_alloc toy_writer toy_buf [104, 105] = Some (0, s', b')
    \<and> receive_all toy_env toy_reader toy_inbuf (buf_data b') = Some (0, r', db') \<and> buf_data db' = [104, 105]"
proof -
  have "buf_ok toy_buf" "push_ready toy_buf (269 * length [104 :: byte, 105])" "room_for toy_inbuf (269 * length [104 :: byte, 105])"
    by (simp_all add: toy_buf_def toy_inbuf_def ptls_buffer_init_def buf_ok_def push_ready_def room_for_def)
  then show ?thesis
    using data_arrives [OF toy_ends(1) toy_alloc_ok _ toy_ends(2-4), of toy_buf "[104, 105]" toy_inbuf]
    by (auto simp: toy_buf_def toy_inbuf_def ptls_buffer_init_def)
qed

text \<open>C6. Whatever calls an application makes on a connection, failing ones included, the connection keeps the role it was
  created with, is always in a state of that role, and never comes to read TLS 1.2 records.\<close>

theorem connection_keeps_role:
  assumes "(if is_server then ptls_server_new else ptls_client_new) M sz rng ctx = Some s" "life E False s u" "env_ok E"
  shows "tls_is_server u = is_server \<and> tls_state u \<in> role_states is_server \<and> \<not> tp_tls12 (tls_dec u)"
proof -
  have s: "tls_is_server s = is_server" "role_ok s" "\<not> tp_tls12 (tls_dec s)"
    using assms(1) ptls_client_new_state [of M sz rng ctx s] ptls_server_new_state [of M sz rng ctx s]
    by (cases is_server; simp)+
  then have u: "runs E False is_server s u" "role_ok u"
    using life_runs [OF assms(2,3) s(2)] by simp_all
  then have "tls_is_server u = is_server"
    using runs_role [OF u(1) assms(3)] s(1) by simp
  then show ?thesis
    using u runs_not_tls12 [OF u(1) assms(3) s(3)] by (simp add: role_ok_def)
qed

lemma connection_keeps_role_witness:
  "\<exists>u. ptls_handshake_is_complete u \<and> tls_is_server u = True \<and> tls_state u \<in> role_states True \<and> \<not> tp_tls12 (tls_dec u)"
proof -
  obtain u where u: "life toy_env True toy_server u" "ptls_handshake_is_complete u"
    using toy_server_life by blast
  from u(1) have "life toy_env False toy_server u"
    by (induction rule: life.induct) (auto intro: life.intros)
  then show ?thesis
    using connection_keeps_role [of True toy_alloc 0 0 toy_server_ctx toy_server toy_env u] toy_server_created toy_env_ok(1) u(2)
    by auto
qed

section \<open>The record layer\<close>

text \<open>C7. Data pushed as TLS 1.3 encrypted records is what the peer gets back: whatever
  \<open>buffer_push_encrypted_records\<close> appended parses into records that, removed of their protection in
  order by a peer with the same key, IV and sequence number, give the content type and the data,
  and leave the two sequence numbers equal.\<close>

theorem encrypted_records_round_trip:
  assumes "prot_sync False (aead, tp) dec" "type \<noteq> 0" "buf_ok b"
    and "buffer_push_encrypted_records M type src aead tp b = (0, tp', b')"
  shows "\<exists>out rs dec' ps. buf_data b' = buf_data b @ out \<and> parse_all M' out = Inr rs
    \<and> unprotect_list tls13_unprotect dec rs = Inr (map (Pair type) ps, dec')
    \<and> concat ps = src \<and> prot_sync False (aead, tp') dec'"
  using assms by (rule tls13_records_round_trip)

definition sample_ctx :: ptls_aead_context where
  "sample_ctx = \<lparr>actx_algo = sample_aead, actx_is_enc = True, actx_key = [1, 2, 3, 4],
     actx_iv = [0, 0, 0, 0, 0, 0, 0, 9]\<rparr>"

definition sample_tp :: st_ptls_traffic_protection where
  "sample_tp = \<lparr>tp_secret = [], tp_epoch = 3, tp_aead = None, tp_seq = 7, tp_tls12 = False,
     tp_tls12_enc_record_iv = 0\<rparr>"

definition sample_push :: "int \<times> st_ptls_traffic_protection \<times> ptls_buffer" where
  "sample_push = buffer_push_encrypted_records sample_alloc 23 [104, 105] sample_ctx sample_tp
     (ptls_buffer_init 1 64 True)"

lemma encrypted_records_round_trip_witness:
  "\<exists>out rs dec' ps. buf_data (snd (snd sample_push)) = [] @ out \<and> parse_all sample_alloc out = Inr rs
    \<and> unprotect_list tls13_unprotect (sample_ctx, sample_tp) rs = Inr (map (Pair 23) ps, dec')
    \<and> concat ps = [104, 105] \<and> prot_sync False (sample_ctx, fst (snd sample_push)) dec'"
proof -
  have "fst sample_push = 0"
    by (simp add: sample_push_def buffer_push_encrypted_records.simps protect_chunk_def aead_encrypt_def
        Let_def buffer_push_record_def push_then_def ptls_buffer__do_pushv_def ptls_buffer_reserve_def
        ptls_buffer_reserve_aligned_def buffer_require_direction_def ptls_buffer_init_def
        ptls_buffer_push_block_def reserve_and_write_def sample_ctx_def sample_tp_def sample_aead_def
        ptls_aead_encrypt_v_def ptls_aead_encrypt_def)
  then have "buffer_push_encrypted_records sample_alloc 23 [104, 105] sample_ctx sample_tp
     (ptls_buffer_init 1 64 True) = (0, fst (snd sample_push), snd (snd sample_push))"
    unfolding sample_push_def [symmetric] by (simp add: prod_eq_iff)
  moreover have "prot_sync False (sample_ctx, sample_tp) (sample_ctx, sample_tp)"
    using sample_aead_ok by (simp add: prot_sync_def same_key_def sample_ctx_def sample_tp_def)
  ultimately show ?thesis
    using encrypted_records_round_trip [of sample_ctx sample_tp "(sample_ctx, sample_tp)" 23
        "ptls_buffer_init 1 64 True"]
    by (simp add: buf_ok_init) (simp add: ptls_buffer_init_def)
qed

text \<open>C8. The incremental record parser returns the record the stream starts with: for every way to cut
  the octets of a well-formed record (and whatever follows it) into non-empty pieces, and whatever part of it is
  already buffered, \<open>parse_record\<close> asks for more until the record is complete, then reports its type,
  version and fragment.\<close>

theorem incremental_record_parse:
  assumes "alloc_ok M" "record_ok t f" "[] \<notin> set cs"
    and "holds rb p" "p @ concat cs = enc_record t v f @ rest" "length p < 5 + length f"
  shows "feed_pieces M rb cs
    = (0, \<lparr>rec_type = t, rec_version = v, rec_length = length f, rec_fragment = Some f\<rparr>)"
  using assms by (rule feed_pieces_record)

lemma incremental_record_parse_witness:
  "feed_pieces sample_alloc (ptls_buffer_dispose (ptls_buffer_init 1 0 False)) [[22, 3], [3, 0, 2, 65], [66, 23]]
    = (0, \<lparr>rec_type = 22, rec_version = 0x0303, rec_length = 2, rec_fragment = Some [65, 66]\<rparr>)"
proof -
  have "record_ok 22 [65, 66]"
    by (simp add: record_ok_def record_types_def record_limit_def)
  moreover have "[] @ concat [[22, 3], [3, 0, 2, 65], [66, 23]] = enc_record 22 0x0303 [65, 66] @ [23]"
    by (simp add: enc_record_def enc16_def enc_block_def be_bytes_numeral drop_bit_eq_div)
  moreover have "holds (ptls_buffer_dispose (ptls_buffer_init 1 0 False)) []"
    by (simp add: holds_def ptls_buffer_dispose_def)
  ultimately show ?thesis
    using incremental_record_parse [OF sample_alloc_ok, of 22 "[65, 66]"
        "[[22, 3], [3, 0, 2, 65], [66, 23]]" "ptls_buffer_dispose (ptls_buffer_init 1 0 False)" "[]" "0x0303" "[23]"]
    by simp
qed




text \<open>C10. No nonce is used twice under one key: for an AEAD whose IV has at least eight octets, two records
  with different sequence numbers are sealed under different nonces of the full IV length.\<close>

theorem nonces_distinct:
  assumes "length static_iv = aead_iv_size algo" "8 \<le> aead_iv_size algo" "s \<noteq> t"
  shows "ptls_aead__build_iv algo static_iv s \<noteq> ptls_aead__build_iv algo static_iv t
    \<and> length (ptls_aead__build_iv algo static_iv s) = aead_iv_size algo"
  using build_iv_inj_aux [OF assms(1,2)] build_iv_length [OF assms(1,2)] assms(3) by blast

lemma nonces_distinct_witness:
  "ptls_aead__build_iv sample_aead [0, 0, 0, 0, 0, 0, 0, 9] 1 \<noteq> ptls_aead__build_iv sample_aead [0, 0, 0, 0, 0, 0, 0, 9] 2
    \<and> length (ptls_aead__build_iv sample_aead [0, 0, 0, 0, 0, 0, 0, 9] 1) = aead_iv_size sample_aead"
  using nonces_distinct [of "[0, 0, 0, 0, 0, 0, 0, 9]" sample_aead 1 2] by (simp add: sample_aead_def)

section \<open>The key schedule\<close>

text \<open>C11. The three extractions of a fresh key schedule are the Early, Handshake and Master Secret of RFC 8446,
  section 7.1, for the PSK and the key exchange output that were fed in; the transcripts are untouched.\<close>

theorem key_schedule_rfc8446:
  assumes "hash_usable (ks_algo sched)" "alloc_ok M" "ks_generation sched = 0" "ks_secret sched = replicate 64 0"
  shows "\<exists>s1 s2 s3. key_schedule_extract M sched (Some psk) = Inr s1
    \<and> key_schedule_extract M s1 (Some dhe) = Inr s2 \<and> key_schedule_extract M s2 None = Inr s3
    \<and> take (ks_digest_size sched) (ks_secret s1) = rfc_early_secret (ks_algo sched) psk
    \<and> take (ks_digest_size sched) (ks_secret s2) = rfc_handshake_secret (ks_algo sched) psk dhe
    \<and> take (ks_digest_size sched) (ks_secret s3) = rfc_master_secret (ks_algo sched) psk dhe
    \<and> ks_generation s3 = 3 \<and> ks_hashes s3 = ks_hashes sched"
  using assms by (rule three_extractions)

definition sample_sched :: ptls_key_schedule where
  "sample_sched = \<lparr>ks_generation = 0, ks_secret = replicate 64 0, ks_hashes = [slot_of [1, 2] None sample_hash]\<rparr>"

lemma sample_hash_usable: "hash_usable sample_hash"
  using sample_hash_ok by (simp add: hash_usable_def) (simp add: sample_hash_def)

lemma sample_hash_size [simp]: "hash_digest_size sample_hash = 4"
  by (simp add: sample_hash_def)

lemma key_schedule_rfc8446_witness:
  "\<exists>s1 s2 s3. key_schedule_extract sample_alloc sample_sched (Some [7]) = Inr s1
    \<and> key_schedule_extract sample_alloc s1 (Some [8]) = Inr s2 \<and> key_schedule_extract sample_alloc s2 None = Inr s3
    \<and> take 4 (ks_secret s1) = rfc_early_secret sample_hash [7]
    \<and> take 4 (ks_secret s2) = rfc_handshake_secret sample_hash [7] [8]
    \<and> take 4 (ks_secret s3) = rfc_master_secret sample_hash [7] [8]
    \<and> ks_generation s3 = 3 \<and> ks_hashes s3 = [slot_of [1, 2] None sample_hash]"
  using key_schedule_rfc8446 [of sample_sched sample_alloc "[7]" "[8]"] sample_alloc_ok sample_hash_usable
  by (simp add: sample_sched_def)

text \<open>C12. Selecting a suite after the ClientHello leaves the schedule of a client that had offered that suite
  alone: whichever hash algorithms were tracked in parallel, the remaining slot, its transcript and the early
  secret are those of a schedule created for the selected suite only.\<close>

theorem select_cipher_as_if_single:
  assumes "alloc_ok M" "foreach_hash preferred offered = algo # algos"
    and "\<forall>a \<in> set (algo # algos). hash_usable a"
    and "client_schedule M preferred offered use_outer ikm msgs = Inr sched"
    and "\<forall>a \<in> set (algo # algos). same_hash a (cs_hash cs) \<longrightarrow> a = cs_hash cs"
    and "cs_hash cs \<in> set (algo # algos)"
  shows "\<exists>sched'. key_schedule_select_cipher M sched cs False ikm = Some (Inr sched')
    \<and> client_schedule M (Some cs) None use_outer ikm msgs = Inr sched'"
  using assms by (rule select_cipher_eq)

definition sample_hash2 :: ptls_hash_algorithm where
  "sample_hash2 = sample_hash\<lparr>hash_addr := 2, hash_name := ''sum2''\<rparr>"

definition sample_suite :: "16 word \<Rightarrow> ptls_hash_algorithm \<Rightarrow> ptls_cipher_suite" where
  "sample_suite cid h = \<lparr>cs_id = cid, cs_aead = sample_aead, cs_hash = h, cs_name = ''suite''\<rparr>"

lemma sample_hash2_usable: "hash_usable sample_hash2"
  using sample_hash_ok by (simp add: hash_usable_def hash_ok_def sample_hash2_def) (simp add: sample_hash_def)

lemma sample_hashes_distinct: "\<not> same_hash sample_hash2 sample_hash" "\<not> same_hash sample_hash sample_hash2"
  by (simp_all add: same_hash_def sample_hash2_def) (simp_all add: sample_hash_def)

lemma select_cipher_as_if_single_witness:
  "\<exists>sched sched'. client_schedule sample_alloc None
        (Some [sample_suite 1 sample_hash, sample_suite 2 sample_hash2]) False None [[1, 2], [3]] = Inr sched
    \<and> key_schedule_select_cipher sample_alloc sched (sample_suite 2 sample_hash2) False None = Some (Inr sched')
    \<and> client_schedule sample_alloc (Some (sample_suite 2 sample_hash2)) None False None [[1, 2], [3]] = Inr sched'"
proof -
  let ?off = "Some [sample_suite 1 sample_hash, sample_suite 2 sample_hash2]"
  have f: "foreach_hash None ?off = [sample_hash, sample_hash2]"
    using sample_hashes_distinct by (simp add: foreach_hash_def sample_suite_def)
  have u: "\<forall>a \<in> set [sample_hash, sample_hash2]. hash_usable a"
    using sample_hash_usable sample_hash2_usable by simp
  obtain sched where s: "client_schedule sample_alloc None ?off False None [[1, 2], [3]] = Inr sched"
    using client_schedule_eq [OF sample_alloc_ok f u] by blast
  have "\<forall>a \<in> set [sample_hash, sample_hash2]. same_hash a (cs_hash (sample_suite 2 sample_hash2))
      \<longrightarrow> a = cs_hash (sample_suite 2 sample_hash2)"
    using sample_hashes_distinct by (simp add: sample_suite_def)
  then have "\<exists>sched'. key_schedule_select_cipher sample_alloc sched (sample_suite 2 sample_hash2) False None = Some (Inr sched')
    \<and> client_schedule sample_alloc (Some (sample_suite 2 sample_hash2)) None False None [[1, 2], [3]] = Inr sched'"
    by (rule select_cipher_as_if_single [OF sample_alloc_ok f u s]) (simp add: sample_suite_def)
  then show ?thesis
    using s by blast
qed


text \<open>C14. After a HelloRetryRequest the stateful peer (which replaces the transcript of the first ClientHello by
  its hash) and the stateless server (which feeds the hash it kept in the cookie into a fresh transcript) hold the
  same transcript, the synthetic message of RFC 8446, section 4.4.1.\<close>

theorem retry_transcripts_agree:
  assumes "ks_hashes sched = [slot_of ch1 None algo]" "ks_hashes fresh = [slot_of [] None algo]"
  shows "ks_hashes (key_schedule_transform_post_ch1hash sched)
      = [slot_of ([254, 0, 0, of_nat (hash_digest_size algo)] @ hash_fn algo ch1) None algo]
    \<and> ks_hashes (ptls__key_schedule_update_hash (key_schedule_update_ch1hash_prefix fresh)
          (fst (key_schedule_extract_ch1hash sched)) False)
      = ks_hashes (key_schedule_transform_post_ch1hash sched)"
  using transform_post_ch1hash_eq [OF assms(1)] ch1hash_from_cookie [OF assms(2)] assms(1)
  by (simp add: key_schedule_extract_ch1hash_def hash_ctx_digest_def hash_final_def)

lemma retry_transcripts_agree_witness:
  "ks_hashes (key_schedule_transform_post_ch1hash sample_sched)
      = [slot_of ([254, 0, 0, 4] @ hash_fn sample_hash [1, 2]) None sample_hash]"
  using retry_transcripts_agree [of sample_sched "[1, 2]" sample_hash
      "sample_sched\<lparr>ks_hashes := [slot_of [] None sample_hash]\<rparr>"]
  by (simp add: sample_sched_def)

section \<open>Key derivation\<close>





section \<open>Encoding and decoding\<close>

text \<open>C17. \<open>ptls_buffer_push_block\<close> writes the length of the body in front of it: if the body appends
  \<open>bs\<close> and its length fits, the block appends the length in \<open>capacity\<close> octets and the body, it fails only for
  lack of memory (or on a receive buffer a transmit-only body refuses) and not at all while memory lasts; if the
  length does not fit, it reports \<open>PTLS_ERROR_BLOCK_OVERFLOW\<close> and never returns zero.\<close>

theorem push_block_correct:
  assumes "pushes M block bs" "capacity < 8" "buf_ok b"
    and "ptls_buffer_push_block M capacity block b = (r, b')"
  shows "if length bs < 2 ^ (capacity * 8)
    then grew b b' \<and> (r = 0 \<and> buf_data b' = buf_data b @ enc_block capacity bs \<or> push_failure b r)
      \<and> (alloc_ok M \<longrightarrow> push_ready b (capacity + length bs) \<longrightarrow> r = 0)
    else r = PTLS_ERROR_BLOCK_OVERFLOW \<or> push_failure b r"
  using pushesD [OF pushes_block [OF assms(1), of capacity] assms(3,4)]
    push_block_overflow_code [OF assms(1,2) _ assms(3,4)]
  by (simp add: not_less)

lemma push_block_correct_witness:
  "fst (ptls_buffer_push_block sample_alloc 2 (ptls_buffer__do_pushv sample_alloc [9, 9]) (ptls_buffer_init 1 8 True)) = 0
   \<and> buf_data (snd (ptls_buffer_push_block sample_alloc 2 (ptls_buffer__do_pushv sample_alloc [9, 9])
        (ptls_buffer_init 1 8 True))) = [0, 2, 9, 9]"
proof -
  obtain r b' where e: "ptls_buffer_push_block sample_alloc 2 (ptls_buffer__do_pushv sample_alloc [9, 9])
      (ptls_buffer_init 1 8 True) = (r, b')" by fastforce
  have "push_ready (ptls_buffer_init 1 8 True) 4" "buf_data (ptls_buffer_init 1 8 True) = []"
    by (simp_all add: push_ready_def ptls_buffer_init_def)
  then show ?thesis
    using push_block_correct [OF pushes_pushv _ _ e] sample_alloc_ok e
    by (auto simp: buf_ok_init enc_block_def be_bytes_numeral)
qed



text \<open>C19. Every QUIC integer below 2 to the 62 is decoded to itself, leaving exactly the octets that follow it.\<close>

theorem quicint_round_trip:
  assumes "v \<le> 4611686018427387903"
  shows "ptls_decode_quicint (ptls_encode_quicint v @ rest) = (v, rest)"
  using assms by (rule quicint_codec)

lemma quicint_round_trip_witness:
  "ptls_decode_quicint (ptls_encode_quicint 494878333 @ [1]) = (494878333, [1])"
  using quicint_round_trip [of 494878333 "[1]"] by simp

text \<open>C20. The extension loop accepts exactly the well-formed extension blocks: a 16-bit length and a sequence of
  extensions in which every recognised type is permitted in this message and occurs once, and whose bodies the
  handler uses up; the result is that of the handlers in order.\<close>

theorem extensions_accepted_iff:
  assumes "hs \<in> set ext_hstypes"
  shows "decode_extensions hs block s src = Inr s' \<longleftrightarrow>
    (\<exists>es. src = enc_block 2 (concat (map enc_ext es)) \<and> length (concat (map enc_ext es)) < 65536
       \<and> (\<forall>t \<in> fst ` set es. ext_known t \<longrightarrow> ext_allowed hs t)
       \<and> distinct (filter ext_known (map fst es))
       \<and> (\<forall>e \<in> set es. length (snd e) < 65536) \<and> run_exts block s es = Inr s')"
  unfolding decode_extensions_iff [OF assms] exts_ok_iff by auto

lemma extensions_accepted_iff_witness:
  "decode_extensions PTLS_HANDSHAKE_TYPE_SERVER_HELLO (\<lambda>t s b. Inr (t # s, [])) [] [0, 6, 0, 43, 0, 2, 3, 4] = Inr [43]"
proof -
  have "enc_block 2 (concat (map enc_ext [(43, [3, 4])])) = [0, 6, 0, 43, 0, 2, 3, 4]"
    by (simp add: enc_ext_def enc_block_def enc16_def be_bytes_numeral drop_bit_eq_div)
  moreover have "ext_allowed PTLS_HANDSHAKE_TYPE_SERVER_HELLO 43"
    by code_simp
  ultimately show ?thesis
    unfolding extensions_accepted_iff [OF hstypes_mem(3)]
    by (intro exI [of _ "[(43, [3, 4])]"]) simp
qed

section \<open>Resumption\<close>

text \<open>C21. What a server seals in a ticket is what it reads back: a session identifier encoded from the key
  schedule (and that fits its fields) decodes to the time, the resumption secret, the identifiers, the age offset,
  the ticket context and the protocol it was made of.\<close>

theorem session_identifier_round_trip:
  assumes "si = new_session_identifier now tctx age nonce sched name kxid csid proto"
    and "sched_ok sched" "alloc_ok M" "length nonce < 256" "session_identifier_fits si"
    and "buf_ok b" "push_ready b (length (enc_session_identifier si))" "buf_data b = []"
  shows "\<exists>b'. encode_session_identifier M now tctx age nonce sched name kxid csid proto b = (0, b')
    \<and> decode_session_identifier (buf_data b') = Inr si"
  using session_identifier_spec [OF assms(1-7)] decode_enc_session_identifier [OF assms(5)] assms(8) by auto

lemma sample_sched_ok: "sched_ok sample_sched"
  using sample_hash_usable by (simp add: sched_ok_def sample_sched_def)

lemma session_identifier_round_trip_witness:
  "\<exists>b'. encode_session_identifier sample_alloc 5 None 6 [] sample_sched (Some ''host'') 29 0x1301 (Some ''h2'')
        (ptls_buffer_init 1 128 True) = (0, b')
    \<and> decode_session_identifier (buf_data b')
      = Inr (new_session_identifier 5 None 6 [] sample_sched (Some ''host'') 29 0x1301 (Some ''h2''))"
proof -
  let ?si = "new_session_identifier 5 None 6 [] sample_sched (Some ''host'') 29 0x1301 (Some ''h2'')"
  have l: "length (resumption_secret sample_sched []) = 4"
    using length_resumption_secret [OF sample_sched_ok] by (simp add: sample_sched_def)
  have "session_identifier_fits ?si"
    using l by (simp add: session_identifier_fits_def new_session_identifier_def session_ticket_ctx_def
        protocol_octets_def ascii_def)
  moreover have "push_ready (ptls_buffer_init 1 128 True) (length (enc_session_identifier ?si))"
    using l by (simp add: push_ready_def ptls_buffer_init_def enc_session_identifier_def new_session_identifier_def
        session_ticket_ctx_def protocol_octets_def ascii_def)
  moreover have "buf_data (ptls_buffer_init 1 128 True) = []"
    by (simp add: ptls_buffer_init_def)
  ultimately show ?thesis
    using session_identifier_round_trip [OF _ sample_sched_ok sample_alloc_ok, where si = ?si and nonce = "[]"
        and now = 5 and tctx = None and age = 6 and name = "Some ''host''" and kxid = 29 and csid = "0x1301"
        and proto = "Some ''h2''" and b = "ptls_buffer_init 1 128 True"]
    by (simp add: buf_ok_init)
qed

text \<open>C22. A ticket the client saved can be used: if handling a NewSessionTicket handed \<open>blob\<close> to the callback, then
  for seven days the client decodes from it the key exchange and the suite of the session, the resumption secret
  derived with the ticket's nonce, the ticket and its early data limit, and the age in milliseconds since then
  plus the offset of the ticket.\<close>

theorem saved_ticket_usable:
  assumes "sched_ok sched" "alloc_ok M" "length message < 16777216"
    and "client_handle_new_session_ticket M cb (Some save) obtained kx cs sched message = (ret, Some blob)"
    and "find (\<lambda>c. kx_id c = kx_id kx) kxs = Some kx" "find (\<lambda>c. cs_id c = cs_id cs) css = Some cs"
    and "obtained \<le> now" "now - obtained < 604800000"
  shows "\<exists>nst. decode_new_session_ticket cb (drop 4 message) = Inr nst
    \<and> decode_stored_session_ticket cb kxs css now blob
      = Inr \<lparr>sst_key_share = kx, sst_cs = cs, sst_secret = resumption_secret sched (nst_nonce nst),
             sst_obfuscated_ticket_age = ucast (now - obtained) + nst_age_add nst,
             sst_ticket = nst_ticket nst, sst_max_early_data_size = nst_max_early_data_size nst\<rparr>"
  using assms by (rule stored_ticket_round_trip)

definition sample_kx :: ptls_key_exchange_algorithm where
  "sample_kx = \<lparr>kx_id = 29, kx_name = ''kx'', kx_create = (\<lambda>seed. Inr (take 4 seed, take 4 seed)),
     kx_on_exchange = (\<lambda>priv pub. Inr (take 4 pub)), kx_exchange = (\<lambda>seed pub. Inr (take 4 seed, take 4 seed))\<rparr>"

definition sample_nst :: new_session_ticket where
  "sample_nst = \<lparr>nst_lifetime = 7, nst_age_add = 9, nst_nonce = [], nst_ticket = [1, 2], nst_max_early_data_size = 0\<rparr>"

definition sample_nst_message :: bytes where
  "sample_nst_message = [4, 0, 0, 17] @ enc_new_session_ticket sample_nst"

lemma sample_nst_decodes: "decode_new_session_ticket None (drop 4 sample_nst_message) = Inr sample_nst"
  using decode_enc_new_session_ticket [of sample_nst] by (simp add: sample_nst_message_def sample_nst_def)

lemma sample_nst_saved:
  "\<exists>blob. client_handle_new_session_ticket sample_alloc None (Some (\<lambda>_. 0)) 1000 sample_kx
      (sample_suite 0x1301 sample_hash) sample_sched sample_nst_message = (0, Some blob)"
proof -
  have d: "derive_resumption_secret sample_alloc sample_sched [] = Inr (resumption_secret sample_sched [])"
    "length (resumption_secret sample_sched []) = 4"
    using derive_resumption_secret_eq [OF sample_sched_ok sample_alloc_ok, of "[]"]
      length_resumption_secret [OF sample_sched_ok] by (simp_all add: sample_sched_def)
  have l: "length (drop 4 sample_nst_message) = 15"
    by (simp add: sample_nst_message_def enc_new_session_ticket_def sample_nst_def)
  then have ne: "drop 4 sample_nst_message \<noteq> []" by auto
  have "fst (push_stored_ticket sample_alloc 1000 29 0x1301 (drop 4 sample_nst_message) sample_sched []
      (ptls_buffer_init 1 0 False)) = 0"
    using d l ne
    by (simp add: push_stored_ticket_def push_then_def ptls_buffer_push64_def ptls_buffer_push16_def
        ptls_buffer_push_block_def push_resumption_secret_def push_derived_def ptls_buffer__do_pushv_def
        ptls_buffer_reserve_def ptls_buffer_reserve_aligned_def buffer_require_direction_def ptls_buffer_init_def
        buffer_alloc_def sample_alloc_def grow_capacity.simps Let_def enc64_def enc16_def poke_def
        sample_sched_def slot_of_def)
  then show ?thesis
    by (simp add: client_handle_new_session_ticket_def Let_def sample_nst_decodes case_prod_unfold)
      (simp add: sample_kx_def sample_suite_def sample_nst_def)
qed

lemma saved_ticket_usable_witness:
  "\<exists>blob. decode_stored_session_ticket None [sample_kx] [sample_suite 0x1301 sample_hash] 5000 blob
      = Inr \<lparr>sst_key_share = sample_kx, sst_cs = sample_suite 0x1301 sample_hash,
             sst_secret = resumption_secret sample_sched [], sst_obfuscated_ticket_age = 4009,
             sst_ticket = [1, 2], sst_max_early_data_size = 0\<rparr>"
proof -
  obtain blob where b: "client_handle_new_session_ticket sample_alloc None (Some (\<lambda>_. 0)) 1000 sample_kx
      (sample_suite 0x1301 sample_hash) sample_sched sample_nst_message = (0, Some blob)"
    using sample_nst_saved by blast
  have "length sample_nst_message < 16777216"
    by (simp add: sample_nst_message_def enc_new_session_ticket_def sample_nst_def)
  then show ?thesis
    using saved_ticket_usable [OF sample_sched_ok sample_alloc_ok _ b, of "[sample_kx]"
        "[sample_suite 0x1301 sample_hash]" 5000] sample_nst_decodes
    by (auto simp: sample_nst_def)
qed

section \<open>Authentication\<close>

text \<open>C23. A Finished message is accepted if and only if its body is the HMAC of the transcript under the finished
  key of the peer's traffic secret (RFC 8446, section 4.4.4); the message of any other length or content is
  rejected.\<close>

theorem finished_accepted_iff:
  assumes "sched_ok sched" "alloc_ok M"
  shows "verify_finished M sched secret message = 0
    \<longleftrightarrow> 4 \<le> length message \<and> drop 4 message = verify_data_spec sched secret"
  using assms by (rule verify_finished_iff)

lemma finished_accepted_iff_witness:
  "verify_finished sample_alloc sample_sched [5] ([20, 0, 0, 4] @ verify_data_spec sample_sched [5]) = 0
    \<and> verify_finished sample_alloc sample_sched [5] [20, 0, 0, 0] \<noteq> 0"
proof -
  have "length (verify_data_spec sample_sched [5]) = 4"
    using sched_ok_lengths(4) [OF sample_sched_ok] by (simp add: verify_data_spec_def Let_def) (simp add: sample_sched_def)
  then show ?thesis
    using finished_accepted_iff [OF sample_sched_ok sample_alloc_ok] by auto
qed

text \<open>C24. What a CertificateVerify signs determines the role of the signer and the transcript digest: two inputs
  to the signature that are equal were built for the same context string and the same digest, so a client's
  signature never verifies as a server's.\<close>

theorem signed_data_unambiguous:
  assumes "build_certificate_verify_signdata s1 c1 = build_certificate_verify_signdata s2 c2"
    and "0 \<notin> set (ascii c1)" "0 \<notin> set (ascii c2)"
  shows "ascii c1 = ascii c2 \<and> fst (hash_final (ksh_ctx (hd (ks_hashes s1))) PTLS_HASH_FINAL_MODE_SNAPSHOT)
    = fst (hash_final (ksh_ctx (hd (ks_hashes s2))) PTLS_HASH_FINAL_MODE_SNAPSHOT)"
  using assms by (rule signdata_inj)

lemma signed_data_unambiguous_witness:
  "build_certificate_verify_signdata sample_sched ''TLS 1.3, server CertificateVerify''
    \<noteq> build_certificate_verify_signdata sample_sched ''TLS 1.3, client CertificateVerify''"
  using signed_data_unambiguous [of sample_sched "''TLS 1.3, server CertificateVerify''" sample_sched
      "''TLS 1.3, client CertificateVerify''"]
  by (auto simp: ascii_def)

section \<open>Negotiation\<close>

text \<open>C25. The cipher suite selection implements its policy: with client preference the first offer that has a
  candidate; with server preference the first candidate that is offered, unless the client's first offer is
  ChaCha20-Poly1305, the server gives it priority and has it; \<open>handshake_failure\<close> exactly when nothing matches.\<close>

theorem select_cipher_policy:
  "select_cipher cands (concat (map enc16 ids)) server_preference chacha hash
     = (case select_cipher_spec cands ids server_preference chacha hash of
          Some c \<Rightarrow> Inr c | None \<Rightarrow> Inl PTLS_ALERT_HANDSHAKE_FAILURE)"
  by (rule select_cipher_eq_spec)

text \<open>C26. The key share that is selected is the first one in the client's order for a group the server has, with
  the first of the server's algorithms for it; every list of well-formed entries is accepted.\<close>

theorem select_key_share_first:
  assumes "\<forall>e \<in> set shares. length (snd e) < 65536"
  shows "select_key_share cands False (concat (map enc_key_share shares))
    = Inr (select_key_share_spec cands shares, [])"
  using assms by (rule select_key_share_eq_spec)

lemma select_key_share_first_witness:
  "select_key_share [sample_kx] False (concat (map enc_key_share [(23, [1]), (29, [2]), (29, [3])]))
    = Inr (Some (sample_kx, [2]), [])"
  using select_key_share_first [of "[(23, [1]), (29, [2]), (29, [3])]" "[sample_kx]"]
  by (simp add: select_key_share_spec_def sample_kx_def)

section \<open>HPKE\<close>

text \<open>C27. The two sides of HPKE agree: whenever the sender's setup succeeds against a receiver's public key, the
  receiver's setup with the matching private state and the encapsulated key succeeds and yields a context with
  the same algorithm, key and nonce, which therefore opens what the sender's seals.\<close>

theorem hpke_round_trip:
  assumes "kx_agree (kem_keyex kem)" "hash_usable (kem_hash kem)" "hash_usable (hcs_hash cipher)"
    and "alloc_ok M" "aead_ok (hcs_aead cipher)" "aead_can_create (hcs_aead cipher)"
    and "kx_create (kem_keyex kem) seed = Inr (pub, priv)" "length pub \<le> 2000" "length info \<le> 800000"
    and "ptls_hpke_setup_base_s M kem cipher seed' pub info = Inr (pk_s, Some ctx_s)"
  shows "\<exists>ctx_r. ptls_hpke_setup_base_r M kem cipher (pub, priv) pk_s info = Inr (Some ctx_r)
    \<and> ptls_aead_decrypt ctx_r (ptls_aead_encrypt ctx_s msg seq aad) seq aad = Some msg"
  using hpke_setup_agree [OF assms(1-4,6-10)] ptls_aead_decrypt_encrypt assms(5) by metis

definition sample_kem :: ptls_hpke_kem where
  "sample_kem = \<lparr>kem_id = 32, kem_keyex = sample_kx, kem_hash = sample_hash\<rparr>"

definition sample_hpke :: ptls_hpke_cipher_suite where
  "sample_hpke = \<lparr>hcs_kdf = 1, hcs_aead_id = 1, hcs_name = ''h'', hcs_hash = sample_hash, hcs_aead = sample_aead\<rparr>"

lemma hpke_round_trip_witness:
  "\<exists>pk_s ctx_s ctx_r. ptls_hpke_setup_base_s sample_alloc sample_kem sample_hpke [5, 6] [1, 2] [9] = Inr (pk_s, Some ctx_s)
    \<and> ptls_hpke_setup_base_r sample_alloc sample_kem sample_hpke ([1, 2], [1, 2]) pk_s [9] = Inr (Some ctx_r)
    \<and> ptls_aead_decrypt ctx_r (ptls_aead_encrypt ctx_s [7] 0 []) 0 [] = Some [7]"
proof -
  have kx: "kx_agree (kem_keyex sample_kem)"
    by (auto simp: kx_agree_def sample_kem_def sample_kx_def)
  have u: "hash_usable (kem_hash sample_kem)" "hash_usable (hcs_hash sample_hpke)"
    using sample_hash_usable by (simp_all add: sample_kem_def sample_hpke_def)
  have a: "aead_ok (hcs_aead sample_hpke)" "aead_can_create (hcs_aead sample_hpke)"
    using sample_aead_ok by (simp_all add: sample_hpke_def) (simp add: sample_aead_def)
  have key: "kx_create (kem_keyex sample_kem) [1, 2] = Inr ([1, 2], [1, 2])"
    by (simp add: sample_kem_def sample_kx_def)
  have d: "dh_derive sample_alloc sample_kem [5, 6] [1, 2] [5, 6] = Inr (hpke_shared_secret sample_kem [5, 6] [1, 2] [5, 6])"
    by (rule dh_derive_eq [OF u(1) sample_alloc_ok]) simp_all
  obtain pk_s ctx_s where s: "ptls_hpke_setup_base_s sample_alloc sample_kem sample_hpke [5, 6] [1, 2] [9] = Inr (pk_s, Some ctx_s)"
    using d a(2) hpke_key_schedule_eq [OF u(2) sample_alloc_ok _ hpke_shared_secret_length [OF u(1)], of "[9]"]
    by (simp add: ptls_hpke_setup_base_s_def dh_encap_def ptls_aead_new_direct_def)
      (simp add: sample_kem_def sample_kx_def)
  show ?thesis
    using hpke_round_trip [OF kx u sample_alloc_ok a key _ _ s] s by auto
qed

text \<open>C28. A backend that cannot create the AEAD context goes unnoticed: \<open>ptls_hpke_setup_base_s\<close> then returns
  zero and no context.\<close>

theorem hpke_setup_reports_no_error:
  assumes "hash_usable (kem_hash kem)" "hash_usable (hcs_hash cipher)" "alloc_ok M"
    "\<not> aead_can_create (hcs_aead cipher)" "kx_exchange (kem_keyex kem) seed pk_r = Inr (pk_s, dh)"
    "length dh \<le> 900000" "length pk_s + length pk_r \<le> 900000" "length info \<le> 800000"
  shows "ptls_hpke_setup_base_s M kem cipher seed pk_r info = Inr (pk_s, None)"
  using assms by (rule hpke_setup_without_context)

lemma hpke_setup_reports_no_error_witness:
  "ptls_hpke_setup_base_s sample_alloc sample_kem
     (sample_hpke\<lparr>hcs_aead := sample_aead\<lparr>aead_can_create := False\<rparr>\<rparr>) [5, 6] [1, 2] [9] = Inr ([5, 6], None)"
  using hpke_setup_reports_no_error [of sample_kem "sample_hpke\<lparr>hcs_aead := sample_aead\<lparr>aead_can_create := False\<rparr>\<rparr>"
      sample_alloc "[5, 6]" "[1, 2]" "[5, 6]" "[5, 6]" "[9]"] sample_hash_usable sample_alloc_ok
  by (simp add: sample_kem_def sample_hpke_def sample_kx_def)

section \<open>Encrypted ClientHello\<close>







section \<open>PEM files\<close>



text \<open>C32. Whatever a PEM file contains, each object that \<open>ptls_load_pem_objects\<close> hands out lies in the block
  that \<open>malloc\<close> returned for it, so that the caller may \<open>free\<close> it: the capacity counted in the first pass
  suffices and the buffer never moves to storage of its own.  No more than \<open>list_max\<close> objects are stored.\<close>

theorem pem_objects_in_place:
  assumes "ptls_load_pem_objects M file label list_max = (ret, objs)"
  shows "list_all (malloc_owned M) objs \<and> length objs \<le> list_max"
  using assms pem_loop_in_place
  by (fastforce simp: ptls_load_pem_objects_def split: option.splits prod.splits)

lemma pem_objects_in_place_witness:
  "list_all (malloc_owned sample_alloc) (snd (ptls_load_pem_objects sample_alloc
     (Some \<lparr>f_rest = pem_object (ascii ''KEY'') [ascii ''AQID''], f_tell_ok = True, f_seek_ok = True\<rparr>) (ascii ''KEY'') 4))"
  using pem_objects_in_place [OF prod.collapse [symmetric]] by blast



section \<open>Composed ciphers\<close>

text \<open>C34. Decryption undoes the QUIC-LB four-pass encryption for every supported block length, odd lengths
  with their shared middle octet included, whatever the block function is; the output has the length
  of the input.\<close>

theorem quiclb_decrypts:
  assumes "\<And>b. length b = 16 \<Longrightarrow> length (f b) = 16" "7 \<le> len" "len \<le> 19" "length input = len"
  shows "picotls_quiclb_transform f (picotls_quiclb_transform f input len True) len False = input
    \<and> length (picotls_quiclb_transform f input len True) = len"
  using assms by (rule quiclb_round_trip)

lemma quiclb_decrypts_witness:
  "picotls_quiclb_transform (map (\<lambda>b. b * 3 + 1)) (picotls_quiclb_transform (map (\<lambda>b. b * 3 + 1)) [1, 2, 3, 4, 5, 6, 7] 7 True) 7 False
     = [1, 2, 3, 4, 5, 6, 7]"
  using quiclb_decrypts [of "map (\<lambda>b. b * 3 + 1)" 7 "[1, 2, 3, 4, 5, 6, 7]"] by simp

text \<open>C35. With an even number of rounds an FFX decryption context undoes the encryption context with the same
  key and tweak, for every block length the set-up accepts and every underlying cipher.\<close>

theorem ffx_decrypts:
  assumes "ptls_ffx_setup_crypto algo True nb_rounds bit_length key = Inr e"
    and "ptls_ffx_setup_crypto algo False nb_rounds bit_length key = Inr d"
    and "even nb_rounds" "length input = (bit_length + 7) div 8"
  shows "ffx_encrypt (ffx_init d iv) (ffx_encrypt (ffx_init e iv) input) = input
    \<and> length (ffx_encrypt (ffx_init e iv) input) = length input"
proof -
  have e: "ffx_ok (ffx_init e iv)" "ffx_is_enc (ffx_init e iv)" "ffx_byte_length (ffx_init e iv) = (bit_length + 7) div 8"
    using assms(1) ffx_setup_ok [OF assms(1,3)]
    by (auto simp: ffx_init_def ffx_ok_def ptls_ffx_setup_crypto_def Let_def split: if_splits option.splits)
  have "ffx_init d iv = (ffx_init e iv)\<lparr>ffx_is_enc := False\<rparr>"
    using assms(1,2) by (auto simp: ffx_init_def ptls_ffx_setup_crypto_def Let_def split: if_splits option.splits)
  then show ?thesis
    using ffx_round_trip [OF e(1,2)] e(3) assms(4) by simp
qed

definition sample_cipher :: ptls_cipher_algorithm where
  "sample_cipher = \<lparr>cipher_name = ''sum'', cipher_key_size = 2, cipher_block_size = 1, cipher_iv_size = 16,
     cipher_fn = (\<lambda>key iv pos input. map (\<lambda>i. input ! i XOR (foldl (+) 0 (key @ iv) + of_nat (pos + i))) [0..<length input]),
     cipher_can_create = True\<rparr>"

lemma ffx_decrypts_witness:
  "\<exists>e d. ptls_ffx_setup_crypto sample_cipher True 4 31 [7, 9] = Inr e \<and> ptls_ffx_setup_crypto sample_cipher False 4 31 [7, 9] = Inr d
    \<and> ffx_encrypt (ffx_init d [1]) (ffx_encrypt (ffx_init e [1]) [1, 2, 3, 4]) = [1, 2, 3, 4]"
proof -
  have "\<exists>c. ptls_ffx_setup_crypto sample_cipher b 4 31 [7, 9] = Inr c" for b
    by (simp add: ptls_ffx_setup_crypto_def ptls_cipher_new_def sample_cipher_def)
  then obtain e d where "ptls_ffx_setup_crypto sample_cipher True 4 31 [7, 9] = Inr e"
    "ptls_ffx_setup_crypto sample_cipher False 4 31 [7, 9] = Inr d"
    by metis
  then show ?thesis
    using ffx_decrypts [of sample_cipher 4 31 "[7, 9]" e d "[1, 2, 3, 4]" "[1]"] by simp
qed

text \<open>C36. A block of 39 bits has one bit to spare in its last octet, and the header says that this one bit is
  copied.  The table of masks gives 0x80 there, so seven bits of the last octet pass unencrypted.\<close>

theorem ffx_leaves_seven_bits:
  assumes "ptls_ffx_setup_crypto algo True nb_rounds 39 key = Inr e" "even nb_rounds" "length input = 5"
  shows "last (ffx_encrypt e input) AND 0x7f = last input AND 0x7f"
proof -
  have "ffx_mask_last_byte e = 0x80" "ffx_is_enc e" "ffx_byte_length e = 5"
    using assms(1) by (auto simp: ptls_ffx_setup_crypto_def last_byte_mask_def Let_def split: if_splits option.splits)
  moreover have "NOT (0x80 :: byte) = 0x7f"
    by simp
  ultimately show ?thesis
    using ffx_untouched_bits [OF ffx_setup_ok [OF assms(1,2)]] assms(3) by metis
qed

lemma ffx_leaves_seven_bits_witness:
  "\<exists>e. ptls_ffx_setup_crypto sample_cipher True 4 39 [7, 9] = Inr e
    \<and> last (ffx_encrypt e [1, 2, 3, 4, 0x56]) AND 0x7f = 0x56"
proof -
  obtain e where "ptls_ffx_setup_crypto sample_cipher True 4 39 [7, 9] = Inr e"
    by (simp add: ptls_ffx_setup_crypto_def ptls_cipher_new_def sample_cipher_def)
  then show ?thesis
    using ffx_leaves_seven_bits [of sample_cipher 4 "[7, 9]" e "[1, 2, 3, 4, 0x56]"] by simp
qed

text \<open>C37. The incremental ChaCha20-Poly1305 code is an AEAD in the sense the record layer relies on: over any
  stream cipher and any authenticator with 16-octet tags, encrypting a plaintext handed over in
  pieces is the one-shot encryption with the nonce of the sequence number, decryption is the matching
  opening, and the resulting algorithm satisfies the contract.\<close>

theorem chacha20poly1305_refines:
  assumes "stream_cipher chacha" "\<And>k m. length (poly k m) = 16" "length iv = 12"
    and "chacha20poly1305_setup_crypto True key iv chacha = Inr e"
    and "chacha20poly1305_setup_crypto False key iv chacha = Inr d"
  shows "ptls_aead__do_encrypt_v poly (chacha20poly1305_algorithm chacha poly) pieces seq aad e
      = ptls_aead_encrypt \<lparr>actx_algo = chacha20poly1305_algorithm chacha poly, actx_is_enc = True, actx_key = key, actx_iv = iv\<rparr>
          (concat pieces) seq aad
    \<and> chacha20poly1305_decrypt poly (chacha20poly1305_algorithm chacha poly) c seq aad d
      = ptls_aead_decrypt \<lparr>actx_algo = chacha20poly1305_algorithm chacha poly, actx_is_enc = False, actx_key = key, actx_iv = iv\<rparr>
          c seq aad
    \<and> aead_ok (chacha20poly1305_algorithm chacha poly)"
  using ccp_encrypt_eq [OF assms(1,4)] ccp_decrypt_eq [OF assms(5,2)] ccp_aead_ok [OF assms(1,2)] assms(3)
  by (simp add: ptls_aead_encrypt_def ptls_aead_decrypt_def) (simp add: chacha20poly1305_algorithm_def)

lemma chacha20poly1305_refines_witness:
  "\<exists>e. chacha20poly1305_setup_crypto True [7] [0, 1, 2, 3, 4, 5, 6, 7, 8, 9, 10, 11] sample_cipher = Inr e
    \<and> ptls_aead__do_encrypt_v (\<lambda>k m. replicate 16 0) (chacha20poly1305_algorithm sample_cipher (\<lambda>k m. replicate 16 0)) [[1, 2], [3]] 5 [9] e
      = ptls_aead_encrypt \<lparr>actx_algo = chacha20poly1305_algorithm sample_cipher (\<lambda>k m. replicate 16 0), actx_is_enc = True,
          actx_key = [7], actx_iv = [0, 1, 2, 3, 4, 5, 6, 7, 8, 9, 10, 11]\<rparr> [1, 2, 3] 5 [9]"
proof -
  let ?iv = "[0, 1, 2, 3, 4, 5, 6, 7, 8, 9, 10, 11] :: bytes" and ?poly = "\<lambda>k m :: bytes. replicate 16 (0 :: byte)"
  have st: "stream_cipher sample_cipher"
    unfolding stream_cipher_def sample_cipher_def
    by (intro exI [of _ "\<lambda>key iv n. foldl (+) 0 (key @ iv) + of_nat n"]) simp
  have "\<exists>e. chacha20poly1305_setup_crypto b [7] ?iv sample_cipher = Inr e" for b
    by (simp add: chacha20poly1305_setup_crypto_def ptls_cipher_new_def sample_cipher_def)
  then obtain e d where ed: "chacha20poly1305_setup_crypto True [7] ?iv sample_cipher = Inr e"
    "chacha20poly1305_setup_crypto False [7] ?iv sample_cipher = Inr d"
    by metis
  have "length (?poly k m) = 16" "length ?iv = 12" for k m
    by simp_all
  from chacha20poly1305_refines [of sample_cipher ?poly ?iv "[7]" e d "[[1, 2], [3]]" 5 "[9]" "[]", OF st this ed]
  show ?thesis
    using ed(1) by simp
qed

section \<open>ASN.1 and private keys\<close>


text \<open>C39. A PKCS#8 encoding of a P-256 key is read and its 32 octets reach the context.  When the private key
  field announces 32 octets and fewer follow, the same code copies 32 octets from a null pointer: the
  error found while reading is never looked at.\<close>

theorem ecdsa_key_loaded_or_null:
  assumes "length tail \<le> 32" "c_malloc M 40"
  shows "\<exists>pkey. ptls_minicrypto_asn1_decode_private_key (pkcs8_key (ecdsa_key_der tail)) = Some (0, pkey)
    \<and> ptls_set_ecdsa_private_key M pkey = (if length tail < 32 then None else Some (0, Some tail))"
  using assms by (rule ecdsa_key_loaded)

lemma ecdsa_key_loaded_or_null_witness:
  "\<exists>pkey. ptls_minicrypto_asn1_decode_private_key (pkcs8_key (ecdsa_key_der [1, 2, 3])) = Some (0, pkey)
    \<and> ptls_set_ecdsa_private_key sample_alloc pkey = None"
  using ecdsa_key_loaded_or_null [of "[1, 2, 3]" sample_alloc] by (simp add: c_malloc_def sample_alloc_def)

end
